(* ===== verification/ETG_Prelude.thy ===== *)
theory ETG_Prelude
  imports Main "HOL-Library.Word"
begin

text \<open>
  Shared vocabulary of the development: the machine integer types of the C and C++ code, the
  little-endian byte representation of integers and byte-range access used by the wire model,
  C strings inside fixed-size char arrays, and the theorem collections the component theories
  extend.
\<close>

unbundle bit_operations_syntax

type_synonym u8 = "8 word"
type_synonym u16 = "16 word"
type_synonym u32 = "32 word"
type_synonym u64 = "64 word"

text \<open>Signed C integers are words too; their value is read with \<open>sint\<close>.\<close>

type_synonym s32 = "32 word"
type_synonym s64 = "64 word"

named_theorems byte_simps \<open>lengths and byte ranges of encoded structs\<close>
named_theorems frame_simps \<open>what a kernel operation leaves unchanged\<close>
named_theorems keep_intros \<open>operations keep the invariant of their component\<close>

section \<open>Little-endian integers\<close>

primrec le_nat :: "u8 list \<Rightarrow> nat" where
  "le_nat [] = 0"
| "le_nat (b # bs) = unat b + 256 * le_nat bs"

primrec nat_le :: "nat \<Rightarrow> nat \<Rightarrow> u8 list" where
  "nat_le 0 x = []"
| "nat_le (Suc n) x = word_of_nat (x mod 256) # nat_le n (x div 256)"

definition le_word :: "u8 list \<Rightarrow> 'a::len word" where
  "le_word bs = word_of_nat (le_nat bs)"

definition word_le :: "nat \<Rightarrow> 'a::len word \<Rightarrow> u8 list" where
  "word_le n w = nat_le n (unat w)"

lemma length_nat_le [simp]: "length (nat_le n x) = n"
  by (induction n arbitrary: x) auto

lemma length_word_le [simp, byte_simps]: "length (word_le n w) = n"
  by (simp add: word_le_def)

lemma unat_byte_lt: "unat (b :: u8) < 256"
  using unsigned_less [of b, where 'a = nat] by simp

lemma le_nat_lt: "le_nat bs < 256 ^ length bs"
proof (induction bs)
  case (Cons b bs)
  have "x < 256 \<Longrightarrow> x + 256 * y < 256 * (y + 1)" for x y :: nat
    by simp
  then have "unat b + 256 * le_nat bs < 256 * (le_nat bs + 1)"
    using unat_byte_lt by blast
  also have "\<dots> \<le> 256 * 256 ^ length bs"
    using Cons.IH by (intro mult_le_mono2) simp
  finally show ?case by simp
qed simp

lemma unat_byte_of_mod [simp]: "unat (word_of_nat (x mod 256) :: u8) = x mod 256"
  by (simp add: unat_of_nat)

lemma le_nat_nat_le: "le_nat (nat_le n x) = x mod 256 ^ n"
proof (induction n arbitrary: x)
  case (Suc n)
  have "x mod 256 + 256 * (x div 256 mod 256 ^ n) = x mod (256 * 256 ^ n)"
    by (simp add: mod_mult2_eq)
  with Suc show ?case by simp
qed simp

lemma nat_le_le_nat: "nat_le (length bs) (le_nat bs) = bs"
proof (induction bs)
  case (Cons b bs)
  have "(unat b + 256 * le_nat bs) div 256 = le_nat bs"
    and "(unat b + 256 * le_nat bs) mod 256 = unat b"
    using unat_byte_lt [of b] by simp_all
  with Cons.IH show ?case by simp
qed simp

lemma le_word_word_le:
  assumes "LENGTH('a::len) = 8 * n"
  shows "le_word (word_le n (w :: 'a word)) = w"
proof -
  have "unat w < 256 ^ n"
    using unsigned_less [of w, where 'a = nat] by (simp add: assms power_mult)
  then show ?thesis
    by (simp add: le_word_def word_le_def le_nat_nat_le)
qed

lemma word_le_le_word:
  assumes "LENGTH('a::len) = 8 * n" and "length bs = n"
  shows "word_le n (le_word bs :: 'a word) = bs"
proof -
  have "le_nat bs < 2 ^ LENGTH('a)"
    using le_nat_lt [of bs] assms by (simp add: power_mult)
  then have "unat (le_word bs :: 'a word) = le_nat bs"
    by (simp add: le_word_def unat_of_nat take_bit_nat_eq_self unsigned_of_nat)
  with assms(2) nat_le_le_nat [of bs] show ?thesis
    by (simp add: word_le_def)
qed

lemmas le_word_rt [byte_simps] =
  le_word_word_le [where 'a = 16 and n = 2, simplified]
  le_word_word_le [where 'a = 32 and n = 4, simplified]
  le_word_word_le [where 'a = 64 and n = 8, simplified]

lemmas word_le_rt [byte_simps] =
  word_le_le_word [where 'a = 16 and n = 2, simplified]
  word_le_le_word [where 'a = 32 and n = 4, simplified]
  word_le_le_word [where 'a = 64 and n = 8, simplified]

section \<open>Byte ranges\<close>

text \<open>The \<open>n\<close> bytes of a buffer from offset \<open>off\<close> on: reading a struct field through a pointer.\<close>

definition field_at :: "nat \<Rightarrow> nat \<Rightarrow> u8 list \<Rightarrow> u8 list" where
  "field_at off n bs = take n (drop off bs)"

lemma field_at_hit [byte_simps]: "length xs = n \<Longrightarrow> field_at 0 n (xs @ ys) = xs"
  by (simp add: field_at_def)

lemma field_at_last [byte_simps]: "length xs = n \<Longrightarrow> field_at 0 n xs = xs"
  by (simp add: field_at_def)

lemma field_at_skip [byte_simps]:
  "length xs \<le> off \<Longrightarrow> 0 < off \<Longrightarrow> field_at off n (xs @ ys) = field_at (off - length xs) n ys"
  by (simp add: field_at_def)

lemma length_field_at [byte_simps]: "off + n \<le> length bs \<Longrightarrow> length (field_at off n bs) = n"
  by (simp add: field_at_def)

lemma field_at_join: "field_at off n bs @ field_at (off + n) k bs = field_at off (n + k) bs"
  by (simp add: field_at_def take_add add.commute [of off n])

lemma field_at_0: "field_at 0 n bs = take n bs"
  by (simp add: field_at_def)

lemma length_takeWhile_less: "\<exists>x \<in> set xs. \<not> P x \<Longrightarrow> length (takeWhile P xs) < length xs"
  by (induction xs) auto

section \<open>C strings in fixed-size char arrays\<close>

definition nul_terminated :: "u8 list \<Rightarrow> bool" where
  "nul_terminated bs \<longleftrightarrow> 0 \<in> set bs"

text \<open>
  Reading a char array as a C string stops at the first NUL. An array without one makes the reader
  run past the array, which the language leaves undefined: the result is None.
\<close>

definition byte_char :: "u8 \<Rightarrow> char" where
  "byte_char b = char_of (unat b)"

definition c_str :: "u8 list \<Rightarrow> string option" where
  "c_str bs =
     (if nul_terminated bs then Some (map byte_char (takeWhile (\<lambda>b. b \<noteq> 0) bs)) else None)"

lemma c_str_Some_iff [simp]: "(\<exists>s. c_str bs = Some s) \<longleftrightarrow> nul_terminated bs"
  by (simp add: c_str_def)

lemma c_str_eq_None [simp]: "c_str bs = None \<longleftrightarrow> \<not> nul_terminated bs"
  by (simp add: c_str_def)

lemma nul_terminated_update [simp]: "i < length bs \<Longrightarrow> nul_terminated (bs[i := 0])"
  by (auto simp: nul_terminated_def set_update_memI)

lemma nul_terminated_replicate [simp]: "nul_terminated (replicate n 0) \<longleftrightarrow> 0 < n"
  by (auto simp: nul_terminated_def)

lemma c_str_head_nul: "bs \<noteq> [] \<Longrightarrow> hd bs = 0 \<Longrightarrow> c_str bs = Some []"
  by (cases bs) (auto simp: c_str_def nul_terminated_def)

lemma c_str_length:
  assumes "c_str bs = Some s"
  shows "length s < length bs"
proof -
  have "0 \<in> set bs" and s: "s = map byte_char (takeWhile (\<lambda>b. b \<noteq> 0) bs)"
    using assms by (auto simp: c_str_def nul_terminated_def split: if_splits)
  then have "length (takeWhile (\<lambda>b. b \<noteq> 0) bs) < length bs"
    by (intro length_takeWhile_less) auto
  with s show ?thesis by simp
qed

section \<open>Partial maps\<close>

lemma fun_upd_None_other [simp]: "k' \<noteq> k \<Longrightarrow> (m(k := None)) k' = m k'"
  by simp

lemma map_del_Some: "(m(k := None)) k' = Some v \<longleftrightarrow> k' \<noteq> k \<and> m k' = Some v"
  by auto

section \<open>Maps\<close>

lemma map_leI: "(\<And>k w. f k = Some w \<Longrightarrow> g k = Some w) \<Longrightarrow> f \<subseteq>\<^sub>m g"
  unfolding map_le_def dom_def by fastforce

lemma map_leD: "f \<subseteq>\<^sub>m g \<Longrightarrow> f k = Some w \<Longrightarrow> g k = Some w"
  unfolding map_le_def dom_def by fastforce

end
