(* ===== verification/Event_Schema.thy ===== *)
theory Event_Schema
  imports ETG_Prelude
begin

text \<open>
  The binary event contract of include/event_schema.h, shared by the BPF producer and the C++
  consumer: the enumerations, the payload structs as records, the layout the C ABI gives each
  struct, and the byte image of a struct with its inverse. Char arrays are byte lists; the
  \<open>_wf\<close> predicates say that each has its declared length, which the C types fix.
\<close>

section \<open>Constants and enumerations\<close>

abbreviation (input) EVENT_LOGGER_COMM_LEN :: nat where "EVENT_LOGGER_COMM_LEN \<equiv> 16"
abbreviation (input) EVENT_LOGGER_PATH_LEN :: nat where "EVENT_LOGGER_PATH_LEN \<equiv> 256"
abbreviation (input) EVENT_LOGGER_UNIX_PATH_LEN :: nat where "EVENT_LOGGER_UNIX_PATH_LEN \<equiv> 108"

abbreviation (input) EVENT_TYPE_PROCESS :: u32 where "EVENT_TYPE_PROCESS \<equiv> 1"
abbreviation (input) EVENT_TYPE_FILE :: u32 where "EVENT_TYPE_FILE \<equiv> 2"
abbreviation (input) EVENT_TYPE_SYSCALL :: u32 where "EVENT_TYPE_SYSCALL \<equiv> 3"
abbreviation (input) EVENT_TYPE_NETWORK :: u32 where "EVENT_TYPE_NETWORK \<equiv> 4"

abbreviation (input) PROCESS_EXEC :: u32 where "PROCESS_EXEC \<equiv> 1"
abbreviation (input) PROCESS_FORK :: u32 where "PROCESS_FORK \<equiv> 2"
abbreviation (input) PROCESS_EXIT :: u32 where "PROCESS_EXIT \<equiv> 3"
abbreviation (input) PROCESS_CLONE :: u32 where "PROCESS_CLONE \<equiv> 4"
abbreviation (input) PROCESS_CLONE3 :: u32 where "PROCESS_CLONE3 \<equiv> 5"
abbreviation (input) PROCESS_VFORK :: u32 where "PROCESS_VFORK \<equiv> 6"

definition process_event_kinds :: "u32 list" where
  "process_event_kinds =
     [PROCESS_EXEC, PROCESS_FORK, PROCESS_EXIT, PROCESS_CLONE, PROCESS_CLONE3, PROCESS_VFORK]"

abbreviation (input) FILE_OPENAT :: u32 where "FILE_OPENAT \<equiv> 1"
abbreviation (input) FILE_UNLINKAT :: u32 where "FILE_UNLINKAT \<equiv> 2"
abbreviation (input) FILE_RENAMEAT2 :: u32 where "FILE_RENAMEAT2 \<equiv> 3"

definition file_event_kinds :: "u32 list" where
  "file_event_kinds = [FILE_OPENAT, FILE_UNLINKAT, FILE_RENAMEAT2]"

abbreviation (input) NETWORK_SOCKET :: u32 where "NETWORK_SOCKET \<equiv> 1"
abbreviation (input) NETWORK_CONNECT :: u32 where "NETWORK_CONNECT \<equiv> 2"
abbreviation (input) NETWORK_ACCEPT :: u32 where "NETWORK_ACCEPT \<equiv> 3"
abbreviation (input) NETWORK_BIND :: u32 where "NETWORK_BIND \<equiv> 4"
abbreviation (input) NETWORK_LISTEN :: u32 where "NETWORK_LISTEN \<equiv> 5"
abbreviation (input) NETWORK_CLOSE :: u32 where "NETWORK_CLOSE \<equiv> 6"
abbreviation (input) NETWORK_SENDTO :: u32 where "NETWORK_SENDTO \<equiv> 7"
abbreviation (input) NETWORK_RECVFROM :: u32 where "NETWORK_RECVFROM \<equiv> 8"
abbreviation (input) NETWORK_SHUTDOWN :: u32 where "NETWORK_SHUTDOWN \<equiv> 9"
abbreviation (input) NETWORK_SOCKETPAIR :: u32 where "NETWORK_SOCKETPAIR \<equiv> 10"
abbreviation (input) NETWORK_ACCEPT4 :: u32 where "NETWORK_ACCEPT4 \<equiv> 11"
abbreviation (input) NETWORK_GETSOCKNAME :: u32 where "NETWORK_GETSOCKNAME \<equiv> 12"
abbreviation (input) NETWORK_GETPEERNAME :: u32 where "NETWORK_GETPEERNAME \<equiv> 13"
abbreviation (input) NETWORK_SETSOCKOPT :: u32 where "NETWORK_SETSOCKOPT \<equiv> 14"
abbreviation (input) NETWORK_GETSOCKOPT :: u32 where "NETWORK_GETSOCKOPT \<equiv> 15"
abbreviation (input) NETWORK_SENDMSG :: u32 where "NETWORK_SENDMSG \<equiv> 16"
abbreviation (input) NETWORK_RECVMSG :: u32 where "NETWORK_RECVMSG \<equiv> 17"
abbreviation (input) NETWORK_READ :: u32 where "NETWORK_READ \<equiv> 18"
abbreviation (input) NETWORK_WRITE :: u32 where "NETWORK_WRITE \<equiv> 19"
abbreviation (input) NETWORK_READV :: u32 where "NETWORK_READV \<equiv> 20"
abbreviation (input) NETWORK_WRITEV :: u32 where "NETWORK_WRITEV \<equiv> 21"
abbreviation (input) NETWORK_SENDMMSG :: u32 where "NETWORK_SENDMMSG \<equiv> 22"
abbreviation (input) NETWORK_RECVMMSG :: u32 where "NETWORK_RECVMMSG \<equiv> 23"

definition network_event_kinds :: "u32 list" where
  "network_event_kinds =
     [NETWORK_SOCKET, NETWORK_CONNECT, NETWORK_ACCEPT, NETWORK_BIND, NETWORK_LISTEN,
      NETWORK_CLOSE, NETWORK_SENDTO, NETWORK_RECVFROM, NETWORK_SHUTDOWN, NETWORK_SOCKETPAIR,
      NETWORK_ACCEPT4, NETWORK_GETSOCKNAME, NETWORK_GETPEERNAME, NETWORK_SETSOCKOPT,
      NETWORK_GETSOCKOPT, NETWORK_SENDMSG, NETWORK_RECVMSG, NETWORK_READ, NETWORK_WRITE,
      NETWORK_READV, NETWORK_WRITEV, NETWORK_SENDMMSG, NETWORK_RECVMMSG]"

abbreviation (input) NETWORK_DIRECTION_UNKNOWN :: u32 where "NETWORK_DIRECTION_UNKNOWN \<equiv> 0"
abbreviation (input) NETWORK_DIRECTION_INBOUND :: u32 where "NETWORK_DIRECTION_INBOUND \<equiv> 1"
abbreviation (input) NETWORK_DIRECTION_OUTBOUND :: u32 where "NETWORK_DIRECTION_OUTBOUND \<equiv> 2"

abbreviation (input) NETWORK_TRANSPORT_UNKNOWN :: u32 where "NETWORK_TRANSPORT_UNKNOWN \<equiv> 0"
abbreviation (input) NETWORK_TRANSPORT_TCP :: u32 where "NETWORK_TRANSPORT_TCP \<equiv> 1"
abbreviation (input) NETWORK_TRANSPORT_UDP :: u32 where "NETWORK_TRANSPORT_UDP \<equiv> 2"
abbreviation (input) NETWORK_TRANSPORT_UNIX :: u32 where "NETWORK_TRANSPORT_UNIX \<equiv> 3"
abbreviation (input) NETWORK_TRANSPORT_RAW :: u32 where "NETWORK_TRANSPORT_RAW \<equiv> 4"

section \<open>Payload structs\<close>

record event_header =
  hdr_ts_ns :: u64
  hdr_type :: u32
  hdr_size :: u32
  hdr_pid :: u32
  hdr_tgid :: u32
  hdr_ppid :: u32
  hdr_uid :: u32
  hdr_gid :: u32
  hdr_comm :: "u8 list"

record process_event =
  pe_hdr :: event_header
  pe_kind :: u32
  pe_exit_code :: u32
  pe_child_pid :: u32
  pe_filename :: "u8 list"
  pe_exec_path :: "u8 list"
  pe_cmdline :: "u8 list"
  pe_cwd :: "u8 list"
  pe_parent_comm :: "u8 list"
  pe_start_time_ticks :: u64

record file_event =
  fe_hdr :: event_header
  fe_kind :: u32
  fe_dfd :: s32
  fe_flags :: s32
  fe_mode :: s32
  fe_ret :: s32
  fe_path_a :: "u8 list"
  fe_path_b :: "u8 list"

record syscall_event =
  se_hdr :: event_header
  se_is_enter :: u32
  se_syscall_nr :: s32
  se_arg0 :: s64
  se_arg1 :: s64
  se_arg2 :: s64
  se_ret :: s64

record network_endpoint =
  ep_family :: u32
  ep_port :: u32
  ep_addr_len :: u32
  ep_addr :: "u8 list"
  ep_path :: "u8 list"

record network_event =
  ne_hdr :: event_header
  ne_kind :: u32
  ne_fd :: s32
  ne_peer_fd :: s32
  ne_ret :: s32
  ne_domain :: s32
  ne_sock_type :: s32
  ne_protocol :: s32
  ne_flags :: s32
  ne_backlog :: s32
  ne_how :: s32
  ne_opt_level :: s32
  ne_opt_name :: s32
  ne_opt_len :: s32
  ne_optval_prefix :: "u8 list"
  ne_flow_id :: u64
  ne_socket_id :: u64
  ne_direction :: u32
  ne_transport :: u32
  ne_bytes_requested :: u64
  ne_bytes_transferred :: u64
  ne_bytes_captured :: u32
  ne_bytes_truncated :: u32
  ne_local :: network_endpoint
  ne_remote :: network_endpoint

text \<open>The variant of decoder.h; a ring-buffer record of the kernel side holds one of the four too.\<close>

datatype event_variant =
    ProcessEv process_event
  | FileEv file_event
  | SyscallEv syscall_event
  | NetworkEv network_event

primrec ev_hdr :: "event_variant \<Rightarrow> event_header" where
  "ev_hdr (ProcessEv e) = pe_hdr e"
| "ev_hdr (FileEv e) = fe_hdr e"
| "ev_hdr (SyscallEv e) = se_hdr e"
| "ev_hdr (NetworkEv e) = ne_hdr e"

definition event_header_wf :: "event_header \<Rightarrow> bool" where
  "event_header_wf h \<longleftrightarrow> length (hdr_comm h) = EVENT_LOGGER_COMM_LEN"

definition process_event_wf :: "process_event \<Rightarrow> bool" where
  "process_event_wf e \<longleftrightarrow>
     event_header_wf (pe_hdr e) \<and>
     length (pe_filename e) = EVENT_LOGGER_PATH_LEN \<and>
     length (pe_exec_path e) = EVENT_LOGGER_PATH_LEN \<and>
     length (pe_cmdline e) = EVENT_LOGGER_PATH_LEN \<and>
     length (pe_cwd e) = EVENT_LOGGER_PATH_LEN \<and>
     length (pe_parent_comm e) = EVENT_LOGGER_COMM_LEN"

definition file_event_wf :: "file_event \<Rightarrow> bool" where
  "file_event_wf e \<longleftrightarrow>
     event_header_wf (fe_hdr e) \<and>
     length (fe_path_a e) = EVENT_LOGGER_PATH_LEN \<and>
     length (fe_path_b e) = EVENT_LOGGER_PATH_LEN"

definition syscall_event_wf :: "syscall_event \<Rightarrow> bool" where
  "syscall_event_wf e \<longleftrightarrow> event_header_wf (se_hdr e)"

definition network_endpoint_wf :: "network_endpoint \<Rightarrow> bool" where
  "network_endpoint_wf ep \<longleftrightarrow>
     length (ep_addr ep) = 16 \<and> length (ep_path ep) = EVENT_LOGGER_UNIX_PATH_LEN"

definition network_event_wf :: "network_event \<Rightarrow> bool" where
  "network_event_wf e \<longleftrightarrow>
     event_header_wf (ne_hdr e) \<and>
     length (ne_optval_prefix e) = 16 \<and>
     network_endpoint_wf (ne_local e) \<and>
     network_endpoint_wf (ne_remote e)"

lemmas event_wf_defs =
  event_header_wf_def process_event_wf_def file_event_wf_def syscall_event_wf_def
  network_endpoint_wf_def network_event_wf_def

primrec event_wf :: "event_variant \<Rightarrow> bool" where
  "event_wf (ProcessEv e) \<longleftrightarrow> process_event_wf e"
| "event_wf (FileEv e) \<longleftrightarrow> file_event_wf e"
| "event_wf (SyscallEv e) \<longleftrightarrow> syscall_event_wf e"
| "event_wf (NetworkEv e) \<longleftrightarrow> network_event_wf e"

section \<open>Struct layout\<close>

text \<open>
  The C layout rule on the targets the collector is built for (64-bit, little-endian): a member
  starts at the next multiple of its alignment, and the size of the struct is rounded up to the
  largest alignment. A member is given as its size and its alignment.
\<close>

definition align_up :: "nat \<Rightarrow> nat \<Rightarrow> nat" where
  "align_up a n = (n + a - 1) div a * a"

fun member_offsets :: "nat \<Rightarrow> (nat \<times> nat) list \<Rightarrow> nat list" where
  "member_offsets at [] = []"
| "member_offsets at ((sz, al) # ms) = align_up al at # member_offsets (align_up al at + sz) ms"

fun members_end :: "nat \<Rightarrow> (nat \<times> nat) list \<Rightarrow> nat" where
  "members_end at [] = at"
| "members_end at ((sz, al) # ms) = members_end (align_up al at + sz) ms"

definition struct_align :: "(nat \<times> nat) list \<Rightarrow> nat" where
  "struct_align ms = foldr (\<lambda>m a. max (snd m) a) ms 1"

definition struct_size :: "(nat \<times> nat) list \<Rightarrow> nat" where
  "struct_size ms = align_up (struct_align ms) (members_end 0 ms)"

abbreviation (input) m_char :: "nat \<Rightarrow> nat \<times> nat" where "m_char n \<equiv> (n, 1)"
abbreviation (input) m_u32 :: "nat \<times> nat" where "m_u32 \<equiv> (4, 4)"
abbreviation (input) m_u64 :: "nat \<times> nat" where "m_u64 \<equiv> (8, 8)"

definition event_header_members :: "(nat \<times> nat) list" where
  "event_header_members =
     [m_u64, m_u32, m_u32, m_u32, m_u32, m_u32, m_u32, m_u32, m_char EVENT_LOGGER_COMM_LEN]"

definition sizeof_event_header :: nat where
  "sizeof_event_header = struct_size event_header_members"

abbreviation (input) m_header :: "nat \<times> nat" where
  "m_header \<equiv> (sizeof_event_header, struct_align event_header_members)"

definition process_event_members :: "(nat \<times> nat) list" where
  "process_event_members =
     [m_header, m_u32, m_u32, m_u32, m_char EVENT_LOGGER_PATH_LEN, m_char EVENT_LOGGER_PATH_LEN,
      m_char EVENT_LOGGER_PATH_LEN, m_char EVENT_LOGGER_PATH_LEN, m_char EVENT_LOGGER_COMM_LEN,
      m_u64]"

definition file_event_members :: "(nat \<times> nat) list" where
  "file_event_members =
     [m_header, m_u32, m_u32, m_u32, m_u32, m_u32, m_char EVENT_LOGGER_PATH_LEN,
      m_char EVENT_LOGGER_PATH_LEN]"

definition syscall_event_members :: "(nat \<times> nat) list" where
  "syscall_event_members = [m_header, m_u32, m_u32, m_u64, m_u64, m_u64, m_u64]"

definition network_endpoint_members :: "(nat \<times> nat) list" where
  "network_endpoint_members =
     [m_u32, m_u32, m_u32, m_char 16, m_char EVENT_LOGGER_UNIX_PATH_LEN]"

abbreviation (input) m_endpoint :: "nat \<times> nat" where
  "m_endpoint \<equiv> (struct_size network_endpoint_members, struct_align network_endpoint_members)"

definition network_event_members :: "(nat \<times> nat) list" where
  "network_event_members =
     [m_header, m_u32, m_u32, m_u32, m_u32, m_u32, m_u32, m_u32, m_u32, m_u32, m_u32, m_u32,
      m_u32, m_u32, m_char 16, m_u64, m_u64, m_u32, m_u32, m_u64, m_u64, m_u32, m_u32,
      m_endpoint, m_endpoint]"

definition sizeof_process_event :: nat where
  "sizeof_process_event = struct_size process_event_members"

definition sizeof_file_event :: nat where
  "sizeof_file_event = struct_size file_event_members"

definition sizeof_syscall_event :: nat where
  "sizeof_syscall_event = struct_size syscall_event_members"

definition sizeof_network_endpoint :: nat where
  "sizeof_network_endpoint = struct_size network_endpoint_members"

definition sizeof_network_event :: nat where
  "sizeof_network_event = struct_size network_event_members"

lemmas struct_layout_defs =
  struct_size_def struct_align_def align_up_def event_header_members_def
  process_event_members_def file_event_members_def syscall_event_members_def
  network_endpoint_members_def network_event_members_def

lemma sizeof_event_header_eq [simp, byte_simps]: "sizeof_event_header = 56"
  by (simp add: sizeof_event_header_def struct_layout_defs)

lemma sizeof_process_event_eq [simp, byte_simps]: "sizeof_process_event = 1120"
  by (simp add: sizeof_process_event_def struct_layout_defs)

lemma sizeof_file_event_eq [simp, byte_simps]: "sizeof_file_event = 592"
  by (simp add: sizeof_file_event_def struct_layout_defs)

lemma sizeof_syscall_event_eq [simp, byte_simps]: "sizeof_syscall_event = 96"
  by (simp add: sizeof_syscall_event_def struct_layout_defs)

lemma sizeof_network_endpoint_eq [simp, byte_simps]: "sizeof_network_endpoint = 136"
  by (simp add: sizeof_network_endpoint_def struct_layout_defs)

lemma sizeof_network_event_eq [simp, byte_simps]: "sizeof_network_event = 448"
  by (simp add: sizeof_network_event_def struct_layout_defs)

lemma event_header_offsets:
  "member_offsets 0 event_header_members = [0, 8, 12, 16, 20, 24, 28, 32, 36]"
  by (simp add: struct_layout_defs)

lemma process_event_offsets:
  "member_offsets 0 process_event_members = [0, 56, 60, 64, 68, 324, 580, 836, 1092, 1112]"
  by (simp add: struct_layout_defs)

lemma file_event_offsets:
  "member_offsets 0 file_event_members = [0, 56, 60, 64, 68, 72, 76, 332]"
  by (simp add: struct_layout_defs)

lemma syscall_event_offsets:
  "member_offsets 0 syscall_event_members = [0, 56, 60, 64, 72, 80, 88]"
  by (simp add: struct_layout_defs)

lemma network_endpoint_offsets:
  "member_offsets 0 network_endpoint_members = [0, 4, 8, 12, 28]"
  by (simp add: struct_layout_defs)

lemma network_event_offsets:
  "member_offsets 0 network_event_members =
     [0, 56, 60, 64, 68, 72, 76, 80, 84, 88, 92, 96, 100, 104, 108, 128, 136, 144, 148, 152, 160,
      168, 172, 176, 312]"
  by (simp add: struct_layout_defs)

end
