(* ===== verification/Wire_Format.thy ===== *)
theory Wire_Format
  imports Event_Schema
begin

text \<open>
  The byte image of every struct of the event contract, and reading the struct back from a byte
  buffer at the member offsets of the C layout. This is what \<open>bpf_ringbuf_submit\<close> publishes and
  what the \<open>std::memcpy\<close> of the decoder copies. Padding bytes are arbitrary: the image takes them
  from a function of the absolute offset. The locale \<open>struct_codec\<close> is the contract between the
  two sides; it is interpreted for each of the four payloads.
\<close>

definition pad :: "(nat \<Rightarrow> u8) \<Rightarrow> nat \<Rightarrow> nat \<Rightarrow> u8 list" where
  "pad p off n = map (\<lambda>i. p (off + i)) [0..<n]"

lemma length_pad [simp, byte_simps]: "length (pad p off n) = n"
  by (simp add: pad_def)

lemma pad_field_at [byte_simps]: "off + n \<le> length bs \<Longrightarrow> pad ((!) bs) off n = field_at off n bs"
  by (intro nth_equalityI) (auto simp: pad_def field_at_def)

lemma field_at_split:
  "k \<le> n \<Longrightarrow> field_at off n bs = field_at off k bs @ field_at (off + k) (n - k) bs"
  by (simp add: field_at_def add.commute [of off k] take_add [symmetric] flip: drop_drop)

lemma field_at_drop [byte_simps]: "field_at off n (drop k bs) = field_at (k + off) n bs"
  by (simp add: field_at_def add.commute)

section \<open>Images of the structs\<close>

definition enc_event_header :: "(nat \<Rightarrow> u8) \<Rightarrow> event_header \<Rightarrow> u8 list" where
  "enc_event_header p h =
     word_le 8 (hdr_ts_ns h) @ word_le 4 (hdr_type h) @ word_le 4 (hdr_size h) @
     word_le 4 (hdr_pid h) @ word_le 4 (hdr_tgid h) @ word_le 4 (hdr_ppid h) @
     word_le 4 (hdr_uid h) @ word_le 4 (hdr_gid h) @ hdr_comm h @ pad p 52 4"

definition dec_event_header :: "u8 list \<Rightarrow> event_header" where
  "dec_event_header bs =
     \<lparr>hdr_ts_ns = le_word (field_at 0 8 bs), hdr_type = le_word (field_at 8 4 bs),
      hdr_size = le_word (field_at 12 4 bs), hdr_pid = le_word (field_at 16 4 bs),
      hdr_tgid = le_word (field_at 20 4 bs), hdr_ppid = le_word (field_at 24 4 bs),
      hdr_uid = le_word (field_at 28 4 bs), hdr_gid = le_word (field_at 32 4 bs),
      hdr_comm = field_at 36 16 bs\<rparr>"

definition enc_process_event :: "(nat \<Rightarrow> u8) \<Rightarrow> process_event \<Rightarrow> u8 list" where
  "enc_process_event p e =
     enc_event_header p (pe_hdr e) @ word_le 4 (pe_kind e) @ word_le 4 (pe_exit_code e) @
     word_le 4 (pe_child_pid e) @ pe_filename e @ pe_exec_path e @ pe_cmdline e @ pe_cwd e @
     pe_parent_comm e @ pad p 1108 4 @ word_le 8 (pe_start_time_ticks e)"

definition dec_process_event :: "u8 list \<Rightarrow> process_event" where
  "dec_process_event bs =
     \<lparr>pe_hdr = dec_event_header bs, pe_kind = le_word (field_at 56 4 bs),
      pe_exit_code = le_word (field_at 60 4 bs), pe_child_pid = le_word (field_at 64 4 bs),
      pe_filename = field_at 68 256 bs, pe_exec_path = field_at 324 256 bs,
      pe_cmdline = field_at 580 256 bs, pe_cwd = field_at 836 256 bs,
      pe_parent_comm = field_at 1092 16 bs, pe_start_time_ticks = le_word (field_at 1112 8 bs)\<rparr>"

definition enc_file_event :: "(nat \<Rightarrow> u8) \<Rightarrow> file_event \<Rightarrow> u8 list" where
  "enc_file_event p e =
     enc_event_header p (fe_hdr e) @ word_le 4 (fe_kind e) @ word_le 4 (fe_dfd e) @
     word_le 4 (fe_flags e) @ word_le 4 (fe_mode e) @ word_le 4 (fe_ret e) @ fe_path_a e @
     fe_path_b e @ pad p 588 4"

definition dec_file_event :: "u8 list \<Rightarrow> file_event" where
  "dec_file_event bs =
     \<lparr>fe_hdr = dec_event_header bs, fe_kind = le_word (field_at 56 4 bs),
      fe_dfd = le_word (field_at 60 4 bs), fe_flags = le_word (field_at 64 4 bs),
      fe_mode = le_word (field_at 68 4 bs), fe_ret = le_word (field_at 72 4 bs),
      fe_path_a = field_at 76 256 bs, fe_path_b = field_at 332 256 bs\<rparr>"

definition enc_syscall_event :: "(nat \<Rightarrow> u8) \<Rightarrow> syscall_event \<Rightarrow> u8 list" where
  "enc_syscall_event p e =
     enc_event_header p (se_hdr e) @ word_le 4 (se_is_enter e) @ word_le 4 (se_syscall_nr e) @
     word_le 8 (se_arg0 e) @ word_le 8 (se_arg1 e) @ word_le 8 (se_arg2 e) @
     word_le 8 (se_ret e)"

definition dec_syscall_event :: "u8 list \<Rightarrow> syscall_event" where
  "dec_syscall_event bs =
     \<lparr>se_hdr = dec_event_header bs, se_is_enter = le_word (field_at 56 4 bs),
      se_syscall_nr = le_word (field_at 60 4 bs), se_arg0 = le_word (field_at 64 8 bs),
      se_arg1 = le_word (field_at 72 8 bs), se_arg2 = le_word (field_at 80 8 bs),
      se_ret = le_word (field_at 88 8 bs)\<rparr>"

definition enc_network_endpoint :: "network_endpoint \<Rightarrow> u8 list" where
  "enc_network_endpoint ep =
     word_le 4 (ep_family ep) @ word_le 4 (ep_port ep) @ word_le 4 (ep_addr_len ep) @
     ep_addr ep @ ep_path ep"

definition dec_network_endpoint :: "u8 list \<Rightarrow> network_endpoint" where
  "dec_network_endpoint bs =
     \<lparr>ep_family = le_word (field_at 0 4 bs), ep_port = le_word (field_at 4 4 bs),
      ep_addr_len = le_word (field_at 8 4 bs), ep_addr = field_at 12 16 bs,
      ep_path = field_at 28 108 bs\<rparr>"

definition enc_network_event :: "(nat \<Rightarrow> u8) \<Rightarrow> network_event \<Rightarrow> u8 list" where
  "enc_network_event p e =
     enc_event_header p (ne_hdr e) @ word_le 4 (ne_kind e) @ word_le 4 (ne_fd e) @
     word_le 4 (ne_peer_fd e) @ word_le 4 (ne_ret e) @ word_le 4 (ne_domain e) @
     word_le 4 (ne_sock_type e) @ word_le 4 (ne_protocol e) @ word_le 4 (ne_flags e) @
     word_le 4 (ne_backlog e) @ word_le 4 (ne_how e) @ word_le 4 (ne_opt_level e) @
     word_le 4 (ne_opt_name e) @ word_le 4 (ne_opt_len e) @ ne_optval_prefix e @ pad p 124 4 @
     word_le 8 (ne_flow_id e) @ word_le 8 (ne_socket_id e) @ word_le 4 (ne_direction e) @
     word_le 4 (ne_transport e) @ word_le 8 (ne_bytes_requested e) @
     word_le 8 (ne_bytes_transferred e) @ word_le 4 (ne_bytes_captured e) @
     word_le 4 (ne_bytes_truncated e) @ enc_network_endpoint (ne_local e) @
     enc_network_endpoint (ne_remote e)"

definition dec_network_event :: "u8 list \<Rightarrow> network_event" where
  "dec_network_event bs =
     \<lparr>ne_hdr = dec_event_header bs, ne_kind = le_word (field_at 56 4 bs),
      ne_fd = le_word (field_at 60 4 bs), ne_peer_fd = le_word (field_at 64 4 bs),
      ne_ret = le_word (field_at 68 4 bs), ne_domain = le_word (field_at 72 4 bs),
      ne_sock_type = le_word (field_at 76 4 bs), ne_protocol = le_word (field_at 80 4 bs),
      ne_flags = le_word (field_at 84 4 bs), ne_backlog = le_word (field_at 88 4 bs),
      ne_how = le_word (field_at 92 4 bs), ne_opt_level = le_word (field_at 96 4 bs),
      ne_opt_name = le_word (field_at 100 4 bs), ne_opt_len = le_word (field_at 104 4 bs),
      ne_optval_prefix = field_at 108 16 bs, ne_flow_id = le_word (field_at 128 8 bs),
      ne_socket_id = le_word (field_at 136 8 bs), ne_direction = le_word (field_at 144 4 bs),
      ne_transport = le_word (field_at 148 4 bs),
      ne_bytes_requested = le_word (field_at 152 8 bs),
      ne_bytes_transferred = le_word (field_at 160 8 bs),
      ne_bytes_captured = le_word (field_at 168 4 bs),
      ne_bytes_truncated = le_word (field_at 172 4 bs),
      ne_local = dec_network_endpoint (drop 176 bs),
      ne_remote = dec_network_endpoint (drop 312 bs)\<rparr>"

section \<open>The image determines the struct\<close>

lemma length_enc_event_header [simp, byte_simps]:
  "event_header_wf h \<Longrightarrow> length (enc_event_header p h) = 56"
  by (simp add: enc_event_header_def event_wf_defs)

lemma dec_enc_event_header [simp, byte_simps]:
  "event_header_wf h \<Longrightarrow> dec_event_header (enc_event_header p h @ rest) = h"
  by (simp add: enc_event_header_def dec_event_header_def event_header_wf_def byte_simps)

lemma dec_event_header_wf [simp]: "56 \<le> length bs \<Longrightarrow> event_header_wf (dec_event_header bs)"
  by (simp add: event_header_wf_def dec_event_header_def byte_simps)

lemma enc_dec_event_header [byte_simps]:
  "56 \<le> length bs \<Longrightarrow> enc_event_header ((!) bs) (dec_event_header bs) = field_at 0 56 bs"
  by (simp add: enc_event_header_def dec_event_header_def byte_simps
    field_at_split [of 8 56 0] field_at_split [of 4 48 8] field_at_split [of 4 44 12]
    field_at_split [of 4 40 16] field_at_split [of 4 36 20] field_at_split [of 4 32 24]
    field_at_split [of 4 28 28] field_at_split [of 4 24 32] field_at_split [of 16 20 36])

lemma length_enc_process_event [simp, byte_simps]:
  "process_event_wf e \<Longrightarrow> length (enc_process_event p e) = 1120"
  by (simp add: enc_process_event_def event_wf_defs)

lemma dec_enc_process_event [simp, byte_simps]:
  "process_event_wf e \<Longrightarrow> dec_process_event (enc_process_event p e @ rest) = e"
  by (simp add: enc_process_event_def dec_process_event_def process_event_wf_def byte_simps)

lemma dec_process_event_wf [simp]: "1120 \<le> length bs \<Longrightarrow> process_event_wf (dec_process_event bs)"
  by (simp add: process_event_wf_def dec_process_event_def byte_simps)

lemma enc_dec_process_event [byte_simps]:
  "1120 \<le> length bs \<Longrightarrow> enc_process_event ((!) bs) (dec_process_event bs) = field_at 0 1120 bs"
  by (simp add: enc_process_event_def dec_process_event_def byte_simps
    field_at_split [of 56 1120 0] field_at_split [of 4 1064 56] field_at_split [of 4 1060 60]
    field_at_split [of 4 1056 64] field_at_split [of 256 1052 68]
    field_at_split [of 256 796 324] field_at_split [of 256 540 580]
    field_at_split [of 256 284 836] field_at_split [of 16 28 1092] field_at_split [of 4 12 1108])

lemma length_enc_file_event [simp, byte_simps]:
  "file_event_wf e \<Longrightarrow> length (enc_file_event p e) = 592"
  by (simp add: enc_file_event_def event_wf_defs)

lemma dec_enc_file_event [simp, byte_simps]:
  "file_event_wf e \<Longrightarrow> dec_file_event (enc_file_event p e @ rest) = e"
  by (simp add: enc_file_event_def dec_file_event_def file_event_wf_def byte_simps)

lemma dec_file_event_wf [simp]: "592 \<le> length bs \<Longrightarrow> file_event_wf (dec_file_event bs)"
  by (simp add: file_event_wf_def dec_file_event_def byte_simps)

lemma enc_dec_file_event [byte_simps]:
  "592 \<le> length bs \<Longrightarrow> enc_file_event ((!) bs) (dec_file_event bs) = field_at 0 592 bs"
  by (simp add: enc_file_event_def dec_file_event_def byte_simps
    field_at_split [of 56 592 0] field_at_split [of 4 536 56] field_at_split [of 4 532 60]
    field_at_split [of 4 528 64] field_at_split [of 4 524 68] field_at_split [of 4 520 72]
    field_at_split [of 256 516 76] field_at_split [of 256 260 332])

lemma length_enc_syscall_event [simp, byte_simps]:
  "syscall_event_wf e \<Longrightarrow> length (enc_syscall_event p e) = 96"
  by (simp add: enc_syscall_event_def event_wf_defs)

lemma dec_enc_syscall_event [simp, byte_simps]:
  "syscall_event_wf e \<Longrightarrow> dec_syscall_event (enc_syscall_event p e @ rest) = e"
  by (simp add: enc_syscall_event_def dec_syscall_event_def syscall_event_wf_def byte_simps)

lemma dec_syscall_event_wf [simp]: "96 \<le> length bs \<Longrightarrow> syscall_event_wf (dec_syscall_event bs)"
  by (simp add: syscall_event_wf_def dec_syscall_event_def byte_simps)

lemma enc_dec_syscall_event [byte_simps]:
  "96 \<le> length bs \<Longrightarrow> enc_syscall_event ((!) bs) (dec_syscall_event bs) = field_at 0 96 bs"
  by (simp add: enc_syscall_event_def dec_syscall_event_def byte_simps
    field_at_split [of 56 96 0] field_at_split [of 4 40 56] field_at_split [of 4 36 60]
    field_at_split [of 8 32 64] field_at_split [of 8 24 72] field_at_split [of 8 16 80])

lemma length_enc_network_endpoint [simp, byte_simps]:
  "network_endpoint_wf ep \<Longrightarrow> length (enc_network_endpoint ep) = 136"
  by (simp add: enc_network_endpoint_def event_wf_defs)

lemma dec_enc_network_endpoint [simp, byte_simps]:
  "network_endpoint_wf ep \<Longrightarrow> dec_network_endpoint (enc_network_endpoint ep @ rest) = ep"
  by (simp add: enc_network_endpoint_def dec_network_endpoint_def network_endpoint_wf_def byte_simps)

lemma dec_network_endpoint_wf [simp]: "136 \<le> length bs \<Longrightarrow> network_endpoint_wf (dec_network_endpoint bs)"
  by (simp add: network_endpoint_wf_def dec_network_endpoint_def byte_simps)

lemma enc_dec_network_endpoint [byte_simps]:
  "136 \<le> length bs \<Longrightarrow> enc_network_endpoint (dec_network_endpoint bs) = field_at 0 136 bs"
  by (simp add: enc_network_endpoint_def dec_network_endpoint_def byte_simps
    field_at_split [of 4 136 0] field_at_split [of 4 132 4] field_at_split [of 4 128 8]
    field_at_split [of 16 124 12])

lemma length_enc_network_event [simp, byte_simps]:
  "network_event_wf e \<Longrightarrow> length (enc_network_event p e) = 448"
  by (simp add: enc_network_event_def event_wf_defs)

lemma dec_enc_network_event [simp, byte_simps]:
  "network_event_wf e \<Longrightarrow> dec_network_event (enc_network_event p e @ rest) = e"
  by (simp add: enc_network_event_def dec_network_event_def network_event_wf_def byte_simps)

lemma dec_network_event_wf [simp]: "448 \<le> length bs \<Longrightarrow> network_event_wf (dec_network_event bs)"
  by (simp add: network_event_wf_def dec_network_event_def byte_simps)

lemma enc_dec_network_event [byte_simps]:
  "448 \<le> length bs \<Longrightarrow> enc_network_event ((!) bs) (dec_network_event bs) = field_at 0 448 bs"
  by (simp add: enc_network_event_def dec_network_event_def byte_simps
    field_at_split [of 56 448 0] field_at_split [of 4 392 56] field_at_split [of 4 388 60]
    field_at_split [of 4 384 64] field_at_split [of 4 380 68] field_at_split [of 4 376 72]
    field_at_split [of 4 372 76] field_at_split [of 4 368 80] field_at_split [of 4 364 84]
    field_at_split [of 4 360 88] field_at_split [of 4 356 92] field_at_split [of 4 352 96]
    field_at_split [of 4 348 100] field_at_split [of 4 344 104] field_at_split [of 16 340 108]
    field_at_split [of 4 324 124] field_at_split [of 8 320 128] field_at_split [of 8 312 136]
    field_at_split [of 4 304 144] field_at_split [of 4 300 148] field_at_split [of 8 296 152]
    field_at_split [of 8 288 160] field_at_split [of 4 280 168] field_at_split [of 4 276 172]
    field_at_split [of 136 272 176])

section \<open>The codec contract\<close>

locale struct_codec =
  fixes wf :: "'a \<Rightarrow> bool"
    and enc :: "(nat \<Rightarrow> u8) \<Rightarrow> 'a \<Rightarrow> u8 list"
    and dec :: "u8 list \<Rightarrow> 'a"
    and sz :: nat
  assumes enc_length: "wf x \<Longrightarrow> length (enc p x) = sz"
    and dec_enc: "wf x \<Longrightarrow> dec (enc p x @ rest) = x"
    and dec_wf: "sz \<le> length bs \<Longrightarrow> wf (dec bs)"
    and enc_dec: "sz \<le> length bs \<Longrightarrow> enc ((!) bs) (dec bs) = field_at 0 sz bs"
begin

lemma enc_injective:
  assumes "wf x" and "wf y" and "enc p x = enc q y"
  shows "x = y"
  using dec_enc [OF assms(1), of p "[]"] dec_enc [OF assms(2), of q "[]"] assms(3) by simp

text \<open>Only the first \<open>sz\<close> bytes are read.\<close>

lemma dec_prefix: "sz \<le> length bs \<Longrightarrow> dec (take sz bs) = dec bs"
  using dec_enc [OF dec_wf, of bs "(!) bs" "[]"] by (simp add: enc_dec field_at_0)

lemma dec_append: "sz \<le> length bs \<Longrightarrow> dec (bs @ rest) = dec bs"
  using dec_prefix [of bs] dec_prefix [of "bs @ rest"] by simp

lemma dec_onto: "wf x \<Longrightarrow> \<exists>bs. length bs = sz \<and> dec bs = x"
  using enc_length [of x "\<lambda>_. 0"] dec_enc [of x "\<lambda>_. 0" "[]"] by auto

end

interpretation process_codec:
  struct_codec process_event_wf enc_process_event dec_process_event sizeof_process_event
  by unfold_locales (simp_all add: enc_dec_process_event)

interpretation file_codec:
  struct_codec file_event_wf enc_file_event dec_file_event sizeof_file_event
  by unfold_locales (simp_all add: enc_dec_file_event)

interpretation syscall_codec:
  struct_codec syscall_event_wf enc_syscall_event dec_syscall_event sizeof_syscall_event
  by unfold_locales (simp_all add: enc_dec_syscall_event)

interpretation network_codec:
  struct_codec network_event_wf enc_network_event dec_network_event sizeof_network_event
  by unfold_locales (simp_all add: enc_dec_network_event)

end
