(* ===== verification/Decoder.thy ===== *)
theory Decoder
  imports Wire_Format
begin

text \<open>
  src/decoder/decoder.cpp: the raw-bytes to typed-event boundary. \<open>Decode\<close> keeps the order of the
  code's checks (header length, declared size, then type with exact size) and copies the struct
  out of the buffer. The lemmas characterise the accepted buffers exactly: they are the byte
  images of well-tagged events, possibly followed by more bytes.
\<close>

definition Decode :: "u8 list \<Rightarrow> event_variant option" where
  "Decode data =
     (if length data < sizeof_event_header then None
      else let hdr = dec_event_header data; wire_size = hdr_size hdr in
        if unat wire_size < sizeof_event_header \<or> unat wire_size > length data then None
        else if hdr_type hdr = EVENT_TYPE_PROCESS \<and> unat wire_size = sizeof_process_event \<and>
                length data \<ge> sizeof_process_event
        then Some (ProcessEv (dec_process_event data))
        else if hdr_type hdr = EVENT_TYPE_FILE \<and> unat wire_size = sizeof_file_event \<and>
                length data \<ge> sizeof_file_event
        then Some (FileEv (dec_file_event data))
        else if hdr_type hdr = EVENT_TYPE_SYSCALL \<and> unat wire_size = sizeof_syscall_event \<and>
                length data \<ge> sizeof_syscall_event
        then Some (SyscallEv (dec_syscall_event data))
        else if hdr_type hdr = EVENT_TYPE_NETWORK \<and> unat wire_size = sizeof_network_event \<and>
                length data \<ge> sizeof_network_event
        then Some (NetworkEv (dec_network_event data))
        else None)"

section \<open>The tag of an event and its byte image\<close>

primrec event_tag :: "event_variant \<Rightarrow> u32" where
  "event_tag (ProcessEv e) = EVENT_TYPE_PROCESS"
| "event_tag (FileEv e) = EVENT_TYPE_FILE"
| "event_tag (SyscallEv e) = EVENT_TYPE_SYSCALL"
| "event_tag (NetworkEv e) = EVENT_TYPE_NETWORK"

primrec event_size :: "event_variant \<Rightarrow> nat" where
  "event_size (ProcessEv e) = sizeof_process_event"
| "event_size (FileEv e) = sizeof_file_event"
| "event_size (SyscallEv e) = sizeof_syscall_event"
| "event_size (NetworkEv e) = sizeof_network_event"

text \<open>The header carries the tag and the size of the payload it opens.\<close>

definition well_tagged :: "event_variant \<Rightarrow> bool" where
  "well_tagged e \<longleftrightarrow>
     hdr_type (ev_hdr e) = event_tag e \<and> unat (hdr_size (ev_hdr e)) = event_size e"

primrec enc_event :: "(nat \<Rightarrow> u8) \<Rightarrow> event_variant \<Rightarrow> u8 list" where
  "enc_event p (ProcessEv e) = enc_process_event p e"
| "enc_event p (FileEv e) = enc_file_event p e"
| "enc_event p (SyscallEv e) = enc_syscall_event p e"
| "enc_event p (NetworkEv e) = enc_network_event p e"

lemma length_enc_event [simp]: "event_wf e \<Longrightarrow> length (enc_event p e) = event_size e"
  by (cases e) simp_all

lemma hdr_wf_of_event_wf: "event_wf e \<Longrightarrow> event_header_wf (ev_hdr e)"
  by (cases e) (simp_all add: event_wf_defs)

text \<open>Every payload image opens with the image of its header.\<close>

lemma dec_header_enc_event [simp]:
  assumes "event_wf e"
  shows "dec_event_header (enc_event p e @ rest) = ev_hdr e"
  using hdr_wf_of_event_wf [OF assms]
  by (cases e)
    (simp_all add: enc_process_event_def enc_file_event_def enc_syscall_event_def
      enc_network_event_def)

lemma ev_hdr_dec [simp]:
  "pe_hdr (dec_process_event bs) = dec_event_header bs"
  "fe_hdr (dec_file_event bs) = dec_event_header bs"
  "se_hdr (dec_syscall_event bs) = dec_event_header bs"
  "ne_hdr (dec_network_event bs) = dec_event_header bs"
  by (simp_all add: dec_process_event_def dec_file_event_def dec_syscall_event_def
      dec_network_event_def)

section \<open>What the decoder accepts\<close>

lemma Decode_enc_event:
  assumes "event_wf e" and "well_tagged e"
  shows "Decode (enc_event p e @ rest) = Some e"
  using assms
  by (cases e) (simp_all add: Decode_def well_tagged_def dec_header_enc_event
      [of "ProcessEv _", simplified] dec_header_enc_event [of "FileEv _", simplified]
      dec_header_enc_event [of "SyscallEv _", simplified]
      dec_header_enc_event [of "NetworkEv _", simplified])

lemma Decode_SomeD:
  assumes "Decode data = Some e"
  shows "event_wf e \<and> well_tagged e \<and> event_size e \<le> length data \<and>
    enc_event ((!) data) e = take (event_size e) data"
  using assms
  by (auto simp: Decode_def Let_def well_tagged_def field_at_0
      enc_dec_process_event enc_dec_file_event enc_dec_syscall_event enc_dec_network_event
      split: if_splits)

text \<open>
  C9. The decoder accepts a buffer exactly when the buffer starts with the byte image of an event
  whose header names its own type and size, and then it returns that event: nothing malformed or
  truncated passes, no accepted field is altered, and padding and trailing bytes do not matter.
\<close>

theorem Decode_exact:
  "Decode data = Some e \<longleftrightarrow>
     event_wf e \<and> well_tagged e \<and> (\<exists>p rest. data = enc_event p e @ rest)"
  (is "?l \<longleftrightarrow> ?r")
proof
  assume ?l
  note d = Decode_SomeD [OF this]
  then have "data = enc_event ((!) data) e @ drop (event_size e) data" by simp
  with d show ?r by blast
next
  assume ?r
  then show ?l by (auto simp: Decode_enc_event)
qed

text \<open>
  A buffer is rejected exactly when it is shorter than a header, when its declared size is
  smaller than a header or larger than the buffer, or when type and size are not one of the four
  pairs of the contract.
\<close>

theorem Decode_rejects:
  "Decode data = None \<longleftrightarrow>
     length data < sizeof_event_header \<or>
     (let h = dec_event_header data in
        unat (hdr_size h) < sizeof_event_header \<or> unat (hdr_size h) > length data \<or>
        (hdr_type h, unat (hdr_size h)) \<notin>
          {(EVENT_TYPE_PROCESS, sizeof_process_event), (EVENT_TYPE_FILE, sizeof_file_event),
           (EVENT_TYPE_SYSCALL, sizeof_syscall_event),
           (EVENT_TYPE_NETWORK, sizeof_network_event)})"
  by (auto simp: Decode_def Let_def)

end
