(* ===== verification/Normalizer.thy ===== *)
theory Normalizer
  imports Decoder
begin

text \<open>
  src/model/canonical_event.h and src/model/normalizer.cpp: the kernel-agnostic event and its one
  translation from the four raw payloads. Reading a char array as a \<open>std::string\<close> needs a NUL in
  it; \<open>Normalize\<close> is None where the code would read past the array. The pointer to the raw event is
  the event, and the actor's comm keeps its array.
\<close>

section \<open>The canonical event\<close>

datatype EntityKind = EkUnknown | EkProcess | EkFile | EkSocket

record EntityRef =
  er_kind :: EntityKind
  er_id :: u64

datatype CanonicalDomain = CdProcess | CdFile | CdSyscall | CdNetwork

datatype CanonicalAction =
    CaUnknown
  | CaProcessStarted | CaProcessExeced | CaProcessExited
  | CaFileOpened | CaFileDeleted | CaFileRenamed
  | CaSyscallInvoked
  | CaSocketCreated | CaSocketConnected | CaSocketAccepted | CaSocketBound | CaSocketListened
  | CaSocketClosed | CaSocketSent | CaSocketReceived | CaSocketShutdown

record ActorIdentity =
  ac_pid :: u32
  ac_tgid :: u32
  ac_ppid :: u32
  ac_uid :: u32
  ac_gid :: u32
  ac_comm :: "u8 list"

record ObjectDescriptor =
  ob_path :: string
  ob_path_to :: string
  ob_fd :: s32
  ob_flow_id :: u64
  ob_child_pid :: u32

text \<open>The fields of \<open>CanonicalEvent\<close> up to the entity the registry attaches.\<close>

record CanonicalEvent =
  ce_ts_ns :: u64
  ce_domain :: CanonicalDomain
  ce_action :: CanonicalAction
  ce_actor :: ActorIdentity
  ce_object :: ObjectDescriptor
  ce_subject :: EntityRef
  ce_object_ref :: EntityRef
  ce_outcome :: s64
  ce_outcome_is_error :: bool
  ce_exec_path_hint :: string
  ce_raw :: event_variant

definition default_entity_ref :: EntityRef where
  "default_entity_ref = \<lparr>er_kind = EkUnknown, er_id = 0\<rparr>"

definition default_actor :: ActorIdentity where
  "default_actor =
     \<lparr>ac_pid = 0, ac_tgid = 0, ac_ppid = 0, ac_uid = 0, ac_gid = 0,
      ac_comm = replicate EVENT_LOGGER_COMM_LEN 0\<rparr>"

definition default_object :: ObjectDescriptor where
  "default_object =
     \<lparr>ob_path = [], ob_path_to = [], ob_fd = -1, ob_flow_id = 0, ob_child_pid = 0\<rparr>"

definition default_canonical :: "event_variant \<Rightarrow> CanonicalEvent" where
  "default_canonical raw =
     \<lparr>ce_ts_ns = 0, ce_domain = CdProcess, ce_action = CaUnknown, ce_actor = default_actor,
      ce_object = default_object, ce_subject = default_entity_ref,
      ce_object_ref = default_entity_ref, ce_outcome = 0, ce_outcome_is_error = False,
      ce_exec_path_hint = [], ce_raw = raw\<rparr>"

section \<open>The translation\<close>

definition MakeActor :: "event_header \<Rightarrow> ActorIdentity" where
  "MakeActor hdr =
     \<lparr>ac_pid = hdr_pid hdr, ac_tgid = hdr_tgid hdr, ac_ppid = hdr_ppid hdr, ac_uid = hdr_uid hdr,
      ac_gid = hdr_gid hdr, ac_comm = (hdr_comm hdr)[EVENT_LOGGER_COMM_LEN - 1 := 0]\<rparr>"

definition ProcessAction :: "u32 \<Rightarrow> CanonicalAction" where
  "ProcessAction kind =
     (if kind = PROCESS_EXEC then CaProcessExeced
      else if kind = PROCESS_EXIT then CaProcessExited
      else if kind \<in> {PROCESS_FORK, PROCESS_CLONE, PROCESS_CLONE3, PROCESS_VFORK}
      then CaProcessStarted
      else CaUnknown)"

definition FileAction :: "u32 \<Rightarrow> CanonicalAction" where
  "FileAction kind =
     (if kind = FILE_OPENAT then CaFileOpened
      else if kind = FILE_UNLINKAT then CaFileDeleted
      else if kind = FILE_RENAMEAT2 then CaFileRenamed
      else CaUnknown)"

definition NetworkAction :: "u32 \<Rightarrow> CanonicalAction" where
  "NetworkAction kind =
     (if kind \<in> {NETWORK_SOCKET, NETWORK_SOCKETPAIR} then CaSocketCreated
      else if kind = NETWORK_CONNECT then CaSocketConnected
      else if kind \<in> {NETWORK_ACCEPT, NETWORK_ACCEPT4} then CaSocketAccepted
      else if kind = NETWORK_BIND then CaSocketBound
      else if kind = NETWORK_LISTEN then CaSocketListened
      else if kind = NETWORK_CLOSE then CaSocketClosed
      else if kind \<in> {NETWORK_SENDTO, NETWORK_SENDMSG, NETWORK_WRITE, NETWORK_WRITEV,
                      NETWORK_SENDMMSG} then CaSocketSent
      else if kind \<in> {NETWORK_RECVFROM, NETWORK_RECVMSG, NETWORK_READ, NETWORK_READV,
                      NETWORK_RECVMMSG} then CaSocketReceived
      else if kind = NETWORK_SHUTDOWN then CaSocketShutdown
      else CaUnknown)"

definition normalize_header :: "event_header \<Rightarrow> CanonicalEvent \<Rightarrow> CanonicalEvent" where
  "normalize_header hdr out =
     out\<lparr>ce_ts_ns := hdr_ts_ns hdr, ce_actor := MakeActor hdr,
         ce_subject := (ce_subject out)\<lparr>er_kind := EkProcess\<rparr>\<rparr>"

definition normalize_process :: "process_event \<Rightarrow> CanonicalEvent \<Rightarrow> CanonicalEvent option" where
  "normalize_process ev out =
     (let out = out\<lparr>ce_domain := CdProcess, ce_action := ProcessAction (pe_kind ev)\<rparr>
      in case (if pe_exec_path ev ! 0 \<noteq> 0 then c_str (pe_exec_path ev)
               else Some (ce_exec_path_hint out)) of
           None \<Rightarrow> None
         | Some hint \<Rightarrow>
             let out = out\<lparr>ce_exec_path_hint := hint\<rparr>
             in Some (if ce_action out = CaProcessStarted
                      then out\<lparr>ce_object_ref := (ce_object_ref out)\<lparr>er_kind := EkProcess\<rparr>,
                               ce_object := (ce_object out)\<lparr>ob_child_pid := pe_child_pid ev\<rparr>\<rparr>
                      else if ce_action out = CaProcessExited
                      then out\<lparr>ce_outcome := ucast (pe_exit_code ev)\<rparr>
                      else out))"

definition normalize_file :: "file_event \<Rightarrow> CanonicalEvent \<Rightarrow> CanonicalEvent option" where
  "normalize_file ev out =
     (let out = out\<lparr>ce_domain := CdFile, ce_action := FileAction (fe_kind ev),
                    ce_object_ref := (ce_object_ref out)\<lparr>er_kind := EkFile\<rparr>\<rparr>
      in case c_str (fe_path_a ev) of
           None \<Rightarrow> None
         | Some path \<Rightarrow>
             (case (if fe_kind ev = FILE_RENAMEAT2 then c_str (fe_path_b ev)
                    else Some (ob_path_to (ce_object out))) of
                None \<Rightarrow> None
              | Some path_to \<Rightarrow>
                  Some (out\<lparr>ce_object := (ce_object out)\<lparr>ob_path := path, ob_path_to := path_to\<rparr>,
                            ce_outcome := scast (fe_ret ev),
                            ce_outcome_is_error := sint (fe_ret ev) < 0\<rparr>)))"

definition normalize_syscall :: "syscall_event \<Rightarrow> CanonicalEvent \<Rightarrow> CanonicalEvent" where
  "normalize_syscall ev out =
     out\<lparr>ce_domain := CdSyscall, ce_action := CaSyscallInvoked, ce_outcome := se_ret ev,
         ce_outcome_is_error := sint (se_ret ev) < 0\<rparr>"

definition normalize_network :: "network_event \<Rightarrow> CanonicalEvent \<Rightarrow> CanonicalEvent" where
  "normalize_network ev out =
     out\<lparr>ce_domain := CdNetwork, ce_action := NetworkAction (ne_kind ev),
         ce_object_ref := (ce_object_ref out)\<lparr>er_kind := EkSocket\<rparr>,
         ce_object := (ce_object out)\<lparr>ob_fd := ne_fd ev, ob_flow_id := ne_flow_id ev\<rparr>,
         ce_outcome := scast (ne_ret ev), ce_outcome_is_error := sint (ne_ret ev) < 0\<rparr>"

definition Normalize :: "event_variant \<Rightarrow> CanonicalEvent option" where
  "Normalize raw =
     (let out = normalize_header (ev_hdr raw) (default_canonical raw)
      in case raw of
           ProcessEv ev \<Rightarrow> normalize_process ev out
         | FileEv ev \<Rightarrow> normalize_file ev out
         | SyscallEv ev \<Rightarrow> Some (normalize_syscall ev out)
         | NetworkEv ev \<Rightarrow> Some (normalize_network ev out))"

section \<open>What the translation keeps\<close>

lemmas normalize_defs =
  Normalize_def normalize_header_def normalize_process_def normalize_file_def
  normalize_syscall_def normalize_network_def default_canonical_def default_object_def
  default_entity_ref_def Let_def

lemma Normalize_frame:
  assumes "Normalize raw = Some c"
  shows "ce_raw c = raw" and "ce_actor c = MakeActor (ev_hdr raw)"
    and "ce_ts_ns c = hdr_ts_ns (ev_hdr raw)"
    and "er_kind (ce_subject c) = EkProcess" and "er_id (ce_subject c) = 0"
    and "er_id (ce_object_ref c) = 0"
  using assms by (auto simp: normalize_defs split: event_variant.splits option.splits if_splits)

text \<open>The strings \<open>Normalize\<close> reads.\<close>

primrec normalized_strings :: "event_variant \<Rightarrow> u8 list list" where
  "normalized_strings (ProcessEv e) = (if pe_exec_path e ! 0 \<noteq> 0 then [pe_exec_path e] else [])"
| "normalized_strings (FileEv e) =
     fe_path_a e # (if fe_kind e = FILE_RENAMEAT2 then [fe_path_b e] else [])"
| "normalized_strings (SyscallEv e) = []"
| "normalized_strings (NetworkEv e) = []"

lemma c_str_SomeD: "c_str bs = Some s \<Longrightarrow> nul_terminated bs"
  by (simp add: c_str_def split: if_splits)

lemma Normalize_None_iff:
  "Normalize raw = None \<longleftrightarrow> (\<exists>bs \<in> set (normalized_strings raw). \<not> nul_terminated bs)"
proof (cases raw)
  case (ProcessEv e)
  then show ?thesis by (auto simp: normalize_defs dest: c_str_SomeD split: option.splits)
next
  case (FileEv e)
  then show ?thesis by (auto simp: normalize_defs dest: c_str_SomeD split: option.splits)
qed (simp_all add: normalize_defs)

primrec event_domain :: "event_variant \<Rightarrow> CanonicalDomain" where
  "event_domain (ProcessEv e) = CdProcess"
| "event_domain (FileEv e) = CdFile"
| "event_domain (SyscallEv e) = CdSyscall"
| "event_domain (NetworkEv e) = CdNetwork"

lemma Normalize_domain: "Normalize raw = Some c \<Longrightarrow> ce_domain c = event_domain raw"
  by (cases raw) (auto simp: normalize_defs split: option.splits if_splits)

lemma sint_scast_32_64: "sint (scast (w :: s32) :: s64) = sint w"
proof -
  have "- (2 ^ 31) \<le> sint w" and "sint w < 2 ^ 31"
    using sint_greater_eq [of w] sint_less [of w] by simp_all
  then have "signed_take_bit 63 (sint w) = sint w"
    by (intro signed_take_bit_int_eq_self) simp_all
  then show ?thesis by (simp add: signed_scast_eq)
qed

text \<open>
  The error flag says exactly whether the recorded outcome is negative, for every event but a
  process event: the 32-bit return code of a file or socket call is sign-extended, so no failure
  turns into a large positive outcome; an exit code is never an error.
\<close>

theorem outcome_is_error_iff_negative:
  assumes "Normalize raw = Some c"
  shows "ce_outcome_is_error c \<longleftrightarrow> ce_domain c \<noteq> CdProcess \<and> sint (ce_outcome c) < 0"
  using assms
  by (cases raw) (auto simp: normalize_defs sint_scast_32_64 split: option.splits if_splits)

end
