(* ===== verification/Proc_Util.thy ===== *)
theory Proc_Util
  imports ETG_Prelude
begin

text \<open>
  src/util/proc_util.cpp: the readers of /proc the registry enriches its entities with. The file
  system is an argument: \<open>proc_fs\<close> gives the target of a symbolic link and the contents of a file,
  None when the call fails. Strings are lists of bytes as characters; \<open>to_string\<close>, \<open>rfind\<close>, token
  extraction and \<open>stoull\<close> are the standard library's, as far as the code uses them.
\<close>

record proc_fs =
  fs_readlink :: "string \<Rightarrow> string option"
  fs_read :: "string \<Rightarrow> string option"

section \<open>Standard library\<close>

text \<open>\<open>std::to_string\<close> of an unsigned integer.\<close>

fun decimal :: "nat \<Rightarrow> string" where
  "decimal n = (if n < 10 then [char_of (48 + n)] else decimal (n div 10) @ [char_of (48 + n mod 10)])"

declare decimal.simps [simp del]

definition to_string :: "'a::len word \<Rightarrow> string" where
  "to_string w = decimal (unat w)"

text \<open>The last position at which the two characters stand, None for \<open>npos\<close>.\<close>

fun rfind2 :: "char \<Rightarrow> char \<Rightarrow> string \<Rightarrow> nat option" where
  "rfind2 a b (x # y # xs) =
     (case rfind2 a b (y # xs) of
        Some i \<Rightarrow> Some (Suc i)
      | None \<Rightarrow> if x = a \<and> y = b then Some 0 else None)"
| "rfind2 a b xs = None"

definition is_space :: "char \<Rightarrow> bool" where
  "is_space c \<longleftrightarrow> of_char c \<in> {9 :: nat, 10, 11, 12, 13, 32}"

text \<open>Successive \<open>iss >> tok\<close>: skip white space, then take up to the next.\<close>

function tokens :: "string \<Rightarrow> string list" where
  "tokens s =
     (let s = dropWhile is_space s
      in if s = [] then []
         else takeWhile (\<lambda>c. \<not> is_space c) s # tokens (dropWhile (\<lambda>c. \<not> is_space c) s))"
  by pat_completeness auto
termination
proof (relation "measure length")
  fix s x assume x: "x = dropWhile is_space s" "x \<noteq> []"
  then have "\<not> is_space (hd x)" by (simp add: hd_dropWhile)
  with x(2) have "length (dropWhile (\<lambda>c. \<not> is_space c) x) < length x"
    by (cases x) (auto intro: le_imp_less_Suc length_dropWhile_le)
  also have "length x \<le> length s" using x(1) by (simp add: length_dropWhile_le)
  finally show "(dropWhile (\<lambda>c. \<not> is_space c) x, s) \<in> measure length" by simp
qed simp

declare tokens.simps [simp del]

definition is_digit :: "char \<Rightarrow> bool" where
  "is_digit c \<longleftrightarrow> 48 \<le> (of_char c :: nat) \<and> (of_char c :: nat) \<le> 57"

definition digits_value :: "string \<Rightarrow> nat" where
  "digits_value ds = foldl (\<lambda>n d. 10 * n + (of_char d - 48)) 0 ds"

text \<open>
  \<open>std::stoull\<close> in base ten: an optional sign, then the longest run of digits; None for the two
  exceptions (no digit, or a magnitude beyond 64 bits); a minus sign negates modulo \<open>2 ^ 64\<close>.
\<close>

definition stoull :: "string \<Rightarrow> u64 option" where
  "stoull s =
     (let s = dropWhile is_space s;
          (neg, s) = (case s of c # r \<Rightarrow> if c = CHR ''-'' then (True, r)
                                        else if c = CHR ''+'' then (False, r) else (False, s)
                      | [] \<Rightarrow> (False, s));
          ds = takeWhile is_digit s; n = digits_value ds
      in if ds = [] \<or> n \<ge> 2 ^ 64 then None
         else Some (if neg then - of_nat n else of_nat n))"

section \<open>The readers\<close>

definition ReadProcSymlink :: "proc_fs \<Rightarrow> string \<Rightarrow> string" where
  "ReadProcSymlink fs path =
     (case fs_readlink fs path of
        None \<Rightarrow> []
      | Some target \<Rightarrow> takeWhile (\<lambda>c. c \<noteq> CHR 0x00) (take (256 - 1) target))"

definition ReadTextFile :: "proc_fs \<Rightarrow> string \<Rightarrow> string" where
  "ReadTextFile fs path = (case fs_read fs path of None \<Rightarrow> [] | Some contents \<Rightarrow> contents)"

text \<open>The \<open>while (!s.empty() && p(s.back())) s.pop_back();\<close> of both strippers.\<close>

function pop_back_while :: "(char \<Rightarrow> bool) \<Rightarrow> string \<Rightarrow> string" where
  "pop_back_while p s = (if s \<noteq> [] \<and> p (last s) then pop_back_while p (butlast s) else s)"
  by pat_completeness auto
termination by (relation "measure (length \<circ> snd)") auto

declare pop_back_while.simps [simp del]

definition NormalizeCmdline :: "string \<Rightarrow> string" where
  "NormalizeCmdline raw =
     (if raw = [] then raw
      else pop_back_while (\<lambda>c. c = CHR '' '') (map (\<lambda>c. if c = CHR 0x00 then CHR '' '' else c) raw))"

definition RStrip :: "string \<Rightarrow> string" where
  "RStrip s = pop_back_while (\<lambda>c. c = CHR 0x0A \<or> c = CHR 0x0D \<or> c = CHR '' '') s"

definition ParseStartTimeTicks :: "string \<Rightarrow> u64" where
  "ParseStartTimeTicks stat_line =
     (if stat_line = [] then 0
      else case rfind2 (CHR '')'') (CHR '' '') stat_line of
             None \<Rightarrow> 0
           | Some close_paren \<Rightarrow>
               if close_paren + 2 \<ge> length stat_line then 0
               else let toks = tokens (drop (close_paren + 2) stat_line)
                    in if 19 < length toks
                       then (case stoull (toks ! 19) of None \<Rightarrow> 0 | Some v \<Rightarrow> v)
                       else 0)"

section \<open>What they compute\<close>

lemma pop_back_while_eq: "pop_back_while p s = rev (dropWhile p (rev s))"
proof (induction p s rule: pop_back_while.induct)
  case (1 p s)
  show ?case
  proof (cases "s \<noteq> [] \<and> p (last s)")
    case True
    then obtain t c where "s = t @ [c]" by (cases s rule: rev_cases) auto
    with True 1 show ?thesis by (subst pop_back_while.simps) simp
  next
    case False
    then show ?thesis
      by (subst pop_back_while.simps) (cases s rule: rev_cases; auto)
  qed
qed

lemma NormalizeCmdline_eq:
  "NormalizeCmdline raw =
     rev (dropWhile (\<lambda>c. c = CHR '' '') (rev (map (\<lambda>c. if c = CHR 0x00 then CHR '' '' else c) raw)))"
  by (simp add: NormalizeCmdline_def pop_back_while_eq)

lemma NormalizeCmdline_no_nul: "CHR 0x00 \<notin> set (NormalizeCmdline raw)"
  unfolding NormalizeCmdline_eq by (auto dest!: set_dropWhileD split: if_splits)

lemma rev_dropWhile_append_last:
  "rev (dropWhile P (rev xs)) \<noteq> [] \<Longrightarrow> \<not> P (last (rev (dropWhile P (rev xs))))"
  by (simp add: last_rev hd_dropWhile)

lemma NormalizeCmdline_idem: "NormalizeCmdline (NormalizeCmdline raw) = NormalizeCmdline raw"
proof -
  have "map (\<lambda>c. if c = CHR 0x00 then CHR '' '' else c) (NormalizeCmdline raw) = NormalizeCmdline raw"
    using NormalizeCmdline_no_nul [of raw] by (intro map_idI) auto
  then have "NormalizeCmdline (NormalizeCmdline raw) =
      rev (dropWhile (\<lambda>c. c = CHR '' '') (rev (NormalizeCmdline raw)))"
    by (simp add: NormalizeCmdline_eq [of "NormalizeCmdline raw"])
  also have "\<dots> = NormalizeCmdline raw"
    by (simp add: NormalizeCmdline_eq)
  finally show ?thesis .
qed

lemma rfind2_None:
  "rfind2 a b s = None \<Longrightarrow> j + 1 < length s \<Longrightarrow> \<not> (s ! j = a \<and> s ! (j + 1) = b)"
proof (induction a b s arbitrary: j rule: rfind2.induct)
  case (1 a b x y xs)
  then show ?case by (cases j) (auto split: option.splits if_splits)
qed simp_all

lemma rfind2_Some:
  "rfind2 a b s = Some i \<Longrightarrow> i + 1 < length s \<and> s ! i = a \<and> s ! (i + 1) = b \<and>
     (\<forall>j. i < j \<and> j + 1 < length s \<longrightarrow> \<not> (s ! j = a \<and> s ! (j + 1) = b))"
proof (induction a b s arbitrary: i rule: rfind2.induct)
  case (1 a b x y xs)
  show ?case
  proof (cases "rfind2 a b (y # xs)")
    case None
    then have i: "i = 0" "x = a" "y = b" using 1 by (auto split: if_splits)
    have "\<not> ((x # y # xs) ! j = a \<and> (x # y # xs) ! (j + 1) = b)"
      if "0 < j" "j + 1 < length (x # y # xs)" for j
      using rfind2_None [OF None, of "j - 1"] that by (cases j) auto
    with i show ?thesis by auto
  next
    case (Some k)
    then have i: "i = Suc k" using 1 by simp
    note IH = "1.IH" [OF Some]
    have "\<not> ((x # y # xs) ! j = a \<and> (x # y # xs) ! (j + 1) = b)"
      if "i < j" "j + 1 < length (x # y # xs)" for j
      using IH that i by (cases j) auto
    with i IH show ?thesis by auto
  qed
qed simp_all

lemma rfind2_append:
  assumes "a \<notin> set rest" and "a \<noteq> b"
  shows "rfind2 a b (pre @ a # b # rest) = Some (length pre)"
proof -
  let ?s = "pre @ a # b # rest"
  have occ: "?s ! length pre = a" "?s ! (length pre + 1) = b" "length pre + 1 < length ?s"
    by (simp_all add: nth_append)
  then obtain i where i: "rfind2 a b ?s = Some i"
    using rfind2_None [of a b ?s "length pre"] by fastforce
  note f = rfind2_Some [OF i]
  have "\<not> length pre < i"
  proof
    assume "length pre < i"
    then obtain k where k: "i = length pre + Suc k" using less_iff_Suc_add by auto
    then have "(b # rest) ! k = a" using f by (simp add: nth_append)
    then show False using assms f k by (cases k) (auto simp: nth_mem)
  qed
  moreover have "\<not> i < length pre" using f occ by blast
  ultimately show ?thesis using i by simp
qed

text \<open>Fields with one blank between two of them, as the kernel prints them.\<close>

fun blank_separated :: "string list \<Rightarrow> string" where
  "blank_separated [] = []"
| "blank_separated [f] = f"
| "blank_separated (f # g # fs) = f @ '' '' @ blank_separated (g # fs)"

lemma tokens_trailer: "\<forall>c \<in> set ws. is_space c \<Longrightarrow> tokens ws = []"
  by (simp add: tokens.simps dropWhile_eq_Nil_conv)

lemma tokens_word:
  assumes "f \<noteq> []" and "\<forall>c \<in> set f. \<not> is_space c" and "s = [] \<or> is_space (hd s)"
  shows "tokens (f @ s) = f # tokens s"
proof -
  have "takeWhile (\<lambda>c. \<not> is_space c) s = []" and "dropWhile (\<lambda>c. \<not> is_space c) s = s"
    using assms(3) by (cases s; simp)+
  moreover have "dropWhile is_space (f @ s) = f @ s" using assms(1,2) by (cases f) auto
  ultimately show ?thesis
    using assms(1,2) by (subst tokens.simps) (simp add: Let_def takeWhile_append2 dropWhile_append2)
qed

lemma tokens_blank: "tokens (CHR '' '' # s) = tokens s"
  by (subst (1 2) tokens.simps) (simp add: is_space_def)

lemma tokens_fields:
  assumes "\<forall>f \<in> set fs. f \<noteq> [] \<and> (\<forall>c \<in> set f. \<not> is_space c)" and "\<forall>c \<in> set ws. is_space c"
  shows "tokens (blank_separated fs @ ws) = fs"
  using assms(1)
proof (induction fs rule: blank_separated.induct)
  case 1
  then show ?case using tokens_trailer [OF assms(2)] by simp
next
  case (2 f)
  have "ws = [] \<or> is_space (hd ws)" using assms(2) by (cases ws) auto
  then show ?case using tokens_word [of f ws] tokens_trailer [OF assms(2)] 2 by simp
next
  case (3 f g fs)
  have "is_space (CHR '' '')" by (simp add: is_space_def)
  then have "tokens (f @ CHR '' '' # (blank_separated (g # fs) @ ws)) = f # tokens (blank_separated (g # fs) @ ws)"
    using 3(2) tokens_word [of f "CHR '' '' # (blank_separated (g # fs) @ ws)"] tokens_blank by simp
  then show ?case using 3 by simp
qed

lemma set_blank_separated: "set (blank_separated fs) \<subseteq> insert (CHR '' '') (\<Union> (set ` set fs))"
  by (induction fs rule: blank_separated.induct) auto

lemma digits_value_snoc: "digits_value (ds @ [d]) = 10 * digits_value ds + (of_char d - 48)"
  by (simp add: digits_value_def)

lemma decimal_digits: "digits_value (decimal n) = n \<and> decimal n \<noteq> [] \<and> (\<forall>c \<in> set (decimal n). is_digit c)"
proof (induction n rule: decimal.induct)
  case (1 n)
  have d: "of_char (char_of (48 + k) :: char) = 48 + k" if "k < 10" for k :: nat
    using that by simp
  show ?case
  proof (cases "n < 10")
    case True
    then show ?thesis
      using d [OF True] by (subst (1 2 3) decimal.simps) (simp add: digits_value_def is_digit_def)
  next
    case False
    then have "n mod 10 < 10" by simp
    with False d [OF this] 1 show ?thesis
      by (subst (1 2 3) decimal.simps) (auto simp: digits_value_snoc is_digit_def)
  qed
qed

lemma digit_no_space: "is_digit c \<Longrightarrow> \<not> is_space c \<and> c \<noteq> CHR ''-'' \<and> c \<noteq> CHR ''+'' \<and> c \<noteq> CHR '')''"
  by (auto simp: is_digit_def is_space_def)

lemma stoull_decimal:
  assumes "n < 2 ^ 64"
  shows "stoull (decimal n) = Some (of_nat n)"
proof -
  note d = decimal_digits [of n]
  obtain c r where cr: "decimal n = c # r" using d by (cases "decimal n") auto
  then have c: "is_digit c" using d by auto
  have "dropWhile is_space (decimal n) = decimal n"
    using digit_no_space [OF c] cr by simp
  moreover have "takeWhile is_digit (decimal n) = decimal n"
    using d by (simp add: takeWhile_eq_all_conv)
  moreover have tr: "takeWhile is_digit r = r" using d cr by (simp add: takeWhile_eq_all_conv)
  ultimately show ?thesis
    using d assms cr digit_no_space [OF c] unfolding stoull_def by (simp add: Let_def tr)
qed

text \<open>
  A line of /proc/<pid>/stat as the kernel writes it: the pid, the command name in parentheses, the
  state and the further fields with one blank between two of them, and a newline.
\<close>

definition kernel_stat_line :: "u32 \<Rightarrow> string \<Rightarrow> string list \<Rightarrow> string" where
  "kernel_stat_line pid comm fs =
     to_string pid @ '' ('' @ comm @ '') '' @ blank_separated fs @ [CHR 0x0A]"

lemma ParseStartTimeTicks_stat:
  assumes "\<forall>f \<in> set fs. f \<noteq> [] \<and> (\<forall>c \<in> set f. \<not> is_space c \<and> c \<noteq> CHR '')'')"
    and "22 \<le> 2 + length fs" and "fs ! (22 - 3) = to_string (ticks :: u64)"
  shows "ParseStartTimeTicks (kernel_stat_line pid comm fs) = ticks"
proof -
  define pre where "pre = to_string pid @ '' ('' @ comm"
  let ?rest = "blank_separated fs @ [CHR 0x0A]"
  have line: "kernel_stat_line pid comm fs = pre @ '') '' @ ?rest"
    by (simp add: kernel_stat_line_def pre_def)
  have nin: "CHR '')'' \<notin> set ?rest" using assms(1) set_blank_separated [of fs] by auto
  have "rfind2 (CHR '')'') (CHR '' '') (pre @ '') '' @ ?rest) = Some (length pre)"
    using rfind2_append [OF nin, of "CHR '' ''" pre] by simp
  moreover have "tokens ?rest = fs" using assms(1) by (intro tokens_fields) (auto simp: is_space_def)
  moreover have "stoull (fs ! 19) = Some ticks"
    using assms(3) stoull_decimal [of "unat ticks"] unsigned_less [of ticks, where 'a = nat]
    by (simp add: to_string_def)
  moreover have "drop (length pre + 2) (pre @ '') '' @ ?rest) = ?rest" by simp
  moreover have "\<not> length (pre @ '') '' @ ?rest) \<le> length pre + 2" by simp
  ultimately show ?thesis
    using assms(2) unfolding line ParseStartTimeTicks_def Let_def by simp
qed

text \<open>
  C36. The start time is field 22 of the line the kernel writes, also when it is the last one, and
  whatever the command name holds: blanks and closing parentheses inside the name do not shift the
  count, and the newline that ends the line is no part of a field.
\<close>

theorem ParseStartTimeTicks_field22:
  assumes "\<forall>f \<in> set fs. f \<noteq> [] \<and> (\<forall>c \<in> set f. \<not> is_space c \<and> c \<noteq> CHR '')'')"
    and "22 \<le> 2 + length fs" and "fs ! (22 - 3) = to_string (ticks :: u64)"
  shows "ParseStartTimeTicks (kernel_stat_line pid comm fs) = ticks"
  using assms by (rule ParseStartTimeTicks_stat)

text \<open>The fields of a process started at tick 7, as far as the model looks at them.\<close>

definition demo_stat_fields :: "string list" where
  "demo_stat_fields = ''S'' # replicate 18 ''0'' @ [''7'', ''4096'', ''-1'']"

lemma demo_stat_fields:
  "\<forall>f \<in> set demo_stat_fields. f \<noteq> [] \<and> (\<forall>c \<in> set f. \<not> is_space c \<and> c \<noteq> CHR '')'')"
  "22 \<le> 2 + length demo_stat_fields" "demo_stat_fields ! (22 - 3) = to_string (7 :: u64)"
  by (simp_all add: demo_stat_fields_def is_space_def) code_simp

theorem ParseStartTimeTicks_field22_witness:
  "ParseStartTimeTicks (''1 (a) b) S 0 0 0 0 0 0 0 0 0 0 0 0 0 0 0 0 0 0 7 4096 -1'' @ [CHR 0x0A]) = 7"
proof -
  have "kernel_stat_line 1 ''a) b'' demo_stat_fields =
      ''1 (a) b) S 0 0 0 0 0 0 0 0 0 0 0 0 0 0 0 0 0 0 7 4096 -1'' @ [CHR 0x0A]"
    by code_simp
  then show ?thesis using ParseStartTimeTicks_field22 [OF demo_stat_fields, of 1 "''a) b''"] by simp
qed

lemma ParseStartTimeTicks_demo: "ParseStartTimeTicks (kernel_stat_line pid comm demo_stat_fields) = 7"
  by (rule ParseStartTimeTicks_stat [OF demo_stat_fields])

end
