(* ===== verification/Entity_Registry.thy ===== *)
theory Entity_Registry
  imports Normalizer Proc_Util
begin

text \<open>
  src/registry/entity_registry.{h,cpp}: process entities with stable ids, found by thread group,
  enriched from /proc, retired at exit, distinguished on reuse of a thread group, and evicted past
  a cap. The two \<open>unordered_map\<close>s are partial maps; the order in which the standard library walks
  one is the argument \<open>iter\<close> (\<open>iter_ok\<close>: it visits every key). /proc is read through one snapshot
  for each ingested event.
\<close>

section \<open>State\<close>

record ProcessEntity =
  pr_id :: u64
  pr_pid :: u32
  pr_tgid :: u32
  pr_ppid :: u32
  pr_uid :: u32
  pr_gid :: u32
  pr_comm :: string
  pr_exec_path :: string
  pr_cmdline :: string
  pr_cwd :: string
  pr_parent_comm :: string
  pr_start_time_ticks :: u64
  pr_parent_id :: u64
  pr_first_seen_ns :: u64
  pr_last_seen_ns :: u64
  pr_exited :: bool
  pr_exit_ns :: u64
  pr_exit_code :: s64
  pr_observed_after_startup :: bool
  pr_last_identity_check_ns :: u64

record EntityRegistry =
  processes_by_id :: "u64 \<rightharpoonup> ProcessEntity"
  tgid_index :: "u32 \<rightharpoonup> u64"
  next_id :: u64

text \<open>The event with the entity of its actor, as the sink receives it.\<close>

record ResolvedEvent = CanonicalEvent +
  ce_subject_process :: "ProcessEntity option"

record reg_env =
  re_fs :: proc_fs
  re_iter :: "(u64 \<rightharpoonup> ProcessEntity) \<Rightarrow> u64 list"

definition iter_ok :: "reg_env \<Rightarrow> bool" where
  "iter_ok env \<longleftrightarrow> (\<forall>m. finite (dom m) \<longrightarrow> set (re_iter env m) = dom m)"

definition default_entity :: ProcessEntity where
  "default_entity =
     \<lparr>pr_id = 0, pr_pid = 0, pr_tgid = 0, pr_ppid = 0, pr_uid = 0, pr_gid = 0, pr_comm = [],
      pr_exec_path = [], pr_cmdline = [], pr_cwd = [], pr_parent_comm = [],
      pr_start_time_ticks = 0, pr_parent_id = 0, pr_first_seen_ns = 0, pr_last_seen_ns = 0,
      pr_exited = False, pr_exit_ns = 0, pr_exit_code = 0, pr_observed_after_startup = False,
      pr_last_identity_check_ns = 0\<rparr>"

definition empty_registry :: EntityRegistry where
  "empty_registry = \<lparr>processes_by_id = Map.empty, tgid_index = Map.empty, next_id = 1\<rparr>"

definition kMaxEntries :: nat where "kMaxEntries = 8192"
definition kIdentityCheckNs :: u64 where "kIdentityCheckNs = 500 * 1000 * 1000"

section \<open>Filling an entity\<close>

definition ReadStartTimeTicks :: "proc_fs \<Rightarrow> u32 \<Rightarrow> u64" where
  "ReadStartTimeTicks fs key =
     ParseStartTimeTicks (ReadTextFile fs (''/proc/'' @ to_string key @ ''/stat''))"

text \<open>The actor's comm ends in a NUL by construction, so it is a C string.\<close>

definition UpdateFast :: "ProcessEntity \<Rightarrow> ActorIdentity \<Rightarrow> u64 \<Rightarrow> ProcessEntity" where
  "UpdateFast e a now_ns =
     (let e = e\<lparr>pr_pid := ac_pid a, pr_tgid := ac_tgid a, pr_ppid := ac_ppid a, pr_uid := ac_uid a,
                pr_gid := ac_gid a\<rparr>;
          e = (if ac_comm a ! 0 \<noteq> 0
               then e\<lparr>pr_comm := map byte_char (takeWhile (\<lambda>b. b \<noteq> 0) (ac_comm a))\<rparr> else e)
      in e\<lparr>pr_last_seen_ns := now_ns\<rparr>)"

text \<open>\<open>RefreshRich\<close> fills one field after the other; each step is a conditional of the source.\<close>

definition refresh_exe :: "proc_fs \<Rightarrow> u32 \<Rightarrow> ProcessEntity \<Rightarrow> ProcessEntity" where
  "refresh_exe fs key e =
     (let exe = ReadProcSymlink fs (''/proc/'' @ to_string key @ ''/exe'')
      in if exe \<noteq> [] then e\<lparr>pr_exec_path := exe\<rparr> else e)"

definition refresh_cwd :: "proc_fs \<Rightarrow> u32 \<Rightarrow> ProcessEntity \<Rightarrow> ProcessEntity" where
  "refresh_cwd fs key e =
     (let cwd = ReadProcSymlink fs (''/proc/'' @ to_string key @ ''/cwd'')
      in if cwd \<noteq> [] then e\<lparr>pr_cwd := cwd\<rparr> else e)"

definition refresh_cmdline :: "proc_fs \<Rightarrow> u32 \<Rightarrow> ProcessEntity \<Rightarrow> ProcessEntity" where
  "refresh_cmdline fs key e =
     (let cmd = NormalizeCmdline (ReadTextFile fs (''/proc/'' @ to_string key @ ''/cmdline''))
      in if cmd \<noteq> [] then e\<lparr>pr_cmdline := cmd\<rparr> else e)"

definition refresh_comm :: "proc_fs \<Rightarrow> u32 \<Rightarrow> ProcessEntity \<Rightarrow> ProcessEntity" where
  "refresh_comm fs key e =
     (if pr_comm e = []
      then let c = RStrip (ReadTextFile fs (''/proc/'' @ to_string key @ ''/comm''))
           in if c \<noteq> [] then e\<lparr>pr_comm := c\<rparr> else e
      else e)"

definition refresh_parent_comm :: "proc_fs \<Rightarrow> ProcessEntity \<Rightarrow> ProcessEntity" where
  "refresh_parent_comm fs e =
     (if pr_parent_comm e = [] \<and> pr_ppid e \<noteq> 0
      then let pc = RStrip (ReadTextFile fs (''/proc/'' @ to_string (pr_ppid e) @ ''/comm''))
           in if pc \<noteq> [] then e\<lparr>pr_parent_comm := pc\<rparr> else e
      else e)"

definition refresh_start_time :: "proc_fs \<Rightarrow> u32 \<Rightarrow> ProcessEntity \<Rightarrow> ProcessEntity" where
  "refresh_start_time fs key e =
     (if pr_start_time_ticks e = 0 then e\<lparr>pr_start_time_ticks := ReadStartTimeTicks fs key\<rparr> else e)"

definition RefreshRich :: "proc_fs \<Rightarrow> ProcessEntity \<Rightarrow> u32 \<Rightarrow> ProcessEntity" where
  "RefreshRich fs e key =
     (if key = 0 then e
      else let e = refresh_exe fs key e; e = refresh_cwd fs key e; e = refresh_cmdline fs key e;
               e = refresh_comm fs key e; e = refresh_parent_comm fs e
           in refresh_start_time fs key e)"

section \<open>Operations\<close>

text \<open>The reuse check also records when it looked; subtraction of times wraps.\<close>

definition IsReused :: "proc_fs \<Rightarrow> ProcessEntity \<Rightarrow> u32 \<Rightarrow> u64 \<Rightarrow> bool \<times> ProcessEntity" where
  "IsReused fs e key now_ns =
     (if pr_start_time_ticks e = 0 then (False, e)
      else if now_ns - pr_last_identity_check_ns e < kIdentityCheckNs then (False, e)
      else let e = e\<lparr>pr_last_identity_check_ns := now_ns\<rparr>;
               current = ReadStartTimeTicks fs key
           in if current = 0 then (False, e) else (current \<noteq> pr_start_time_ticks e, e))"

definition RetireIndex :: "u32 \<Rightarrow> u64 \<Rightarrow> EntityRegistry \<Rightarrow> EntityRegistry" where
  "RetireIndex key eid r =
     (if tgid_index r key = Some eid then r\<lparr>tgid_index := (tgid_index r)(key := None)\<rparr> else r)"

definition entity_key :: "ProcessEntity \<Rightarrow> u32" where
  "entity_key e = (if pr_tgid e \<noteq> 0 then pr_tgid e else pr_pid e)"

definition older_of ::
  "(u64 \<rightharpoonup> ProcessEntity) \<Rightarrow> u64 option \<Rightarrow> u64 \<Rightarrow> u64 option" where
  "older_of m victim it =
     (case victim of
        None \<Rightarrow> Some it
      | Some v \<Rightarrow>
          if pr_last_seen_ns (the (m it)) < pr_last_seen_ns (the (m v)) then Some it else victim)"

definition EvictIfNeeded :: "reg_env \<Rightarrow> EntityRegistry \<Rightarrow> EntityRegistry" where
  "EvictIfNeeded env r =
     (if card (dom (processes_by_id r)) \<le> kMaxEntries then r
      else case foldl (older_of (processes_by_id r)) None (re_iter env (processes_by_id r)) of
             None \<Rightarrow> r
           | Some v \<Rightarrow>
               let e = the (processes_by_id r v);
                   r = RetireIndex (entity_key e) (pr_id e) r
               in r\<lparr>processes_by_id := (processes_by_id r)(v := None)\<rparr>)"

definition CreateProcess ::
  "reg_env \<Rightarrow> u32 \<Rightarrow> ActorIdentity \<Rightarrow> u64 \<Rightarrow> EntityRegistry \<Rightarrow> u64 \<times> EntityRegistry" where
  "CreateProcess env key actor now_ns r =
     (let e = default_entity\<lparr>pr_id := next_id r\<rparr>;
          r = r\<lparr>next_id := next_id r + 1\<rparr>;
          e = UpdateFast e actor now_ns;
          e = e\<lparr>pr_first_seen_ns := now_ns, pr_last_identity_check_ns := now_ns\<rparr>;
          e = RefreshRich (re_fs env) e key;
          eid = pr_id e;
          r = r\<lparr>processes_by_id := (processes_by_id r)(eid \<mapsto> e),
                tgid_index := (tgid_index r)(key \<mapsto> eid)\<rparr>
      in (eid, EvictIfNeeded env r))"

definition MarkExited :: "u64 \<Rightarrow> u64 \<Rightarrow> s64 \<Rightarrow> EntityRegistry \<Rightarrow> EntityRegistry" where
  "MarkExited eid now_ns exit_code r =
     (case processes_by_id r eid of
        None \<Rightarrow> r
      | Some e \<Rightarrow>
          let e = e\<lparr>pr_exited := True, pr_exit_ns := now_ns, pr_exit_code := exit_code\<rparr>;
              r = r\<lparr>processes_by_id := (processes_by_id r)(eid \<mapsto> e)\<rparr>
          in RetireIndex (entity_key e) eid r)"

definition actor_key :: "ActorIdentity \<Rightarrow> u32" where
  "actor_key actor = (if ac_tgid actor \<noteq> 0 then ac_tgid actor else ac_pid actor)"

definition ResolveProcess ::
  "reg_env \<Rightarrow> ActorIdentity \<Rightarrow> u64 \<Rightarrow> bool \<Rightarrow> EntityRegistry \<Rightarrow> u64 \<times> EntityRegistry" where
  "ResolveProcess env actor now_ns refresh_rich r =
     (let key = actor_key actor
      in if key = 0 then (0, r)
         else case tgid_index r key of
                None \<Rightarrow> CreateProcess env key actor now_ns r
              | Some eid \<Rightarrow>
                  (case processes_by_id r eid of
                     None \<Rightarrow> CreateProcess env key actor now_ns
                              (r\<lparr>tgid_index := (tgid_index r)(key := None)\<rparr>)
                   | Some e \<Rightarrow>
                       let (reused, e) = IsReused (re_fs env) e key now_ns;
                           r = r\<lparr>processes_by_id := (processes_by_id r)(eid \<mapsto> e)\<rparr>
                       in if \<not> reused
                          then let e = UpdateFast e actor now_ns;
                                   e = (if refresh_rich then RefreshRich (re_fs env) e key else e)
                               in (eid, r\<lparr>processes_by_id := (processes_by_id r)(eid \<mapsto> e)\<rparr>)
                          else CreateProcess env key actor now_ns (MarkExited eid now_ns 0 r)))"

definition child_actor :: "u32 \<Rightarrow> ActorIdentity \<Rightarrow> ActorIdentity" where
  "child_actor child_pid parent =
     default_actor\<lparr>ac_pid := child_pid, ac_tgid := child_pid, ac_ppid := actor_key parent\<rparr>"

definition ResolveChild ::
  "reg_env \<Rightarrow> u32 \<Rightarrow> u64 \<Rightarrow> ActorIdentity \<Rightarrow> u64 \<Rightarrow> EntityRegistry \<Rightarrow> u64 \<times> EntityRegistry" where
  "ResolveChild env child_pid parent_id parent now_ns r =
     (if child_pid = 0 then (0, r)
      else let (eid, r) = ResolveProcess env (child_actor child_pid parent) now_ns True r
           in case processes_by_id r eid of
                None \<Rightarrow> (eid, r)
              | Some e \<Rightarrow>
                  (eid, if pr_parent_id e = 0
                       then r\<lparr>processes_by_id := (processes_by_id r)(eid \<mapsto> e\<lparr>pr_parent_id := parent_id\<rparr>)\<rparr>
                       else r))"

definition FindProcess :: "EntityRegistry \<Rightarrow> u64 \<Rightarrow> ProcessEntity option" where
  "FindProcess r eid = processes_by_id r eid"

definition ProcessCount :: "EntityRegistry \<Rightarrow> nat" where
  "ProcessCount r = card (dom (processes_by_id r))"

text \<open>\<open>Ingest\<close>: the effect of the action, the fallback exec path, then the whole.\<close>

definition ingest_action ::
  "reg_env \<Rightarrow> CanonicalEvent \<Rightarrow> u64 \<Rightarrow> EntityRegistry \<Rightarrow> CanonicalEvent \<times> EntityRegistry" where
  "ingest_action env ev subject_id r =
     (if ce_action ev = CaProcessExited
      then (ev, MarkExited subject_id (ce_ts_ns ev) (ce_outcome ev) r)
      else if ce_action ev = CaProcessStarted \<and> ob_child_pid (ce_object ev) \<noteq> 0
      then let (child_id, r) = ResolveChild env (ob_child_pid (ce_object ev)) subject_id
                                 (ce_actor ev) (ce_ts_ns ev) r
           in (ev\<lparr>ce_object_ref := \<lparr>er_kind = EkProcess, er_id = child_id\<rparr>\<rparr>, r)
      else (ev, r))"

definition ingest_hint :: "CanonicalEvent \<Rightarrow> u64 \<Rightarrow> EntityRegistry \<Rightarrow> EntityRegistry" where
  "ingest_hint ev subject_id r =
     (if ce_exec_path_hint ev \<noteq> []
      then case processes_by_id r subject_id of
             None \<Rightarrow> r
           | Some e \<Rightarrow>
               if pr_exec_path e = []
               then r\<lparr>processes_by_id :=
                        (processes_by_id r)(subject_id \<mapsto> e\<lparr>pr_exec_path := ce_exec_path_hint ev\<rparr>)\<rparr>
               else r
      else r)"

definition Ingest ::
  "reg_env \<Rightarrow> CanonicalEvent \<Rightarrow> EntityRegistry \<Rightarrow> ResolvedEvent \<times> EntityRegistry" where
  "Ingest env ev r =
     (let now_ns = ce_ts_ns ev;
          is_exec = (ce_action ev = CaProcessExeced);
          (subject_id, r) = ResolveProcess env (ce_actor ev) now_ns is_exec r;
          ev = ev\<lparr>ce_subject := \<lparr>er_kind = EkProcess, er_id = subject_id\<rparr>\<rparr>;
          (ev, r) = ingest_action env ev subject_id r;
          r = ingest_hint ev subject_id r
      in (CanonicalEvent.extend ev \<lparr>ce_subject_process = FindProcess r subject_id\<rparr>, r))"

end
