(* ===== verification/Json_Text.thy ===== *)
theory Json_Text
  imports Entity_Registry
begin

text \<open>
  The text side of src/sinks/json_sink.cpp: labels, escaping, and the one-line JSON object of an
  event. Strings are lists of bytes as characters. A char array is read as a C string; \<open>None\<close> is
  the undefined read of one without a NUL.
\<close>

section \<open>Labels\<close>

definition EventTypeToString :: "u32 \<Rightarrow> string" where
  "EventTypeToString type =
     (if type = EVENT_TYPE_PROCESS then ''process'' else if type = EVENT_TYPE_FILE then ''file''
      else if type = EVENT_TYPE_SYSCALL then ''syscall''
      else if type = EVENT_TYPE_NETWORK then ''network'' else ''unknown'')"

definition NetworkEventKindToString :: "u32 \<Rightarrow> string" where
  "NetworkEventKindToString kind =
     (if kind = NETWORK_SOCKET then ''socket'' else if kind = NETWORK_CONNECT then ''connect''
      else if kind = NETWORK_ACCEPT then ''accept'' else if kind = NETWORK_BIND then ''bind''
      else if kind = NETWORK_LISTEN then ''listen'' else if kind = NETWORK_CLOSE then ''close''
      else if kind = NETWORK_SENDTO then ''sendto'' else if kind = NETWORK_RECVFROM then ''recvfrom''
      else if kind = NETWORK_SHUTDOWN then ''shutdown''
      else if kind = NETWORK_SOCKETPAIR then ''socketpair''
      else if kind = NETWORK_ACCEPT4 then ''accept4''
      else if kind = NETWORK_GETSOCKNAME then ''getsockname''
      else if kind = NETWORK_GETPEERNAME then ''getpeername''
      else if kind = NETWORK_SETSOCKOPT then ''setsockopt''
      else if kind = NETWORK_GETSOCKOPT then ''getsockopt''
      else if kind = NETWORK_SENDMSG then ''sendmsg'' else if kind = NETWORK_RECVMSG then ''recvmsg''
      else if kind = NETWORK_READ then ''read'' else if kind = NETWORK_WRITE then ''write''
      else if kind = NETWORK_READV then ''readv'' else if kind = NETWORK_WRITEV then ''writev''
      else if kind = NETWORK_SENDMMSG then ''sendmmsg''
      else if kind = NETWORK_RECVMMSG then ''recvmmsg'' else ''unknown'')"

definition NetworkDirectionToString :: "u32 \<Rightarrow> string" where
  "NetworkDirectionToString direction =
     (if direction = NETWORK_DIRECTION_INBOUND then ''inbound''
      else if direction = NETWORK_DIRECTION_OUTBOUND then ''outbound'' else ''unknown'')"

definition NetworkTransportToString :: "u32 \<Rightarrow> string" where
  "NetworkTransportToString transport =
     (if transport = NETWORK_TRANSPORT_TCP then ''tcp''
      else if transport = NETWORK_TRANSPORT_UDP then ''udp''
      else if transport = NETWORK_TRANSPORT_UNIX then ''unix''
      else if transport = NETWORK_TRANSPORT_RAW then ''raw'' else ''unknown'')"

section \<open>Escaping\<close>

definition hex_digit :: "nat \<Rightarrow> char" where
  "hex_digit n = char_of (if n < 10 then 48 + n else 87 + n)"

text \<open>One byte; below 32 without a short form it is \<open>snprintf\<close> of \<open>\u%04x\<close>.\<close>

definition json_escape_char :: "char \<Rightarrow> string" where
  "json_escape_char c =
     (let n = of_char c :: nat
      in if n = 34 then [CHR 0x5C, CHR 0x22]
         else if n = 92 then [CHR 0x5C, CHR 0x5C]
         else if n = 8 then [CHR 0x5C, CHR ''b'']
         else if n = 12 then [CHR 0x5C, CHR ''f'']
         else if n = 10 then [CHR 0x5C, CHR ''n'']
         else if n = 13 then [CHR 0x5C, CHR ''r'']
         else if n = 9 then [CHR 0x5C, CHR ''t'']
         else if n < 32
         then [CHR 0x5C, CHR ''u'', CHR ''0'', CHR ''0'', hex_digit (n div 16), hex_digit (n mod 16)]
         else [c])"

fun JsonEscape :: "string \<Rightarrow> string" where
  "JsonEscape [] = []"
| "JsonEscape (c # s) = json_escape_char c @ JsonEscape s"

definition JsonEscape_c :: "u8 list \<Rightarrow> string option" where
  "JsonEscape_c bs = map_option JsonEscape (c_str bs)"

fun BytesToHex :: "u8 list \<Rightarrow> string" where
  "BytesToHex [] = []"
| "BytesToHex (b # bs) = hex_digit (unat b div 16) # hex_digit (unat b mod 16) # BytesToHex bs"

section \<open>The JSON object\<close>

definition out_uint :: "'a::len word \<Rightarrow> string" where
  "out_uint w = decimal (unat w)"

definition out_int :: "'a::len word \<Rightarrow> string" where
  "out_int w = (if sint w < 0 then CHR ''-'' # decimal (nat (- sint w)) else decimal (nat (sint w)))"

text \<open>\<open>,"key":value\<close> and \<open>,"key":"value"\<close>.\<close>

definition field :: "string \<Rightarrow> string \<Rightarrow> string" where
  "field key v = '','' @ [CHR 0x22] @ key @ [CHR 0x22] @ '':'' @ v"

definition quoted :: "string \<Rightarrow> string" where
  "quoted v = [CHR 0x22] @ v @ [CHR 0x22]"

definition WriteHeader :: "event_header \<Rightarrow> string option" where
  "WriteHeader h =
     (case JsonEscape_c (hdr_comm h) of
        None \<Rightarrow> None
      | Some comm \<Rightarrow>
          Some (quoted ''ts_ns'' @ '':'' @ out_uint (hdr_ts_ns h) @
            field ''type'' (quoted (EventTypeToString (hdr_type h))) @
            field ''pid'' (out_uint (hdr_pid h)) @ field ''tgid'' (out_uint (hdr_tgid h)) @
            field ''ppid'' (out_uint (hdr_ppid h)) @ field ''uid'' (out_uint (hdr_uid h)) @
            field ''gid'' (out_uint (hdr_gid h)) @ field ''comm'' (quoted comm)))"

text \<open>A rich field of the entity, empty when there is none.\<close>

definition pe_str :: "(ProcessEntity \<Rightarrow> string) \<Rightarrow> ProcessEntity option \<Rightarrow> string" where
  "pe_str sel pe = quoted (JsonEscape (case pe of Some e \<Rightarrow> sel e | None \<Rightarrow> []))"

definition pe_ticks :: "ProcessEntity option \<Rightarrow> string" where
  "pe_ticks pe = out_uint (case pe of Some e \<Rightarrow> pr_start_time_ticks e | None \<Rightarrow> 0)"

definition WriteProcessInfo :: "event_header \<Rightarrow> ProcessEntity option \<Rightarrow> string option" where
  "WriteProcessInfo h pe =
     (case JsonEscape_c (hdr_comm h) of
        None \<Rightarrow> None
      | Some comm \<Rightarrow>
          Some (field ''process_info'' (''{'' @
            quoted ''pid'' @ '':'' @ out_uint (hdr_pid h) @ field ''tgid'' (out_uint (hdr_tgid h)) @
            field ''ppid'' (out_uint (hdr_ppid h)) @ field ''uid'' (out_uint (hdr_uid h)) @
            field ''gid'' (out_uint (hdr_gid h)) @ field ''comm'' (quoted comm) @
            field ''exec_path'' (pe_str pr_exec_path pe) @
            field ''cmdline'' (pe_str pr_cmdline pe) @ field ''cwd'' (pe_str pr_cwd pe) @
            field ''parent_comm'' (pe_str pr_parent_comm pe) @
            field ''start_time_ticks'' (pe_ticks pe) @ ''}'')))"

definition WriteNetworkEndpoint :: "string \<Rightarrow> network_endpoint \<Rightarrow> string option" where
  "WriteNetworkEndpoint label ep =
     (case JsonEscape_c (ep_path ep) of
        None \<Rightarrow> None
      | Some path \<Rightarrow>
          let addr_len = min (unat (ep_addr_len ep)) 16
          in Some (field (label @ ''_family'') (out_uint (ep_family ep)) @
               field (label @ ''_port'') (out_uint (ep_port ep)) @
               field (label @ ''_addr_len'') (out_uint (ep_addr_len ep)) @
               field (label @ ''_addr'') (quoted (BytesToHex (take addr_len (ep_addr ep)))) @
               field (label @ ''_path'') (quoted path)))"

definition WriteProcessBody :: "process_event \<Rightarrow> ProcessEntity option \<Rightarrow> string" where
  "WriteProcessBody ev pe =
     field ''kind'' (out_uint (pe_kind ev)) @ field ''exit_code'' (out_uint (pe_exit_code ev)) @
     field ''child_pid'' (out_uint (pe_child_pid ev)) @
     field ''filename'' (pe_str pr_exec_path pe) @ field ''exec_path'' (pe_str pr_exec_path pe) @
     field ''cmdline'' (pe_str pr_cmdline pe) @ field ''cwd'' (pe_str pr_cwd pe) @
     field ''parent_comm'' (pe_str pr_parent_comm pe) @ field ''start_time_ticks'' (pe_ticks pe)"

definition WriteFileBody :: "file_event \<Rightarrow> string option" where
  "WriteFileBody ev =
     (case JsonEscape_c (fe_path_a ev) of
        None \<Rightarrow> None
      | Some path_a \<Rightarrow>
          (case JsonEscape_c (fe_path_b ev) of
             None \<Rightarrow> None
           | Some path_b \<Rightarrow>
               Some (field ''kind'' (out_uint (fe_kind ev)) @ field ''ret'' (out_int (fe_ret ev)) @
                 field ''path_a'' (quoted path_a) @ field ''path_b'' (quoted path_b))))"

definition WriteSyscallBody :: "syscall_event \<Rightarrow> string" where
  "WriteSyscallBody ev =
     field ''is_enter'' (out_uint (se_is_enter ev)) @
     field ''syscall_nr'' (out_int (se_syscall_nr ev)) @ field ''ret'' (out_int (se_ret ev))"

definition WriteNetworkBody :: "network_event \<Rightarrow> string option" where
  "WriteNetworkBody ev =
     (case WriteNetworkEndpoint ''local'' (ne_local ev) of
        None \<Rightarrow> None
      | Some local \<Rightarrow>
          (case WriteNetworkEndpoint ''remote'' (ne_remote ev) of
             None \<Rightarrow> None
           | Some remote \<Rightarrow>
               Some (field ''event_name'' (quoted (NetworkEventKindToString (ne_kind ev))) @
                 field ''kind'' (out_uint (ne_kind ev)) @ field ''fd'' (out_int (ne_fd ev)) @
                 field ''peer_fd'' (out_int (ne_peer_fd ev)) @ field ''ret'' (out_int (ne_ret ev)) @
                 field ''domain'' (out_int (ne_domain ev)) @
                 field ''sock_type'' (out_int (ne_sock_type ev)) @
                 field ''protocol'' (out_int (ne_protocol ev)) @
                 field ''flags'' (out_int (ne_flags ev)) @
                 field ''backlog'' (out_int (ne_backlog ev)) @ field ''how'' (out_int (ne_how ev)) @
                 field ''opt_level'' (out_int (ne_opt_level ev)) @
                 field ''opt_name'' (out_int (ne_opt_name ev)) @
                 field ''opt_len'' (out_int (ne_opt_len ev)) @
                 field ''optval_prefix''
                   (quoted (JsonEscape (map byte_char (ne_optval_prefix ev)))) @
                 field ''flow_id'' (out_uint (ne_flow_id ev)) @
                 field ''socket_id'' (out_uint (ne_socket_id ev)) @
                 field ''direction'' (quoted (NetworkDirectionToString (ne_direction ev))) @
                 field ''transport'' (quoted (NetworkTransportToString (ne_transport ev))) @
                 field ''bytes_requested'' (out_uint (ne_bytes_requested ev)) @
                 field ''bytes_transferred'' (out_uint (ne_bytes_transferred ev)) @
                 field ''bytes_captured'' (out_uint (ne_bytes_captured ev)) @
                 field ''bytes_truncated'' (out_uint (ne_bytes_truncated ev)) @ local @ remote)))"

primrec WritePayload :: "event_variant \<Rightarrow> ProcessEntity option \<Rightarrow> string option" where
  "WritePayload (ProcessEv ev) pe = Some (WriteProcessBody ev pe)"
| "WritePayload (FileEv ev) pe = WriteFileBody ev"
| "WritePayload (SyscallEv ev) pe = Some (WriteSyscallBody ev)"
| "WritePayload (NetworkEv ev) pe = WriteNetworkBody ev"

definition WriteEventBody :: "ResolvedEvent \<Rightarrow> string option" where
  "WriteEventBody c =
     (let hdr = ev_hdr (ce_raw c); pe = ce_subject_process c
      in case WriteHeader hdr of
           None \<Rightarrow> None
         | Some header \<Rightarrow>
             (case WriteProcessInfo hdr pe of
                None \<Rightarrow> None
              | Some info \<Rightarrow>
                  (case WritePayload (ce_raw c) pe of
                     None \<Rightarrow> None
                   | Some payload \<Rightarrow>
                       Some (header @ info @
                         field ''entity_id'' (out_uint (er_id (ce_subject c))) @
                         (if er_id (ce_object_ref c) \<noteq> 0
                          then field ''object_entity_id'' (out_uint (er_id (ce_object_ref c)))
                          else []) @ payload))))"

text \<open>The line \<open>Write\<close> hands to the file.\<close>

definition serialized_line :: "ResolvedEvent \<Rightarrow> string option" where
  "serialized_line c = map_option (\<lambda>body. ''{'' @ body @ ''}'' @ [CHR 0x0A]) (WriteEventBody c)"

section \<open>Escaped text\<close>

text \<open>
  The JSON reader's side of a string: what a conforming reader makes of the text between two
  quotes. It refuses a raw quote, a raw control character and an unknown escape. Escapes beyond
  U+007F, which stand for several bytes, are refused too, since the writer produces none. Whether the
  text is UTF-8 is checked for the text as a whole (Json_Document).
\<close>

fun hex_value :: "char \<Rightarrow> nat option" where
  "hex_value c =
     (let n = of_char c :: nat
      in if 48 \<le> n \<and> n \<le> 57 then Some (n - 48)
         else if 97 \<le> n \<and> n \<le> 102 then Some (n - 87)
         else if 65 \<le> n \<and> n \<le> 70 then Some (n - 55) else None)"

definition simple_escape :: "char \<Rightarrow> char option" where
  "simple_escape c =
     (if c = CHR 0x22 then Some (CHR 0x22) else if c = CHR 0x5C then Some (CHR 0x5C)
      else if c = CHR ''/'' then Some (CHR ''/'') else if c = CHR ''b'' then Some (CHR 0x08)
      else if c = CHR ''f'' then Some (CHR 0x0C) else if c = CHR ''n'' then Some (CHR 0x0A)
      else if c = CHR ''r'' then Some (CHR 0x0D) else if c = CHR ''t'' then Some (CHR 0x09)
      else None)"

fun json_unescape :: "string \<Rightarrow> string option" where
  "json_unescape [] = Some []"
| "json_unescape (c # s) =
     (if c = CHR 0x5C then
        (case s of
           [] \<Rightarrow> None
         | e # s' \<Rightarrow>
             if e = CHR ''u'' then
               (case s' of
                  z1 # z2 # h # l # r \<Rightarrow>
                    (case (hex_value z1, hex_value z2, hex_value h, hex_value l) of
                       (Some 0, Some 0, Some a, Some b) \<Rightarrow>
                         if a < 8 then map_option ((#) (char_of (16 * a + b))) (json_unescape r)
                         else None
                     | _ \<Rightarrow> None)
                | _ \<Rightarrow> None)
             else (case simple_escape e of
                     None \<Rightarrow> None
                   | Some d \<Rightarrow> map_option ((#) d) (json_unescape s')))
      else if c = CHR 0x22 \<or> (of_char c :: nat) < 32 then None
      else map_option ((#) c) (json_unescape s))"

lemma hex_value_digit: "n < 16 \<Longrightarrow> hex_value (hex_digit n) = Some n"
  by (auto simp: hex_digit_def Let_def)

declare hex_value.simps [simp del]

lemma json_unescape_short:
  assumes "c \<in> {CHR 0x08, CHR 0x09, CHR 0x0A, CHR 0x0C, CHR 0x0D, CHR 0x22, CHR 0x5C}"
  shows "json_unescape (json_escape_char c @ s) = map_option ((#) c) (json_unescape s)"
  using assms by (auto simp: json_escape_char_def simple_escape_def)

lemma json_unescape_char: "json_unescape (json_escape_char c @ s) = map_option ((#) c) (json_unescape s)"
proof -
  define n :: nat where "n = of_char c"
  have c: "c = char_of n" by (simp add: n_def)
  have eqs: "n = 8 \<longleftrightarrow> c = CHR 0x08" "n = 9 \<longleftrightarrow> c = CHR 0x09" "n = 10 \<longleftrightarrow> c = CHR 0x0A"
    "n = 12 \<longleftrightarrow> c = CHR 0x0C" "n = 13 \<longleftrightarrow> c = CHR 0x0D" "n = 34 \<longleftrightarrow> c = CHR 0x22"
    "n = 92 \<longleftrightarrow> c = CHR 0x5C"
    unfolding n_def by (simp_all add: of_char_eq_iff [where 'a = nat, symmetric])
  consider "n \<in> {8, 9, 10, 12, 13, 34, 92}" | "n \<notin> {8, 9, 10, 12, 13, 34, 92}" "n < 32"
    | "n \<notin> {8, 9, 10, 12, 13, 34, 92}" "32 \<le> n" by linarith
  then show ?thesis
  proof cases
    case 1
    then show ?thesis by (intro json_unescape_short) (simp add: eqs)
  next
    case 2
    have "hex_value CHR ''0'' = Some 0" by (simp add: hex_value.simps)
    moreover have "hex_value (hex_digit (n div 16)) = Some (n div 16)"
      and "hex_value (hex_digit (n mod 16)) = Some (n mod 16)"
      using 2 by (auto intro!: hex_value_digit)
    moreover have "json_escape_char c = [CHR 0x5C, CHR ''u'', CHR ''0'', CHR ''0'',
        hex_digit (n div 16), hex_digit (n mod 16)]"
      using 2 by (simp add: json_escape_char_def n_def [symmetric] Let_def)
    moreover have "n div 16 < 8" using 2 by simp
    moreover have "char_of (16 * (n div 16) + n mod 16) = c" by (simp add: c)
    ultimately show ?thesis by simp
  next
    case 3
    then have "json_escape_char c = [c]"
      by (simp add: json_escape_char_def n_def [symmetric])
    moreover have "c \<noteq> CHR 0x5C" and "c \<noteq> CHR 0x22" using 3 eqs by auto
    moreover have "\<not> of_char c < (32 :: nat)" using 3 by (simp add: n_def [symmetric])
    ultimately show ?thesis by simp
  qed
qed

lemma json_unescape_escape: "json_unescape (JsonEscape s) = Some s"
  by (induction s) (simp_all add: json_unescape_char)

text \<open>
  Escaping is exact: decoding the escaped text gives the very bytes back, so no byte of a path or
  a command line is lost, doubled or able to end the string early.
\<close>

theorem JsonEscape_roundtrip:
  "json_unescape (JsonEscape s) = Some s"
  by (rule json_unescape_escape)

lemma hex_digit_printable: "n < 16 \<Longrightarrow> 32 \<le> (of_char (hex_digit n) :: nat)"
  by (auto simp: hex_digit_def)

lemma decimal_printable: "c \<in> set (decimal n) \<Longrightarrow> 32 \<le> (of_char c :: nat)"
  using decimal_digits [of n] by (fastforce simp: is_digit_def)

text \<open>No control character: the text of a record stays on its line.\<close>

definition printable :: "string \<Rightarrow> bool" where
  "printable s \<longleftrightarrow> (\<forall>c \<in> set s. 32 \<le> (of_char c :: nat))"

lemma printable_simps [simp]:
  "printable []" "printable (c # s) \<longleftrightarrow> 32 \<le> (of_char c :: nat) \<and> printable s"
  "printable (s @ t) \<longleftrightarrow> printable s \<and> printable t"
  by (auto simp: printable_def)

lemma printable_escape_char: "printable (json_escape_char c)"
  by (auto simp: json_escape_char_def Let_def intro!: hex_digit_printable)

lemma printable_escape [simp]: "printable (JsonEscape s)"
  by (induction s) (simp_all add: printable_escape_char)

lemma printable_escape_c: "JsonEscape_c bs = Some s \<Longrightarrow> printable s"
  by (auto simp: JsonEscape_c_def)

lemma printable_numbers [simp]:
  "printable (decimal n)" "printable (out_uint w)" "printable (out_int w)"
  by (auto simp: printable_def out_uint_def out_int_def intro: decimal_printable split: if_splits)

lemma printable_field [simp]: "printable (field k v) \<longleftrightarrow> printable k \<and> printable v"
  by (simp add: field_def)

lemma printable_quoted [simp]: "printable (quoted v) \<longleftrightarrow> printable v"
  by (simp add: quoted_def)

lemma printable_hex [simp]: "printable (BytesToHex bs)"
proof (induction bs)
  case (Cons b bs)
  have "unat b div 16 < 16" using unat_byte_lt [of b] by simp
  with Cons show ?case by (simp add: hex_digit_printable)
qed simp

lemma printable_labels [simp]:
  "printable (EventTypeToString t)" "printable (NetworkEventKindToString k)"
  "printable (NetworkDirectionToString d)" "printable (NetworkTransportToString r)"
  by (simp_all add: EventTypeToString_def NetworkEventKindToString_def
      NetworkDirectionToString_def NetworkTransportToString_def)

lemma printable_pe [simp]: "printable (pe_str sel pe)" "printable (pe_ticks pe)"
  by (simp_all add: pe_str_def pe_ticks_def)

lemma printable_parts:
  "WriteHeader h = Some s \<Longrightarrow> printable s"
  "WriteProcessInfo h pe = Some s \<Longrightarrow> printable s"
  "WriteFileBody fe = Some s \<Longrightarrow> printable s"
  by (auto simp: WriteHeader_def WriteProcessInfo_def WriteFileBody_def printable_escape_c
      split: option.splits)

lemma printable_endpoint:
  "WriteNetworkEndpoint label ep = Some s \<Longrightarrow> printable label \<Longrightarrow> printable s"
  by (auto simp: WriteNetworkEndpoint_def Let_def printable_escape_c split: option.splits)

lemma printable_network: "WriteNetworkBody ev = Some s \<Longrightarrow> printable s"
  using printable_endpoint [of "''local''" "ne_local ev"]
    printable_endpoint [of "''remote''" "ne_remote ev"]
  by (auto simp: WriteNetworkBody_def split: option.splits)

lemma printable_body: "WriteEventBody c = Some s \<Longrightarrow> printable s"
proof -
  have "printable p" if "WritePayload e pe = Some p" for e pe p
    using that printable_parts(3) printable_network
    by (cases e) (auto simp: WriteProcessBody_def WriteSyscallBody_def)
  then show "WriteEventBody c = Some s \<Longrightarrow> printable s"
    using printable_parts(1,2)
    by (auto simp: WriteEventBody_def Let_def split: option.splits if_splits)
qed

end
