(* ===== verification/Json_Sink.thy ===== *)
theory Json_Sink
  imports Json_Text "HOL-Library.Sublist"
begin

text \<open>
  The file side of src/sinks/json_sink.{h,cpp}: one append-only file with size rollover and a flush
  gate. The state holds the members of \<open>JsonSink\<close>, the stream's open flag, error bit and unwritten
  bytes, and the content of the file at the path, which nobody else changes. What the system
  answers during one call (opens, stream errors, how much the stream writes through, the clock) is
  the argument \<open>env\<close>.
\<close>

section \<open>State\<close>

record JsonSink =
  js_open :: bool
  js_failed :: bool
  js_buffer :: string
  js_file :: "string option"
  max_file_size_bytes :: u64
  current_file_size_bytes :: u64
  pending_records_since_flush :: u64
  last_flush_mono_ns :: u64
  ready :: bool

record sink_env =
  si_exists :: bool
  si_file_size :: "u64 option"
  si_removed :: bool
  si_open_trunc :: bool
  si_open_app :: bool
  si_write_ok :: bool
  si_force_ok :: bool
  si_maybe_ok :: bool
  si_through :: nat
  si_now_open :: u64
  si_now_force :: u64
  si_now_maybe :: u64

definition kFlushEveryRecords :: u64 where "kFlushEveryRecords = 256"
definition kFlushIntervalNs :: u64 where "kFlushIntervalNs = 250000000"

section \<open>The output stream\<close>

text \<open>
  \<open>std::ofstream\<close>: bytes wait in the stream and reach the file when the stream decides, at a flush
  and at a close. A failed write sets the error bit, drops what was waiting, and makes every later
  output a no-op until the next successful open clears the bit.
\<close>

definition file_content :: "JsonSink \<Rightarrow> string" where
  "file_content js = (case js_file js of Some c \<Rightarrow> c | None \<Rightarrow> [])"

definition stream_put :: "nat \<Rightarrow> bool \<Rightarrow> string \<Rightarrow> JsonSink \<Rightarrow> JsonSink" where
  "stream_put n okay s js =
     (if js_failed js then js
      else if \<not> js_open js then js\<lparr>js_failed := True\<rparr>
      else let text = js_buffer js @ s;
               js = js\<lparr>js_file := Some (file_content js @ take n text)\<rparr>
           in if okay then js\<lparr>js_buffer := drop n text\<rparr>
              else js\<lparr>js_buffer := [], js_failed := True\<rparr>)"

definition stream_flush :: "nat \<Rightarrow> bool \<Rightarrow> JsonSink \<Rightarrow> JsonSink" where
  "stream_flush n okay js =
     (if js_failed js then js
      else if okay
      then js\<lparr>js_file := Some (file_content js @ js_buffer js), js_buffer := []\<rparr>
      else js\<lparr>js_file := Some (file_content js @ take n (js_buffer js)), js_buffer := [],
              js_failed := True\<rparr>)"

definition stream_close :: "nat \<Rightarrow> bool \<Rightarrow> JsonSink \<Rightarrow> JsonSink" where
  "stream_close n okay js = (stream_flush n okay js)\<lparr>js_open := False\<rparr>"

definition stream_open :: "bool \<Rightarrow> bool \<Rightarrow> JsonSink \<Rightarrow> JsonSink" where
  "stream_open okay trunc js =
     (if okay
      then js\<lparr>js_open := True, js_failed := False, js_buffer := [],
              js_file := Some (if trunc then [] else file_content js)\<rparr>
      else js\<lparr>js_failed := True\<rparr>)"

section \<open>Operations\<close>

definition OpenFileAppend :: "sink_env \<Rightarrow> JsonSink \<Rightarrow> bool \<times> JsonSink" where
  "OpenFileAppend env js =
     (let js = js\<lparr>current_file_size_bytes := 0\<rparr>;
          js = (if si_exists env
                then js\<lparr>current_file_size_bytes := (case si_file_size env of Some n \<Rightarrow> n | None \<Rightarrow> 0)\<rparr>
                else js);
          js = stream_open (si_open_app env) False js
      in (js_open js, js))"

definition JsonSink_new :: "sink_env \<Rightarrow> string option \<Rightarrow> u64 \<Rightarrow> JsonSink" where
  "JsonSink_new env disk max_bytes =
     (let js = \<lparr>js_open = False, js_failed = False, js_buffer = [], js_file = disk,
                max_file_size_bytes = max_bytes, current_file_size_bytes = 0,
                pending_records_since_flush = 0, last_flush_mono_ns = si_now_open env,
                ready = False\<rparr>;
          (opened, js) = OpenFileAppend env js
      in js\<lparr>ready := opened\<rparr>)"

definition ForceFlush :: "sink_env \<Rightarrow> JsonSink \<Rightarrow> JsonSink" where
  "ForceFlush env js =
     (if \<not> js_open js then js
      else (stream_flush (si_through env) (si_force_ok env) js)
             \<lparr>pending_records_since_flush := 0, last_flush_mono_ns := si_now_force env\<rparr>)"

definition MaybeFlush :: "sink_env \<Rightarrow> JsonSink \<Rightarrow> JsonSink" where
  "MaybeFlush env js =
     (if \<not> js_open js then js
      else let now_ns = si_now_maybe env
           in if pending_records_since_flush js < kFlushEveryRecords \<and>
                 now_ns - last_flush_mono_ns js < kFlushIntervalNs
              then js
              else (stream_flush (si_through env) (si_maybe_ok env) js)
                     \<lparr>pending_records_since_flush := 0, last_flush_mono_ns := now_ns\<rparr>)"

definition RotateIfNeeded :: "sink_env \<Rightarrow> u64 \<Rightarrow> JsonSink \<Rightarrow> bool \<times> JsonSink" where
  "RotateIfNeeded env next_record_bytes js =
     (if max_file_size_bytes js = 0 then (True, js)
      else if current_file_size_bytes js + next_record_bytes \<le> max_file_size_bytes js then (True, js)
      else let js = ForceFlush env js;
               js = stream_close (si_through env) (si_force_ok env) js;
               js = (if si_removed env then js\<lparr>js_file := None\<rparr> else js);
               js = js\<lparr>current_file_size_bytes := 0\<rparr>;
               js = stream_open (si_open_trunc env) True js
           in if \<not> js_open js then (False, js)
              else let js = stream_close (si_through env) True js;
                       js = stream_open (si_open_app env) False js
                   in (js_open js, js))"

text \<open>Writing a finished line, then an event; None is the undefined read of \<open>serialized_line\<close>.\<close>

definition write_line :: "sink_env \<Rightarrow> string \<Rightarrow> JsonSink \<Rightarrow> JsonSink" where
  "write_line env serialized js =
     (let (rotated, js) = RotateIfNeeded env (of_nat (length serialized)) js
      in if \<not> rotated then js\<lparr>ready := False\<rparr>
         else let js = stream_put (si_through env) (si_write_ok env) serialized js;
                  js = js\<lparr>current_file_size_bytes :=
                            current_file_size_bytes js + of_nat (length serialized)\<rparr>;
                  js = js\<lparr>pending_records_since_flush := pending_records_since_flush js + 1\<rparr>
              in MaybeFlush env js)"

definition Write :: "sink_env \<Rightarrow> ResolvedEvent \<Rightarrow> JsonSink \<Rightarrow> JsonSink option" where
  "Write env c js =
     (if \<not> ready js then Some js
      else case serialized_line c of
             None \<Rightarrow> None
           | Some serialized \<Rightarrow> Some (write_line env serialized js))"

definition JsonSink_destroy :: "sink_env \<Rightarrow> JsonSink \<Rightarrow> JsonSink" where
  "JsonSink_destroy env js = stream_close (si_through env) (si_force_ok env) (ForceFlush env js)"

section \<open>The log the file shows\<close>

text \<open>
  The abstract sink is the list of the texts in the current file: a line is appended when it fits
  and otherwise starts a new file.
\<close>

definition log_kept :: "u64 \<Rightarrow> string \<Rightarrow> string list \<Rightarrow> string list" where
  "log_kept limit line ls =
     (if limit = 0 \<or> length (concat ls) + length line \<le> unat limit then ls else [])"

definition log_write :: "u64 \<Rightarrow> string \<Rightarrow> string list \<Rightarrow> string list" where
  "log_write limit line ls = log_kept limit line ls @ [line]"

text \<open>While everything fits no file is ever replaced.\<close>

lemma log_keeps_all:
  assumes "limit = 0 \<or> length (concat (ls @ lines)) \<le> unat limit"
  shows "fold (log_write limit) lines ls = ls @ lines"
  using assms
proof (induction lines arbitrary: ls)
  case (Cons l lines)
  then have "log_write limit l ls = ls @ [l]" by (auto simp: log_write_def log_kept_def)
  then show ?case using Cons.IH [of "ls @ [l]"] Cons.prems by simp
qed simp

definition sink_env_ok :: "sink_env \<Rightarrow> bool" where
  "sink_env_ok env \<longleftrightarrow>
     si_open_trunc env \<and> si_open_app env \<and> si_write_ok env \<and> si_force_ok env \<and> si_maybe_ok env"

text \<open>What is in the file and in the stream, in that order.\<close>

definition sink_text :: "JsonSink \<Rightarrow> string" where
  "sink_text js = file_content js @ js_buffer js"

text \<open>All but the last records, at most as many as are pending, are in the file itself.\<close>

definition on_disk :: "JsonSink \<Rightarrow> string list \<Rightarrow> bool" where
  "on_disk js ls \<longleftrightarrow>
     (\<exists>k. k \<le> unat (pending_records_since_flush js) \<and> k \<le> length ls \<and>
        prefix (concat (take (length ls - k) ls)) (file_content js))"

definition sink_shows :: "JsonSink \<Rightarrow> string list \<Rightarrow> bool" where
  "sink_shows js ls \<longleftrightarrow>
     ready js \<and> js_open js \<and> \<not> js_failed js \<and> sink_text js = concat ls \<and>
     current_file_size_bytes js = of_nat (length (concat ls)) \<and>
     unat (max_file_size_bytes js) < 2 ^ 63 \<and>
     (max_file_size_bytes js \<noteq> 0 \<longrightarrow> length (concat ls) < 2 ^ 63) \<and>
     pending_records_since_flush js < kFlushEveryRecords \<and> on_disk js ls"

lemma sink_showsD:
  assumes "sink_shows js ls"
  shows "ready js" "js_open js" "\<not> js_failed js" "file_content js @ js_buffer js = concat ls"
    "current_file_size_bytes js = of_nat (length (concat ls))"
    "unat (max_file_size_bytes js) < 2 ^ 63"
    "max_file_size_bytes js \<noteq> 0 \<Longrightarrow> length (concat ls) < 2 ^ 63"
    "unat (pending_records_since_flush js) < 256" "on_disk js ls"
  using assms by (simp_all add: sink_shows_def sink_text_def kFlushEveryRecords_def word_less_nat_alt)

lemma on_disk_all: "file_content js = concat ls \<Longrightarrow> on_disk js ls"
  unfolding on_disk_def by (intro exI [of _ 0]) simp

lemma on_disk_append:
  assumes "on_disk js ls" and "prefix (file_content js) (file_content js')"
    and "unat (pending_records_since_flush js') = unat (pending_records_since_flush js) + 1"
  shows "on_disk js' (ls @ [line])"
proof -
  obtain k where k: "k \<le> unat (pending_records_since_flush js)" "k \<le> length ls"
    "prefix (concat (take (length ls - k) ls)) (file_content js)"
    using assms(1) by (auto simp: on_disk_def)
  then have "prefix (concat (take (length ls - k) ls)) (file_content js')"
    using assms(2) prefix_order.trans by blast
  then show ?thesis
    unfolding on_disk_def using k assms(3) by (intro exI [of _ "Suc k"]) simp
qed

lemma unat_of_nat_u64: "n < 2 ^ 64 \<Longrightarrow> unat (of_nat n :: u64) = n"
  by (simp add: unat_of_nat take_bit_nat_eq_self unsigned_of_nat)

lemma fits_iff:
  assumes "sink_shows js ls" and "length line < 2 ^ 63" and "max_file_size_bytes js \<noteq> 0"
  shows "current_file_size_bytes js + of_nat (length line) \<le> max_file_size_bytes js \<longleftrightarrow>
    length (concat ls) + length line \<le> unat (max_file_size_bytes js)"
proof -
  have "length (concat ls) + length line < 2 ^ 64"
    using sink_showsD(7) [OF assms(1,3)] assms(2) by simp
  then have "unat (of_nat (length (concat ls) + length line) :: u64) = length (concat ls) + length line"
    by (rule unat_of_nat_u64)
  then show ?thesis
    unfolding sink_showsD(5) [OF assms(1)] word_le_nat_alt of_nat_add [symmetric] by simp
qed

text \<open>A rotation leaves an empty file, an open stream and nothing pending.\<close>

lemma RotateIfNeeded_shows:
  assumes "sink_shows js ls" and "sink_env_ok env" and "length line < 2 ^ 63"
  shows "\<exists>js'. RotateIfNeeded env (of_nat (length line)) js = (True, js') \<and>
    max_file_size_bytes js' = max_file_size_bytes js \<and>
    sink_shows js' (log_kept (max_file_size_bytes js) line ls)"
proof (cases "max_file_size_bytes js = 0 \<or> length (concat ls) + length line \<le> unat (max_file_size_bytes js)")
  case True
  then show ?thesis
    using assms(1) fits_iff [OF assms(1,3)] by (auto simp: RotateIfNeeded_def log_kept_def)
next
  case False
  then show ?thesis
    using assms(2) fits_iff [OF assms(1,3)] sink_showsD [OF assms(1)]
    by (simp add: RotateIfNeeded_def log_kept_def sink_env_ok_def ForceFlush_def stream_close_def
        stream_open_def stream_flush_def sink_shows_def sink_text_def file_content_def
        kFlushEveryRecords_def on_disk_def Let_def)
qed

lemma stream_put_ok:
  assumes "js_open js" and "\<not> js_failed js"
  shows "file_content (stream_put n True s js) = file_content js @ take n (js_buffer js @ s)"
    "js_buffer (stream_put n True s js) = drop n (js_buffer js @ s)"
    "\<not> js_failed (stream_put n True s js)" "js_open (stream_put n True s js)"
  using assms by (simp_all add: stream_put_def file_content_def Let_def)

lemma stream_put_text:
  assumes "js_open js" and "\<not> js_failed js"
  shows "file_content (stream_put n True s js) @ js_buffer (stream_put n True s js) =
      (file_content js @ js_buffer js) @ s"
    "prefix (file_content js) (file_content (stream_put n True s js))"
  unfolding stream_put_ok(1,2) [OF assms] by (simp_all del: take_append drop_append)

lemma stream_put_frame [simp]:
  "ready (stream_put n okay s js) = ready js"
  "max_file_size_bytes (stream_put n okay s js) = max_file_size_bytes js"
  "current_file_size_bytes (stream_put n okay s js) = current_file_size_bytes js"
  "pending_records_since_flush (stream_put n okay s js) = pending_records_since_flush js"
  "last_flush_mono_ns (stream_put n okay s js) = last_flush_mono_ns js"
  by (simp_all add: stream_put_def Let_def)

lemma file_content_frame [simp]:
  "file_content (js\<lparr>current_file_size_bytes := n\<rparr>) = file_content js"
  "file_content (js\<lparr>pending_records_since_flush := p\<rparr>) = file_content js"
  "file_content (js\<lparr>last_flush_mono_ns := t\<rparr>) = file_content js"
  "file_content (js\<lparr>ready := b\<rparr>) = file_content js"
  by (simp_all add: file_content_def)

lemma write_line_shows:
  assumes "sink_shows js ls" and "sink_env_ok env" and "length line < 2 ^ 63"
  shows "sink_shows (write_line env line js) (log_write (max_file_size_bytes js) line ls) \<and>
    max_file_size_bytes (write_line env line js) = max_file_size_bytes js"
proof -
  obtain js1 where r: "RotateIfNeeded env (of_nat (length line)) js = (True, js1)"
    and m: "max_file_size_bytes js1 = max_file_size_bytes js"
    and s: "sink_shows js1 (log_kept (max_file_size_bytes js) line ls)"
    using RotateIfNeeded_shows [OF assms] by blast
  let ?ls = "log_kept (max_file_size_bytes js) line ls"
  note d = sink_showsD [OF s]
  let ?js2 = "(stream_put (si_through env) (si_write_ok env) line js1)
    \<lparr>current_file_size_bytes := current_file_size_bytes js1 + of_nat (length line),
     pending_records_since_flush := pending_records_since_flush js1 + 1\<rparr>"
  have w: "write_line env line js = MaybeFlush env ?js2"
    using r by (simp add: write_line_def Let_def)
  have put: "ready ?js2" "js_open ?js2" "\<not> js_failed ?js2"
    "max_file_size_bytes ?js2 = max_file_size_bytes js"
    "file_content ?js2 @ js_buffer ?js2 = concat (?ls @ [line])"
    "prefix (file_content js1) (file_content ?js2)"
    using stream_put_ok(3,4) [OF d(2,3), of "si_through env" line]
      stream_put_text [OF d(2,3), of "si_through env" line] d(1,4) assms(2) m
    by (simp_all add: sink_env_ok_def)
  have pend: "unat (pending_records_since_flush js1 + 1) = unat (pending_records_since_flush js1) + 1"
    using d(8) by (simp add: unat_word_ariths)
  have disk: "on_disk ?js2 (?ls @ [line])"
    by (rule on_disk_append [OF d(9) put(6)]) (simp add: pend)
  have len: "max_file_size_bytes js \<noteq> 0 \<longrightarrow> length (concat (?ls @ [line])) < 2 ^ 63"
    using assms(3) d(6) m by (auto simp: log_kept_def)
  have size: "current_file_size_bytes ?js2 = of_nat (length (concat (?ls @ [line])))"
    using d(5) by simp
  show ?thesis
  proof (cases "pending_records_since_flush ?js2 < kFlushEveryRecords \<and>
      si_now_maybe env - last_flush_mono_ns ?js2 < kFlushIntervalNs")
    case True
    then have "MaybeFlush env ?js2 = ?js2" using put by (simp add: MaybeFlush_def Let_def)
    then show ?thesis
      using True put disk len size d(6) m
      unfolding w log_write_def sink_shows_def sink_text_def by simp
  next
    case False
    let ?js3 = "(stream_flush (si_through env) (si_maybe_ok env) ?js2)
      \<lparr>pending_records_since_flush := 0, last_flush_mono_ns := si_now_maybe env\<rparr>"
    have "MaybeFlush env ?js2 = ?js3"
      using put False unfolding MaybeFlush_def Let_def by (simp only: if_False not_True_eq_False)
    moreover have "file_content ?js3 = concat (?ls @ [line])" "js_buffer ?js3 = []" "ready ?js3"
      "js_open ?js3" "\<not> js_failed ?js3" "max_file_size_bytes ?js3 = max_file_size_bytes js"
      "current_file_size_bytes ?js3 = current_file_size_bytes ?js2"
      using put assms(2) by (simp_all add: stream_flush_def sink_env_ok_def file_content_def)
    moreover have "on_disk ?js3 (?ls @ [line])" by (rule on_disk_all) fact
    ultimately show ?thesis
      using len size d(6) m
      unfolding w log_write_def sink_shows_def sink_text_def
      by (simp add: kFlushEveryRecords_def)
  qed
qed

lemma Write_shows:
  assumes "sink_shows js ls" and "sink_env_ok env" and "serialized_line c = Some line"
    and "length line < 2 ^ 63"
  shows "\<exists>js'. Write env c js = Some js' \<and> sink_shows js' (log_write (max_file_size_bytes js) line ls) \<and>
    max_file_size_bytes js' = max_file_size_bytes js"
  using write_line_shows [OF assms(1,2,4)] assms(3) sink_showsD(1) [OF assms(1)]
  by (simp add: Write_def)

lemma JsonSink_new_shows:
  assumes "si_open_app env" and "si_exists env \<longleftrightarrow> disk \<noteq> None"
    and "disk \<noteq> None \<Longrightarrow> si_file_size env = Some (of_nat (length (the disk)))"
    and "unat limit < 2 ^ 63" and "disk \<noteq> None \<Longrightarrow> length (the disk) < 2 ^ 63"
  shows "sink_shows (JsonSink_new env disk limit) [case disk of Some c \<Rightarrow> c | None \<Rightarrow> []]"
  using assms
  by (cases disk) (simp_all add: JsonSink_new_def OpenFileAppend_def stream_open_def sink_shows_def
      sink_text_def file_content_def kFlushEveryRecords_def on_disk_def Let_def)

section \<open>The contract of a sink\<close>

text \<open>
  src/sinks/sink.h: the pipeline knows a sink only by \<open>Write\<close>. The contract: a written event
  pushes its line on the log the sink shows, after dropping some oldest part of it.
\<close>

fun write_all :: "('env \<Rightarrow> 'ev \<Rightarrow> 's \<Rightarrow> 's option) \<Rightarrow> ('env \<times> 'ev) list \<Rightarrow> 's \<Rightarrow> 's option" where
  "write_all wr [] s = Some s"
| "write_all wr ((env, ev) # evs) s =
     (case wr env ev s of None \<Rightarrow> None | Some s' \<Rightarrow> write_all wr evs s')"

locale event_sink =
  fixes wr :: "'env \<Rightarrow> 'ev \<Rightarrow> 's \<Rightarrow> 's option"
    and env_ok :: "'env \<Rightarrow> bool"
    and text_of :: "'ev \<Rightarrow> 'l option"
    and fits :: "'l \<Rightarrow> bool"
    and shows_log :: "'s \<Rightarrow> 'l list \<Rightarrow> bool"
    and limit :: "'s \<Rightarrow> 'm"
    and push :: "'m \<Rightarrow> 'l \<Rightarrow> 'l list \<Rightarrow> 'l list"
  assumes wr_pushes:
      "shows_log s ls \<Longrightarrow> env_ok env \<Longrightarrow> text_of ev = Some l \<Longrightarrow> fits l \<Longrightarrow>
       \<exists>s'. wr env ev s = Some s' \<and> shows_log s' (push (limit s) l ls) \<and> limit s' = limit s"
    and push_keeps_newest: "\<exists>k. push m l ls = drop k ls @ [l]"
begin

definition writable :: "('env \<times> 'ev) list \<Rightarrow> bool" where
  "writable evs \<longleftrightarrow> (\<forall>(env, ev) \<in> set evs. env_ok env \<and> (\<exists>l. text_of ev = Some l \<and> fits l))"

lemma write_all_shows:
  assumes "shows_log s ls" and "writable evs"
  shows "\<exists>s'. write_all wr evs s = Some s' \<and> limit s' = limit s \<and>
    shows_log s' (fold (push (limit s)) (map (the \<circ> text_of \<circ> snd) evs) ls)"
  using assms
proof (induction evs arbitrary: s ls)
  case (Cons x evs)
  obtain env ev where x: "x = (env, ev)" by fastforce
  obtain l where l: "env_ok env" "text_of ev = Some l" "fits l" and "writable evs"
    using Cons.prems(2) x by (auto simp: writable_def)
  then obtain s' where "wr env ev s = Some s'" "shows_log s' (push (limit s) l ls)"
    "limit s' = limit s"
    using wr_pushes Cons.prems(1) by blast
  moreover obtain s'' where "write_all wr evs s' = Some s''" "limit s'' = limit s'"
    "shows_log s'' (fold (push (limit s')) (map (the \<circ> text_of \<circ> snd) evs) (push (limit s) l ls))"
    using Cons.IH [OF calculation(2) \<open>writable evs\<close>] by blast
  ultimately show ?case using x l by (simp add: comp_def)
qed simp

lemma log_is_newest: "\<exists>k. fold (push m) lines ls = drop k (ls @ lines)"
proof (induction lines arbitrary: ls)
  case Nil
  show ?case by (intro exI [of _ 0]) simp
next
  case (Cons l lines)
  obtain k where k: "push m l ls = drop k ls @ [l]" using push_keeps_newest by blast
  obtain j where "fold (push m) lines (drop k ls @ [l]) = drop j (drop k ls @ [l] @ lines)"
    using Cons.IH [of "drop k ls @ [l]"] by auto
  moreover have "drop j (drop k ls @ [l] @ lines) = drop (j + min k (length ls)) (ls @ l # lines)"
    by (cases "k \<le> length ls") (simp_all add: add.commute)
  ultimately show ?case using k by auto
qed

lemma newest_is_last: "lines \<noteq> [] \<Longrightarrow> last (fold (push m) lines ls) = last lines \<and> fold (push m) lines ls \<noteq> []"
proof (induction lines rule: rev_induct)
  case (snoc l lines)
  obtain k where "push m l (fold (push m) lines ls) = drop k (fold (push m) lines ls) @ [l]"
    using push_keeps_newest by blast
  then show ?case by simp
qed simp

end

interpretation json_sink:
  event_sink Write sink_env_ok serialized_line "\<lambda>l. length l < 2 ^ 63" sink_shows
    max_file_size_bytes log_write
proof unfold_locales
  fix m l ls
  have "log_write m l ls = drop 0 ls @ [l] \<or> log_write m l ls = drop (length ls) ls @ [l]"
    by (simp add: log_write_def log_kept_def)
  then show "\<exists>k. log_write m l ls = drop k ls @ [l]" by blast
qed (rule Write_shows)

end
