(* ===== verification/Utf8.thy ===== *)
theory Utf8
  imports ETG_Prelude
begin

text \<open>
  Well-formed UTF-8 (RFC 3629, the encoding RFC 8259 prescribes for JSON): no stray or missing
  continuation byte, no overlong form, no surrogate, nothing above U+10FFFF. Strings are lists of
  bytes as characters.
\<close>

section \<open>Sequences of one to four bytes\<close>

definition ascii :: "char \<Rightarrow> bool" where
  "ascii c \<longleftrightarrow> (of_char c :: nat) < 0x80"

definition byte_in :: "nat \<Rightarrow> nat \<Rightarrow> char \<Rightarrow> bool" where
  "byte_in lo hi c \<longleftrightarrow> lo \<le> of_char c \<and> of_char c \<le> hi"

definition utf8_2 :: "char \<Rightarrow> char \<Rightarrow> bool" where
  "utf8_2 a b \<longleftrightarrow> byte_in 0xC2 0xDF a \<and> byte_in 0x80 0xBF b"

definition utf8_3 :: "char \<Rightarrow> char \<Rightarrow> char \<Rightarrow> bool" where
  "utf8_3 a b c \<longleftrightarrow> byte_in 0x80 0xBF c \<and>
     (byte_in 0xE0 0xE0 a \<and> byte_in 0xA0 0xBF b \<or>
      (byte_in 0xE1 0xEC a \<or> byte_in 0xEE 0xEF a) \<and> byte_in 0x80 0xBF b \<or>
      byte_in 0xED 0xED a \<and> byte_in 0x80 0x9F b)"

definition utf8_4 :: "char \<Rightarrow> char \<Rightarrow> char \<Rightarrow> char \<Rightarrow> bool" where
  "utf8_4 a b c d \<longleftrightarrow> byte_in 0x80 0xBF c \<and> byte_in 0x80 0xBF d \<and>
     (byte_in 0xF0 0xF0 a \<and> byte_in 0x90 0xBF b \<or>
      byte_in 0xF1 0xF3 a \<and> byte_in 0x80 0xBF b \<or>
      byte_in 0xF4 0xF4 a \<and> byte_in 0x80 0x8F b)"

fun utf8 :: "string \<Rightarrow> bool" where
  "utf8 [] = True"
| "utf8 (a # s) =
     (if ascii a then utf8 s
      else case s of
             [] \<Rightarrow> False
           | b # s \<Rightarrow>
               if utf8_2 a b then utf8 s
               else (case s of
                       [] \<Rightarrow> False
                     | c # s \<Rightarrow>
                         if utf8_3 a b c then utf8 s
                         else (case s of [] \<Rightarrow> False | d # s \<Rightarrow> utf8_4 a b c d \<and> utf8 s)))"

lemma utf8_continuation:
  assumes "ascii x"
  shows "\<not> utf8_2 a x" "\<not> utf8_3 a x c" "\<not> utf8_3 a b x" "\<not> utf8_4 a x c d" "\<not> utf8_4 a b x d"
    "\<not> utf8_4 a b c x"
  using assms by (auto simp: utf8_2_def utf8_3_def utf8_4_def byte_in_def ascii_def)

section \<open>An ASCII character is a boundary\<close>

lemma utf8_boundary:
  assumes x: "ascii x"
  shows "utf8 (s @ x # t) \<longleftrightarrow> utf8 s \<and> utf8 t"
proof (induction s rule: utf8.induct)
  case 1
  then show ?case using x by simp
next
  case (2 a s)
  note no = utf8_continuation [OF x]
  show ?case
  proof (cases "ascii a")
    case True
    then show ?thesis using 2(1) by simp
  next
    case a: False
    show ?thesis
    proof (cases s)
      case Nil
      then show ?thesis using a no by (simp split: list.split)
    next
      case b: (Cons b s1)
      show ?thesis
      proof (cases "utf8_2 a b")
        case True
        then show ?thesis using 2(2) [OF a b] a b by simp
      next
        case ab: False
        show ?thesis
        proof (cases s1)
          case Nil
          then show ?thesis using a b ab no by (simp split: list.split)
        next
          case c: (Cons c s2)
          show ?thesis
          proof (cases "utf8_3 a b c")
            case True
            then show ?thesis using 2(3) [OF a b ab c] a b ab c by simp
          next
            case abc: False
            then show ?thesis
              using 2(4) [OF a b ab c abc] a b ab c no by (cases s2) simp_all
          qed
        qed
      qed
    qed
  qed
qed

lemma utf8_ascii_append: "\<forall>x \<in> set s. ascii x \<Longrightarrow> utf8 (s @ t) \<longleftrightarrow> utf8 t"
  by (induction s) auto

lemma utf8_ascii: "\<forall>x \<in> set s. ascii x \<Longrightarrow> utf8 s"
  using utf8_ascii_append [of s "[]"] by simp

text \<open>A text in which every ASCII character is replaced by ASCII text is as well-formed as before.\<close>

lemma utf8_replace_ascii:
  assumes "\<And>x. ascii x \<Longrightarrow> f x \<noteq> [] \<and> (\<forall>y \<in> set (f x). ascii y)" and "\<And>x. \<not> ascii x \<Longrightarrow> f x = [x]"
  shows "utf8 (concat (map f s)) \<longleftrightarrow> utf8 s"
proof (induction s rule: length_induct)
  case (1 s)
  define p where "p = takeWhile (\<lambda>x. \<not> ascii x) s"
  have p: "concat (map f p) = p"
    unfolding p_def by (induction s) (simp_all add: assms(2))
  have split: "s = p @ dropWhile (\<lambda>x. \<not> ascii x) s" by (simp add: p_def)
  show ?case
  proof (cases "dropWhile (\<lambda>x. \<not> ascii x) s")
    case Nil
    then have "s = p" using split by (metis append_Nil2)
    then show ?thesis using p by simp
  next
    case (Cons x t)
    then have s: "s = p @ x # t" using split by metis
    have x: "ascii x" using Cons hd_dropWhile [of "\<lambda>x. \<not> ascii x" s] by simp
    obtain y ys where y: "f x = y # ys" "ascii y" "\<forall>z \<in> set ys. ascii z"
      using assms(1) [OF x] by (cases "f x") auto
    have "utf8 (concat (map f t)) \<longleftrightarrow> utf8 t" using 1 s by simp
    then show ?thesis using y p x by (simp add: s utf8_boundary utf8_ascii_append)
  qed
qed

end
