(* ===== verification/Json_Document.thy ===== *)
theory Json_Document
  imports Json_Text Utf8
begin

text \<open>
  What the line of an event means to whoever reads the file. \<open>json\<close> is the data of a document,
  \<open>event_members\<close> the document of an event, \<open>json_text\<close> the compact text of a document and
  \<open>json_read\<close> a reader of it as RFC 8259 has it: a text that is not UTF-8 is refused. The code's text
  of an event is shown to be the text of its document, and the reader to get that document back
  exactly when the strings of the event are UTF-8.
\<close>

section \<open>Documents and their text\<close>

datatype json = JNum int | JStr string | JObj "(string \<times> json) list"

fun json_text :: "json \<Rightarrow> string" and member_texts :: "(string \<times> json) list \<Rightarrow> string" where
  "json_text (JNum i) = (if i < 0 then CHR ''-'' # decimal (nat (- i)) else decimal (nat i))"
| "json_text (JStr s) = quoted (JsonEscape s)"
| "json_text (JObj []) = ''{}''"
| "json_text (JObj ((k, v) # ms)) =
     ''{'' @ quoted (JsonEscape k) @ '':'' @ json_text v @ member_texts ms @ ''}''"
| "member_texts [] = []"
| "member_texts ((k, v) # ms) = field (JsonEscape k) (json_text v) @ member_texts ms"

section \<open>The reader\<close>

text \<open>The raw text up to the quote that ends a string, and what follows the quote.\<close>

fun read_raw :: "string \<Rightarrow> (string \<times> string) option" where
  "read_raw [] = None"
| "read_raw (c # s) =
     (if c = CHR 0x22 then Some ([], s)
      else if c = CHR 0x5C
      then (case s of [] \<Rightarrow> None | e # s' \<Rightarrow> map_option (\<lambda>(raw, r). (c # e # raw, r)) (read_raw s'))
      else map_option (\<lambda>(raw, r). (c # raw, r)) (read_raw s))"

definition read_string :: "string \<Rightarrow> (string \<times> string) option" where
  "read_string s =
     (case s of
        [] \<Rightarrow> None
      | c # s' \<Rightarrow>
          if c \<noteq> CHR 0x22 then None
          else case read_raw s' of
                 None \<Rightarrow> None
               | Some (raw, r) \<Rightarrow> map_option (\<lambda>v. (v, r)) (json_unescape raw))"

text \<open>An integer without superfluous zeros.\<close>

definition read_nat :: "string \<Rightarrow> (nat \<times> string) option" where
  "read_nat s =
     (let ds = takeWhile is_digit s
      in if ds = [] \<or> (hd ds = CHR ''0'' \<and> length ds \<noteq> 1) then None
         else Some (digits_value ds, dropWhile is_digit s))"

definition read_int :: "string \<Rightarrow> (int \<times> string) option" where
  "read_int s =
     (case s of
        c # s' \<Rightarrow>
          if c = CHR ''-'' then map_option (\<lambda>(n, r). (- int n, r)) (read_nat s')
          else map_option (\<lambda>(n, r). (int n, r)) (read_nat s)
      | [] \<Rightarrow> None)"

text \<open>
  A value, and the members after the first one; \<open>fuel\<close> bounds the nesting and the members, the
  length of the text is always enough.
\<close>

fun read_value :: "nat \<Rightarrow> string \<Rightarrow> (json \<times> string) option"
  and read_members :: "nat \<Rightarrow> string \<Rightarrow> ((string \<times> json) list \<times> string) option" where
  "read_value 0 s = None"
| "read_value (Suc fuel) s =
     (case s of
        [] \<Rightarrow> None
      | c # s' \<Rightarrow>
          if c = CHR 0x22 then map_option (\<lambda>(v, r). (JStr v, r)) (read_string s)
          else if c = CHR ''{''
          then (case s' of
                  [] \<Rightarrow> None
                | d # s'' \<Rightarrow>
                    if d = CHR ''}'' then Some (JObj [], s'')
                    else map_option (\<lambda>(ms, r). (JObj ms, r)) (read_members fuel (CHR '','' # s')))
          else map_option (\<lambda>(i, r). (JNum i, r)) (read_int s))"
| "read_members 0 s = None"
| "read_members (Suc fuel) s =
     (case s of
        [] \<Rightarrow> None
      | c # s' \<Rightarrow>
          if c = CHR ''}'' then Some ([], s')
          else if c \<noteq> CHR '','' then None
          else case read_string s' of
                 None \<Rightarrow> None
               | Some (k, r) \<Rightarrow>
                   if r = [] \<or> hd r \<noteq> CHR '':'' then None
                   else case read_value fuel (tl r) of
                          None \<Rightarrow> None
                        | Some (v, r') \<Rightarrow>
                            map_option (\<lambda>(ms, r''). ((k, v) # ms, r'')) (read_members fuel r'))"

definition json_read :: "string \<Rightarrow> (json \<times> string) option" where
  "json_read s = (if utf8 s then read_value (length s) s else None)"

section \<open>Reading back\<close>

text \<open>Plain characters stand for themselves in the raw text of a string.\<close>

lemma read_raw_plain:
  assumes "\<forall>c \<in> set p. c \<noteq> CHR 0x22 \<and> c \<noteq> CHR 0x5C"
  shows "read_raw (p @ s) = map_option (\<lambda>(raw, r). (p @ raw, r)) (read_raw s)"
  using assms by (induction p) (simp_all add: option.map_comp comp_def case_prod_unfold map_option_idI option.map_id0)

lemma hex_digit_plain: "n < 16 \<Longrightarrow> hex_digit n \<noteq> CHR 0x22 \<and> hex_digit n \<noteq> CHR 0x5C"
proof -
  assume n: "n < 16"
  have "of_char (hex_digit n) \<noteq> (34 :: nat) \<and> of_char (hex_digit n) \<noteq> (92 :: nat)"
    using n by (auto simp: hex_digit_def)
  then show ?thesis by auto
qed

lemma read_raw_escape_char:
  "read_raw (json_escape_char c @ s) = map_option (\<lambda>(raw, r). (json_escape_char c @ raw, r)) (read_raw s)"
proof -
  define n :: nat where "n = of_char c"
  have c: "c = char_of n" by (simp add: n_def)
  consider "n \<in> {8, 9, 10, 12, 13, 34, 92}" | "n \<notin> {8, 9, 10, 12, 13, 34, 92}" "n < 32"
    | "n \<notin> {8, 9, 10, 12, 13, 34, 92}" "32 \<le> n" by linarith
  then show ?thesis
  proof cases
    case 1
    then obtain e where "json_escape_char c = [CHR 0x5C, e]"
      by (auto simp: json_escape_char_def n_def [symmetric])
    then show ?thesis by simp
  next
    case 2
    then have e: "json_escape_char c = [CHR 0x5C, CHR ''u''] @ [CHR ''0'', CHR ''0'',
        hex_digit (n div 16), hex_digit (n mod 16)]"
      by (simp add: json_escape_char_def n_def [symmetric] Let_def)
    have "\<forall>x \<in> set [CHR ''0'', CHR ''0'', hex_digit (n div 16), hex_digit (n mod 16)].
        x \<noteq> CHR 0x22 \<and> x \<noteq> CHR 0x5C"
      using 2 hex_digit_plain [of "n div 16"] hex_digit_plain [of "n mod 16"] by simp
    from read_raw_plain [OF this] show ?thesis
      unfolding e append_assoc by (simp add: option.map_comp comp_def case_prod_unfold)
  next
    case 3
    then have "json_escape_char c = [c]" and "c \<noteq> CHR 0x22" and "c \<noteq> CHR 0x5C"
      by (auto simp: json_escape_char_def n_def)
    then show ?thesis by simp
  qed
qed

lemma read_raw_escape: "read_raw (JsonEscape s @ CHR 0x22 # rest) = Some (JsonEscape s, rest)"
  by (induction s) (simp_all add: read_raw_escape_char)

lemma read_string_quoted: "read_string (quoted (JsonEscape s) @ rest) = Some (s, rest)"
  by (simp add: read_string_def quoted_def read_raw_escape json_unescape_escape)

text \<open>The text of a number ends where its digits end.\<close>

definition no_digit :: "string \<Rightarrow> bool" where
  "no_digit s \<longleftrightarrow> s = [] \<or> \<not> is_digit (hd s)"

lemma decimal_no_zeros: "hd (decimal n) = CHR ''0'' \<Longrightarrow> length (decimal n) = 1"
proof -
  have "hd (decimal n) \<noteq> CHR ''0''" if "10 \<le> n" for n
    using that
  proof (induction n rule: decimal.induct)
    case (1 n)
    have d: "decimal (n div 10) \<noteq> []" using decimal_digits by blast
    have "hd (decimal (n div 10)) \<noteq> CHR ''0''"
    proof (cases "10 \<le> n div 10")
      case True
      then show ?thesis using 1 by simp
    next
      case False
      have "of_char (char_of (48 + n div 10) :: char) = 48 + n div 10" using False by simp
      moreover have "of_char CHR ''0'' = (48 :: nat)" by simp
      ultimately have "char_of (48 + n div 10) \<noteq> CHR ''0''" using 1(2) by fastforce
      then show ?thesis using False by (subst decimal.simps) simp
    qed
    then show ?case using 1(2) d by (subst decimal.simps) simp
  qed
  moreover assume "hd (decimal n) = CHR ''0''"
  ultimately have "n < 10" by (meson not_le)
  then show ?thesis by (subst decimal.simps) simp
qed

lemma read_nat_decimal:
  assumes "no_digit rest"
  shows "read_nat (decimal n @ rest) = Some (n, rest)"
proof -
  note d = decimal_digits [of n]
  have "takeWhile is_digit rest = []" and "dropWhile is_digit rest = rest"
    using assms by (cases rest; simp add: no_digit_def)+
  then have "takeWhile is_digit (decimal n @ rest) = decimal n"
    and "dropWhile is_digit (decimal n @ rest) = rest"
    using d by (simp_all add: takeWhile_append2 dropWhile_append2)
  then show ?thesis using d decimal_no_zeros [of n] by (auto simp: read_nat_def Let_def)
qed

lemma read_int_number:
  assumes "no_digit rest"
  shows "read_int (json_text (JNum i) @ rest) = Some (i, rest)"
proof (cases "i < 0")
  case True
  then show ?thesis by (simp add: read_int_def read_nat_decimal [OF assms])
next
  case False
  obtain c r where cr: "decimal (nat i) = c # r" and "is_digit c"
    using decimal_digits [of "nat i"] by (cases "decimal (nat i)") auto
  then have "c \<noteq> CHR ''-''" by (auto simp: is_digit_def)
  with False show ?thesis
    using read_nat_decimal [OF assms, of "nat i"] cr by (simp add: read_int_def)
qed

lemma read_members_Cons:
  assumes "read_value f (json_text v @ member_texts ms @ CHR ''}'' # rest) =
      Some (v, member_texts ms @ CHR ''}'' # rest)"
    and "read_members f (member_texts ms @ CHR ''}'' # rest) = Some (ms, rest)"
  shows "read_members (Suc f) (member_texts ((k, v) # ms) @ CHR ''}'' # rest) = Some ((k, v) # ms, rest)"
proof -
  have "member_texts ((k, v) # ms) @ CHR ''}'' # rest = CHR '','' # (quoted (JsonEscape k) @
      CHR '':'' # (json_text v @ member_texts ms @ CHR ''}'' # rest))"
    by (simp add: field_def quoted_def)
  then show ?thesis using assms by (simp add: read_string_quoted)
qed

lemma no_digit_members: "no_digit (member_texts ms @ CHR ''}'' # rest)"
  by (cases ms) (auto simp: no_digit_def field_def is_digit_def)

lemma number_head:
  obtains c r where "json_text (JNum i) = c # r" and "c \<noteq> CHR 0x22" and "c \<noteq> CHR ''{''"
proof (cases "i < 0")
  case True
  then show ?thesis using that by simp
next
  case False
  obtain c r where "decimal (nat i) = c # r" and "is_digit c"
    using decimal_digits [of "nat i"] by (cases "decimal (nat i)") auto
  moreover from this have "c \<noteq> CHR 0x22" and "c \<noteq> CHR ''{''" by (auto simp: is_digit_def)
  ultimately show ?thesis using that False by simp
qed

lemma length_member_texts:
  "length (member_texts ((k, v) # ms)) = length (quoted (JsonEscape k)) + 2 + length (json_text v) +
     length (member_texts ms)"
  by (simp add: field_def quoted_def)

lemma read_back:
  "length (json_text v) \<le> f \<Longrightarrow> no_digit rest \<Longrightarrow> read_value f (json_text v @ rest) = Some (v, rest)"
  "length (member_texts ms) \<le> f \<Longrightarrow> 0 < f \<Longrightarrow>
     read_members f (member_texts ms @ CHR ''}'' # rest) = Some (ms, rest)"
proof (induction v and ms arbitrary: f rest and f rest rule: json_text_member_texts.induct)
  case (1 i)
  obtain c r where cr: "json_text (JNum i) = c # r" "c \<noteq> CHR 0x22" "c \<noteq> CHR ''{''"
    by (rule number_head)
  then obtain g where "f = Suc g" using 1(1) by (cases f) auto
  then show ?case using read_int_number [OF 1(2), of i] cr by simp
next
  case (2 s)
  then obtain g where "f = Suc g" by (cases f) (auto simp: quoted_def)
  then show ?case using read_string_quoted [of s rest] by (simp add: quoted_def)
next
  case 3
  then obtain g where "f = Suc g" by (cases f) auto
  then show ?case by simp
next
  case (4 k v ms)
  have len: "length (json_text (JObj ((k, v) # ms))) = Suc (length (member_texts ((k, v) # ms)))"
    by (simp add: field_def quoted_def)
  obtain g where f: "f = Suc (Suc g)"
    using 4(3) unfolding len length_member_texts by (cases f; cases "f - 1") auto
  have "length (json_text v) \<le> g" and "length (member_texts ms) \<le> g" and "0 < g"
    using 4(3) unfolding len length_member_texts f by (auto simp: quoted_def)
  then have "read_members (Suc g) (member_texts ((k, v) # ms) @ CHR ''}'' # rest) = Some ((k, v) # ms, rest)"
    using 4(1) [OF _ no_digit_members] 4(2) by (intro read_members_Cons) simp_all
  then show ?case unfolding f by (simp add: field_def quoted_def)
next
  case 5
  then obtain g where "f = Suc g" by (cases f) auto
  then show ?case by simp
next
  case (6 k v ms)
  obtain g where f: "f = Suc g" using 6(4) by (cases f) auto
  have "length (json_text v) \<le> g" and "length (member_texts ms) \<le> g" and "0 < g"
    using 6(3) unfolding length_member_texts f by (auto simp: quoted_def)
  then show ?case
    using 6(1) [OF _ no_digit_members] 6(2) unfolding f by (intro read_members_Cons) simp_all
qed

section \<open>What is UTF-8\<close>

text \<open>A document whose strings are.\<close>

fun json_utf8 :: "json \<Rightarrow> bool" and members_utf8 :: "(string \<times> json) list \<Rightarrow> bool" where
  "json_utf8 (JNum i) = True"
| "json_utf8 (JStr s) = utf8 s"
| "json_utf8 (JObj ms) = members_utf8 ms"
| "members_utf8 [] = True"
| "members_utf8 ((k, v) # ms) = (utf8 k \<and> json_utf8 v \<and> members_utf8 ms)"

lemma utf8_Cons: "ascii x \<Longrightarrow> utf8 (x # s) = utf8 s"
  by simp

lemma ascii_hex: "n < 16 \<Longrightarrow> ascii (hex_digit n)"
  by (auto simp: ascii_def hex_digit_def)

lemma JsonEscape_concat: "JsonEscape s = concat (map json_escape_char s)"
  by (induction s) simp_all

lemma utf8_escape [simp]: "utf8 (JsonEscape s) = utf8 s"
proof -
  have "json_escape_char x \<noteq> [] \<and> (\<forall>y \<in> set (json_escape_char x). ascii y)" if "ascii x" for x
    using that by (auto simp: json_escape_char_def Let_def intro: ascii_hex) (simp_all add: ascii_def)
  moreover have "json_escape_char x = [x]" if "\<not> ascii x" for x
    using that by (simp add: json_escape_char_def ascii_def Let_def)
  ultimately show ?thesis unfolding JsonEscape_concat by (rule utf8_replace_ascii)
qed

lemma utf8_quoted: "utf8 (quoted (JsonEscape s) @ t) \<longleftrightarrow> utf8 s \<and> utf8 t"
  using utf8_boundary [of "CHR 0x22" "JsonEscape s" t] by (simp add: quoted_def ascii_def)

lemma utf8_decimal: "utf8 (decimal n @ t) = utf8 t"
proof (rule utf8_ascii_append)
  show "\<forall>x \<in> set (decimal n). ascii x"
    using decimal_digits [of n] by (fastforce simp: is_digit_def ascii_def)
qed

lemma utf8_json_text:
  "utf8 (json_text v @ t) \<longleftrightarrow> json_utf8 v \<and> utf8 t"
  "utf8 (member_texts ms @ t) \<longleftrightarrow> members_utf8 ms \<and> utf8 t"
proof (induction v and ms arbitrary: t and t rule: json_text_member_texts.induct)
  case (1 i)
  then show ?case by (simp add: utf8_decimal utf8_Cons ascii_def)
next
  case (2 s)
  then show ?case by (simp add: utf8_quoted)
next
  case 3
  then show ?case by (simp add: ascii_def)
next
  case (4 k v ms)
  have "utf8 (json_text (JObj ((k, v) # ms)) @ t) \<longleftrightarrow>
      utf8 (quoted (JsonEscape k) @ CHR '':'' # (json_text v @ member_texts ms @ CHR ''}'' # t))"
    by (simp add: ascii_def)
  also have "\<dots> \<longleftrightarrow> utf8 k \<and> utf8 (json_text v @ member_texts ms @ CHR ''}'' # t)"
    unfolding utf8_quoted by (simp add: ascii_def)
  finally show ?case using 4 by (simp add: ascii_def)
next
  case 5
  then show ?case by simp
next
  case (6 k v ms)
  have "utf8 (member_texts ((k, v) # ms) @ t) \<longleftrightarrow>
      utf8 (quoted (JsonEscape k) @ CHR '':'' # (json_text v @ member_texts ms @ t))"
    by (simp add: field_def quoted_def ascii_def)
  also have "\<dots> \<longleftrightarrow> utf8 k \<and> utf8 (json_text v @ member_texts ms @ t)"
    unfolding utf8_quoted by (simp add: ascii_def)
  finally show ?case using 6 by simp
qed

lemma json_read_object:
  "json_read (json_text (JObj ms) @ rest) =
     (if members_utf8 ms \<and> utf8 rest then Some (JObj ms, rest) else None)"
proof -
  have "read_value f (json_text (JObj ms) @ rest) = Some (JObj ms, rest)"
    if len: "length (json_text (JObj ms)) \<le> f" for f
  proof (cases ms)
    case Nil
    then show ?thesis using len by (cases f) simp_all
  next
    case (Cons m ms')
    obtain k v where m: "m = (k, v)" by fastforce
    then obtain g where f: "f = Suc g" using len Cons by (cases f) auto
    have "length (member_texts ms) \<le> g" and "0 < g"
      using len unfolding Cons m f by (auto simp: field_def quoted_def)
    then have "read_members g (member_texts ms @ CHR ''}'' # rest) = Some (ms, rest)"
      by (rule read_back(2))
    then show ?thesis unfolding f Cons m by (simp add: field_def quoted_def)
  qed
  then show ?thesis by (simp add: json_read_def utf8_json_text)
qed

section \<open>The document of an event\<close>

definition uint_json :: "'a::len word \<Rightarrow> json" where
  "uint_json w = JNum (int (unat w))"

definition int_json :: "'a::len word \<Rightarrow> json" where
  "int_json w = JNum (sint w)"

definition entity_string :: "(ProcessEntity \<Rightarrow> string) \<Rightarrow> ProcessEntity option \<Rightarrow> json" where
  "entity_string sel pe = JStr (case pe of Some e \<Rightarrow> sel e | None \<Rightarrow> [])"

definition entity_ticks :: "ProcessEntity option \<Rightarrow> json" where
  "entity_ticks pe = uint_json (case pe of Some e \<Rightarrow> pr_start_time_ticks e | None \<Rightarrow> 0)"

definition task_members :: "event_header \<Rightarrow> string \<Rightarrow> (string \<times> json) list" where
  "task_members h comm =
     [(''pid'', uint_json (hdr_pid h)), (''tgid'', uint_json (hdr_tgid h)),
      (''ppid'', uint_json (hdr_ppid h)), (''uid'', uint_json (hdr_uid h)),
      (''gid'', uint_json (hdr_gid h)), (''comm'', JStr comm)]"

definition entity_members :: "ProcessEntity option \<Rightarrow> (string \<times> json) list" where
  "entity_members pe =
     [(''exec_path'', entity_string pr_exec_path pe), (''cmdline'', entity_string pr_cmdline pe),
      (''cwd'', entity_string pr_cwd pe), (''parent_comm'', entity_string pr_parent_comm pe),
      (''start_time_ticks'', entity_ticks pe)]"

definition endpoint_members :: "string \<Rightarrow> network_endpoint \<Rightarrow> string \<Rightarrow> (string \<times> json) list" where
  "endpoint_members label ep path =
     [(label @ ''_family'', uint_json (ep_family ep)), (label @ ''_port'', uint_json (ep_port ep)),
      (label @ ''_addr_len'', uint_json (ep_addr_len ep)),
      (label @ ''_addr'', JStr (BytesToHex (take (min (unat (ep_addr_len ep)) 16) (ep_addr ep)))),
      (label @ ''_path'', JStr path)]"

primrec payload_members :: "event_variant \<Rightarrow> ProcessEntity option \<Rightarrow> (string \<times> json) list option" where
  "payload_members (ProcessEv ev) pe = Some
     ([(''kind'', uint_json (pe_kind ev)), (''exit_code'', uint_json (pe_exit_code ev)),
       (''child_pid'', uint_json (pe_child_pid ev)), (''filename'', entity_string pr_exec_path pe)]
      @ entity_members pe)"
| "payload_members (FileEv ev) pe =
     (case (c_str (fe_path_a ev), c_str (fe_path_b ev)) of
        (Some a, Some b) \<Rightarrow> Some [(''kind'', uint_json (fe_kind ev)), (''ret'', int_json (fe_ret ev)),
           (''path_a'', JStr a), (''path_b'', JStr b)]
      | _ \<Rightarrow> None)"
| "payload_members (SyscallEv ev) pe = Some
     [(''is_enter'', uint_json (se_is_enter ev)), (''syscall_nr'', int_json (se_syscall_nr ev)),
      (''ret'', int_json (se_ret ev))]"
| "payload_members (NetworkEv ev) pe =
     (case (c_str (ep_path (ne_local ev)), c_str (ep_path (ne_remote ev))) of
        (Some a, Some b) \<Rightarrow> Some
          ([(''event_name'', JStr (NetworkEventKindToString (ne_kind ev))),
            (''kind'', uint_json (ne_kind ev)), (''fd'', int_json (ne_fd ev)),
            (''peer_fd'', int_json (ne_peer_fd ev)), (''ret'', int_json (ne_ret ev)),
            (''domain'', int_json (ne_domain ev)), (''sock_type'', int_json (ne_sock_type ev)),
            (''protocol'', int_json (ne_protocol ev)), (''flags'', int_json (ne_flags ev)),
            (''backlog'', int_json (ne_backlog ev)), (''how'', int_json (ne_how ev)),
            (''opt_level'', int_json (ne_opt_level ev)), (''opt_name'', int_json (ne_opt_name ev)),
            (''opt_len'', int_json (ne_opt_len ev)),
            (''optval_prefix'', JStr (map byte_char (ne_optval_prefix ev))),
            (''flow_id'', uint_json (ne_flow_id ev)), (''socket_id'', uint_json (ne_socket_id ev)),
            (''direction'', JStr (NetworkDirectionToString (ne_direction ev))),
            (''transport'', JStr (NetworkTransportToString (ne_transport ev))),
            (''bytes_requested'', uint_json (ne_bytes_requested ev)),
            (''bytes_transferred'', uint_json (ne_bytes_transferred ev)),
            (''bytes_captured'', uint_json (ne_bytes_captured ev)),
            (''bytes_truncated'', uint_json (ne_bytes_truncated ev))]
           @ endpoint_members ''local'' (ne_local ev) a @ endpoint_members ''remote'' (ne_remote ev) b)
      | _ \<Rightarrow> None)"

definition event_members :: "ResolvedEvent \<Rightarrow> (string \<times> json) list option" where
  "event_members c =
     (let h = ev_hdr (ce_raw c); pe = ce_subject_process c
      in case (c_str (hdr_comm h), payload_members (ce_raw c) pe) of
           (Some comm, Some payload) \<Rightarrow> Some
             ([(''ts_ns'', uint_json (hdr_ts_ns h)), (''type'', JStr (EventTypeToString (hdr_type h)))]
              @ task_members h comm
              @ [(''process_info'', JObj (task_members h comm @ entity_members pe)),
                 (''entity_id'', uint_json (er_id (ce_subject c)))]
              @ (if er_id (ce_object_ref c) \<noteq> 0
                 then [(''object_entity_id'', uint_json (er_id (ce_object_ref c)))] else [])
              @ payload)
         | _ \<Rightarrow> None)"

section \<open>The code writes the document\<close>

lemma json_escape_plain:
  assumes "32 \<le> (of_char c :: nat)" and "c \<noteq> CHR 0x22" and "c \<noteq> CHR 0x5C"
  shows "json_escape_char c = [c]"
proof -
  have "of_char c \<noteq> (34 :: nat)" and "of_char c \<noteq> (92 :: nat)"
    using assms(2,3) by (auto simp flip: of_char_eq_iff [where 'a = nat])
  then show ?thesis using assms(1) by (simp add: json_escape_char_def Let_def)
qed

lemma JsonEscape_plain:
  assumes "\<forall>c \<in> set s. 32 \<le> (of_char c :: nat) \<and> c \<noteq> CHR 0x22 \<and> c \<noteq> CHR 0x5C"
  shows "JsonEscape s = s"
  using assms by (induction s) (simp_all add: json_escape_plain)

lemma JsonEscape_hex: "JsonEscape (BytesToHex bs) = BytesToHex bs"
proof (induction bs)
  case (Cons b bs)
  have "unat b div 16 < 16" using unat_byte_lt [of b] by simp
  with Cons show ?case by (simp add: json_escape_plain hex_digit_plain hex_digit_printable)
qed simp

lemma JsonEscape_labels:
  "JsonEscape (EventTypeToString t) = EventTypeToString t"
  "JsonEscape (NetworkEventKindToString k) = NetworkEventKindToString k"
  "JsonEscape (NetworkDirectionToString d) = NetworkDirectionToString d"
  "JsonEscape (NetworkTransportToString r) = NetworkTransportToString r"
  by (rule JsonEscape_plain; simp add: EventTypeToString_def NetworkEventKindToString_def
      NetworkDirectionToString_def NetworkTransportToString_def)+

lemma json_text_numbers:
  "json_text (uint_json w) = out_uint w" "json_text (int_json w) = out_int w"
  by (simp_all add: uint_json_def int_json_def out_uint_def out_int_def)

lemma json_text_entity:
  "json_text (entity_string sel pe) = pe_str sel pe" "json_text (entity_ticks pe) = pe_ticks pe"
  by (simp_all add: entity_string_def entity_ticks_def pe_str_def pe_ticks_def json_text_numbers)

lemma member_texts_append: "member_texts (ms @ ns) = member_texts ms @ member_texts ns"
  by (induction ms rule: induct_list012) auto

lemma member_texts_plain:
  assumes "\<forall>c \<in> set k. 32 \<le> (of_char c :: nat) \<and> c \<noteq> CHR 0x22 \<and> c \<noteq> CHR 0x5C"
  shows "member_texts ((k, v) # ms) = field k (json_text v) @ member_texts ms"
  using JsonEscape_plain [OF assms] by simp


lemma json_text_string: "json_text (JStr s) = quoted (JsonEscape s)"
  by simp

lemmas document_text =
  member_texts_plain member_texts_append json_text_numbers json_text_entity json_text_string
  JsonEscape_labels JsonEscape_hex json_escape_plain

lemma header_text:
  "WriteHeader h = map_option (\<lambda>comm. quoted ''ts_ns'' @ '':'' @ out_uint (hdr_ts_ns h) @
     member_texts ((''type'', JStr (EventTypeToString (hdr_type h))) # task_members h comm))
   (c_str (hdr_comm h))"
  by (simp add: WriteHeader_def JsonEscape_c_def task_members_def document_text split: option.split)

lemma info_text:
  "WriteProcessInfo h pe = map_option (\<lambda>comm. member_texts
     [(''process_info'', JObj (task_members h comm @ entity_members pe))]) (c_str (hdr_comm h))"
  by (simp add: WriteProcessInfo_def JsonEscape_c_def task_members_def entity_members_def document_text
      split: option.split)


lemma endpoint_text:
  assumes "label = ''local'' \<or> label = ''remote''"
  shows "WriteNetworkEndpoint label ep =
    map_option (\<lambda>path. member_texts (endpoint_members label ep path)) (c_str (ep_path ep))"
  using assms
  by (auto simp: WriteNetworkEndpoint_def JsonEscape_c_def endpoint_members_def document_text Let_def
      split: option.split)

lemma payload_text: "WritePayload e pe = map_option member_texts (payload_members e pe)"
proof (cases e)
  case (ProcessEv ev)
  then show ?thesis by (simp add: WriteProcessBody_def entity_members_def document_text)
next
  case (FileEv ev)
  then show ?thesis
    by (simp add: WriteFileBody_def JsonEscape_c_def document_text split: option.split)
next
  case (SyscallEv ev)
  then show ?thesis by (simp add: WriteSyscallBody_def document_text)
next
  case (NetworkEv ev)
  then show ?thesis
    by (simp add: WriteNetworkBody_def endpoint_text document_text split: option.split)
qed

lemma line_is_document:
  "serialized_line c = map_option (\<lambda>ms. json_text (JObj ms) @ [CHR 0x0A]) (event_members c)"
  by (simp add: serialized_line_def WriteEventBody_def event_members_def header_text info_text
      payload_text member_texts_append document_text Let_def split: option.split)


text \<open>No key occurs twice, so a reader that keeps the first or the last of two cannot go wrong.\<close>

lemma payload_keys:
  "payload_members e pe = Some ms \<Longrightarrow> distinct (map fst ms) \<and>
     set (map fst ms) \<inter> {''ts_ns'', ''type'', ''pid'', ''tgid'', ''ppid'', ''uid'', ''gid'', ''comm'',
       ''process_info'', ''entity_id'', ''object_entity_id''} = {}"
  by (cases e) (auto simp: entity_members_def endpoint_members_def split: option.splits)

lemma document_keys:
  assumes "event_members c = Some ms"
  shows "distinct (map fst ms)"
proof -
  obtain comm payload where p: "payload_members (ce_raw c) (ce_subject_process c) = Some payload"
    and ms: "ms = [(''ts_ns'', uint_json (hdr_ts_ns (ev_hdr (ce_raw c)))),
        (''type'', JStr (EventTypeToString (hdr_type (ev_hdr (ce_raw c)))))]
      @ task_members (ev_hdr (ce_raw c)) comm
      @ [(''process_info'', JObj (task_members (ev_hdr (ce_raw c)) comm @
            entity_members (ce_subject_process c))), (''entity_id'', uint_json (er_id (ce_subject c)))]
      @ (if er_id (ce_object_ref c) \<noteq> 0
         then [(''object_entity_id'', uint_json (er_id (ce_object_ref c)))] else [])
      @ payload"
    using assms by (auto simp: event_members_def Let_def split: option.splits)
  have "distinct (map fst (task_members h comm @ entity_members pe))" for h pe
    by (simp add: task_members_def entity_members_def)
  then show ?thesis
    using payload_keys [OF p] unfolding ms by (auto simp: task_members_def)
qed

end
