(* ===== verification/Sink_Properties.thy ===== *)
theory Sink_Properties
  imports Json_Sink Json_Document
begin

text \<open>
  What the file sink promises: the file is the log of the written lines, it stays within its limit,
  a crash loses few records; and what happens to it when the system refuses.
\<close>

section \<open>A concrete event and sink\<close>

definition demo_header :: event_header where
  "demo_header = \<lparr>hdr_ts_ns = 5, hdr_type = EVENT_TYPE_SYSCALL, hdr_size = 80, hdr_pid = 100,
     hdr_tgid = 100, hdr_ppid = 1, hdr_uid = 0, hdr_gid = 0, hdr_comm = 99 # replicate 15 0\<rparr>"

definition demo_resolved :: ResolvedEvent where
  "demo_resolved = CanonicalEvent.extend
     (default_canonical (SyscallEv \<lparr>se_hdr = demo_header, se_is_enter = 1, se_syscall_nr = 1,
        se_arg0 = 0, se_arg1 = 0, se_arg2 = 0, se_ret = -1\<rparr>)) \<lparr>ce_subject_process = None\<rparr>"

definition demo_line :: string where
  "demo_line = the (serialized_line demo_resolved)"

lemma demo_line_length:
  "case serialized_line demo_resolved of None \<Rightarrow> False | Some l \<Rightarrow> length l < 1000"
  by code_simp

lemma demo_line: "serialized_line demo_resolved = Some demo_line" "length demo_line < 2 ^ 63"
  using demo_line_length by (auto simp: demo_line_def split: option.splits)

lemma line_read:
  assumes "serialized_line c = Some line"
  shows "\<exists>ms body. event_members c = Some ms \<and> distinct (map fst ms) \<and>
    json_read line = (if members_utf8 ms then Some (JObj ms, [CHR 0x0A]) else None) \<and>
    line = body @ [CHR 0x0A] \<and> (\<forall>ch \<in> set body. 32 \<le> (of_char ch :: nat))"
proof -
  obtain body where "WriteEventBody c = Some body" and line: "line = ''{'' @ body @ ''}'' @ [CHR 0x0A]"
    using assms by (auto simp: serialized_line_def)
  then have "printable (''{'' @ body @ ''}'')" using printable_body by simp
  moreover obtain ms where ms: "event_members c = Some ms" "line = json_text (JObj ms) @ [CHR 0x0A]"
    using assms unfolding line_is_document by blast
  moreover have "json_read line = (if members_utf8 ms then Some (JObj ms, [CHR 0x0A]) else None)"
    unfolding ms(2) json_read_object by (simp add: ascii_def)
  moreover have "line = (''{'' @ body @ ''}'') @ [CHR 0x0A]" using line by simp
  ultimately show ?thesis
    using document_keys [OF ms(1)] unfolding printable_def by blast
qed

text \<open>
  C3. One event, one line: the text written for an event ends in a newline and holds no other control
  character. When every string of the event is UTF-8, a JSON reader gets from the line exactly the
  document of the event, with every number and every byte of every string, under keys of which none
  occurs twice. When one is not, as a path, a command name or a binary option value may be, the line
  is not JSON and a conforming reader refuses the whole of it: the bytes are written as they are.
\<close>

theorem line_reads_back:
  assumes "serialized_line c = Some line"
  shows "\<exists>ms body. event_members c = Some ms \<and> distinct (map fst ms) \<and>
    json_read line = (if members_utf8 ms then Some (JObj ms, [CHR 0x0A]) else None) \<and>
    line = body @ [CHR 0x0A] \<and> (\<forall>ch \<in> set body. 32 \<le> (of_char ch :: nat))"
  using assms by (rule line_read)

text \<open>The same event of a task whose name is the byte E9, an e with an acute accent in Latin-1.\<close>

definition demo_latin :: ResolvedEvent where
  "demo_latin = CanonicalEvent.extend
     (default_canonical (SyscallEv \<lparr>se_hdr = demo_header\<lparr>hdr_comm := 0xE9 # replicate 15 0\<rparr>,
        se_is_enter = 1, se_syscall_nr = 1, se_arg0 = 0, se_arg1 = 0, se_arg2 = 0, se_ret = -1\<rparr>))
     \<lparr>ce_subject_process = None\<rparr>"

theorem line_reads_back_witness:
  "(\<exists>ms. json_read demo_line = Some (JObj ms, [CHR 0x0A]) \<and> map_of ms ''ret'' = Some (JNum (-1)) \<and>
      map_of ms ''comm'' = Some (JStr ''c'')) \<and>
   (\<exists>line. serialized_line demo_latin = Some line \<and> json_read line = None)"
proof
  have "case event_members demo_resolved of None \<Rightarrow> False | Some ms \<Rightarrow> members_utf8 ms \<and>
      map_of ms ''ret'' = Some (JNum (-1)) \<and> map_of ms ''comm'' = Some (JStr ''c'')"
    by code_simp
  then show "\<exists>ms. json_read demo_line = Some (JObj ms, [CHR 0x0A]) \<and>
      map_of ms ''ret'' = Some (JNum (-1)) \<and> map_of ms ''comm'' = Some (JStr ''c'')"
    using line_reads_back [OF demo_line(1)] by (auto split: option.splits)
  have "case event_members demo_latin of None \<Rightarrow> False | Some ms \<Rightarrow> \<not> members_utf8 ms"
    by code_simp
  then obtain ms where ms: "event_members demo_latin = Some ms" "\<not> members_utf8 ms"
    by (auto split: option.splits)
  then have "serialized_line demo_latin = Some (json_text (JObj ms) @ [CHR 0x0A])"
    by (simp add: line_is_document)
  then show "\<exists>line. serialized_line demo_latin = Some line \<and> json_read line = None"
    using line_reads_back [of demo_latin] ms by fastforce
qed

lemma members_utf8_member: "members_utf8 ms \<Longrightarrow> (k, JStr s) \<in> set ms \<Longrightarrow> utf8 s"
  by (induction ms) auto

text \<open>
  A socket option value is data of any kind, and its first bytes are written as a string: when they
  are not UTF-8, the record of that \<open>setsockopt\<close> or \<open>getsockopt\<close> is lost to every JSON reader.
\<close>

lemma binary_option_value_breaks_line:
  assumes "ce_raw c = NetworkEv ev" and "\<not> utf8 (map byte_char (ne_optval_prefix ev))"
    and "serialized_line c = Some line"
  shows "json_read line = None"
proof -
  obtain ms where ms: "event_members c = Some ms"
    "json_read line = (if members_utf8 ms then Some (JObj ms, [CHR 0x0A]) else None)"
    using line_read [OF assms(3)] by blast
  have "(''optval_prefix'', JStr (map byte_char (ne_optval_prefix ev))) \<in> set ms"
    using ms(1) assms(1) by (auto simp: event_members_def Let_def split: option.splits)
  then show ?thesis using ms(2) members_utf8_member assms(2) by auto
qed

text \<open>A system that grants everything, writes 10 bytes through, and whose clock stands still.\<close>

definition demo_sink_env :: sink_env where
  "demo_sink_env = \<lparr>si_exists = False, si_file_size = None, si_removed = True,
     si_open_trunc = True, si_open_app = True, si_write_ok = True, si_force_ok = True,
     si_maybe_ok = True, si_through = 10, si_now_open = 0, si_now_force = 0, si_now_maybe = 0\<rparr>"

definition demo_sink :: JsonSink where
  "demo_sink = JsonSink_new demo_sink_env None 400"

lemma demo_sink_env_ok: "sink_env_ok demo_sink_env"
  by (simp add: sink_env_ok_def demo_sink_env_def)

lemma demo_sink_limit: "max_file_size_bytes demo_sink = 400"
  by (simp add: demo_sink_def JsonSink_new_def OpenFileAppend_def stream_open_def Let_def
      demo_sink_env_def)

lemma demo_sink_shows: "sink_shows demo_sink [[]]"
  using JsonSink_new_shows [of demo_sink_env None 400]
  by (simp add: demo_sink_def demo_sink_env_def)

text \<open>Events the sink can serialize, written while the system grants everything.\<close>

definition writable_events :: "(sink_env \<times> ResolvedEvent) list \<Rightarrow> bool" where
  "writable_events evs \<longleftrightarrow>
     (\<forall>(env, c) \<in> set evs. sink_env_ok env \<and> (\<exists>l. serialized_line c = Some l \<and> length l < 2 ^ 63))"

lemma writable_eventsD: "writable_events evs \<Longrightarrow> json_sink.writable evs"
  unfolding writable_events_def json_sink.writable_def .

lemma demo_writable: "writable_events [(demo_sink_env, demo_resolved), (demo_sink_env, demo_resolved)]"
  using demo_sink_env_ok demo_line unfolding writable_events_def by simp

section \<open>The file as a log\<close>

text \<open>The lines of a stream of writable events.\<close>

definition event_lines :: "(sink_env \<times> ResolvedEvent) list \<Rightarrow> string list" where
  "event_lines evs = map (the \<circ> serialized_line \<circ> snd) evs"

text \<open>
  C15. Refinement: as long as the system grants what the sink asks for, writing any stream of events
  makes the file and the stream's buffer together the abstract log, in which a line that fits the
  limit is appended and any other starts a new file. No line is torn or written twice, and only a
  new file drops lines, all of the old one at once.
\<close>

theorem sink_refines_log:
  assumes "sink_shows js ls" and "writable_events evs"
  shows "\<exists>js'. write_all Write evs js = Some js' \<and>
    sink_text js' = concat (fold (log_write (max_file_size_bytes js)) (event_lines evs) ls)"
  using json_sink.write_all_shows [OF assms(1) writable_eventsD [OF assms(2)]] unfolding sink_shows_def event_lines_def by blast

theorem sink_refines_log_witness:
  "\<exists>js'. write_all Write [(demo_sink_env, demo_resolved), (demo_sink_env, demo_resolved)] demo_sink = Some js' \<and>
    sink_text js' = concat (fold (log_write 400) [demo_line, demo_line] [[]])"
  using sink_refines_log [OF demo_sink_shows demo_writable]
  by (simp add: event_lines_def demo_line demo_sink_limit)

text \<open>
  After any stream of events the file and the buffer hold the newest written lines, whole and in
  order, the very last one included: rollover only ever drops from the old end.
\<close>

theorem newest_lines_survive:
  assumes "sink_shows js ls" and "writable_events evs" and "evs \<noteq> []"
  shows "\<exists>js' k. write_all Write evs js = Some js' \<and>
    sink_text js' = concat (drop k (ls @ event_lines evs)) \<and> k < length (ls @ event_lines evs)"
proof -
  let ?lim = "max_file_size_bytes js" and ?lines = "event_lines evs"
  obtain js' where js': "write_all Write evs js = Some js'"
    "sink_shows js' (fold (log_write ?lim) ?lines ls)"
    using json_sink.write_all_shows [OF assms(1) writable_eventsD [OF assms(2)]] unfolding event_lines_def by blast
  obtain k where k: "fold (log_write ?lim) ?lines ls = drop k (ls @ ?lines)"
    using json_sink.log_is_newest by blast
  have "?lines \<noteq> []" using assms(3) by (simp add: event_lines_def)
  then have "drop k (ls @ ?lines) \<noteq> []" using json_sink.newest_is_last k by metis
  then have "k < length (ls @ ?lines)" using drop_eq_Nil not_le by metis
  then show ?thesis using js' k unfolding sink_shows_def by auto
qed

text \<open>
  C23. The limit holds: after every write the file with its buffered tail is within the configured
  size, unless it consists of a single record that is larger than the limit itself.
\<close>

theorem sink_file_bounded:
  assumes "sink_shows js ls" and "writable_events (evs @ [(env, c)])"
    and "max_file_size_bytes js \<noteq> 0" and "serialized_line c = Some line"
  shows "\<exists>js'. write_all Write (evs @ [(env, c)]) js = Some js' \<and>
    (length (sink_text js') \<le> unat (max_file_size_bytes js) \<or> sink_text js' = line)"
proof -
  let ?lim = "max_file_size_bytes js"
  obtain js' where js': "write_all Write (evs @ [(env, c)]) js = Some js'"
    "sink_shows js' (fold (log_write ?lim) (event_lines (evs @ [(env, c)])) ls)"
    using json_sink.write_all_shows [OF assms(1) writable_eventsD [OF assms(2)]] unfolding event_lines_def by blast
  then have "sink_text js' = concat (log_write ?lim line (fold (log_write ?lim) (event_lines evs) ls))"
    using assms(4) by (simp add: sink_shows_def event_lines_def)
  then have "length (sink_text js') \<le> unat ?lim \<or> sink_text js' = line"
    using assms(3) by (auto simp: log_write_def log_kept_def)
  then show ?thesis using js'(1) by blast
qed

theorem sink_file_bounded_witness:
  "\<exists>js'. write_all Write [(demo_sink_env, demo_resolved), (demo_sink_env, demo_resolved)] demo_sink = Some js' \<and>
    (length (sink_text js') \<le> 400 \<or> sink_text js' = demo_line)"
  using sink_file_bounded [OF demo_sink_shows, of "[(demo_sink_env, demo_resolved)]" demo_sink_env
      demo_resolved demo_line] demo_writable
  by (simp add: demo_line demo_sink_limit)

text \<open>
  C24. Crash loss is bounded: at any moment the file itself, without the stream's buffer, holds all
  but at most the last 255 records of the log, however little the stream writes through.
\<close>

theorem crash_loses_few_records:
  assumes "sink_shows js ls" and "writable_events evs"
  shows "\<exists>js' log k. write_all Write evs js = Some js' \<and>
    log = fold (log_write (max_file_size_bytes js)) (event_lines evs) ls \<and> k \<le> 255 \<and>
    prefix (concat (take (length log - k) log)) (file_content js')"
proof -
  obtain js' where js': "write_all Write evs js = Some js'"
    "sink_shows js' (fold (log_write (max_file_size_bytes js)) (event_lines evs) ls)"
    using json_sink.write_all_shows [OF assms(1) writable_eventsD [OF assms(2)]] unfolding event_lines_def by blast
  obtain k where "k \<le> unat (pending_records_since_flush js')"
    and "prefix (concat (take (length (fold (log_write (max_file_size_bytes js)) (event_lines evs) ls) - k)
      (fold (log_write (max_file_size_bytes js)) (event_lines evs) ls))) (file_content js')"
    using sink_showsD(9) [OF js'(2)] unfolding on_disk_def by blast
  moreover have "k \<le> 255" using calculation(1) sink_showsD(8) [OF js'(2)] by simp
  ultimately show ?thesis using js'(1) by blast
qed

theorem crash_loses_few_records_witness:
  "\<exists>js' log k. write_all Write [(demo_sink_env, demo_resolved), (demo_sink_env, demo_resolved)] demo_sink = Some js' \<and>
    log = fold (log_write 400) [demo_line, demo_line] [[]] \<and> k \<le> 255 \<and>
    prefix (concat (take (length log - k) log)) (file_content js')"
  using crash_loses_few_records [OF demo_sink_shows demo_writable]
  by (simp add: event_lines_def demo_line demo_sink_limit)

section \<open>When the system refuses\<close>

text \<open>
  C37. A failed rollover is final: when the truncating open is refused, the sink stops, the records
  of the old file are gone once it was removed, and no later event changes anything, whatever the
  system would grant by then.
\<close>

theorem failed_rotation_is_final:
  assumes "ready js" and "js_open js" and "max_file_size_bytes js \<noteq> 0" and "serialized_line c = Some line"
    and "current_file_size_bytes js + of_nat (length line) > max_file_size_bytes js"
    and "\<not> si_open_trunc env" and "si_removed env"
  shows "\<exists>js'. Write env c js = Some js' \<and> \<not> ready js' \<and> js_file js' = None \<and>
    write_all Write evs js' = Some js'"
proof -
  have stuck: "\<not> ready js' \<Longrightarrow> write_all Write evs js' = Some js'" for js'
    by (induction evs) (auto simp: Write_def)
  obtain js' where "RotateIfNeeded env (of_nat (length line)) js = (False, js')" "js_file js' = None"
    using assms(2,3,5-7) by (auto simp: RotateIfNeeded_def ForceFlush_def stream_close_def
        stream_open_def stream_flush_def Let_def not_less [symmetric])
  then have "Write env c js = Some (js'\<lparr>ready := False\<rparr>)"
    using assms(1,4) by (simp add: Write_def write_line_def)
  moreover have "js_file (js'\<lparr>ready := False\<rparr>) = None" using \<open>js_file js' = None\<close> by simp
  ultimately show ?thesis using stuck [of "js'\<lparr>ready := False\<rparr>"] by auto
qed

theorem failed_rotation_is_final_witness:
  "\<exists>js'. Write (demo_sink_env\<lparr>si_open_trunc := False\<rparr>) demo_resolved
      (demo_sink\<lparr>current_file_size_bytes := 400, max_file_size_bytes := 1\<rparr>) = Some js' \<and>
    \<not> ready js' \<and> js_file js' = None"
proof -
  have "length demo_line < 1000" using demo_line_length by (simp add: demo_line)
  then have "unat (of_nat (400 + length demo_line) :: u64) = 400 + length demo_line"
    by (intro unat_of_nat_u64) simp
  then have over: "(1 :: u64) < 400 + of_nat (length demo_line)"
    by (simp add: word_less_nat_alt)
  let ?js = "demo_sink\<lparr>current_file_size_bytes := 400, max_file_size_bytes := 1\<rparr>"
  have "\<exists>js'. Write (demo_sink_env\<lparr>si_open_trunc := False\<rparr>) demo_resolved ?js = Some js' \<and>
      \<not> ready js' \<and> js_file js' = None \<and> write_all Write [] js' = Some js'"
    by (rule failed_rotation_is_final [where line = demo_line])
      (use over demo_line(1) sink_showsD(1,2) [OF demo_sink_shows] in
        \<open>simp_all add: demo_sink_env_def del: of_nat_add\<close>)
  then show ?thesis by blast
qed

lemma MaybeFlush_failed:
  assumes "js_failed js"
  shows "ready (MaybeFlush env js) = ready js" "js_failed (MaybeFlush env js)"
    "js_file (MaybeFlush env js) = js_file js"
    "current_file_size_bytes (MaybeFlush env js) = current_file_size_bytes js"
  using assms by (simp_all add: MaybeFlush_def stream_flush_def Let_def)

text \<open>
  C38. A failed stream goes unnoticed: once the stream has its error bit, an event that fits under
  the limit leaves the file as it is, yet the sink stays ready and counts the lost bytes, until the
  counted bytes reach the limit.
\<close>

theorem failed_stream_goes_unnoticed:
  assumes "ready js" and "js_open js" and "js_failed js" and "serialized_line c = Some line"
    and "max_file_size_bytes js = 0 \<or>
      current_file_size_bytes js + of_nat (length line) \<le> max_file_size_bytes js"
  shows "\<exists>js'. Write env c js = Some js' \<and> ready js' \<and> js_failed js' \<and> js_file js' = js_file js \<and>
    current_file_size_bytes js' = current_file_size_bytes js + of_nat (length line)"
proof -
  let ?n = "of_nat (length line)"
  let ?js = "js\<lparr>current_file_size_bytes := current_file_size_bytes js + ?n,
    pending_records_since_flush := pending_records_since_flush js + 1\<rparr>"
  have "RotateIfNeeded env ?n js = (True, js)" using assms(5) by (auto simp: RotateIfNeeded_def)
  moreover have "stream_put (si_through env) (si_write_ok env) line js = js"
    using assms(3) by (simp add: stream_put_def)
  ultimately have "Write env c js = Some (MaybeFlush env ?js)"
    using assms(1,4) by (simp add: Write_def write_line_def)
  then show ?thesis using MaybeFlush_failed [of ?js env] assms(1,3) by simp
qed

theorem failed_stream_goes_unnoticed_witness:
  "\<exists>js'. Write demo_sink_env demo_resolved
      (demo_sink\<lparr>js_failed := True, max_file_size_bytes := 0\<rparr>) = Some js' \<and> ready js' \<and>
    js_file js' = js_file demo_sink"
  using failed_stream_goes_unnoticed [of "demo_sink\<lparr>js_failed := True, max_file_size_bytes := 0\<rparr>"
      demo_resolved demo_line demo_sink_env] sink_showsD(1,2) [OF demo_sink_shows]
  by (auto simp: demo_line)

end
