(* ===== verification/Registry_Facts.thy ===== *)
theory Registry_Facts
  imports Entity_Registry
begin

text \<open>
  What the registry keeps: every index entry leads to a live entity of that key, ids are the keys
  they are stored under and are never handed out twice, and the number of entities is bounded. The
  operations' lemmas come first, then what an event does to the identity of its actor.
\<close>

section \<open>The invariant\<close>

definition reg_inv :: "nat \<Rightarrow> EntityRegistry \<Rightarrow> bool" where
  "reg_inv cap r \<longleftrightarrow>
     next_id r \<noteq> 0 \<and> finite (dom (processes_by_id r)) \<and> card (dom (processes_by_id r)) \<le> cap \<and>
     (\<forall>i e. processes_by_id r i = Some e \<longrightarrow> pr_id e = i \<and> i \<noteq> 0 \<and> i < next_id r) \<and>
     (\<forall>k i. tgid_index r k = Some i \<longrightarrow>
        (\<exists>e. processes_by_id r i = Some e \<and> entity_key e = k \<and> \<not> pr_exited e))"

text \<open>Between an insertion and the eviction that follows it the cap may be exceeded by one.\<close>

abbreviation reg_ok :: "EntityRegistry \<Rightarrow> bool" where
  "reg_ok \<equiv> reg_inv kMaxEntries"

lemma reg_invD:
  assumes "reg_inv cap r"
  shows "next_id r \<noteq> 0" and "finite (dom (processes_by_id r))"
    and "card (dom (processes_by_id r)) \<le> cap"
    and "processes_by_id r i = Some e \<Longrightarrow> pr_id e = i \<and> i \<noteq> 0 \<and> i < next_id r"
    and "tgid_index r k = Some i \<Longrightarrow>
      \<exists>e. processes_by_id r i = Some e \<and> entity_key e = k \<and> \<not> pr_exited e"
  using assms unfolding reg_inv_def by blast+

lemma reg_invI:
  assumes "next_id r \<noteq> 0" and "finite (dom (processes_by_id r))"
    and "card (dom (processes_by_id r)) \<le> cap"
    and "\<And>i e. processes_by_id r i = Some e \<Longrightarrow> pr_id e = i \<and> i \<noteq> 0 \<and> i < next_id r"
    and "\<And>k i. tgid_index r k = Some i \<Longrightarrow>
      \<exists>e. processes_by_id r i = Some e \<and> entity_key e = k \<and> \<not> pr_exited e"
  shows "reg_inv cap r"
  using assms unfolding reg_inv_def by blast

lemma reg_ok_empty: "reg_ok empty_registry"
  by (rule reg_invI) (simp_all add: empty_registry_def)

lemma reg_inv_next_None: "reg_inv cap r \<Longrightarrow> processes_by_id r (next_id r) = None"
  using reg_invD(4) [of cap r "next_id r"] by (cases "processes_by_id r (next_id r)") auto

text \<open>At most as many index entries as entities.\<close>

lemma index_bounded:
  assumes "reg_ok r"
  shows "card (dom (tgid_index r)) \<le> kMaxEntries"
proof -
  let ?m = "processes_by_id r"
  have "dom (tgid_index r) \<subseteq> (\<lambda>i. entity_key (the (?m i))) ` dom ?m"
  proof
    fix k assume "k \<in> dom (tgid_index r)"
    then obtain i where "tgid_index r k = Some i" by auto
    then obtain e where "?m i = Some e" "entity_key e = k" using reg_invD(5) [OF assms] by blast
    then have "k = entity_key (the (?m i))" and "i \<in> dom ?m" by auto
    then show "k \<in> (\<lambda>i. entity_key (the (?m i))) ` dom ?m" by blast
  qed
  then have "card (dom (tgid_index r)) \<le> card (dom ?m)"
    using reg_invD(2) [OF assms] by (meson card_image_le card_mono finite_imageI le_trans)
  then show ?thesis using reg_invD(3) [OF assms] by simp
qed

section \<open>Updating an entity in place\<close>

lemma entity_fields [simp]:
  "pr_id (UpdateFast e a now) = pr_id e" "pr_exited (UpdateFast e a now) = pr_exited e"
  "entity_key (UpdateFast e a now) = actor_key a" "pr_pid (UpdateFast e a now) = ac_pid a"
  "pr_tgid (UpdateFast e a now) = ac_tgid a" "pr_ppid (UpdateFast e a now) = ac_ppid a"
  "pr_uid (UpdateFast e a now) = ac_uid a" "pr_gid (UpdateFast e a now) = ac_gid a"
  "pr_last_seen_ns (UpdateFast e a now) = now"
  "pr_parent_id (UpdateFast e a now) = pr_parent_id e"
  by (simp_all add: UpdateFast_def Let_def entity_key_def actor_key_def)

lemmas refresh_defs =
  refresh_exe_def refresh_cwd_def refresh_cmdline_def refresh_comm_def refresh_parent_comm_def
  refresh_start_time_def Let_def

text \<open>What no refresh step touches, as one value.\<close>

definition fast_fields :: "ProcessEntity \<Rightarrow> u64 \<times> bool \<times> u32 \<times> u32 \<times> u32 \<times> u32 \<times> u32 \<times> u64 \<times> u64" where
  "fast_fields e = (pr_id e, pr_exited e, pr_pid e, pr_tgid e, pr_ppid e, pr_uid e, pr_gid e,
     pr_last_seen_ns e, pr_parent_id e)"

lemma refresh_fast_fields [simp]:
  "fast_fields (refresh_exe fs key e) = fast_fields e"
  "fast_fields (refresh_cwd fs key e) = fast_fields e"
  "fast_fields (refresh_cmdline fs key e) = fast_fields e"
  "fast_fields (refresh_comm fs key e) = fast_fields e"
  "fast_fields (refresh_parent_comm fs e) = fast_fields e"
  "fast_fields (refresh_start_time fs key e) = fast_fields e"
  by (simp_all add: refresh_defs fast_fields_def)

lemma RefreshRich_fast_fields: "fast_fields (RefreshRich fs e key) = fast_fields e"
  by (simp add: RefreshRich_def Let_def)

lemma RefreshRich_fields [simp]:
  "pr_id (RefreshRich fs e key) = pr_id e" "pr_exited (RefreshRich fs e key) = pr_exited e"
  "pr_pid (RefreshRich fs e key) = pr_pid e" "pr_tgid (RefreshRich fs e key) = pr_tgid e"
  "pr_ppid (RefreshRich fs e key) = pr_ppid e" "pr_uid (RefreshRich fs e key) = pr_uid e"
  "pr_gid (RefreshRich fs e key) = pr_gid e"
  "pr_last_seen_ns (RefreshRich fs e key) = pr_last_seen_ns e"
  "pr_parent_id (RefreshRich fs e key) = pr_parent_id e"
  using RefreshRich_fast_fields [of fs e key] by (simp_all add: fast_fields_def)

lemma entity_key_RefreshRich [simp]: "entity_key (RefreshRich fs e key) = entity_key e"
  by (simp add: entity_key_def)

lemma IsReused_result:
  "snd (IsReused fs e key now) \<in> {e, e\<lparr>pr_last_identity_check_ns := now\<rparr>}"
  by (simp add: IsReused_def Let_def)

lemma IsReused_fields:
  assumes "IsReused fs e key now = (b, e')"
  shows "pr_id e' = pr_id e" and "pr_exited e' = pr_exited e" and "entity_key e' = entity_key e"
    and "pr_exec_path e' = pr_exec_path e" and "pr_start_time_ticks e' = pr_start_time_ticks e"
proof -
  have "e' = e \<or> e' = e\<lparr>pr_last_identity_check_ns := now\<rparr>"
    using IsReused_result [of fs e key now] assms by simp
  then show "pr_id e' = pr_id e" "pr_exited e' = pr_exited e" "entity_key e' = entity_key e"
    "pr_exec_path e' = pr_exec_path e" "pr_start_time_ticks e' = pr_start_time_ticks e"
    by (elim disjE; simp add: entity_key_def)+
qed

text \<open>Replacing an indexed entity by one of the same id, key and liveness.\<close>

lemma reg_inv_update:
  assumes r: "reg_inv cap r" and e: "processes_by_id r i = Some e"
    and same: "pr_id e' = pr_id e" "entity_key e' = entity_key e" "pr_exited e' = pr_exited e"
  shows "reg_inv cap (r\<lparr>processes_by_id := (processes_by_id r)(i \<mapsto> e')\<rparr>)"
proof (rule reg_invI)
  let ?r = "r\<lparr>processes_by_id := (processes_by_id r)(i \<mapsto> e')\<rparr>"
  have dom: "dom (processes_by_id ?r) = dom (processes_by_id r)" using e by auto
  show "finite (dom (processes_by_id ?r))" and "card (dom (processes_by_id ?r)) \<le> cap"
    using reg_invD(2,3) [OF r] unfolding dom by auto
  show "next_id ?r \<noteq> 0" using reg_invD(1) [OF r] by simp
  show "pr_id f = j \<and> j \<noteq> 0 \<and> j < next_id ?r" if "processes_by_id ?r j = Some f" for j f
    using that same reg_invD(4) [OF r, of j] e by (auto split: if_splits)
  show "\<exists>f. processes_by_id ?r j = Some f \<and> entity_key f = k \<and> \<not> pr_exited f"
    if "tgid_index ?r k = Some j" for k j
    using reg_invD(5) [OF r, of k j] that same e by auto
qed

text \<open>An entity may be removed or retired once no index entry leads to it.\<close>

lemma MarkExited_eq:
  "MarkExited i now code r =
     (case processes_by_id r i of
        None \<Rightarrow> r
      | Some e \<Rightarrow> RetireIndex (entity_key e) i (r\<lparr>processes_by_id := (processes_by_id r)(i \<mapsto>
          e\<lparr>pr_exited := True, pr_exit_ns := now, pr_exit_code := code\<rparr>)\<rparr>))"
  by (simp add: MarkExited_def Let_def entity_key_def split: option.splits)

lemma RetireIndex_simps [simp]:
  "processes_by_id (RetireIndex k i r) = processes_by_id r"
  "next_id (RetireIndex k i r) = next_id r"
  "tgid_index (RetireIndex k i r) k' =
     (if k' = k \<and> tgid_index r k = Some i then None else tgid_index r k')"
  by (simp_all add: RetireIndex_def)

lemma MarkExited_unindexes:
  assumes "reg_inv cap r"
  shows "tgid_index (MarkExited i now code r) k = (if tgid_index r k = Some i then None else tgid_index r k)"
proof (cases "processes_by_id r i")
  case None
  then have "tgid_index r k \<noteq> Some i" using reg_invD(5) [OF assms, of k i] by force
  with None show ?thesis by (simp add: MarkExited_eq)
next
  case (Some e)
  have "k = entity_key e" if k: "tgid_index r k = Some i"
  proof -
    obtain f where "processes_by_id r i = Some f" "entity_key f = k"
      using reg_invD(5) [OF assms k] by blast
    with Some show ?thesis by simp
  qed
  note key = this
  show ?thesis
  proof (cases "tgid_index r k = Some i")
    case True
    then show ?thesis by (simp add: MarkExited_eq Some key [symmetric])
  next
    case False
    then show ?thesis by (auto simp: MarkExited_eq Some)
  qed
qed

lemma MarkExited_frame [simp]:
  "next_id (MarkExited i now code r) = next_id r"
  "j \<noteq> i \<Longrightarrow> processes_by_id (MarkExited i now code r) j = processes_by_id r j"
  "dom (processes_by_id (MarkExited i now code r)) = dom (processes_by_id r)"
  by (auto simp: MarkExited_eq split: option.splits)

lemma MarkExited_inv:
  assumes r: "reg_inv cap r"
  shows "reg_inv cap (MarkExited i now code r)"
proof (rule reg_invI)
  let ?r = "MarkExited i now code r"
  show "finite (dom (processes_by_id ?r))" and "card (dom (processes_by_id ?r)) \<le> cap"
    and "next_id ?r \<noteq> 0"
    using reg_invD(1,2,3) [OF r] by simp_all
  show "pr_id f = j \<and> j \<noteq> 0 \<and> j < next_id ?r" if "processes_by_id ?r j = Some f" for j f
    using that reg_invD(4) [OF r, of j]
    by (auto simp: MarkExited_eq split: option.splits if_splits)
  show "\<exists>f. processes_by_id ?r j = Some f \<and> entity_key f = k \<and> \<not> pr_exited f"
    if "tgid_index ?r k = Some j" for k j
    using that reg_invD(5) [OF r, of k j] unfolding MarkExited_unindexes [OF r]
    by (auto split: if_splits)
qed

section \<open>Creation and eviction\<close>

lemma foldl_older_of:
  assumes "victim = Some v \<or> is \<noteq> []"
  shows "\<exists>w. foldl (older_of m) victim is = Some w \<and> (w \<in> set is \<or> victim = Some w) \<and>
    (\<forall>j \<in> set is. pr_last_seen_ns (the (m w)) \<le> pr_last_seen_ns (the (m j))) \<and>
    (\<forall>u. victim = Some u \<longrightarrow> pr_last_seen_ns (the (m w)) \<le> pr_last_seen_ns (the (m u)))"
  using assms
proof (induction "is" arbitrary: victim v)
  case Nil
  then show ?case by auto
next
  case (Cons i "is")
  obtain u where u: "older_of m victim i = Some u" "u = i \<or> victim = Some u"
    "pr_last_seen_ns (the (m u)) \<le> pr_last_seen_ns (the (m i))"
    "\<forall>x. victim = Some x \<longrightarrow> pr_last_seen_ns (the (m u)) \<le> pr_last_seen_ns (the (m x))"
  proof (cases victim)
    case None
    then show thesis using that [of i] by (simp add: older_of_def)
  next
    case (Some x)
    then show thesis
      using that [of i] that [of x] by (cases "pr_last_seen_ns (the (m i)) < pr_last_seen_ns (the (m x))")
        (simp_all add: older_of_def not_less less_imp_le)
  qed
  obtain w where w: "foldl (older_of m) (Some u) is = Some w" "w \<in> set is \<or> Some u = Some w"
    "\<forall>j \<in> set is. pr_last_seen_ns (the (m w)) \<le> pr_last_seen_ns (the (m j))"
    "pr_last_seen_ns (the (m w)) \<le> pr_last_seen_ns (the (m u))"
    using Cons.IH [of "Some u" u] by blast
  show ?case
  proof (intro exI conjI)
    show "foldl (older_of m) victim (i # is) = Some w" using u w by simp
    show "w \<in> set (i # is) \<or> victim = Some w" using u w by auto
    show "\<forall>j \<in> set (i # is). pr_last_seen_ns (the (m w)) \<le> pr_last_seen_ns (the (m j))"
      using u w order_trans by auto
    show "\<forall>x. victim = Some x \<longrightarrow> pr_last_seen_ns (the (m w)) \<le> pr_last_seen_ns (the (m x))"
      using u w order_trans by blast
  qed
qed

text \<open>What an eviction does: nothing below the cap, otherwise it drops one least recently seen.\<close>

lemma EvictIfNeeded_cases:
  assumes r: "reg_inv cap r" and it: "iter_ok env"
  obtains (keep) "card (dom (processes_by_id r)) \<le> kMaxEntries" "EvictIfNeeded env r = r"
    | (evict) v e where "kMaxEntries < card (dom (processes_by_id r))"
        "processes_by_id r v = Some e"
        "\<forall>j f. processes_by_id r j = Some f \<longrightarrow> pr_last_seen_ns e \<le> pr_last_seen_ns f"
        "processes_by_id (EvictIfNeeded env r) = (processes_by_id r)(v := None)"
        "next_id (EvictIfNeeded env r) = next_id r"
        "\<And>k. tgid_index (EvictIfNeeded env r) k =
           (if tgid_index r k = Some v then None else tgid_index r k)"
proof (cases "card (dom (processes_by_id r)) \<le> kMaxEntries")
  case True
  then show ?thesis using keep by (simp add: EvictIfNeeded_def)
next
  case False
  let ?m = "processes_by_id r"
  have dom: "set (re_iter env ?m) = dom ?m"
    using it reg_invD(2) [OF r] by (simp add: iter_ok_def)
  with False have "re_iter env ?m \<noteq> []" by fastforce
  then obtain v where v: "foldl (older_of ?m) None (re_iter env ?m) = Some v" "v \<in> dom ?m"
    "\<forall>j \<in> dom ?m. pr_last_seen_ns (the (?m v)) \<le> pr_last_seen_ns (the (?m j))"
    using foldl_older_of [of None undefined "re_iter env ?m" ?m] unfolding dom by auto
  then obtain e where e: "?m v = Some e" by auto
  have id: "pr_id e = v" using reg_invD(4) [OF r e] by simp
  have key: "k = entity_key e" if k: "tgid_index r k = Some v" for k
  proof -
    obtain f where "?m v = Some f" "entity_key f = k" using reg_invD(5) [OF r k] by blast
    with e show ?thesis by simp
  qed
  have ev: "EvictIfNeeded env r = (RetireIndex (entity_key e) v r)\<lparr>processes_by_id := ?m(v := None)\<rparr>"
    using False v e id by (simp add: EvictIfNeeded_def Let_def)
  show ?thesis
  proof (rule evict)
    show "kMaxEntries < card (dom ?m)" using False by simp
    show "?m v = Some e" by (rule e)
    show "\<forall>j f. ?m j = Some f \<longrightarrow> pr_last_seen_ns e \<le> pr_last_seen_ns f"
      using v(3) e by (metis domI option.sel)
    show "tgid_index (EvictIfNeeded env r) k =
        (if tgid_index r k = Some v then None else tgid_index r k)" for k
    proof (cases "tgid_index r k = Some v")
      case True
      then show ?thesis by (simp add: ev key [symmetric])
    next
      case False
      then show ?thesis by (auto simp: ev)
    qed
  qed (simp_all add: ev)
qed

lemma EvictIfNeeded_ok:
  assumes r: "reg_inv (Suc kMaxEntries) r" and it: "iter_ok env"
  shows "reg_ok (EvictIfNeeded env r)"
  using r it
proof (cases rule: EvictIfNeeded_cases)
  case keep
  show ?thesis unfolding keep(2) using r keep(1) by (intro reg_invI) (auto dest: reg_invD)
next
  case (evict v e)
  show ?thesis
  proof (rule reg_invI)
    let ?r = "EvictIfNeeded env r"
    show "next_id ?r \<noteq> 0" using reg_invD(1) [OF r] evict by simp
    show "finite (dom (processes_by_id ?r))" using reg_invD(2) [OF r] evict by simp
    have "v \<in> dom (processes_by_id r)" using evict(2) by auto
    then show "card (dom (processes_by_id ?r)) \<le> kMaxEntries"
      using reg_invD(2,3) [OF r] evict(4) by (simp add: card_Diff_singleton)
    show "pr_id f = j \<and> j \<noteq> 0 \<and> j < next_id ?r" if "processes_by_id ?r j = Some f" for j f
      using that reg_invD(4) [OF r, of j f] evict(4,5) by (simp split: if_splits)
    show "\<exists>f. processes_by_id ?r j = Some f \<and> entity_key f = k \<and> \<not> pr_exited f"
      if "tgid_index ?r k = Some j" for k j
      using that reg_invD(5) [OF r, of k j] evict(4,6) by (simp split: if_splits)
  qed
qed

text \<open>The entity an insertion stores, before the eviction.\<close>

definition new_entity :: "reg_env \<Rightarrow> u32 \<Rightarrow> ActorIdentity \<Rightarrow> u64 \<Rightarrow> u64 \<Rightarrow> ProcessEntity" where
  "new_entity env key actor now i =
     RefreshRich (re_fs env) ((UpdateFast (default_entity\<lparr>pr_id := i\<rparr>) actor now)
       \<lparr>pr_first_seen_ns := now, pr_last_identity_check_ns := now\<rparr>) key"

lemma new_entity_fields [simp]:
  "pr_id (new_entity env key actor now i) = i" "\<not> pr_exited (new_entity env key actor now i)"
  "entity_key (new_entity env key actor now i) = actor_key actor"
  "pr_last_seen_ns (new_entity env key actor now i) = now"
  "pr_parent_id (new_entity env key actor now i) = 0"
  "pr_pid (new_entity env key actor now i) = ac_pid actor"
  "pr_tgid (new_entity env key actor now i) = ac_tgid actor"
  "pr_ppid (new_entity env key actor now i) = ac_ppid actor"
  by (simp_all add: new_entity_def entity_key_def actor_key_def UpdateFast_def Let_def
      default_entity_def)

definition inserted :: "reg_env \<Rightarrow> u32 \<Rightarrow> ActorIdentity \<Rightarrow> u64 \<Rightarrow> EntityRegistry \<Rightarrow> EntityRegistry" where
  "inserted env key actor now r =
     r\<lparr>next_id := next_id r + 1,
       processes_by_id := (processes_by_id r)(next_id r \<mapsto> new_entity env key actor now (next_id r)),
       tgid_index := (tgid_index r)(key \<mapsto> next_id r)\<rparr>"

lemma CreateProcess_eq:
  "CreateProcess env key actor now r = (next_id r, EvictIfNeeded env (inserted env key actor now r))"
proof -
  have "pr_id (new_entity env key actor now (next_id r)) = next_id r" by simp
  then show ?thesis
    unfolding CreateProcess_def Let_def inserted_def new_entity_def by simp
qed

lemma word_plus_one:
  assumes "unat (i :: u64) + 1 < 2 ^ 64"
  shows "i + 1 \<noteq> 0" and "j < i \<Longrightarrow> j < i + 1" and "i < i + 1"
proof -
  have "unat (i + 1) = unat i + 1"
    using assms by (simp add: unat_word_ariths)
  then show "i + 1 \<noteq> 0" and "j < i \<Longrightarrow> j < i + 1" and "i < i + 1"
    by (auto simp: word_less_nat_alt)
qed

lemma inserted_inv:
  assumes r: "reg_ok r" and room: "unat (next_id r) + 1 < 2 ^ 64" and key: "key = actor_key actor"
  shows "reg_inv (Suc kMaxEntries) (inserted env key actor now r)"
proof (rule reg_invI)
  let ?r = "inserted env key actor now r"
  note w = word_plus_one [OF room]
  show "next_id ?r \<noteq> 0" using w(1) by (simp add: inserted_def)
  show "finite (dom (processes_by_id ?r))" using reg_invD(2) [OF r] by (simp add: inserted_def)
  show "card (dom (processes_by_id ?r)) \<le> Suc kMaxEntries"
    using reg_invD(2,3) [OF r] by (simp add: inserted_def card_insert_if)
  show "pr_id f = j \<and> j \<noteq> 0 \<and> j < next_id ?r" if "processes_by_id ?r j = Some f" for j f
    using that reg_invD(4) [OF r, of j f] reg_invD(1) [OF r] w(2) [of j] w(3)
    by (auto simp: inserted_def split: if_splits)
  show "\<exists>f. processes_by_id ?r j = Some f \<and> entity_key f = k \<and> \<not> pr_exited f"
    if "tgid_index ?r k = Some j" for k j
    using that reg_invD(5) [OF r, of k j] reg_inv_next_None [OF r] key
    by (auto simp: inserted_def split: if_splits)
qed

lemma CreateProcess_ok:
  assumes "reg_ok r" and "iter_ok env" and "unat (next_id r) + 1 < 2 ^ 64"
    and "key = actor_key actor" and "CreateProcess env key actor now r = (i, r')"
  shows "reg_ok r' \<and> i = next_id r \<and> next_id r' = next_id r + 1"
proof -
  note inv = inserted_inv [OF assms(1,3,4), of env now]
  have r': "r' = EvictIfNeeded env (inserted env key actor now r)" and "i = next_id r"
    using assms(5) by (simp_all add: CreateProcess_eq)
  moreover have "next_id (EvictIfNeeded env (inserted env key actor now r)) = next_id r + 1"
    by (cases rule: EvictIfNeeded_cases [OF inv assms(2)]) (simp_all add: inserted_def)
  ultimately show ?thesis using EvictIfNeeded_ok [OF inv assms(2)] by simp
qed

section \<open>Resolving an actor\<close>

text \<open>The entity a resolution that does not create one stores back.\<close>

definition seen_entity :: "reg_env \<Rightarrow> ActorIdentity \<Rightarrow> u64 \<Rightarrow> bool \<Rightarrow> ProcessEntity \<Rightarrow> ProcessEntity" where
  "seen_entity env actor now rich e =
     (let e = UpdateFast (snd (IsReused (re_fs env) e (actor_key actor) now)) actor now
      in if rich then RefreshRich (re_fs env) e (actor_key actor) else e)"

definition reused :: "reg_env \<Rightarrow> ActorIdentity \<Rightarrow> u64 \<Rightarrow> ProcessEntity \<Rightarrow> bool" where
  "reused env actor now e = fst (IsReused (re_fs env) e (actor_key actor) now)"

lemma seen_entity_fields [simp]:
  "pr_id (seen_entity env actor now rich e) = pr_id e"
  "pr_exited (seen_entity env actor now rich e) = pr_exited e"
  "entity_key (seen_entity env actor now rich e) = actor_key actor"
  "pr_pid (seen_entity env actor now rich e) = ac_pid actor"
  "pr_tgid (seen_entity env actor now rich e) = ac_tgid actor"
  "pr_ppid (seen_entity env actor now rich e) = ac_ppid actor"
  "pr_last_seen_ns (seen_entity env actor now rich e) = now"
  using IsReused_result [of "re_fs env" e "actor_key actor" now]
  by (auto simp: seen_entity_def Let_def)

lemma ResolveProcess_known:
  assumes "actor_key actor \<noteq> 0" and "tgid_index r (actor_key actor) = Some i"
    and "processes_by_id r i = Some e" and "\<not> reused env actor now e"
  shows "ResolveProcess env actor now rich r =
    (i, r\<lparr>processes_by_id := (processes_by_id r)(i \<mapsto> seen_entity env actor now rich e)\<rparr>)"
  using assms
  by (cases "IsReused (re_fs env) e (actor_key actor) now")
    (simp add: ResolveProcess_def seen_entity_def reused_def Let_def)

text \<open>A reused thread group retires its old entity first.\<close>

definition retired :: "reg_env \<Rightarrow> ActorIdentity \<Rightarrow> u64 \<Rightarrow> u64 \<Rightarrow> EntityRegistry \<Rightarrow> EntityRegistry" where
  "retired env actor now i r =
     MarkExited i now 0 (r\<lparr>processes_by_id := (processes_by_id r)(i \<mapsto>
       snd (IsReused (re_fs env) (the (processes_by_id r i)) (actor_key actor) now))\<rparr>)"

lemma ResolveProcess_reused:
  assumes "actor_key actor \<noteq> 0" and "tgid_index r (actor_key actor) = Some i"
    and "processes_by_id r i = Some e" and "reused env actor now e"
  shows "ResolveProcess env actor now rich r =
    CreateProcess env (actor_key actor) actor now (retired env actor now i r)"
  using assms
  by (cases "IsReused (re_fs env) e (actor_key actor) now")
    (simp add: ResolveProcess_def retired_def reused_def Let_def)

lemma ResolveProcess_new:
  assumes "actor_key actor \<noteq> 0" and "tgid_index r (actor_key actor) = None"
  shows "ResolveProcess env actor now rich r = CreateProcess env (actor_key actor) actor now r"
  using assms by (simp add: ResolveProcess_def Let_def)

lemma retired_ok:
  assumes r: "reg_ok r" and e: "processes_by_id r i = Some e"
  shows "reg_ok (retired env actor now i r)" and "next_id (retired env actor now i r) = next_id r"
proof -
  obtain b e1 where u: "IsReused (re_fs env) e (actor_key actor) now = (b, e1)" by fastforce
  note f = IsReused_fields [OF u]
  show "reg_ok (retired env actor now i r)"
    using MarkExited_inv [OF reg_inv_update [OF r e f(1,3,2)]] u e by (simp add: retired_def)
  show "next_id (retired env actor now i r) = next_id r" by (simp add: retired_def)
qed

lemma ResolveProcess_ok:
  assumes r: "reg_ok r" and it: "iter_ok env" and room: "unat (next_id r) + 1 < 2 ^ 64"
    and res: "ResolveProcess env actor now rich r = (i, r')"
  shows "reg_ok r' \<and> (next_id r' = next_id r \<or> next_id r' = next_id r + 1)"
proof (cases "actor_key actor = 0")
  case True
  then show ?thesis using r res by (simp add: ResolveProcess_def)
next
  case key: False
  show ?thesis
  proof (cases "tgid_index r (actor_key actor)")
    case None
    show ?thesis
      using CreateProcess_ok [OF r it room refl] res ResolveProcess_new [OF key None] by force
  next
    case (Some k)
    then obtain e where e: "processes_by_id r k = Some e" "entity_key e = actor_key actor"
      using reg_invD(5) [OF r] by blast
    show ?thesis
    proof (cases "reused env actor now e")
      case True
      have "unat (next_id (retired env actor now k r)) + 1 < 2 ^ 64"
        using room retired_ok(2) [OF r e(1)] by simp
      from CreateProcess_ok [OF retired_ok(1) [OF r e(1)] it this refl] show ?thesis
        using res ResolveProcess_reused [OF key Some e(1) True] retired_ok(2) [OF r e(1)] by force
    next
      case False
      have "reg_ok (r\<lparr>processes_by_id := (processes_by_id r)(k \<mapsto> seen_entity env actor now rich e)\<rparr>)"
        using e by (intro reg_inv_update [OF r]) simp_all
      then show ?thesis
        using res ResolveProcess_known [OF key Some e(1) False] by force
    qed
  qed
qed

text \<open>After a resolution the actor's key leads to the id it was given, or nowhere.\<close>

lemma ResolveProcess_index:
  assumes r: "reg_ok r" and it: "iter_ok env" and room: "unat (next_id r) + 1 < 2 ^ 64"
    and key: "actor_key actor \<noteq> 0" and res: "ResolveProcess env actor now rich r = (i, r')"
  shows "tgid_index r' (actor_key actor) \<in> {None, Some i}"
proof -
  have create: "tgid_index r2 (actor_key actor) \<in> {None, Some j}"
    if ok: "reg_ok r0" "unat (next_id r0) + 1 < 2 ^ 64"
      and c: "CreateProcess env (actor_key actor) actor now r0 = (j, r2)" for r0 r2 j
  proof -
    note inv = inserted_inv [OF ok refl, of env actor now]
    have "r2 = EvictIfNeeded env (inserted env (actor_key actor) actor now r0)" and "j = next_id r0"
      using c by (simp_all add: CreateProcess_eq)
    moreover have "tgid_index (inserted env (actor_key actor) actor now r0) (actor_key actor) =
        Some (next_id r0)" by (simp add: inserted_def)
    ultimately show ?thesis
      by (cases rule: EvictIfNeeded_cases [OF inv it]) simp_all
  qed
  show ?thesis
  proof (cases "tgid_index r (actor_key actor)")
    case None
    show ?thesis using create [OF r room] res ResolveProcess_new [OF key None] by simp
  next
    case (Some k)
    then obtain e where e: "processes_by_id r k = Some e" using reg_invD(5) [OF r] by blast
    show ?thesis
    proof (cases "reused env actor now e")
      case True
      have "unat (next_id (retired env actor now k r)) + 1 < 2 ^ 64"
        using room retired_ok(2) [OF r e] by simp
      from create [OF retired_ok(1) [OF r e] this] show ?thesis
        using res ResolveProcess_reused [OF key Some e True] by simp
    next
      case False
      then show ?thesis using res ResolveProcess_known [OF key Some e False] Some by auto
    qed
  qed
qed

lemma ResolveChild_ok:
  assumes r: "reg_ok r" and it: "iter_ok env" and room: "unat (next_id r) + 1 < 2 ^ 64"
    and res: "ResolveChild env c pid parent now r = (i, r')"
  shows "reg_ok r' \<and> (next_id r' = next_id r \<or> next_id r' = next_id r + 1)"
proof (cases "c = 0")
  case True
  then show ?thesis using r res by (simp add: ResolveChild_def)
next
  case False
  obtain j r1 where p: "ResolveProcess env (child_actor c parent) now True r = (j, r1)" by fastforce
  note ok = ResolveProcess_ok [OF r it room p]
  show ?thesis
  proof (cases "processes_by_id r1 j")
    case None
    then show ?thesis using ok p res False by (simp add: ResolveChild_def)
  next
    case (Some e)
    have "reg_ok (r1\<lparr>processes_by_id := (processes_by_id r1)(j \<mapsto> e\<lparr>pr_parent_id := pid\<rparr>)\<rparr>)"
      using ok by (intro reg_inv_update [OF _ Some]) (simp_all add: entity_key_def)
    then show ?thesis
      using ok p res False Some by (auto simp: ResolveChild_def split: if_splits)
  qed
qed

section \<open>Ingesting an event\<close>

lemma ingest_action_event:
  "ce_subject (fst (ingest_action env ev sid r)) = ce_subject ev"
  "ce_exec_path_hint (fst (ingest_action env ev sid r)) = ce_exec_path_hint ev"
  "ce_ts_ns (fst (ingest_action env ev sid r)) = ce_ts_ns ev"
  "ce_actor (fst (ingest_action env ev sid r)) = ce_actor ev"
  "ce_raw (fst (ingest_action env ev sid r)) = ce_raw ev"
  by (simp_all add: ingest_action_def split: prod.splits)

lemma ingest_action_subject [simp]:
  "snd (ingest_action env (ev\<lparr>ce_subject := x\<rparr>) sid r) = snd (ingest_action env ev sid r)"
  by (simp add: ingest_action_def split: prod.splits)

lemma ingest_hint_cong:
  "ce_exec_path_hint ev = ce_exec_path_hint ev' \<Longrightarrow> ingest_hint ev sid r = ingest_hint ev' sid r"
  unfolding ingest_hint_def by (simp only:)

lemma Ingest_registry:
  assumes p: "ResolveProcess env (ce_actor ev) (ce_ts_ns ev) (ce_action ev = CaProcessExeced) r = (sid, r1)"
  shows "snd (Ingest env ev r) = ingest_hint ev sid (snd (ingest_action env ev sid r1))"
    and "ce_subject (fst (Ingest env ev r)) = \<lparr>er_kind = EkProcess, er_id = sid\<rparr>"
    and "ce_subject_process (fst (Ingest env ev r)) =
      processes_by_id (ingest_hint ev sid (snd (ingest_action env ev sid r1))) sid"
proof -
  let ?ev = "ev\<lparr>ce_subject := \<lparr>er_kind = EkProcess, er_id = sid\<rparr>\<rparr>"
  obtain ev2 r2 where a: "ingest_action env ?ev sid r1 = (ev2, r2)" by fastforce
  have r2: "r2 = snd (ingest_action env ev sid r1)"
    using a by (metis ingest_action_subject snd_conv)
  have "ce_exec_path_hint ev2 = ce_exec_path_hint ev" and sub: "ce_subject ev2 = ce_subject ?ev"
    using ingest_action_event(1,2) [of env ?ev sid r1] a by simp_all
  then have h: "ingest_hint ev2 sid r2 = ingest_hint ev sid r2" by (intro ingest_hint_cong)
  have "Ingest env ev r = (CanonicalEvent.extend ev2
      \<lparr>ce_subject_process = FindProcess (ingest_hint ev sid r2) sid\<rparr>, ingest_hint ev sid r2)"
    by (simp add: Ingest_def p a h Let_def)
  then show "snd (Ingest env ev r) = ingest_hint ev sid (snd (ingest_action env ev sid r1))"
    and "ce_subject (fst (Ingest env ev r)) = \<lparr>er_kind = EkProcess, er_id = sid\<rparr>"
    and "ce_subject_process (fst (Ingest env ev r)) =
      processes_by_id (ingest_hint ev sid (snd (ingest_action env ev sid r1))) sid"
    using sub r2 by (simp_all add: CanonicalEvent.defs FindProcess_def)
qed

lemma ingest_hint_ok: "reg_inv cap r \<Longrightarrow> reg_inv cap (ingest_hint ev sid r)"
  by (auto simp: ingest_hint_def entity_key_def intro: reg_inv_update split: option.splits)

lemma ingest_hint_frame [simp]:
  "next_id (ingest_hint ev sid r) = next_id r" "tgid_index (ingest_hint ev sid r) = tgid_index r"
  by (simp_all add: ingest_hint_def split: option.splits)

lemma Ingest_ok:
  assumes r: "reg_ok r" and it: "iter_ok env" and room: "unat (next_id r) + 2 < 2 ^ 64"
  shows "reg_ok (snd (Ingest env ev r)) \<and> unat (next_id (snd (Ingest env ev r))) \<le> unat (next_id r) + 2"
proof -
  obtain sid r1 where p: "ResolveProcess env (ce_actor ev) (ce_ts_ns ev)
      (ce_action ev = CaProcessExeced) r = (sid, r1)" by fastforce
  have "unat (next_id r) + 1 < 2 ^ 64" using room by simp
  from ResolveProcess_ok [OF r it this p]
  have r1: "reg_ok r1" and n1: "unat (next_id r1) \<le> unat (next_id r) + 1"
    using room by (auto simp: unat_word_ariths)
  have "reg_ok (snd (ingest_action env ev sid r1)) \<and>
      unat (next_id (snd (ingest_action env ev sid r1))) \<le> unat (next_id r1) + 1"
  proof -
    obtain j r2 where c: "ResolveChild env (ob_child_pid (ce_object ev)) sid (ce_actor ev)
        (ce_ts_ns ev) r1 = (j, r2)" by fastforce
    have "unat (next_id r1) + 1 < 2 ^ 64" using n1 room by simp
    from ResolveChild_ok [OF r1 it this c] have "reg_ok r2 \<and> unat (next_id r2) \<le> unat (next_id r1) + 1"
      using n1 room by (auto simp: unat_word_ariths)
    then show ?thesis using r1 c MarkExited_inv [OF r1] by (simp add: ingest_action_def)
  qed
  with n1 show ?thesis
    using ingest_hint_ok [of kMaxEntries "snd (ingest_action env ev sid r1)" ev sid]
    unfolding Ingest_registry(1) [OF p] by simp
qed

end
