(* ===== verification/Registry_Properties.thy ===== *)
theory Registry_Properties
  imports Registry_Facts
begin

text \<open>
  What the registry promises the layers above: bounded state over any stream of events, what one
  event does to a known process, a new id after an exit record or the reuse of a thread group, and
  the lineage of a started child.
\<close>

section \<open>Streams of events\<close>

fun ingest_all :: "(reg_env \<times> CanonicalEvent) list \<Rightarrow> EntityRegistry \<Rightarrow> EntityRegistry" where
  "ingest_all [] r = r"
| "ingest_all ((env, ev) # evs) r = ingest_all evs (snd (Ingest env ev r))"

lemma ingest_all_ok:
  assumes "\<forall>(env, ev) \<in> set evs. iter_ok env" and "reg_ok r"
    and "unat (next_id r) + 2 * length evs < 2 ^ 64"
  shows "reg_ok (ingest_all evs r)"
  using assms
proof (induction evs arbitrary: r)
  case (Cons x evs)
  obtain env ev where x: "x = (env, ev)" by fastforce
  have "reg_ok (snd (Ingest env ev r)) \<and>
      unat (next_id (snd (Ingest env ev r))) \<le> unat (next_id r) + 2"
    using Cons.prems x by (intro Ingest_ok) simp_all
  then show ?case using Cons x by simp
qed simp

text \<open>
  C14. Whatever stream of events arrives, fewer than \<open>2 ^ 63\<close> of them, the registry never holds more
  than 8192 entities nor more index entries; every index entry leads to an entity of that key that
  has not exited, and every entity is stored under its own id.
\<close>

theorem registry_stays_bounded:
  assumes "\<forall>(env, ev) \<in> set evs. iter_ok env" and "1 + 2 * length evs < 2 ^ 64"
  shows "let r = ingest_all evs empty_registry in
    ProcessCount r \<le> 8192 \<and> card (dom (tgid_index r)) \<le> 8192 \<and>
    (\<forall>k i. tgid_index r k = Some i \<longrightarrow>
       (\<exists>e. processes_by_id r i = Some e \<and> entity_key e = k \<and> pr_id e = i \<and> \<not> pr_exited e))"
proof -
  have ok: "reg_ok (ingest_all evs empty_registry)"
    using assms by (intro ingest_all_ok reg_ok_empty) (simp_all add: empty_registry_def)
  show ?thesis
    using reg_invD(3) [OF ok] index_bounded [OF ok] reg_invD(4,5) [OF ok]
    unfolding Let_def ProcessCount_def kMaxEntries_def by blast
qed

text \<open>A registry environment that finds nothing in /proc.\<close>

definition demo_reg_env :: reg_env where
  "demo_reg_env = \<lparr>re_fs = \<lparr>fs_readlink = (\<lambda>_. None), fs_read = (\<lambda>_. None)\<rparr>,
     re_iter = (\<lambda>m. sorted_list_of_set (dom m))\<rparr>"

lemma demo_iter_ok: "iter_ok demo_reg_env"
  by (simp add: iter_ok_def demo_reg_env_def)

definition demo_actor :: ActorIdentity where
  "demo_actor = default_actor\<lparr>ac_pid := 100, ac_tgid := 100\<rparr>"

definition demo_event :: "CanonicalAction \<Rightarrow> ActorIdentity \<Rightarrow> u64 \<Rightarrow> CanonicalEvent" where
  "demo_event action actor ts =
     (default_canonical (SyscallEv
        \<lparr>se_hdr = \<lparr>hdr_ts_ns = 0, hdr_type = 0, hdr_size = 0, hdr_pid = 0, hdr_tgid = 0,
           hdr_ppid = 0, hdr_uid = 0, hdr_gid = 0, hdr_comm = []\<rparr>,
         se_is_enter = 0, se_syscall_nr = 0, se_arg0 = 0, se_arg1 = 0, se_arg2 = 0, se_ret = 0\<rparr>))
     \<lparr>ce_action := action, ce_actor := actor, ce_ts_ns := ts\<rparr>"

theorem registry_stays_bounded_witness:
  "ProcessCount (ingest_all [(demo_reg_env, demo_event CaFileOpened demo_actor 5)] empty_registry) \<le> 8192"
  using registry_stays_bounded [of "[(demo_reg_env, demo_event CaFileOpened demo_actor 5)]"]
    demo_iter_ok by (simp add: Let_def)

section \<open>Identity\<close>

text \<open>
  What one event does to the entity of a known process: an event other than an exit or the start of a
  child leaves the index alone and brings the entity up to date.
\<close>

lemma known_process_updated:
  assumes "actor_key (ce_actor ev) \<noteq> 0" and "tgid_index r (actor_key (ce_actor ev)) = Some i"
    and "processes_by_id r i = Some e" and "\<not> reused env (ce_actor ev) (ce_ts_ns ev) e"
    and "ce_action ev \<notin> {CaProcessExited, CaProcessStarted}"
  shows "er_id (ce_subject (fst (Ingest env ev r))) = i \<and>
    tgid_index (snd (Ingest env ev r)) (actor_key (ce_actor ev)) = Some i \<and>
    (\<exists>e'. ce_subject_process (fst (Ingest env ev r)) = Some e' \<and> pr_id e' = pr_id e \<and>
       pr_pid e' = ac_pid (ce_actor ev) \<and> pr_last_seen_ns e' = ce_ts_ns ev)"
proof -
  let ?rich = "ce_action ev = CaProcessExeced"
  note p = ResolveProcess_known [OF assms(1-4), of ?rich]
  let ?e = "seen_entity env (ce_actor ev) (ce_ts_ns ev) ?rich e"
  let ?r1 = "r\<lparr>processes_by_id := (processes_by_id r)(i \<mapsto> ?e)\<rparr>"
  have act: "snd (ingest_action env ev i ?r1) = ?r1"
    using assms(5) by (simp add: ingest_action_def)
  have "\<exists>e'. processes_by_id (ingest_hint ev i ?r1) i = Some e' \<and> pr_id e' = pr_id e \<and>
      pr_pid e' = ac_pid (ce_actor ev) \<and> pr_last_seen_ns e' = ce_ts_ns ev"
    by (simp add: ingest_hint_def)
  then show ?thesis
    using assms(2) by (simp add: Ingest_registry [OF p] act)
qed

text \<open>
  C26. An exit record of any thread of a group retires the whole process: the group leaves the index,
  and its next event, if ids are left, is given a fresh id even when the other threads of the
  process are still running. The condition does not mention the thread: \<open>pid \<noteq> tgid\<close> is allowed.
\<close>

theorem exit_of_any_thread_ends_identity:
  assumes "reg_ok r" and "iter_ok env" and "unat (next_id r) + 2 < 2 ^ 64"
    and "actor_key (ce_actor ev) \<noteq> 0" and "ce_action ev = CaProcessExited"
    and "actor_key (ce_actor ev2) = actor_key (ce_actor ev)"
  defines "r' \<equiv> snd (Ingest env ev r)"
  shows "tgid_index r' (actor_key (ce_actor ev)) = None \<and>
    er_id (ce_subject (fst (Ingest env2 ev2 r'))) = next_id r' \<and>
    processes_by_id r' (next_id r') = None"
proof -
  obtain sid r1 where p: "ResolveProcess env (ce_actor ev) (ce_ts_ns ev)
      (ce_action ev = CaProcessExeced) r = (sid, r1)" by fastforce
  have room: "unat (next_id r) + 1 < 2 ^ 64" using assms(3) by simp
  have r1: "reg_ok r1" using ResolveProcess_ok [OF assms(1,2) room p] by simp
  have reg: "r' = ingest_hint ev sid (MarkExited sid (ce_ts_ns ev) (ce_outcome ev) r1)"
    unfolding r'_def Ingest_registry(1) [OF p] by (simp add: ingest_action_def assms(5))
  have idx: "tgid_index r1 (actor_key (ce_actor ev)) \<in> {None, Some sid}"
    by (rule ResolveProcess_index [OF assms(1,2) room assms(4) p])
  then have none: "tgid_index r' (actor_key (ce_actor ev)) = None"
    using MarkExited_unindexes [OF r1] unfolding reg by auto
  have "reg_ok r'" using Ingest_ok [OF assms(1,2,3)] by (simp add: r'_def)
  then have fresh: "processes_by_id r' (next_id r') = None" by (rule reg_inv_next_None)
  have "ResolveProcess env2 (ce_actor ev2) (ce_ts_ns ev2) (ce_action ev2 = CaProcessExeced) r' =
      CreateProcess env2 (actor_key (ce_actor ev2)) (ce_actor ev2) (ce_ts_ns ev2) r'"
    using assms(4,6) none by (intro ResolveProcess_new) simp_all
  then have "er_id (ce_subject (fst (Ingest env2 ev2 r'))) = next_id r'"
    by (simp add: Ingest_registry(2) CreateProcess_eq)
  with none fresh show ?thesis by simp
qed

lemma demo_event_fields [simp]:
  "ce_action (demo_event a actor ts) = a" "ce_actor (demo_event a actor ts) = actor"
  "ce_ts_ns (demo_event a actor ts) = ts" "ce_exec_path_hint (demo_event a actor ts) = []"
  by (simp_all add: demo_event_def default_canonical_def)

lemma demo_actor_key [simp]: "actor_key demo_actor = 100"
  by (simp add: demo_actor_def actor_key_def)

text \<open>A registry that knows the process 100.\<close>

definition demo_entity :: ProcessEntity where
  "demo_entity = default_entity\<lparr>pr_id := 1, pr_pid := 100, pr_tgid := 100\<rparr>"

definition demo_registry :: EntityRegistry where
  "demo_registry = \<lparr>processes_by_id = [1 \<mapsto> demo_entity], tgid_index = [100 \<mapsto> 1], next_id = 2\<rparr>"

lemma demo_registry_ok: "reg_ok demo_registry"
  by (rule reg_invI) (auto simp: demo_registry_def demo_entity_def default_entity_def
      entity_key_def kMaxEntries_def split: if_splits)

lemma demo_not_reused: "\<not> reused env actor now demo_entity"
  by (simp add: reused_def IsReused_def demo_entity_def default_entity_def)

text \<open>The exit of thread 101 of the process 100.\<close>

theorem exit_of_any_thread_ends_identity_witness:
  "let thread = demo_actor\<lparr>ac_pid := 101\<rparr>;
       r = snd (Ingest demo_reg_env (demo_event CaProcessExited thread 5) demo_registry)
   in er_id (ce_subject (fst (Ingest demo_reg_env (demo_event CaFileOpened demo_actor 6) r))) = next_id r"
proof -
  have "actor_key (demo_actor\<lparr>ac_pid := 101\<rparr>) = 100" by (simp add: demo_actor_def actor_key_def)
  then show ?thesis
    using exit_of_any_thread_ends_identity [OF demo_registry_ok demo_iter_ok, of
        "demo_event CaProcessExited (demo_actor\<lparr>ac_pid := 101\<rparr>) 5" "demo_event CaFileOpened demo_actor 6"
        demo_reg_env]
    by (simp add: Let_def demo_registry_def)
qed

text \<open>
  C25. When /proc shows another start time for the thread group, and at least half a second has
  passed since the last look, the event gets a fresh id: it is not taken for one of the old process.
  Within half a second of a look the code does not look again.
\<close>

theorem reuse_gets_new_identity:
  assumes "reg_ok r" and "iter_ok env" and "unat (next_id r) + 2 < 2 ^ 64"
    and "actor_key (ce_actor ev) \<noteq> 0" and "tgid_index r (actor_key (ce_actor ev)) = Some i"
    and "processes_by_id r i = Some e" and "pr_start_time_ticks e \<noteq> 0"
    and "500000000 \<le> ce_ts_ns ev - pr_last_identity_check_ns e"
    and "ReadStartTimeTicks (re_fs env) (actor_key (ce_actor ev)) \<notin> {0, pr_start_time_ticks e}"
  shows "er_id (ce_subject (fst (Ingest env ev r))) = next_id r \<and> next_id r \<noteq> i"
proof -
  have "reused env (ce_actor ev) (ce_ts_ns ev) e"
    using assms(7-9) by (auto simp: reused_def IsReused_def kIdentityCheckNs_def Let_def not_less [symmetric])
  note p = ResolveProcess_reused [OF assms(4-6) this]
  have "next_id (retired env (ce_actor ev) (ce_ts_ns ev) i r) = next_id r"
    by (rule retired_ok(2) [OF assms(1,6)])
  moreover have "next_id r \<noteq> i" using reg_inv_next_None [OF assms(1)] assms(6) by auto
  ultimately show ?thesis
    by (simp add: Ingest_registry(2) p CreateProcess_eq)
qed

text \<open>/proc after the thread group 100 was given to a process started at tick 7.\<close>

definition demo_reuse_env :: reg_env where
  "demo_reuse_env = demo_reg_env\<lparr>re_fs := \<lparr>fs_readlink = (\<lambda>_. None), fs_read = (\<lambda>p. Some
     (kernel_stat_line 100 ''a'' demo_stat_fields))\<rparr>\<rparr>"

theorem reuse_gets_new_identity_witness:
  "er_id (ce_subject (fst (Ingest demo_reuse_env (demo_event CaFileOpened demo_actor 600000000)
     (demo_registry\<lparr>processes_by_id := [1 \<mapsto> demo_entity\<lparr>pr_start_time_ticks := 5\<rparr>]\<rparr>)))) = 2"
proof -
  let ?e = "demo_entity\<lparr>pr_start_time_ticks := 5\<rparr>"
  let ?r = "demo_registry\<lparr>processes_by_id := (processes_by_id demo_registry)(1 \<mapsto> ?e)\<rparr>"
  have "reg_ok ?r"
    by (rule reg_inv_update [OF demo_registry_ok, where e = demo_entity])
      (simp_all add: demo_registry_def entity_key_def)
  moreover have "iter_ok demo_reuse_env"
    using demo_iter_ok by (simp add: demo_reuse_env_def iter_ok_def)
  moreover have "ReadStartTimeTicks (re_fs demo_reuse_env) 100 = 7"
    using ParseStartTimeTicks_demo
    by (simp add: ReadStartTimeTicks_def ReadTextFile_def demo_reuse_env_def)
  ultimately show ?thesis
    using reuse_gets_new_identity [of ?r demo_reuse_env "demo_event CaFileOpened demo_actor 600000000" 1 ?e]
    by (simp add: demo_registry_def demo_entity_def default_entity_def)
qed

text \<open>
  C27. Lineage: the start of a child by a known process creates an entity for the child, under a
  fresh id, whose parent is the id of the starting process and whose parent pid is its thread
  group; the record's object is that entity.
\<close>

theorem started_child_has_parent:
  assumes "reg_ok r" and "iter_ok env" and "unat (next_id r) + 2 < 2 ^ 64"
    and "actor_key (ce_actor ev) \<noteq> 0" and "tgid_index r (actor_key (ce_actor ev)) = Some i"
    and "processes_by_id r i = Some e" and "\<not> reused env (ce_actor ev) (ce_ts_ns ev) e"
    and "ce_action ev = CaProcessStarted" and "ob_child_pid (ce_object ev) = c" and "c \<noteq> 0"
    and "tgid_index r c = None" and "ProcessCount r < 8192" and "ce_exec_path_hint ev = []"
  shows "er_id (ce_object_ref (fst (Ingest env ev r))) = next_id r \<and>
    (\<exists>ch. processes_by_id (snd (Ingest env ev r)) (next_id r) = Some ch \<and> pr_parent_id ch = i \<and>
       pr_tgid ch = c \<and> pr_ppid ch = actor_key (ce_actor ev))"
proof -
  let ?e = "seen_entity env (ce_actor ev) (ce_ts_ns ev) False e"
  let ?r1 = "r\<lparr>processes_by_id := (processes_by_id r)(i \<mapsto> ?e)\<rparr>"
  let ?child = "child_actor c (ce_actor ev)"
  let ?ev = "ev\<lparr>ce_subject := \<lparr>er_kind = EkProcess, er_id = i\<rparr>\<rparr>"
  have ck: "actor_key ?child = c" using assms(10) by (simp add: child_actor_def actor_key_def)
  have p: "ResolveProcess env (ce_actor ev) (ce_ts_ns ev) (ce_action ev = CaProcessExeced) r = (i, ?r1)"
    using ResolveProcess_known [OF assms(4-7)] assms(8) by simp
  let ?new = "inserted env c ?child (ce_ts_ns ev) ?r1"
  have "card (dom (processes_by_id ?new)) \<le> kMaxEntries"
    using assms(6,12) reg_invD(2) [OF assms(1)]
    by (simp add: inserted_def ProcessCount_def kMaxEntries_def card_insert_if insert_absorb domIff)
  then have ev: "EvictIfNeeded env ?new = ?new" by (simp add: EvictIfNeeded_def)
  have rc: "ResolveProcess env ?child (ce_ts_ns ev) True ?r1 = (next_id r, ?new)"
    using ResolveProcess_new [of ?child ?r1] ck assms(10,11) ev by (simp add: CreateProcess_eq)
  let ?ch = "new_entity env c ?child (ce_ts_ns ev) (next_id r)"
  have ch: "processes_by_id ?new (next_id r) = Some ?ch" by (simp add: inserted_def)
  let ?r2 = "?new\<lparr>processes_by_id := (processes_by_id ?new)(next_id r \<mapsto> ?ch\<lparr>pr_parent_id := i\<rparr>)\<rparr>"
  have "ResolveChild env c i (ce_actor ev) (ce_ts_ns ev) ?r1 = (next_id r, ?r2)"
    using rc ch assms(10) by (simp add: ResolveChild_def)
  then have act: "ingest_action env ?ev i ?r1 =
      (?ev\<lparr>ce_object_ref := \<lparr>er_kind = EkProcess, er_id = next_id r\<rparr>\<rparr>, ?r2)"
    using assms(8-10) by (simp add: ingest_action_def)
  have "Ingest env ev r = (CanonicalEvent.extend (?ev\<lparr>ce_object_ref := \<lparr>er_kind = EkProcess,
      er_id = next_id r\<rparr>\<rparr>) \<lparr>ce_subject_process = FindProcess ?r2 i\<rparr>, ?r2)"
    using assms(13) by (simp add: Ingest_def p act ingest_hint_def Let_def)
  then show ?thesis
    by (simp add: CanonicalEvent.defs child_actor_def default_actor_def)
qed

definition demo_fork :: CanonicalEvent where
  "demo_fork = (demo_event CaProcessStarted demo_actor 5)
     \<lparr>ce_object := default_object\<lparr>ob_child_pid := 200\<rparr>\<rparr>"

theorem started_child_has_parent_witness:
  "er_id (ce_object_ref (fst (Ingest demo_reg_env demo_fork demo_registry))) = 2"
  using started_child_has_parent [OF demo_registry_ok demo_iter_ok, of demo_fork 1 demo_entity 200]
    demo_not_reused
  by (simp add: demo_fork_def demo_registry_def demo_event_def default_canonical_def
      default_object_def ProcessCount_def)

end
