(* ===== verification/Bpf_Runtime.thy ===== *)
theory Bpf_Runtime
  imports Event_Schema
begin

text \<open>
  What a BPF program of bpf/ runs on. The maps the sources declare are the fields of \<open>kstate\<close>, a
  partial map from keys to values for each (an array map holds every key below its size), next to
  the records submitted to the ring buffer. Everything the kernel decides is an argument: the
  record \<open>bpf_env\<close> holds the values the helpers return during one program invocation, the
  tracepoint context, the memory handed out by \<open>bpf_ringbuf_reserve\<close>, and the update and delete
  operation of every hash map. \<open>bpf_env_ok\<close> collects the documented behaviour of those helpers.
\<close>

section \<open>Map keys and values\<close>

definition STATE_MAP_MAX_ENTRIES :: nat where "STATE_MAP_MAX_ENTRIES = 16384"
definition MAX_IOVEC_ENTRIES :: nat where "MAX_IOVEC_ENTRIES = 8"
definition MAX_MMSGHDR_ENTRIES :: nat where "MAX_MMSGHDR_ENTRIES = 8"

record file_state_key =
  fk_pid_tgid :: u64
  fk_kind :: u32
  fk_pad :: u32

record syscall_state_key =
  sk_pid_tgid :: u64
  sk_syscall_nr :: s32
  sk_pad :: u32

record network_state_key =
  nk_pid_tgid :: u64
  nk_kind :: u32
  nk_pad :: u32

record network_state_value =
  nsv_ev :: network_event
  nsv_sockaddr_ptr :: u64
  nsv_sockaddr_len_ptr :: u64
  nsv_sockaddr_len :: u64
  nsv_peer_fd_ptr :: u64
  nsv_optval_ptr :: u64
  nsv_optlen_ptr :: u64
  nsv_mmsg_ptr :: u64
  nsv_mmsg_count :: u64

record socket_fd_key =
  sfk_tgid :: u32
  sfk_fd :: u32
  sfk_pad :: u32

record socket_fd_value =
  sfv_is_socket :: u8

abbreviation (input) BPF_STAT_RINGBUF_RESERVE_FAIL :: u32 where "BPF_STAT_RINGBUF_RESERVE_FAIL \<equiv> 0"
abbreviation (input) BPF_STAT_FILE_STATE_SAVE_FAIL :: u32 where "BPF_STAT_FILE_STATE_SAVE_FAIL \<equiv> 1"
abbreviation (input) BPF_STAT_FILE_STATE_COLLISION :: u32 where "BPF_STAT_FILE_STATE_COLLISION \<equiv> 2"
abbreviation (input) BPF_STAT_FILE_STATE_MISS :: u32 where "BPF_STAT_FILE_STATE_MISS \<equiv> 3"
abbreviation (input) BPF_STAT_SYSCALL_STATE_SAVE_FAIL :: u32 where "BPF_STAT_SYSCALL_STATE_SAVE_FAIL \<equiv> 4"
abbreviation (input) BPF_STAT_SYSCALL_STATE_COLLISION :: u32 where "BPF_STAT_SYSCALL_STATE_COLLISION \<equiv> 5"
abbreviation (input) BPF_STAT_SYSCALL_STATE_MISS :: u32 where "BPF_STAT_SYSCALL_STATE_MISS \<equiv> 6"
abbreviation (input) BPF_STAT_NETWORK_STATE_SAVE_FAIL :: u32 where "BPF_STAT_NETWORK_STATE_SAVE_FAIL \<equiv> 7"
abbreviation (input) BPF_STAT_NETWORK_STATE_COLLISION :: u32 where "BPF_STAT_NETWORK_STATE_COLLISION \<equiv> 8"
abbreviation (input) BPF_STAT_NETWORK_STATE_MISS :: u32 where "BPF_STAT_NETWORK_STATE_MISS \<equiv> 9"
abbreviation (input) BPF_STAT_MAX :: nat where "BPF_STAT_MAX \<equiv> 10"

section \<open>Hash map operations\<close>

text \<open>
  A hash map is its lookup function. Updating (with \<open>BPF_ANY\<close>) and deleting are the kernel's: they
  return a code, negative for an error, and the new contents.
\<close>

record ('k, 'v) map_ops =
  update_elem :: "('k \<rightharpoonup> 'v) \<Rightarrow> 'k \<Rightarrow> 'v \<Rightarrow> int \<times> ('k \<rightharpoonup> 'v)"
  delete_elem :: "('k \<rightharpoonup> 'v) \<Rightarrow> 'k \<Rightarrow> int \<times> ('k \<rightharpoonup> 'v)"

text \<open>
  The documented behaviour: a successful update stores the value; an LRU map may drop entries of
  other keys to make room, so any other key keeps its value or loses it; a failed update stores
  nothing. Deleting removes the key and nothing else.
\<close>

definition map_ops_ok :: "('k, 'v) map_ops \<Rightarrow> bool" where
  "map_ops_ok ops \<longleftrightarrow>
     (\<forall>m k v. let (rc, m') = update_elem ops m k v in
        (0 \<le> rc \<longrightarrow> m' k = Some v) \<and>
        (rc < 0 \<longrightarrow> m' k = m k \<or> m' k = None) \<and>
        (\<forall>k'. k' \<noteq> k \<longrightarrow> m' k' = m k' \<or> m' k' = None)) \<and>
     (\<forall>m k. snd (delete_elem ops m k) = m(k := None))"

text \<open>Maps of type \<open>BPF_MAP_TYPE_HASH\<close> never evict: a full map refuses new keys.\<close>

definition hash_ops_ok :: "('k, 'v) map_ops \<Rightarrow> bool" where
  "hash_ops_ok ops \<longleftrightarrow>
     (\<forall>m k v. let (rc, m') = update_elem ops m k v in
        (0 \<le> rc \<longrightarrow> m' = m(k \<mapsto> v)) \<and> (rc < 0 \<longrightarrow> m' = m)) \<and>
     (\<forall>m k. snd (delete_elem ops m k) = m(k := None))"

lemma map_ops_ok_update:
  assumes "map_ops_ok ops" and "update_elem ops m k v = (rc, m')"
  shows "0 \<le> rc \<Longrightarrow> m' k = Some v"
    and "rc < 0 \<Longrightarrow> m' k = m k \<or> m' k = None"
    and "k' \<noteq> k \<Longrightarrow> m' k' = m k' \<or> m' k' = None"
proof -
  have "let (rc, m') = update_elem ops m k v in
      (0 \<le> rc \<longrightarrow> m' k = Some v) \<and>
      (rc < 0 \<longrightarrow> m' k = m k \<or> m' k = None) \<and>
      (\<forall>k'. k' \<noteq> k \<longrightarrow> m' k' = m k' \<or> m' k' = None)"
    using assms(1) unfolding map_ops_ok_def by blast
  with assms(2) show "0 \<le> rc \<Longrightarrow> m' k = Some v"
    and "rc < 0 \<Longrightarrow> m' k = m k \<or> m' k = None"
    and "k' \<noteq> k \<Longrightarrow> m' k' = m k' \<or> m' k' = None"
    by simp_all
qed

text \<open>An entry of the updated map is the stored one or an old one.\<close>

lemma map_ops_ok_entry:
  assumes "map_ops_ok ops" and "snd (update_elem ops m k v) k' = Some w"
  shows "(k' = k \<and> w = v) \<or> m k' = Some w"
proof -
  obtain rc m' where u: "update_elem ops m k v = (rc, m')" by (cases "update_elem ops m k v")
  show ?thesis
  proof (cases "k' = k")
    case True
    then show ?thesis
      using assms(2) u map_ops_ok_update(1,2) [OF assms(1) u] by (cases "0 \<le> rc") auto
  next
    case False
    then show ?thesis
      using assms(2) u map_ops_ok_update(3) [OF assms(1) u, of k'] by auto
  qed
qed

lemma map_ops_ok_delete: "map_ops_ok ops \<Longrightarrow> snd (delete_elem ops m k) = m(k := None)"
  by (simp add: map_ops_ok_def)

lemma hash_ops_ok_update:
  assumes "hash_ops_ok ops" and "update_elem ops m k v = (rc, m')"
  shows "m' = (if 0 \<le> rc then m(k \<mapsto> v) else m)"
proof -
  have "let (rc, m') = update_elem ops m k v in
      (0 \<le> rc \<longrightarrow> m' = m(k \<mapsto> v)) \<and> (rc < 0 \<longrightarrow> m' = m)"
    using assms(1) unfolding hash_ops_ok_def by blast
  with assms(2) show ?thesis by simp
qed

lemma hash_ops_ok_delete: "hash_ops_ok ops \<Longrightarrow> snd (delete_elem ops m k) = m(k := None)"
  by (simp add: hash_ops_ok_def)

lemma hash_ops_ok_imp: "hash_ops_ok ops \<Longrightarrow> map_ops_ok ops"
  unfolding map_ops_ok_def
  by (auto simp: hash_ops_ok_delete dest: hash_ops_ok_update split: prod.splits if_splits)

text \<open>The two map types the sources declare, with their capacity.\<close>

definition hash_map_ops :: "nat \<Rightarrow> ('k, 'v) map_ops" where
  "hash_map_ops cap =
     \<lparr>update_elem = (\<lambda>m k v.
        if m k \<noteq> None \<or> card (dom m) < cap then (0, m(k \<mapsto> v)) else (-7, m)),
      delete_elem = (\<lambda>m k. (if m k = None then -2 else 0, m(k := None)))\<rparr>"

definition lru_hash_map_ops :: "(('k \<rightharpoonup> 'v) \<Rightarrow> 'k) \<Rightarrow> nat \<Rightarrow> ('k, 'v) map_ops" where
  "lru_hash_map_ops victim cap =
     \<lparr>update_elem = (\<lambda>m k v.
        if m k \<noteq> None \<or> card (dom m) < cap then (0, m(k \<mapsto> v))
        else (0, (m(victim m := None))(k \<mapsto> v))),
      delete_elem = (\<lambda>m k. (if m k = None then -2 else 0, m(k := None)))\<rparr>"

lemma hash_map_ops_ok: "hash_ops_ok (hash_map_ops cap)"
  by (simp add: hash_ops_ok_def hash_map_ops_def)

lemma lru_hash_map_ops_ok: "map_ops_ok (lru_hash_map_ops victim cap)"
  by (simp add: map_ops_ok_def lru_hash_map_ops_def)

section \<open>State and environment\<close>

record kstate =
  events :: "event_variant list"
  bpf_stats :: "nat \<Rightarrow> u32 \<Rightarrow> u64"
  file_probe_enabled :: "u32 \<rightharpoonup> u8"
  process_probe_enabled :: "u32 \<rightharpoonup> u8"
  syscall_probe_enabled :: "u32 \<rightharpoonup> u8"
  syscall_allowlist :: "u32 \<rightharpoonup> u8"
  pid_allowlist :: "u32 \<rightharpoonup> u8"
  uid_allowlist :: "u32 \<rightharpoonup> u8"
  pid_filter_enabled :: "u32 \<rightharpoonup> u8"
  uid_filter_enabled :: "u32 \<rightharpoonup> u8"
  suppress_tgid :: "u32 \<rightharpoonup> u32"
  network_probe_enabled :: "u32 \<rightharpoonup> u8"
  network_port_allowlist :: "u32 \<rightharpoonup> u8"
  network_port_filter_enabled :: "u32 \<rightharpoonup> u8"
  file_enter_state :: "file_state_key \<rightharpoonup> file_event"
  syscall_enter_state :: "syscall_state_key \<rightharpoonup> syscall_event"
  network_enter_state :: "network_state_key \<rightharpoonup> network_state_value"
  socket_fd_state :: "socket_fd_key \<rightharpoonup> socket_fd_value"
  network_scratch :: "nat \<Rightarrow> u32 \<rightharpoonup> network_state_value"

text \<open>
  \<open>env_ktime\<close> is the clock when a header is filled, \<open>env_ktime_exit\<close> when an exit handler stamps
  the finished record. \<open>env_task\<close> is the current task's parent tgid and exit code, None for a NULL
  task pointer. The probe helpers take the source address and the size and, for strings, the old
  contents of the destination; they return their code and the new contents. \<open>env_rb_process\<close> and
  its kin are the uninitialised memory a reservation returns, None when it fails.
\<close>

record bpf_env =
  env_cpu :: nat
  env_pid_tgid :: u64
  env_uid_gid :: u64
  env_ktime :: u64
  env_ktime_exit :: u64
  env_comm :: "u8 list"
  env_task :: "(u32 \<times> u32) option"
  env_probe_user :: "u64 \<Rightarrow> nat \<Rightarrow> int \<times> u8 list"
  env_probe_user_str :: "u64 \<Rightarrow> nat \<Rightarrow> u8 list \<Rightarrow> int \<times> u8 list"
  env_probe_kernel_str :: "u64 \<Rightarrow> nat \<Rightarrow> u8 list \<Rightarrow> int \<times> u8 list"
  env_rb_process :: "process_event option"
  env_rb_file :: "file_event option"
  env_rb_syscall :: "syscall_event option"
  env_rb_network :: "network_event option"
  env_args :: "nat \<Rightarrow> u64"
  env_ret :: s64
  env_id :: s64
  env_ctx :: u64
  env_data_loc_filename :: u32
  env_child_pid :: s32
  env_file_map :: "(file_state_key, file_event) map_ops"
  env_syscall_map :: "(syscall_state_key, syscall_event) map_ops"
  env_network_map :: "(network_state_key, network_state_value) map_ops"
  env_socket_map :: "(socket_fd_key, socket_fd_value) map_ops"

text \<open>
  \<open>bpf_get_current_comm\<close> writes 16 bytes with a NUL among them; a string read keeps the size of its
  destination and, when it succeeds, leaves a NUL in it, while a failed kernel string read leaves
  the destination as it was or zeroed; a memory read fills the requested size; reserved memory has
  the shape of its struct; the maps behave as documented.
\<close>

definition user_str_ok :: "(u64 \<Rightarrow> nat \<Rightarrow> u8 list \<Rightarrow> int \<times> u8 list) \<Rightarrow> bool" where
  "user_str_ok f \<longleftrightarrow>
     (\<forall>a d. length (snd (f a (length d) d)) = length d \<and>
        (0 \<le> fst (f a (length d) d) \<longrightarrow> nul_terminated (snd (f a (length d) d))))"

definition kernel_str_ok :: "(u64 \<Rightarrow> nat \<Rightarrow> u8 list \<Rightarrow> int \<times> u8 list) \<Rightarrow> bool" where
  "kernel_str_ok f \<longleftrightarrow> user_str_ok f \<and>
     (\<forall>a d. fst (f a (length d) d) < 0 \<longrightarrow>
        snd (f a (length d) d) = d \<or> snd (f a (length d) d) = replicate (length d) 0)"

definition bpf_env_ok :: "bpf_env \<Rightarrow> bool" where
  "bpf_env_ok env \<longleftrightarrow>
     length (env_comm env) = EVENT_LOGGER_COMM_LEN \<and> nul_terminated (env_comm env) \<and>
     (\<forall>a n. length (snd (env_probe_user env a n)) = n) \<and>
     user_str_ok (env_probe_user_str env) \<and>
     kernel_str_ok (env_probe_kernel_str env) \<and>
     (\<forall>e. env_rb_process env = Some e \<longrightarrow> process_event_wf e) \<and>
     (\<forall>e. env_rb_file env = Some e \<longrightarrow> file_event_wf e) \<and>
     (\<forall>e. env_rb_syscall env = Some e \<longrightarrow> syscall_event_wf e) \<and>
     (\<forall>e. env_rb_network env = Some e \<longrightarrow> network_event_wf e) \<and>
     map_ops_ok (env_file_map env) \<and> map_ops_ok (env_syscall_map env) \<and>
     map_ops_ok (env_network_map env) \<and> hash_ops_ok (env_socket_map env)"

lemma bpf_env_okD:
  assumes "bpf_env_ok env"
  shows "length (env_comm env) = EVENT_LOGGER_COMM_LEN"
    and "nul_terminated (env_comm env)"
    and "length (snd (env_probe_user env a n)) = n"
    and "user_str_ok (env_probe_user_str env)"
    and "kernel_str_ok (env_probe_kernel_str env)"
    and "env_rb_process env = Some pe \<Longrightarrow> process_event_wf pe"
    and "env_rb_file env = Some fe \<Longrightarrow> file_event_wf fe"
    and "env_rb_syscall env = Some se \<Longrightarrow> syscall_event_wf se"
    and "env_rb_network env = Some ne \<Longrightarrow> network_event_wf ne"
    and "map_ops_ok (env_file_map env)"
    and "map_ops_ok (env_syscall_map env)"
    and "map_ops_ok (env_network_map env)"
    and "hash_ops_ok (env_socket_map env)"
  using assms by (simp_all add: bpf_env_ok_def)

lemma probe_user_length:
  "bpf_env_ok env \<Longrightarrow> env_probe_user env a n = (rc, b) \<Longrightarrow> length b = n"
  by (metis bpf_env_okD(3) snd_conv)

lemma probe_user_str_ok:
  assumes "bpf_env_ok env" and "env_probe_user_str env a (length d) d = (rc, d')"
  shows "length d' = length d" and "0 \<le> rc \<Longrightarrow> nul_terminated d'"
  using bpf_env_okD(4) [OF assms(1)] assms(2)
  unfolding user_str_ok_def by (metis fst_conv snd_conv)+

lemma probe_kernel_str_ok:
  assumes "bpf_env_ok env" and "env_probe_kernel_str env a (length d) d = (rc, d')"
    and "nul_terminated d"
  shows "length d' = length d" and "nul_terminated d'"
proof -
  note k = bpf_env_okD(5) [OF assms(1), unfolded kernel_str_ok_def user_str_ok_def]
  show "length d' = length d" using k assms(2) by (metis snd_conv)
  have "0 \<le> rc \<longrightarrow> nul_terminated d'" and "rc < 0 \<longrightarrow> d' = d \<or> d' = replicate (length d) 0"
    using k assms(2) by (metis fst_conv snd_conv)+
  moreover have "0 < length d" using assms(3) by (cases d) (auto simp: nul_terminated_def)
  ultimately show "nul_terminated d'" using assms(3) by (cases "0 \<le> rc") auto
qed

section \<open>The state right after loading\<close>

text \<open>Array maps start zeroed, hash maps empty, and nothing has been emitted.\<close>

definition array_map :: "nat \<Rightarrow> 'v \<Rightarrow> u32 \<rightharpoonup> 'v" where
  "array_map n z = (\<lambda>k. if unat k < n then Some z else None)"

definition zero_endpoint :: network_endpoint where
  "zero_endpoint =
     \<lparr>ep_family = 0, ep_port = 0, ep_addr_len = 0, ep_addr = replicate 16 0,
      ep_path = replicate EVENT_LOGGER_UNIX_PATH_LEN 0\<rparr>"

definition zero_header :: event_header where
  "zero_header =
     \<lparr>hdr_ts_ns = 0, hdr_type = 0, hdr_size = 0, hdr_pid = 0, hdr_tgid = 0, hdr_ppid = 0,
      hdr_uid = 0, hdr_gid = 0, hdr_comm = replicate EVENT_LOGGER_COMM_LEN 0\<rparr>"

definition zero_network_event :: network_event where
  "zero_network_event =
     \<lparr>ne_hdr = zero_header, ne_kind = 0, ne_fd = 0, ne_peer_fd = 0, ne_ret = 0, ne_domain = 0,
      ne_sock_type = 0, ne_protocol = 0, ne_flags = 0, ne_backlog = 0, ne_how = 0,
      ne_opt_level = 0, ne_opt_name = 0, ne_opt_len = 0, ne_optval_prefix = replicate 16 0,
      ne_flow_id = 0, ne_socket_id = 0, ne_direction = 0, ne_transport = 0,
      ne_bytes_requested = 0, ne_bytes_transferred = 0, ne_bytes_captured = 0,
      ne_bytes_truncated = 0, ne_local = zero_endpoint, ne_remote = zero_endpoint\<rparr>"

definition zero_network_state :: network_state_value where
  "zero_network_state =
     \<lparr>nsv_ev = zero_network_event, nsv_sockaddr_ptr = 0, nsv_sockaddr_len_ptr = 0,
      nsv_sockaddr_len = 0, nsv_peer_fd_ptr = 0, nsv_optval_ptr = 0, nsv_optlen_ptr = 0,
      nsv_mmsg_ptr = 0, nsv_mmsg_count = 0\<rparr>"

definition initial_kstate :: kstate where
  "initial_kstate =
     \<lparr>events = [], bpf_stats = (\<lambda>_ _. 0), file_probe_enabled = array_map 4 0,
      process_probe_enabled = array_map 8 0, syscall_probe_enabled = array_map 1 0,
      syscall_allowlist = Map.empty, pid_allowlist = Map.empty, uid_allowlist = Map.empty,
      pid_filter_enabled = array_map 1 0, uid_filter_enabled = array_map 1 0,
      suppress_tgid = array_map 1 0, network_probe_enabled = array_map 32 0,
      network_port_allowlist = Map.empty, network_port_filter_enabled = array_map 1 0,
      file_enter_state = Map.empty, syscall_enter_state = Map.empty,
      network_enter_state = Map.empty, socket_fd_state = Map.empty,
      network_scratch = (\<lambda>_. array_map 1 zero_network_state)\<rparr>"

lemma zero_wf [simp]:
  "event_header_wf zero_header" "network_endpoint_wf zero_endpoint"
  "network_event_wf zero_network_event"
  by (simp_all add: event_wf_defs zero_header_def zero_endpoint_def zero_network_event_def)

end
