(* ===== verification/Bpf_Common.thy ===== *)
theory Bpf_Common
  imports Bpf_Runtime
begin

text \<open>
  The first half of the shared helpers of bpf/event_logger_common.bpf.h, in the order of the source:
  the per-CPU scratch slot and counters, the probe and identity gates, the bounded copies of user
  memory, endpoint snapshots, direction and transport inference, the flow hash and the vector
  length sums. Pointers are 64-bit words, 0 the null pointer; the loops the source unrolls recurse
  over the list of their indices and stop at the \<open>break\<close>.
\<close>

section \<open>Scratch slot, counters and gates\<close>

text \<open>The slot is handed out zeroed; None is the NULL of a failed lookup.\<close>

definition net_scratch :: "bpf_env \<Rightarrow> kstate \<Rightarrow> network_state_value option" where
  "net_scratch env s =
     (case network_scratch s (env_cpu env) 0 of
        None \<Rightarrow> None
      | Some _ \<Rightarrow> Some zero_network_state)"

definition stat_inc :: "bpf_env \<Rightarrow> u32 \<Rightarrow> kstate \<Rightarrow> kstate" where
  "stat_inc env key s =
     (if unat key < BPF_STAT_MAX
      then s\<lparr>bpf_stats := (bpf_stats s)(env_cpu env :=
             (bpf_stats s (env_cpu env))(key := bpf_stats s (env_cpu env) key + 1))\<rparr>
      else s)"

definition is_file_probe_enabled :: "kstate \<Rightarrow> u32 \<Rightarrow> bool" where
  "is_file_probe_enabled s kind =
     (case file_probe_enabled s kind of None \<Rightarrow> True | Some enabled \<Rightarrow> enabled \<noteq> 0)"

definition is_process_probe_enabled :: "kstate \<Rightarrow> u32 \<Rightarrow> bool" where
  "is_process_probe_enabled s kind =
     (case process_probe_enabled s kind of None \<Rightarrow> True | Some enabled \<Rightarrow> enabled \<noteq> 0)"

definition is_network_probe_enabled :: "kstate \<Rightarrow> u32 \<Rightarrow> bool" where
  "is_network_probe_enabled s kind =
     (case network_probe_enabled s kind of None \<Rightarrow> False | Some enabled \<Rightarrow> enabled \<noteq> 0)"

definition is_syscall_probe_enabled :: "kstate \<Rightarrow> bool" where
  "is_syscall_probe_enabled s =
     (case syscall_probe_enabled s 0 of None \<Rightarrow> False | Some enabled \<Rightarrow> enabled \<noteq> 0)"

definition is_syscall_allowed :: "s32 \<Rightarrow> bool" where
  "is_syscall_allowed nr = True"

definition is_network_port_filter_enabled :: "kstate \<Rightarrow> bool" where
  "is_network_port_filter_enabled s =
     (case network_port_filter_enabled s 0 of None \<Rightarrow> False | Some enabled \<Rightarrow> enabled \<noteq> 0)"

definition is_port_allowed :: "kstate \<Rightarrow> u32 \<Rightarrow> bool" where
  "is_port_allowed s port =
     (case network_port_allowlist s port of None \<Rightarrow> False | Some allowed \<Rightarrow> allowed \<noteq> 0)"

definition is_network_port_allowed :: "u32 \<Rightarrow> u32 \<Rightarrow> bool" where
  "is_network_port_allowed src_port dst_port = True"

definition is_current_pid_allowed :: bool where
  "is_current_pid_allowed = True"

definition is_current_uid_allowed :: bool where
  "is_current_uid_allowed = True"

text \<open>The high half of pid_tgid is the thread group, the low half the thread.\<close>

definition cur_tgid :: "bpf_env \<Rightarrow> u32" where
  "cur_tgid env = ucast (drop_bit 32 (env_pid_tgid env))"

definition cur_pid :: "bpf_env \<Rightarrow> u32" where
  "cur_pid env = ucast (env_pid_tgid env)"

definition is_not_suppressed_self :: "bpf_env \<Rightarrow> kstate \<Rightarrow> bool" where
  "is_not_suppressed_self env s =
     (case suppress_tgid s 0 of
        None \<Rightarrow> True
      | Some suppressed \<Rightarrow> if suppressed = 0 then True else cur_tgid env \<noteq> suppressed)"

definition is_event_allowed :: "bpf_env \<Rightarrow> kstate \<Rightarrow> bool" where
  "is_event_allowed env s =
     (is_not_suppressed_self env s \<and> is_current_pid_allowed \<and> is_current_uid_allowed)"

definition get_current_ppid :: "bpf_env \<Rightarrow> u32" where
  "get_current_ppid env = (case env_task env of None \<Rightarrow> 0 | Some (parent_tgid, code) \<Rightarrow> parent_tgid)"

definition get_current_exit_code :: "bpf_env \<Rightarrow> u32" where
  "get_current_exit_code env = (case env_task env of None \<Rightarrow> 0 | Some (parent_tgid, code) \<Rightarrow> code)"

section \<open>Bounded copies of user memory\<close>

definition copy_user_path :: "bpf_env \<Rightarrow> u8 list \<Rightarrow> u64 \<Rightarrow> u8 list" where
  "copy_user_path env dst user_ptr =
     (if user_ptr = 0 then dst[0 := 0]
      else let (copied, dst') = env_probe_user_str env user_ptr EVENT_LOGGER_PATH_LEN dst
           in if copied < 0 then dst'[0 := 0] else dst')"

definition copy_optval_prefix :: "bpf_env \<Rightarrow> u8 list \<Rightarrow> u64 \<Rightarrow> u32 \<Rightarrow> u8 list" where
  "copy_optval_prefix env dst user_ptr len =
     (if user_ptr = 0 \<or> len = 0 then dst
      else let copy_len = (if len > 16 then 16 else unat len)
           in snd (env_probe_user env user_ptr copy_len) @ drop copy_len dst)"

section \<open>Endpoints\<close>

abbreviation (input) AF_UNIX :: s32 where "AF_UNIX \<equiv> 1"
abbreviation (input) AF_INET :: u16 where "AF_INET \<equiv> 2"
abbreviation (input) AF_INET6 :: u16 where "AF_INET6 \<equiv> 10"

text \<open>The kernel's \<open>enum sock_type\<close>, from vmlinux.h.\<close>

abbreviation (input) SOCK_STREAM :: s32 where "SOCK_STREAM \<equiv> 1"
abbreviation (input) SOCK_DGRAM :: s32 where "SOCK_DGRAM \<equiv> 2"
abbreviation (input) SOCK_RAW :: s32 where "SOCK_RAW \<equiv> 3"

definition reset_network_endpoint :: "network_endpoint \<Rightarrow> network_endpoint" where
  "reset_network_endpoint ep =
     ep\<lparr>ep_family := 0, ep_port := 0, ep_addr_len := 0, ep_path := (ep_path ep)[0 := 0],
        ep_addr := replicate 16 0\<rparr>"

definition infer_network_transport :: "s32 \<Rightarrow> s32 \<Rightarrow> u32" where
  "infer_network_transport domain type =
     (if domain = AF_UNIX then NETWORK_TRANSPORT_UNIX
      else if type = SOCK_STREAM then NETWORK_TRANSPORT_TCP
      else if type = SOCK_DGRAM then NETWORK_TRANSPORT_UDP
      else if type = SOCK_RAW then NETWORK_TRANSPORT_RAW
      else NETWORK_TRANSPORT_UNKNOWN)"

definition infer_network_direction :: "u32 \<Rightarrow> u32" where
  "infer_network_direction kind =
     (if kind \<in> {NETWORK_CONNECT, NETWORK_SENDTO, NETWORK_SENDMSG, NETWORK_WRITE,
                 NETWORK_WRITEV, NETWORK_SENDMMSG}
      then NETWORK_DIRECTION_OUTBOUND
      else if kind \<in> {NETWORK_ACCEPT, NETWORK_ACCEPT4, NETWORK_RECVFROM, NETWORK_RECVMSG,
                      NETWORK_READ, NETWORK_READV, NETWORK_RECVMMSG}
      then NETWORK_DIRECTION_INBOUND
      else NETWORK_DIRECTION_UNKNOWN)"

section \<open>Flow identity\<close>

definition hash_fold64 :: "u64 \<Rightarrow> u64" where
  "hash_fold64 x0 =
     (let x = x0 XOR drop_bit 33 x0;
          x = x * 0xff51afd7ed558ccd;
          x = x XOR drop_bit 33 x;
          x = x * 0xc4ceb9fe1a85ec53;
          x = x XOR drop_bit 33 x
      in x)"

text \<open>The value the hash is applied to: the exclusive or of the identity fields, shifted.\<close>

definition network_flow_key :: "bpf_env \<Rightarrow> network_event \<Rightarrow> u64" where
  "network_flow_key env ev =
     (let id = env_pid_tgid env;
          id = id XOR push_bit 48 (ucast (ne_kind ev));
          id = id XOR push_bit 32 (ucast (ne_fd ev));
          id = id XOR push_bit 16 (ucast (ne_peer_fd ev));
          id = id XOR ucast (ep_port (ne_local ev));
          id = id XOR push_bit 32 (ucast (ep_port (ne_remote ev)));
          id = (if ep_addr_len (ne_local ev) \<ge> 4
                then id XOR ucast (le_word (take 4 (ep_addr (ne_local ev))) :: u32) else id);
          id = (if ep_addr_len (ne_remote ev) \<ge> 4
                then id XOR push_bit 16 (ucast (le_word (take 4 (ep_addr (ne_remote ev))) :: u32))
                else id)
      in id)"

definition compute_network_flow_id :: "bpf_env \<Rightarrow> network_event \<Rightarrow> u64" where
  "compute_network_flow_id env ev = hash_fold64 (network_flow_key env ev)"

section \<open>UNIX socket paths\<close>

text \<open>\<open>path_len\<close> is compared as a signed 32-bit value.\<close>

fun unix_has_name :: "u8 list \<Rightarrow> int \<Rightarrow> nat list \<Rightarrow> bool" where
  "unix_has_name path plen [] = False"
| "unix_has_name path plen (i # is) =
     (if int i \<ge> plen then False
      else if path ! i \<noteq> 0 then True
      else unix_has_name path plen is)"

fun copy_abstract_name :: "u8 list \<Rightarrow> int \<Rightarrow> nat list \<Rightarrow> u8 list \<times> nat \<Rightarrow> u8 list \<times> nat" where
  "copy_abstract_name path plen [] (out, out_idx) = (out, out_idx)"
| "copy_abstract_name path plen (i # is) (out, out_idx) =
     (if int i \<ge> plen then (out, out_idx)
      else if path ! i = 0 then (out, out_idx)
      else copy_abstract_name path plen is (out[out_idx := path ! i], out_idx + 1))"

fun copy_path_name :: "u8 list \<Rightarrow> int \<Rightarrow> nat list \<Rightarrow> u8 list \<Rightarrow> u8 list" where
  "copy_path_name path plen [] out = out"
| "copy_path_name path plen (i # is) out =
     (if int i \<ge> plen then out
      else if path ! i = 0 then out[i := path ! i]
      else copy_path_name path plen is (out[i := path ! i]))"

definition copy_unix_sockaddr_path ::
  "u8 list \<Rightarrow> u32 \<Rightarrow> network_endpoint \<Rightarrow> network_endpoint" where
  "copy_unix_sockaddr_path un_path path_len ep =
     (if path_len = 0 then ep
      else if un_path ! 0 = 0 then
        (if \<not> unix_has_name un_path (sint path_len) [1..<EVENT_LOGGER_UNIX_PATH_LEN] then ep
         else let (out, out_idx) =
                copy_abstract_name un_path (sint path_len) [1..<EVENT_LOGGER_UNIX_PATH_LEN - 1]
                  ((ep_path ep)[0 := 0x40], 1)
              in ep\<lparr>ep_path := out[out_idx := 0]\<rparr>)
      else
        let out = copy_path_name un_path (sint path_len) [0..<EVENT_LOGGER_UNIX_PATH_LEN - 1]
              (ep_path ep)
        in if unat path_len \<ge> EVENT_LOGGER_UNIX_PATH_LEN - 1
           then ep\<lparr>ep_path := out[EVENT_LOGGER_UNIX_PATH_LEN - 1 := 0]\<rparr>
           else ep\<lparr>ep_path := out[unat path_len := 0]\<rparr>)"

section \<open>Message vectors\<close>

text \<open>\<open>struct msghdr_min\<close> (32 bytes) and \<open>struct mmsghdr_min\<close> (40 bytes), as the source lays them
  out, read from a byte buffer.\<close>

record msghdr_min =
  mh_msg_name :: u64
  mh_msg_namelen :: u32
  mh_msg_iov :: u64
  mh_msg_iovlen :: u64

definition dec_msghdr_min :: "u8 list \<Rightarrow> msghdr_min" where
  "dec_msghdr_min b =
     \<lparr>mh_msg_name = le_word (field_at 0 8 b), mh_msg_namelen = le_word (field_at 8 4 b),
      mh_msg_iov = le_word (field_at 16 8 b), mh_msg_iovlen = le_word (field_at 24 8 b)\<rparr>"

abbreviation (input) sizeof_iovec_min :: nat where "sizeof_iovec_min \<equiv> 16"
abbreviation (input) sizeof_msghdr_min :: nat where "sizeof_msghdr_min \<equiv> 32"
abbreviation (input) sizeof_mmsghdr_min :: nat where "sizeof_mmsghdr_min \<equiv> 40"

fun sum_iovec_loop :: "bpf_env \<Rightarrow> u64 \<Rightarrow> u64 \<Rightarrow> nat list \<Rightarrow> u64 \<Rightarrow> u64" where
  "sum_iovec_loop env base count [] acc = acc"
| "sum_iovec_loop env base count (i # is) acc =
     (if of_nat i \<ge> count then acc
      else let (rc, item) = env_probe_user env (base + of_nat (i * sizeof_iovec_min)) sizeof_iovec_min
           in sum_iovec_loop env base count is
                (if rc = 0 then acc + le_word (field_at 8 8 item) else acc))"

definition sum_iovec_lengths :: "bpf_env \<Rightarrow> u64 \<Rightarrow> u64 \<Rightarrow> u64" where
  "sum_iovec_lengths env iov count = sum_iovec_loop env iov count [0..<MAX_IOVEC_ENTRIES] 0"

fun sum_mmsghdr_loop :: "bpf_env \<Rightarrow> (u8 list \<Rightarrow> u64) \<Rightarrow> u64 \<Rightarrow> u32 \<Rightarrow> nat list \<Rightarrow> u64 \<Rightarrow> u64" where
  "sum_mmsghdr_loop env amount base count [] acc = acc"
| "sum_mmsghdr_loop env amount base count (i # is) acc =
     (if of_nat i \<ge> count then acc
      else let (rc, item) =
             env_probe_user env (base + of_nat (i * sizeof_mmsghdr_min)) sizeof_mmsghdr_min
           in sum_mmsghdr_loop env amount base count is
                (if rc = 0 then acc + amount item else acc))"

definition sum_mmsghdr_lengths :: "bpf_env \<Rightarrow> u64 \<Rightarrow> u32 \<Rightarrow> u64" where
  "sum_mmsghdr_lengths env msgs count =
     sum_mmsghdr_loop env
       (\<lambda>item. sum_iovec_lengths env (mh_msg_iov (dec_msghdr_min item))
                 (mh_msg_iovlen (dec_msghdr_min item)))
       msgs count [0..<MAX_MMSGHDR_ENTRIES] 0"

definition sum_mmsghdr_transfers :: "bpf_env \<Rightarrow> u64 \<Rightarrow> u32 \<Rightarrow> u64" where
  "sum_mmsghdr_transfers env msgs count =
     sum_mmsghdr_loop env (\<lambda>item. ucast (le_word (field_at 32 4 item) :: u32))
       msgs count [0..<MAX_MMSGHDR_ENTRIES] 0"

section \<open>Socket addresses\<close>

definition bpf_ntohs :: "u16 \<Rightarrow> u16" where
  "bpf_ntohs w = push_bit 8 w OR drop_bit 8 w"

abbreviation (input) sizeof_sockaddr_in_min :: nat where "sizeof_sockaddr_in_min \<equiv> 8"
abbreviation (input) sizeof_sockaddr_in6_min :: nat where "sizeof_sockaddr_in6_min \<equiv> 28"
abbreviation (input) sizeof_sockaddr_un_min :: nat where "sizeof_sockaddr_un_min \<equiv> 110"

definition parse_sockaddr_in :: "bpf_env \<Rightarrow> u64 \<Rightarrow> network_endpoint \<Rightarrow> network_endpoint" where
  "parse_sockaddr_in env user_ptr ep =
     (let (rc, in4) = env_probe_user env user_ptr sizeof_sockaddr_in_min
      in if rc = 0
         then ep\<lparr>ep_port := ucast (bpf_ntohs (le_word (field_at 2 2 in4))), ep_addr_len := 4,
                 ep_addr := field_at 4 4 in4 @ drop 4 (ep_addr ep)\<rparr>
         else ep)"

definition parse_sockaddr_in6 :: "bpf_env \<Rightarrow> u64 \<Rightarrow> network_endpoint \<Rightarrow> network_endpoint" where
  "parse_sockaddr_in6 env user_ptr ep =
     (let (rc, in6) = env_probe_user env user_ptr sizeof_sockaddr_in6_min
      in if rc = 0
         then ep\<lparr>ep_port := ucast (bpf_ntohs (le_word (field_at 2 2 in6))), ep_addr_len := 16,
                 ep_addr := field_at 8 16 in6 @ drop 16 (ep_addr ep)\<rparr>
         else ep)"

definition parse_sockaddr_un :: "bpf_env \<Rightarrow> u64 \<Rightarrow> u32 \<Rightarrow> network_endpoint \<Rightarrow> network_endpoint" where
  "parse_sockaddr_un env user_ptr len ep =
     (let copy_len = (if unat len > sizeof_sockaddr_un_min
                      then of_nat sizeof_sockaddr_un_min else len)
      in if unat copy_len \<ge> 2
         then let (rc, b) = env_probe_user env user_ptr (unat copy_len);
                  un = b @ replicate (sizeof_sockaddr_un_min - unat copy_len) 0
              in if rc = 0 then copy_unix_sockaddr_path (drop 2 un) (copy_len - 2) ep else ep
         else ep)"

definition parse_sockaddr_user ::
  "bpf_env \<Rightarrow> u64 \<Rightarrow> u32 \<Rightarrow> network_endpoint \<Rightarrow> network_endpoint" where
  "parse_sockaddr_user env user_ptr len endpoint =
     (let ep = reset_network_endpoint endpoint
      in if user_ptr = 0 \<or> unat len < 2 then ep
         else let (rc, b) = env_probe_user env user_ptr 2
              in if rc \<noteq> 0 then ep
                 else let fam = le_word b :: u16; ep = ep\<lparr>ep_family := ucast fam\<rparr>
                      in if fam = AF_INET \<and> unat len \<ge> sizeof_sockaddr_in_min
                         then parse_sockaddr_in env user_ptr ep
                         else if fam = AF_INET6 \<and> unat len \<ge> sizeof_sockaddr_in6_min
                         then parse_sockaddr_in6 env user_ptr ep
                         else if fam = ucast AF_UNIX then parse_sockaddr_un env user_ptr len ep
                         else ep)"

end
