(* ===== verification/Bpf_Emit.thy ===== *)
theory Bpf_Emit
  imports Bpf_Common
begin

text \<open>
  The second half of bpf/event_logger_common.bpf.h: filling the header, reserving a record of each
  family, the keys that pair a syscall's enter with its exit, saving an enter payload, the table of
  socket descriptors, and emitting the finished record at the exit. A reservation that is discarded
  leaves no trace in the state; one that is submitted is appended to \<open>events\<close>. Functions that
  return a code return it next to the new state.
\<close>

section \<open>Reserving a record\<close>

definition fill_header :: "bpf_env \<Rightarrow> u32 \<Rightarrow> event_header \<Rightarrow> event_header" where
  "fill_header env type hdr =
     hdr\<lparr>hdr_ts_ns := env_ktime env, hdr_type := type, hdr_size := 0, hdr_pid := cur_pid env,
         hdr_tgid := cur_tgid env, hdr_uid := ucast (env_uid_gid env),
         hdr_gid := ucast (drop_bit 32 (env_uid_gid env)), hdr_ppid := get_current_ppid env,
         hdr_comm := env_comm env\<rparr>"

definition reserve_process_event :: "bpf_env \<Rightarrow> u32 \<Rightarrow> kstate \<Rightarrow> process_event option \<times> kstate" where
  "reserve_process_event env kind s =
     (case env_rb_process env of
        None \<Rightarrow> (None, stat_inc env BPF_STAT_RINGBUF_RESERVE_FAIL s)
      | Some ev \<Rightarrow>
          (Some (ev\<lparr>pe_hdr := (fill_header env EVENT_TYPE_PROCESS (pe_hdr ev))
                        \<lparr>hdr_size := of_nat sizeof_process_event\<rparr>,
                    pe_kind := kind, pe_exit_code := 0, pe_child_pid := 0,
                    pe_filename := (pe_filename ev)[0 := 0],
                    pe_exec_path := (pe_exec_path ev)[0 := 0],
                    pe_cmdline := (pe_cmdline ev)[0 := 0], pe_cwd := (pe_cwd ev)[0 := 0],
                    pe_parent_comm := (pe_parent_comm ev)[0 := 0],
                    pe_start_time_ticks := 0\<rparr>), s))"

definition reserve_file_event :: "bpf_env \<Rightarrow> u32 \<Rightarrow> kstate \<Rightarrow> file_event option \<times> kstate" where
  "reserve_file_event env kind s =
     (case env_rb_file env of
        None \<Rightarrow> (None, stat_inc env BPF_STAT_RINGBUF_RESERVE_FAIL s)
      | Some ev \<Rightarrow>
          (Some (ev\<lparr>fe_hdr := (fill_header env EVENT_TYPE_FILE (fe_hdr ev))
                        \<lparr>hdr_size := of_nat sizeof_file_event\<rparr>,
                    fe_kind := kind, fe_dfd := 0, fe_flags := 0, fe_mode := 0, fe_ret := 0,
                    fe_path_a := (fe_path_a ev)[0 := 0], fe_path_b := (fe_path_b ev)[0 := 0]\<rparr>),
           s))"

definition reserve_syscall_event :: "bpf_env \<Rightarrow> kstate \<Rightarrow> syscall_event option \<times> kstate" where
  "reserve_syscall_event env s =
     (case env_rb_syscall env of
        None \<Rightarrow> (None, stat_inc env BPF_STAT_RINGBUF_RESERVE_FAIL s)
      | Some ev \<Rightarrow>
          (Some (ev\<lparr>se_hdr := (fill_header env EVENT_TYPE_SYSCALL (se_hdr ev))
                        \<lparr>hdr_size := of_nat sizeof_syscall_event\<rparr>,
                    se_is_enter := 0, se_syscall_nr := 0, se_arg0 := 0, se_arg1 := 0,
                    se_arg2 := 0, se_ret := 0\<rparr>), s))"

definition reserve_network_event :: "bpf_env \<Rightarrow> u32 \<Rightarrow> kstate \<Rightarrow> network_event option \<times> kstate" where
  "reserve_network_event env kind s =
     (case env_rb_network env of
        None \<Rightarrow> (None, stat_inc env BPF_STAT_RINGBUF_RESERVE_FAIL s)
      | Some ev \<Rightarrow>
          (Some (ev\<lparr>ne_hdr := (fill_header env EVENT_TYPE_NETWORK (ne_hdr ev))
                        \<lparr>hdr_size := of_nat sizeof_network_event\<rparr>,
                    ne_kind := kind, ne_fd := 0, ne_peer_fd := 0, ne_ret := 0, ne_domain := 0,
                    ne_sock_type := 0, ne_protocol := 0, ne_flags := 0, ne_backlog := 0,
                    ne_how := 0, ne_opt_level := 0, ne_opt_name := 0, ne_opt_len := 0,
                    ne_optval_prefix := replicate 16 0, ne_flow_id := 0, ne_socket_id := 0,
                    ne_direction := NETWORK_DIRECTION_UNKNOWN,
                    ne_transport := NETWORK_TRANSPORT_UNKNOWN, ne_bytes_requested := 0,
                    ne_bytes_transferred := 0, ne_bytes_captured := 0, ne_bytes_truncated := 0,
                    ne_local := reset_network_endpoint (ne_local ev),
                    ne_remote := reset_network_endpoint (ne_remote ev)\<rparr>), s))"

section \<open>Pairing keys\<close>

definition make_file_key :: "bpf_env \<Rightarrow> u32 \<Rightarrow> file_state_key" where
  "make_file_key env kind = \<lparr>fk_pid_tgid = env_pid_tgid env, fk_kind = kind, fk_pad = 0\<rparr>"

definition make_syscall_key :: "bpf_env \<Rightarrow> s32 \<Rightarrow> syscall_state_key" where
  "make_syscall_key env nr = \<lparr>sk_pid_tgid = env_pid_tgid env, sk_syscall_nr = nr, sk_pad = 0\<rparr>"

definition make_network_key :: "bpf_env \<Rightarrow> u32 \<Rightarrow> network_state_key" where
  "make_network_key env kind = \<lparr>nk_pid_tgid = env_pid_tgid env, nk_kind = kind, nk_pad = 0\<rparr>"

section \<open>Saving an enter payload\<close>

definition save_file_enter_state :: "bpf_env \<Rightarrow> u32 \<Rightarrow> file_event \<Rightarrow> kstate \<Rightarrow> int \<times> kstate" where
  "save_file_enter_state env kind ev s =
     (let key = make_file_key env kind
      in case file_enter_state s key of
           Some existing \<Rightarrow> (-1, stat_inc env BPF_STAT_FILE_STATE_COLLISION s)
         | None \<Rightarrow>
             let (ret, m) = update_elem (env_file_map env) (file_enter_state s) key ev;
                 s = s\<lparr>file_enter_state := m\<rparr>
             in (ret, if ret < 0 then stat_inc env BPF_STAT_FILE_STATE_SAVE_FAIL s else s))"

definition save_syscall_enter_state :: "bpf_env \<Rightarrow> s32 \<Rightarrow> syscall_event \<Rightarrow> kstate \<Rightarrow> int \<times> kstate" where
  "save_syscall_enter_state env nr ev s =
     (let key = make_syscall_key env nr
      in case syscall_enter_state s key of
           Some existing \<Rightarrow> (-1, stat_inc env BPF_STAT_SYSCALL_STATE_COLLISION s)
         | None \<Rightarrow>
             let (ret, m) = update_elem (env_syscall_map env) (syscall_enter_state s) key ev;
                 s = s\<lparr>syscall_enter_state := m\<rparr>
             in (ret, if ret < 0 then stat_inc env BPF_STAT_SYSCALL_STATE_SAVE_FAIL s else s))"

definition save_network_enter_state ::
  "bpf_env \<Rightarrow> u32 \<Rightarrow> network_state_value \<Rightarrow> kstate \<Rightarrow> int \<times> kstate" where
  "save_network_enter_state env kind state s =
     (let key = make_network_key env kind
      in case network_enter_state s key of
           Some existing \<Rightarrow> (-1, stat_inc env BPF_STAT_NETWORK_STATE_COLLISION s)
         | None \<Rightarrow>
             let (ret, m) = update_elem (env_network_map env) (network_enter_state s) key state;
                 s = s\<lparr>network_enter_state := m\<rparr>
             in (ret, if ret < 0 then stat_inc env BPF_STAT_NETWORK_STATE_SAVE_FAIL s else s))"

section \<open>File and syscall exits\<close>

definition delete_file_entry :: "bpf_env \<Rightarrow> file_state_key \<Rightarrow> kstate \<Rightarrow> kstate" where
  "delete_file_entry env key s =
     s\<lparr>file_enter_state := snd (delete_elem (env_file_map env) (file_enter_state s) key)\<rparr>"

definition delete_syscall_entry :: "bpf_env \<Rightarrow> syscall_state_key \<Rightarrow> kstate \<Rightarrow> kstate" where
  "delete_syscall_entry env key s =
     s\<lparr>syscall_enter_state := snd (delete_elem (env_syscall_map env) (syscall_enter_state s) key)\<rparr>"

definition delete_network_entry :: "bpf_env \<Rightarrow> network_state_key \<Rightarrow> kstate \<Rightarrow> kstate" where
  "delete_network_entry env key s =
     s\<lparr>network_enter_state := snd (delete_elem (env_network_map env) (network_enter_state s) key)\<rparr>"

definition ringbuf_submit :: "event_variant \<Rightarrow> kstate \<Rightarrow> kstate" where
  "ringbuf_submit ev s = s\<lparr>events := events s @ [ev]\<rparr>"

definition emit_file_exit_event :: "bpf_env \<Rightarrow> u32 \<Rightarrow> s64 \<Rightarrow> kstate \<Rightarrow> int \<times> kstate" where
  "emit_file_exit_event env kind ret_code s =
     (let key = make_file_key env kind
      in case file_enter_state s key of
           None \<Rightarrow> (0, stat_inc env BPF_STAT_FILE_STATE_MISS s)
         | Some state \<Rightarrow>
             (case reserve_file_event env kind s of
                (None, s) \<Rightarrow> (0, delete_file_entry env key s)
              | (Some out, s) \<Rightarrow>
                  let out = state;
                      out = out\<lparr>fe_hdr := (fe_hdr out)\<lparr>hdr_ts_ns := env_ktime_exit env\<rparr>,
                                fe_ret := ucast ret_code\<rparr>
                  in (0, delete_file_entry env key (ringbuf_submit (FileEv out) s))))"

definition emit_syscall_exit_event :: "bpf_env \<Rightarrow> s32 \<Rightarrow> s64 \<Rightarrow> kstate \<Rightarrow> int \<times> kstate" where
  "emit_syscall_exit_event env nr ret_code s =
     (let key = make_syscall_key env nr
      in case syscall_enter_state s key of
           None \<Rightarrow> (0, stat_inc env BPF_STAT_SYSCALL_STATE_MISS s)
         | Some state \<Rightarrow>
             (case reserve_syscall_event env s of
                (None, s) \<Rightarrow> (0, delete_syscall_entry env key s)
              | (Some out, s) \<Rightarrow>
                  let out = state;
                      out = out\<lparr>se_hdr := (se_hdr out)\<lparr>hdr_ts_ns := env_ktime_exit env\<rparr>,
                                se_is_enter := 0, se_ret := ret_code\<rparr>
                  in (0, delete_syscall_entry env key (ringbuf_submit (SyscallEv out) s))))"

section \<open>Socket descriptors\<close>

definition make_socket_key :: "bpf_env \<Rightarrow> s32 \<Rightarrow> socket_fd_key" where
  "make_socket_key env fd = \<lparr>sfk_tgid = cur_tgid env, sfk_fd = fd, sfk_pad = 0\<rparr>"

definition add_socket_fd :: "bpf_env \<Rightarrow> s32 \<Rightarrow> kstate \<Rightarrow> int \<times> kstate" where
  "add_socket_fd env fd s =
     (let (ret, m) = update_elem (env_socket_map env) (socket_fd_state s) (make_socket_key env fd)
            \<lparr>sfv_is_socket = 1\<rparr>
      in (ret, s\<lparr>socket_fd_state := m\<rparr>))"

definition delete_socket_fd :: "bpf_env \<Rightarrow> s32 \<Rightarrow> kstate \<Rightarrow> int \<times> kstate" where
  "delete_socket_fd env fd s =
     (let (ret, m) = delete_elem (env_socket_map env) (socket_fd_state s) (make_socket_key env fd)
      in (ret, s\<lparr>socket_fd_state := m\<rparr>))"

definition is_socket_fd :: "bpf_env \<Rightarrow> s32 \<Rightarrow> kstate \<Rightarrow> bool" where
  "is_socket_fd env fd s =
     (case socket_fd_state s (make_socket_key env fd) of
        None \<Rightarrow> False
      | Some v \<Rightarrow> sfv_is_socket v = 1)"

section \<open>Network exits\<close>

text \<open>
  The body of \<open>emit_network_exit_event\<close> between the copy of the saved payload and the submission,
  one definition for each of its conditionals, in the order of the source. The first five also
  maintain the descriptor table.
\<close>

definition nx_socket ::
  "bpf_env \<Rightarrow> u32 \<Rightarrow> s64 \<Rightarrow> network_event \<times> kstate \<Rightarrow> network_event \<times> kstate" where
  "nx_socket env kind ret_code = (\<lambda>(out, s).
     if kind = NETWORK_SOCKET \<and> sint ret_code \<ge> 0
     then let out = out\<lparr>ne_fd := ucast ret_code\<rparr> in (out, snd (add_socket_fd env (ne_fd out) s))
     else (out, s))"

definition nx_socketpair ::
  "bpf_env \<Rightarrow> u32 \<Rightarrow> s64 \<Rightarrow> network_state_value \<Rightarrow> network_event \<times> kstate \<Rightarrow> network_event \<times> kstate"
where
  "nx_socketpair env kind ret_code state = (\<lambda>(out, s).
     if kind = NETWORK_SOCKETPAIR \<and> sint ret_code \<ge> 0 \<and> nsv_peer_fd_ptr state \<noteq> 0
     then let (rc, fds) = env_probe_user env (nsv_peer_fd_ptr state) 8
          in if rc = 0
             then let out = out\<lparr>ne_fd := le_word (field_at 0 4 fds),
                                ne_peer_fd := le_word (field_at 4 4 fds)\<rparr>;
                      s = snd (add_socket_fd env (ne_fd out) s)
                  in (out, snd (add_socket_fd env (ne_peer_fd out) s))
             else (out, s)
     else (out, s))"

definition nx_accept ::
  "bpf_env \<Rightarrow> u32 \<Rightarrow> s64 \<Rightarrow> network_event \<times> kstate \<Rightarrow> network_event \<times> kstate" where
  "nx_accept env kind ret_code = (\<lambda>(out, s).
     if kind = NETWORK_ACCEPT \<and> sint ret_code \<ge> 0
     then let out = out\<lparr>ne_peer_fd := ucast ret_code\<rparr>
          in (out, snd (add_socket_fd env (ne_peer_fd out) s))
     else (out, s))"

definition nx_accept4 ::
  "bpf_env \<Rightarrow> u32 \<Rightarrow> s64 \<Rightarrow> network_event \<times> kstate \<Rightarrow> network_event \<times> kstate" where
  "nx_accept4 env kind ret_code = (\<lambda>(out, s).
     if kind = NETWORK_ACCEPT4 \<and> sint ret_code \<ge> 0
     then let out = out\<lparr>ne_peer_fd := ucast ret_code\<rparr>
          in (out, snd (add_socket_fd env (ne_peer_fd out) s))
     else (out, s))"

definition nx_close ::
  "bpf_env \<Rightarrow> u32 \<Rightarrow> s64 \<Rightarrow> network_event \<times> kstate \<Rightarrow> network_event \<times> kstate" where
  "nx_close env kind ret_code = (\<lambda>(out, s).
     if kind = NETWORK_CLOSE \<and> sint ret_code \<ge> 0
     then (out, snd (delete_socket_fd env (ne_fd out) s))
     else (out, s))"

definition sockaddr_len_at :: "bpf_env \<Rightarrow> network_state_value \<Rightarrow> u32" where
  "sockaddr_len_at env state =
     (if nsv_sockaddr_len_ptr state \<noteq> 0
      then le_word (snd (env_probe_user env (nsv_sockaddr_len_ptr state) 4)) else 0)"

definition nx_remote ::
  "bpf_env \<Rightarrow> u32 \<Rightarrow> s64 \<Rightarrow> network_state_value \<Rightarrow> network_event \<Rightarrow> network_event" where
  "nx_remote env kind ret_code state out =
     (if kind \<in> {NETWORK_ACCEPT, NETWORK_ACCEPT4, NETWORK_RECVFROM, NETWORK_GETPEERNAME} \<and>
         sint ret_code \<ge> 0 \<and> nsv_sockaddr_ptr state \<noteq> 0
      then out\<lparr>ne_remote := parse_sockaddr_user env (nsv_sockaddr_ptr state)
                              (sockaddr_len_at env state) (ne_remote out)\<rparr>
      else out)"

definition nx_bytes :: "u32 \<Rightarrow> s64 \<Rightarrow> network_event \<Rightarrow> network_event" where
  "nx_bytes kind ret_code out =
     (if kind \<in> {NETWORK_SENDTO, NETWORK_RECVFROM, NETWORK_SENDMSG, NETWORK_RECVMSG, NETWORK_READ,
                 NETWORK_WRITE, NETWORK_READV, NETWORK_WRITEV} \<and> sint ret_code \<ge> 0
      then out\<lparr>ne_bytes_transferred := ret_code\<rparr> else out)"

definition nx_mmsg ::
  "bpf_env \<Rightarrow> u32 \<Rightarrow> s64 \<Rightarrow> network_state_value \<Rightarrow> network_event \<Rightarrow> network_event" where
  "nx_mmsg env kind ret_code state out =
     (if kind \<in> {NETWORK_SENDMMSG, NETWORK_RECVMMSG} \<and> sint ret_code \<ge> 0 \<and>
         nsv_mmsg_ptr state \<noteq> 0 \<and> nsv_mmsg_count state \<noteq> 0
      then out\<lparr>ne_bytes_transferred :=
                 sum_mmsghdr_transfers env (nsv_mmsg_ptr state) (ucast (nsv_mmsg_count state))\<rparr>
      else out)"

definition nx_flow :: "bpf_env \<Rightarrow> network_event \<Rightarrow> network_event" where
  "nx_flow env out =
     (if ne_flow_id out = 0 then out\<lparr>ne_flow_id := compute_network_flow_id env out\<rparr> else out)"

definition nx_local ::
  "bpf_env \<Rightarrow> u32 \<Rightarrow> s64 \<Rightarrow> network_state_value \<Rightarrow> network_event \<Rightarrow> network_event" where
  "nx_local env kind ret_code state out =
     (if kind = NETWORK_GETSOCKNAME \<and> sint ret_code \<ge> 0 \<and> nsv_sockaddr_ptr state \<noteq> 0
      then out\<lparr>ne_local := parse_sockaddr_user env (nsv_sockaddr_ptr state)
                             (sockaddr_len_at env state) (ne_local out)\<rparr>
      else out)"

definition nx_opt ::
  "bpf_env \<Rightarrow> u32 \<Rightarrow> s64 \<Rightarrow> network_state_value \<Rightarrow> network_event \<Rightarrow> network_event" where
  "nx_opt env kind ret_code state out =
     (if kind = NETWORK_GETSOCKOPT \<and> sint ret_code \<ge> 0
      then let out = (if nsv_optlen_ptr state \<noteq> 0
                      then let (rc, len) = env_probe_user env (nsv_optlen_ptr state) 4
                           in if rc = 0 then out\<lparr>ne_opt_len := le_word len\<rparr> else out
                      else out)
           in if nsv_optval_ptr state \<noteq> 0 \<and> sint (ne_opt_len out) > 0
              then out\<lparr>ne_optval_prefix := copy_optval_prefix env (ne_optval_prefix out)
                         (nsv_optval_ptr state) (ne_opt_len out)\<rparr>
              else out
      else out)"

definition emit_network_exit_event :: "bpf_env \<Rightarrow> u32 \<Rightarrow> s64 \<Rightarrow> kstate \<Rightarrow> int \<times> kstate" where
  "emit_network_exit_event env kind ret_code s =
     (let key = make_network_key env kind
      in case network_enter_state s key of
           None \<Rightarrow> (0, stat_inc env BPF_STAT_NETWORK_STATE_MISS s)
         | Some state \<Rightarrow>
             (case reserve_network_event env kind s of
                (None, s) \<Rightarrow> (0, delete_network_entry env key s)
              | (Some out, s) \<Rightarrow>
                  let out = nsv_ev state;
                      out = out\<lparr>ne_hdr := (ne_hdr out)\<lparr>hdr_ts_ns := env_ktime_exit env\<rparr>,
                                ne_ret := ucast ret_code\<rparr>;
                      (out, s) = nx_socket env kind ret_code (out, s);
                      (out, s) = nx_socketpair env kind ret_code state (out, s);
                      (out, s) = nx_accept env kind ret_code (out, s);
                      (out, s) = nx_accept4 env kind ret_code (out, s);
                      (out, s) = nx_close env kind ret_code (out, s);
                      out = nx_remote env kind ret_code state out;
                      out = nx_bytes kind ret_code out;
                      out = nx_mmsg env kind ret_code state out;
                      out = nx_flow env out;
                      out = nx_local env kind ret_code state out;
                      out = nx_opt env kind ret_code state out
                  in if \<not> is_network_port_allowed (ep_port (ne_local out)) (ep_port (ne_remote out))
                     then (0, delete_network_entry env key s)
                     else (0, delete_network_entry env key (ringbuf_submit (NetworkEv out) s))))"

end
