(* ===== verification/Bpf_Network.thy ===== *)
theory Bpf_Network
  imports Bpf_Emit
begin

text \<open>
  bpf/event_logger_network.bpf.c: an enter and an exit handler for each of the 23 socket system
  calls. The handlers share one frame, spelled out in the source each time: the gates, for six
  calls on any descriptor the check that it is a socket, the reservation, the scratch slot, and the
  save. \<open>net_enter\<close>, \<open>net_enter_socket_fd\<close> and \<open>net_exit\<close> are these frames; each handler gives the
  kind and how it fills the staged payload. The scratch slot is zeroed at every use, so what a
  handler leaves in it is never read and the state does not keep it.
\<close>

section \<open>The handler frames\<close>

definition net_enter_body ::
  "bpf_env \<Rightarrow> u32 \<Rightarrow> (network_state_value \<Rightarrow> network_state_value) \<Rightarrow> kstate \<Rightarrow> int \<times> kstate" where
  "net_enter_body env kind fill s =
     (case reserve_network_event env kind s of
        (None, s) \<Rightarrow> (0, s)
      | (Some ev, s) \<Rightarrow>
          (case net_scratch env s of
             None \<Rightarrow> (0, s)
           | Some state \<Rightarrow>
               let state = fill (state\<lparr>nsv_ev := ev\<rparr>)
               in (0, snd (save_network_enter_state env kind state s))))"

definition net_enter ::
  "bpf_env \<Rightarrow> u32 \<Rightarrow> (network_state_value \<Rightarrow> network_state_value) \<Rightarrow> kstate \<Rightarrow> int \<times> kstate" where
  "net_enter env kind fill s =
     (if \<not> is_event_allowed env s \<or> \<not> is_network_probe_enabled s kind then (0, s)
      else net_enter_body env kind fill s)"

definition net_enter_socket_fd ::
  "bpf_env \<Rightarrow> u32 \<Rightarrow> (network_state_value \<Rightarrow> network_state_value) \<Rightarrow> kstate \<Rightarrow> int \<times> kstate" where
  "net_enter_socket_fd env kind fill s =
     (if \<not> is_event_allowed env s \<or> \<not> is_network_probe_enabled s kind then (0, s)
      else if \<not> is_socket_fd env (ucast (env_args env 0)) s then (0, s)
      else net_enter_body env kind fill s)"

definition net_exit :: "bpf_env \<Rightarrow> u32 \<Rightarrow> kstate \<Rightarrow> int \<times> kstate" where
  "net_exit env kind s =
     (if \<not> is_event_allowed env s \<or> \<not> is_network_probe_enabled s kind then (0, s)
      else emit_network_exit_event env kind (env_ret env) s)"

text \<open>The message header of sendmsg and recvmsg.\<close>

definition fill_msghdr :: "bpf_env \<Rightarrow> u64 \<Rightarrow> network_event \<Rightarrow> network_event" where
  "fill_msghdr env msg ev =
     (if msg \<noteq> 0
      then let (rc, b) = env_probe_user env msg sizeof_msghdr_min
           in if rc = 0
              then let hdr = dec_msghdr_min b;
                       ev = ev\<lparr>ne_bytes_requested :=
                                 sum_iovec_lengths env (mh_msg_iov hdr) (mh_msg_iovlen hdr)\<rparr>
                   in if mh_msg_name hdr \<noteq> 0 \<and> mh_msg_namelen hdr > 0
                      then ev\<lparr>ne_remote := parse_sockaddr_user env (mh_msg_name hdr)
                                             (mh_msg_namelen hdr) (ne_remote ev)\<rparr>
                      else ev
              else ev
      else ev)"

section \<open>The handlers\<close>

definition on_sys_enter_socket :: "bpf_env \<Rightarrow> kstate \<Rightarrow> int \<times> kstate" where
  "on_sys_enter_socket env = net_enter env NETWORK_SOCKET (\<lambda>state.
     let ev = nsv_ev state;
         ev = ev\<lparr>ne_domain := ucast (env_args env 0), ne_sock_type := ucast (env_args env 1),
                 ne_protocol := ucast (env_args env 2)\<rparr>;
         ev = ev\<lparr>ne_transport := infer_network_transport (ne_domain ev) (ne_sock_type ev),
                 ne_direction := infer_network_direction NETWORK_SOCKET\<rparr>
     in state\<lparr>nsv_ev := ev\<rparr>)"

definition on_sys_exit_socket :: "bpf_env \<Rightarrow> kstate \<Rightarrow> int \<times> kstate" where
  "on_sys_exit_socket env = net_exit env NETWORK_SOCKET"

definition on_sys_enter_socketpair :: "bpf_env \<Rightarrow> kstate \<Rightarrow> int \<times> kstate" where
  "on_sys_enter_socketpair env = net_enter env NETWORK_SOCKETPAIR (\<lambda>state.
     let ev = nsv_ev state;
         ev = ev\<lparr>ne_domain := ucast (env_args env 0), ne_sock_type := ucast (env_args env 1),
                 ne_protocol := ucast (env_args env 2)\<rparr>;
         ev = ev\<lparr>ne_transport := infer_network_transport (ne_domain ev) (ne_sock_type ev),
                 ne_direction := infer_network_direction NETWORK_SOCKETPAIR\<rparr>;
         state = state\<lparr>nsv_peer_fd_ptr := env_args env 3\<rparr>
     in state\<lparr>nsv_ev := ev\<rparr>)"

definition on_sys_exit_socketpair :: "bpf_env \<Rightarrow> kstate \<Rightarrow> int \<times> kstate" where
  "on_sys_exit_socketpair env = net_exit env NETWORK_SOCKETPAIR"

definition on_sys_enter_connect :: "bpf_env \<Rightarrow> kstate \<Rightarrow> int \<times> kstate" where
  "on_sys_enter_connect env = net_enter env NETWORK_CONNECT (\<lambda>state.
     let ev = nsv_ev state;
         ev = ev\<lparr>ne_fd := ucast (env_args env 0),
                 ne_direction := infer_network_direction NETWORK_CONNECT\<rparr>;
         ev = ev\<lparr>ne_remote := parse_sockaddr_user env (env_args env 1) (ucast (env_args env 2))
                                 (ne_remote ev)\<rparr>
     in state\<lparr>nsv_ev := ev\<rparr>)"

definition on_sys_exit_connect :: "bpf_env \<Rightarrow> kstate \<Rightarrow> int \<times> kstate" where
  "on_sys_exit_connect env = net_exit env NETWORK_CONNECT"

definition on_sys_enter_bind :: "bpf_env \<Rightarrow> kstate \<Rightarrow> int \<times> kstate" where
  "on_sys_enter_bind env = net_enter env NETWORK_BIND (\<lambda>state.
     let ev = nsv_ev state;
         ev = ev\<lparr>ne_fd := ucast (env_args env 0), ne_direction := NETWORK_DIRECTION_UNKNOWN\<rparr>;
         ev = ev\<lparr>ne_local := parse_sockaddr_user env (env_args env 1) (ucast (env_args env 2))
                                 (ne_local ev)\<rparr>
     in state\<lparr>nsv_ev := ev\<rparr>)"

definition on_sys_exit_bind :: "bpf_env \<Rightarrow> kstate \<Rightarrow> int \<times> kstate" where
  "on_sys_exit_bind env = net_exit env NETWORK_BIND"

definition on_sys_enter_accept :: "bpf_env \<Rightarrow> kstate \<Rightarrow> int \<times> kstate" where
  "on_sys_enter_accept env = net_enter env NETWORK_ACCEPT (\<lambda>state.
     let ev = nsv_ev state;
         ev = ev\<lparr>ne_fd := ucast (env_args env 0),
                 ne_direction := infer_network_direction NETWORK_ACCEPT\<rparr>;
         state = state\<lparr>nsv_sockaddr_ptr := env_args env 1, nsv_sockaddr_len_ptr := env_args env 2\<rparr>
     in state\<lparr>nsv_ev := ev\<rparr>)"

definition on_sys_exit_accept :: "bpf_env \<Rightarrow> kstate \<Rightarrow> int \<times> kstate" where
  "on_sys_exit_accept env = net_exit env NETWORK_ACCEPT"

definition on_sys_enter_accept4 :: "bpf_env \<Rightarrow> kstate \<Rightarrow> int \<times> kstate" where
  "on_sys_enter_accept4 env = net_enter env NETWORK_ACCEPT4 (\<lambda>state.
     let ev = nsv_ev state;
         ev = ev\<lparr>ne_fd := ucast (env_args env 0), ne_flags := ucast (env_args env 3),
                 ne_direction := infer_network_direction NETWORK_ACCEPT4\<rparr>;
         state = state\<lparr>nsv_sockaddr_ptr := env_args env 1, nsv_sockaddr_len_ptr := env_args env 2\<rparr>
     in state\<lparr>nsv_ev := ev\<rparr>)"

definition on_sys_exit_accept4 :: "bpf_env \<Rightarrow> kstate \<Rightarrow> int \<times> kstate" where
  "on_sys_exit_accept4 env = net_exit env NETWORK_ACCEPT4"

definition on_sys_enter_listen :: "bpf_env \<Rightarrow> kstate \<Rightarrow> int \<times> kstate" where
  "on_sys_enter_listen env = net_enter env NETWORK_LISTEN (\<lambda>state.
     let ev = nsv_ev state;
         ev = ev\<lparr>ne_fd := ucast (env_args env 0), ne_backlog := ucast (env_args env 1)\<rparr>
     in state\<lparr>nsv_ev := ev\<rparr>)"

definition on_sys_exit_listen :: "bpf_env \<Rightarrow> kstate \<Rightarrow> int \<times> kstate" where
  "on_sys_exit_listen env = net_exit env NETWORK_LISTEN"

definition on_sys_enter_getsockname :: "bpf_env \<Rightarrow> kstate \<Rightarrow> int \<times> kstate" where
  "on_sys_enter_getsockname env = net_enter env NETWORK_GETSOCKNAME (\<lambda>state.
     let ev = nsv_ev state;
         ev = ev\<lparr>ne_fd := ucast (env_args env 0)\<rparr>;
         state = state\<lparr>nsv_sockaddr_ptr := env_args env 1, nsv_sockaddr_len_ptr := env_args env 2\<rparr>
     in state\<lparr>nsv_ev := ev\<rparr>)"

definition on_sys_exit_getsockname :: "bpf_env \<Rightarrow> kstate \<Rightarrow> int \<times> kstate" where
  "on_sys_exit_getsockname env = net_exit env NETWORK_GETSOCKNAME"

definition on_sys_enter_getpeername :: "bpf_env \<Rightarrow> kstate \<Rightarrow> int \<times> kstate" where
  "on_sys_enter_getpeername env = net_enter env NETWORK_GETPEERNAME (\<lambda>state.
     let ev = nsv_ev state;
         ev = ev\<lparr>ne_fd := ucast (env_args env 0)\<rparr>;
         state = state\<lparr>nsv_sockaddr_ptr := env_args env 1, nsv_sockaddr_len_ptr := env_args env 2\<rparr>
     in state\<lparr>nsv_ev := ev\<rparr>)"

definition on_sys_exit_getpeername :: "bpf_env \<Rightarrow> kstate \<Rightarrow> int \<times> kstate" where
  "on_sys_exit_getpeername env = net_exit env NETWORK_GETPEERNAME"

definition on_sys_enter_setsockopt :: "bpf_env \<Rightarrow> kstate \<Rightarrow> int \<times> kstate" where
  "on_sys_enter_setsockopt env = net_enter env NETWORK_SETSOCKOPT (\<lambda>state.
     let ev = nsv_ev state;
         ev = ev\<lparr>ne_fd := ucast (env_args env 0), ne_opt_level := ucast (env_args env 1),
                 ne_opt_name := ucast (env_args env 2), ne_opt_len := ucast (env_args env 4)\<rparr>;
         ev = ev\<lparr>ne_optval_prefix := copy_optval_prefix env (ne_optval_prefix ev)
                                       (env_args env 3) (ucast (env_args env 4))\<rparr>;
         state = state\<lparr>nsv_optval_ptr := env_args env 3\<rparr>
     in state\<lparr>nsv_ev := ev\<rparr>)"

definition on_sys_exit_setsockopt :: "bpf_env \<Rightarrow> kstate \<Rightarrow> int \<times> kstate" where
  "on_sys_exit_setsockopt env = net_exit env NETWORK_SETSOCKOPT"

definition on_sys_enter_getsockopt :: "bpf_env \<Rightarrow> kstate \<Rightarrow> int \<times> kstate" where
  "on_sys_enter_getsockopt env = net_enter env NETWORK_GETSOCKOPT (\<lambda>state.
     let ev = nsv_ev state;
         ev = ev\<lparr>ne_fd := ucast (env_args env 0), ne_opt_level := ucast (env_args env 1),
                 ne_opt_name := ucast (env_args env 2)\<rparr>;
         state = state\<lparr>nsv_optval_ptr := env_args env 3, nsv_optlen_ptr := env_args env 4\<rparr>;
         ev = (if nsv_optlen_ptr state \<noteq> 0
               then ev\<lparr>ne_opt_len := le_word (snd (env_probe_user env (nsv_optlen_ptr state) 4))\<rparr>
               else ev)
     in state\<lparr>nsv_ev := ev\<rparr>)"

definition on_sys_exit_getsockopt :: "bpf_env \<Rightarrow> kstate \<Rightarrow> int \<times> kstate" where
  "on_sys_exit_getsockopt env = net_exit env NETWORK_GETSOCKOPT"

definition on_sys_enter_sendto :: "bpf_env \<Rightarrow> kstate \<Rightarrow> int \<times> kstate" where
  "on_sys_enter_sendto env = net_enter env NETWORK_SENDTO (\<lambda>state.
     let ev = nsv_ev state;
         ev = ev\<lparr>ne_fd := ucast (env_args env 0), ne_flags := ucast (env_args env 3),
                 ne_direction := infer_network_direction NETWORK_SENDTO,
                 ne_bytes_requested := env_args env 2\<rparr>;
         ev = ev\<lparr>ne_remote := parse_sockaddr_user env (env_args env 4) (ucast (env_args env 5))
                                 (ne_remote ev)\<rparr>
     in state\<lparr>nsv_ev := ev\<rparr>)"

definition on_sys_exit_sendto :: "bpf_env \<Rightarrow> kstate \<Rightarrow> int \<times> kstate" where
  "on_sys_exit_sendto env = net_exit env NETWORK_SENDTO"

definition on_sys_enter_sendmsg :: "bpf_env \<Rightarrow> kstate \<Rightarrow> int \<times> kstate" where
  "on_sys_enter_sendmsg env = net_enter env NETWORK_SENDMSG (\<lambda>state.
     let ev = nsv_ev state;
         ev = ev\<lparr>ne_fd := ucast (env_args env 0), ne_flags := ucast (env_args env 2),
                 ne_direction := infer_network_direction NETWORK_SENDMSG\<rparr>;
         ev = fill_msghdr env (env_args env 1) ev
     in state\<lparr>nsv_ev := ev\<rparr>)"

definition on_sys_exit_sendmsg :: "bpf_env \<Rightarrow> kstate \<Rightarrow> int \<times> kstate" where
  "on_sys_exit_sendmsg env = net_exit env NETWORK_SENDMSG"

definition on_sys_enter_recvfrom :: "bpf_env \<Rightarrow> kstate \<Rightarrow> int \<times> kstate" where
  "on_sys_enter_recvfrom env = net_enter env NETWORK_RECVFROM (\<lambda>state.
     let ev = nsv_ev state;
         ev = ev\<lparr>ne_fd := ucast (env_args env 0), ne_flags := ucast (env_args env 3),
                 ne_direction := infer_network_direction NETWORK_RECVFROM,
                 ne_bytes_requested := env_args env 2\<rparr>;
         state = state\<lparr>nsv_sockaddr_ptr := env_args env 4, nsv_sockaddr_len_ptr := env_args env 5\<rparr>
     in state\<lparr>nsv_ev := ev\<rparr>)"

definition on_sys_exit_recvfrom :: "bpf_env \<Rightarrow> kstate \<Rightarrow> int \<times> kstate" where
  "on_sys_exit_recvfrom env = net_exit env NETWORK_RECVFROM"

definition on_sys_enter_recvmsg :: "bpf_env \<Rightarrow> kstate \<Rightarrow> int \<times> kstate" where
  "on_sys_enter_recvmsg env = net_enter env NETWORK_RECVMSG (\<lambda>state.
     let ev = nsv_ev state;
         ev = ev\<lparr>ne_fd := ucast (env_args env 0), ne_flags := ucast (env_args env 2),
                 ne_direction := infer_network_direction NETWORK_RECVMSG\<rparr>;
         ev = fill_msghdr env (env_args env 1) ev
     in state\<lparr>nsv_ev := ev\<rparr>)"

definition on_sys_exit_recvmsg :: "bpf_env \<Rightarrow> kstate \<Rightarrow> int \<times> kstate" where
  "on_sys_exit_recvmsg env = net_exit env NETWORK_RECVMSG"

definition on_sys_enter_read :: "bpf_env \<Rightarrow> kstate \<Rightarrow> int \<times> kstate" where
  "on_sys_enter_read env = net_enter_socket_fd env NETWORK_READ (\<lambda>state.
     let ev = nsv_ev state;
         ev = ev\<lparr>ne_fd := ucast (env_args env 0),
                 ne_direction := infer_network_direction NETWORK_READ,
                 ne_bytes_requested := env_args env 2\<rparr>
     in state\<lparr>nsv_ev := ev\<rparr>)"

definition on_sys_exit_read :: "bpf_env \<Rightarrow> kstate \<Rightarrow> int \<times> kstate" where
  "on_sys_exit_read env = net_exit env NETWORK_READ"

definition on_sys_enter_write :: "bpf_env \<Rightarrow> kstate \<Rightarrow> int \<times> kstate" where
  "on_sys_enter_write env = net_enter_socket_fd env NETWORK_WRITE (\<lambda>state.
     let ev = nsv_ev state;
         ev = ev\<lparr>ne_fd := ucast (env_args env 0),
                 ne_direction := infer_network_direction NETWORK_WRITE,
                 ne_bytes_requested := env_args env 2\<rparr>
     in state\<lparr>nsv_ev := ev\<rparr>)"

definition on_sys_exit_write :: "bpf_env \<Rightarrow> kstate \<Rightarrow> int \<times> kstate" where
  "on_sys_exit_write env = net_exit env NETWORK_WRITE"

definition on_sys_enter_readv :: "bpf_env \<Rightarrow> kstate \<Rightarrow> int \<times> kstate" where
  "on_sys_enter_readv env = net_enter_socket_fd env NETWORK_READV (\<lambda>state.
     let ev = nsv_ev state;
         ev = ev\<lparr>ne_fd := ucast (env_args env 0),
                 ne_direction := infer_network_direction NETWORK_READV,
                 ne_bytes_requested := sum_iovec_lengths env (env_args env 1) (env_args env 2)\<rparr>
     in state\<lparr>nsv_ev := ev\<rparr>)"

definition on_sys_exit_readv :: "bpf_env \<Rightarrow> kstate \<Rightarrow> int \<times> kstate" where
  "on_sys_exit_readv env = net_exit env NETWORK_READV"

definition on_sys_enter_writev :: "bpf_env \<Rightarrow> kstate \<Rightarrow> int \<times> kstate" where
  "on_sys_enter_writev env = net_enter_socket_fd env NETWORK_WRITEV (\<lambda>state.
     let ev = nsv_ev state;
         ev = ev\<lparr>ne_fd := ucast (env_args env 0),
                 ne_direction := infer_network_direction NETWORK_WRITEV,
                 ne_bytes_requested := sum_iovec_lengths env (env_args env 1) (env_args env 2)\<rparr>
     in state\<lparr>nsv_ev := ev\<rparr>)"

definition on_sys_exit_writev :: "bpf_env \<Rightarrow> kstate \<Rightarrow> int \<times> kstate" where
  "on_sys_exit_writev env = net_exit env NETWORK_WRITEV"

definition on_sys_enter_sendmmsg :: "bpf_env \<Rightarrow> kstate \<Rightarrow> int \<times> kstate" where
  "on_sys_enter_sendmmsg env = net_enter_socket_fd env NETWORK_SENDMMSG (\<lambda>state.
     let ev = nsv_ev state;
         ev = ev\<lparr>ne_fd := ucast (env_args env 0), ne_flags := ucast (env_args env 3),
                 ne_direction := infer_network_direction NETWORK_SENDMMSG\<rparr>;
         state = state\<lparr>nsv_mmsg_ptr := env_args env 1, nsv_mmsg_count := env_args env 2\<rparr>;
         ev = ev\<lparr>ne_bytes_requested := sum_mmsghdr_lengths env (nsv_mmsg_ptr state)
                   (ucast (nsv_mmsg_count state))\<rparr>
     in state\<lparr>nsv_ev := ev\<rparr>)"

definition on_sys_exit_sendmmsg :: "bpf_env \<Rightarrow> kstate \<Rightarrow> int \<times> kstate" where
  "on_sys_exit_sendmmsg env = net_exit env NETWORK_SENDMMSG"

definition on_sys_enter_recvmmsg :: "bpf_env \<Rightarrow> kstate \<Rightarrow> int \<times> kstate" where
  "on_sys_enter_recvmmsg env = net_enter_socket_fd env NETWORK_RECVMMSG (\<lambda>state.
     let ev = nsv_ev state;
         ev = ev\<lparr>ne_fd := ucast (env_args env 0), ne_flags := ucast (env_args env 3),
                 ne_direction := infer_network_direction NETWORK_RECVMMSG\<rparr>;
         state = state\<lparr>nsv_mmsg_ptr := env_args env 1, nsv_mmsg_count := env_args env 2\<rparr>;
         ev = ev\<lparr>ne_bytes_requested := sum_mmsghdr_lengths env (nsv_mmsg_ptr state)
                   (ucast (nsv_mmsg_count state))\<rparr>
     in state\<lparr>nsv_ev := ev\<rparr>)"

definition on_sys_exit_recvmmsg :: "bpf_env \<Rightarrow> kstate \<Rightarrow> int \<times> kstate" where
  "on_sys_exit_recvmmsg env = net_exit env NETWORK_RECVMMSG"

definition on_sys_enter_shutdown :: "bpf_env \<Rightarrow> kstate \<Rightarrow> int \<times> kstate" where
  "on_sys_enter_shutdown env = net_enter env NETWORK_SHUTDOWN (\<lambda>state.
     let ev = nsv_ev state;
         ev = ev\<lparr>ne_fd := ucast (env_args env 0), ne_how := ucast (env_args env 1)\<rparr>
     in state\<lparr>nsv_ev := ev\<rparr>)"

definition on_sys_exit_shutdown :: "bpf_env \<Rightarrow> kstate \<Rightarrow> int \<times> kstate" where
  "on_sys_exit_shutdown env = net_exit env NETWORK_SHUTDOWN"

definition on_sys_enter_close :: "bpf_env \<Rightarrow> kstate \<Rightarrow> int \<times> kstate" where
  "on_sys_enter_close env = net_enter_socket_fd env NETWORK_CLOSE (\<lambda>state.
     let ev = nsv_ev state;
         ev = ev\<lparr>ne_fd := ucast (env_args env 0)\<rparr>
     in state\<lparr>nsv_ev := ev\<rparr>)"

definition on_sys_exit_close :: "bpf_env \<Rightarrow> kstate \<Rightarrow> int \<times> kstate" where
  "on_sys_exit_close env = net_exit env NETWORK_CLOSE"

end
