(* ===== verification/Bpf_Common_Facts.thy ===== *)
theory Bpf_Common_Facts
  imports Bpf_Common
begin

text \<open>
  What the shared helpers compute: the flow hash loses nothing of its key, the vector sums count
  the readable entries among the first eight, parsed endpoints keep their shape and bounds, a UNIX
  path is copied up to its first NUL, and the message-vector layout of the source is compared with
  the one user space writes. \<open>sample_env\<close> is a concrete environment for the witnesses.
\<close>

section \<open>A concrete environment\<close>

definition mem_probe :: "(u64 \<Rightarrow> u8) \<Rightarrow> u64 \<Rightarrow> nat \<Rightarrow> int \<times> u8 list" where
  "mem_probe mem a n = (0, map (\<lambda>i. mem (a + of_nat i)) [0..<n])"

definition sample_env :: bpf_env where
  "sample_env =
     \<lparr>env_cpu = 0, env_pid_tgid = 0x0000006400000065, env_uid_gid = 0, env_ktime = 10,
      env_ktime_exit = 20, env_comm = replicate 16 0, env_task = Some (1, 0),
      env_probe_user = mem_probe (\<lambda>_. 0),
      env_probe_user_str = (\<lambda>a n d. (if n = 0 then -14 else 0, replicate n 0)),
      env_probe_kernel_str = (\<lambda>a n d. (if n = 0 then -14 else 0, replicate n 0)),
      env_rb_process = None, env_rb_file = None, env_rb_syscall = None, env_rb_network = None,
      env_args = (\<lambda>_. 0), env_ret = 0, env_id = 0, env_ctx = 0, env_data_loc_filename = 0,
      env_child_pid = 0, env_file_map = hash_map_ops STATE_MAP_MAX_ENTRIES,
      env_syscall_map = hash_map_ops STATE_MAP_MAX_ENTRIES,
      env_network_map = hash_map_ops STATE_MAP_MAX_ENTRIES,
      env_socket_map = hash_map_ops STATE_MAP_MAX_ENTRIES\<rparr>"

lemma mem_probe_length [simp]: "length (snd (mem_probe mem a n)) = n"
  by (simp add: mem_probe_def)

section \<open>The flow hash\<close>

lemma xorshift33_involutive:
  "(x XOR drop_bit 33 x) XOR drop_bit 33 (x XOR drop_bit 33 x) = (x :: u64)"
proof -
  have "drop_bit 33 (drop_bit 33 x) = 0"
    by (rule bit_word_eqI) (auto simp: bit_simps dest: bit_imp_le_length)
  then show ?thesis by (simp add: drop_bit_xor xor.assoc)
qed

lemma inj_xorshift33: "inj (\<lambda>x :: u64. x XOR drop_bit 33 x)"
  by (rule inj_on_inverseI [where g = "\<lambda>x. x XOR drop_bit 33 x"]) (rule xorshift33_involutive)

text \<open>The multipliers are odd, so each has an inverse modulo \<open>2 ^ 64\<close>.\<close>

lemma inj_mult_unit:
  assumes "c * d = (1 :: u64)"
  shows "inj (\<lambda>x. x * c)"
  by (rule inj_on_inverseI [where g = "\<lambda>x. x * d"]) (simp only: mult.assoc assms mult_1_right)

lemma inj_mult_odd1: "inj (\<lambda>x :: u64. x * 0xff51afd7ed558ccd)"
  by (rule inj_mult_unit [where d = "0x4f74430c22a54005"]) simp

lemma inj_mult_odd2: "inj (\<lambda>x :: u64. x * 0xc4ceb9fe1a85ec53)"
  by (rule inj_mult_unit [where d = "0x9cb4b2f8129337db"]) simp

lemma inj_hash_fold64: "inj hash_fold64"
proof -
  have eq: "hash_fold64 =
      (\<lambda>x. x XOR drop_bit 33 x) \<circ> (\<lambda>x. x * 0xc4ceb9fe1a85ec53) \<circ>
      (\<lambda>x. x XOR drop_bit 33 x) \<circ> (\<lambda>x. x * 0xff51afd7ed558ccd) \<circ> (\<lambda>x. x XOR drop_bit 33 x)"
    by (simp add: fun_eq_iff hash_fold64_def Let_def)
  show ?thesis
    unfolding eq by (intro inj_compose inj_xorshift33 inj_mult_odd1 inj_mult_odd2)
qed

section \<open>Vector sums\<close>

definition iovec_len_at :: "bpf_env \<Rightarrow> u64 \<Rightarrow> nat \<Rightarrow> u64" where
  "iovec_len_at env base i =
     (let (rc, item) = env_probe_user env (base + of_nat (i * sizeof_iovec_min)) sizeof_iovec_min
      in if rc = 0 then le_word (field_at 8 8 item) else 0)"

definition mmsg_amount_at :: "bpf_env \<Rightarrow> (u8 list \<Rightarrow> u64) \<Rightarrow> u64 \<Rightarrow> nat \<Rightarrow> u64" where
  "mmsg_amount_at env amount base i =
     (let (rc, item) =
        env_probe_user env (base + of_nat (i * sizeof_mmsghdr_min)) sizeof_mmsghdr_min
      in if rc = 0 then amount item else 0)"

lemma sum_iovec_loop_eq:
  "sum_iovec_loop env base count is acc =
     acc + sum_list (map (iovec_len_at env base) (takeWhile (\<lambda>i. of_nat i < count) is))"
  by (induction "is" arbitrary: acc) (auto simp: iovec_len_at_def not_le split: prod.splits)

lemma sum_mmsghdr_loop_eq:
  "sum_mmsghdr_loop env amount base count is acc =
     acc + sum_list (map (mmsg_amount_at env amount base) (takeWhile (\<lambda>i. of_nat i < count) is))"
  by (induction "is" arbitrary: acc) (auto simp: mmsg_amount_at_def not_le split: prod.splits)

lemma takeWhile_upt:
  assumes "\<And>i. i < n \<Longrightarrow> P i \<longleftrightarrow> i < k"
  shows "takeWhile P [0..<n] = [0..<min n k]"
proof -
  have "takeWhile P [0..<n] = take (min n k) [0..<n]"
    using assms by (intro takeWhile_eq_take_P_nth) (auto simp: min_def split: if_splits)
  then show ?thesis by (simp add: take_upt)
qed

lemma of_nat_less_word_iff:
  "i < 8 \<Longrightarrow> of_nat i < (c :: 'a::len word) \<longleftrightarrow> i < unat c" if "3 < LENGTH('a)"
proof -
  assume "i < 8"
  also have "(8 :: nat) = 2 ^ 3" by simp
  also have "(2 :: nat) ^ 3 \<le> 2 ^ LENGTH('a)" using that by (intro power_increasing) auto
  finally have "unat (of_nat i :: 'a word) = i"
    by (simp add: unat_of_nat take_bit_nat_eq_self unsigned_of_nat)
  then show ?thesis by (simp add: word_less_nat_alt)
qed


section \<open>Copying UNIX socket paths\<close>

lemma copy_path_name_spec:
  assumes "j \<le> n" and "n \<le> length out"
  shows "length (copy_path_name path plen [j..<n] out) = length out \<and>
    (\<forall>i. i < j \<longrightarrow> copy_path_name path plen [j..<n] out ! i = out ! i) \<and>
    (\<forall>i. j \<le> i \<and> i < n \<and> int i < plen \<and> (\<forall>l. j \<le> l \<and> l < i \<longrightarrow> path ! l \<noteq> 0) \<longrightarrow>
       copy_path_name path plen [j..<n] out ! i = path ! i)"
  using assms
proof (induction "n - j" arbitrary: j out)
  case 0
  then show ?case by auto
next
  case (Suc d)
  then have up: "[j..<n] = j # [Suc j..<n]" and lt: "j < length out"
    by (simp_all add: upt_conv_Cons)
  show ?case
  proof (cases "int j \<ge> plen \<or> path ! j = 0")
    case True
    then show ?thesis using lt unfolding up by (auto simp: nth_list_update le_less)
  next
    case False
    let ?out = "out[j := path ! j]"
    have IH: "length (copy_path_name path plen [Suc j..<n] ?out) = length ?out \<and>
      (\<forall>i. i < Suc j \<longrightarrow> copy_path_name path plen [Suc j..<n] ?out ! i = ?out ! i) \<and>
      (\<forall>i. Suc j \<le> i \<and> i < n \<and> int i < plen \<and> (\<forall>l. Suc j \<le> l \<and> l < i \<longrightarrow> path ! l \<noteq> 0) \<longrightarrow>
         copy_path_name path plen [Suc j..<n] ?out ! i = path ! i)"
      using Suc.hyps(2) Suc.prems by (intro Suc.hyps(1)) auto
    have eq: "copy_path_name path plen [j..<n] out = copy_path_name path plen [Suc j..<n] ?out"
      using False unfolding up by simp
    have "copy_path_name path plen [j..<n] out ! i = path ! i"
      if "j \<le> i" "i < n" "int i < plen" "\<forall>l. j \<le> l \<and> l < i \<longrightarrow> path ! l \<noteq> 0" for i
      using IH that lt unfolding eq by (cases "i = j") auto
    with IH show ?thesis unfolding eq by (auto simp: nth_list_update)
  qed
qed

text \<open>Stored bytes followed by a NUL read back as the C string that was stored.\<close>

lemma takeWhile_nul_eq:
  assumes "k \<le> length ys" and "k < length xs" and "\<And>i. i < k \<Longrightarrow> xs ! i = ys ! i \<and> ys ! i \<noteq> 0"
    and "xs ! k = (0 :: u8)" and "k < length ys \<Longrightarrow> ys ! k = 0"
  shows "takeWhile (\<lambda>b. b \<noteq> 0) xs = takeWhile (\<lambda>b. b \<noteq> 0) ys"
proof -
  have "takeWhile (\<lambda>b. b \<noteq> 0) xs = take k xs" and "takeWhile (\<lambda>b. b \<noteq> 0) ys = take k ys"
    using assms by (intro takeWhile_eq_take_P_nth; auto)+
  moreover have "take k xs = take k ys"
    using assms by (intro nth_equalityI) auto
  ultimately show ?thesis by simp
qed

lemma copy_path_name_string:
  assumes len: "length out = 108" "length path = 108" and p: "0 < plen" "plen \<le> 108"
  defines "m \<equiv> min plen 107"
  shows "takeWhile (\<lambda>b. b \<noteq> 0) ((copy_path_name path (int plen) [0..<107] out)[m := 0]) =
    takeWhile (\<lambda>b. b \<noteq> 0) (take m path)"
proof -
  let ?R = "copy_path_name path (int plen) [0..<107] out"
  define k where "k = length (takeWhile (\<lambda>b. b \<noteq> 0) (take m path))"
  have m: "m \<le> 107" "m \<le> plen" using p by (auto simp: m_def)
  have km: "k \<le> m" using len m length_takeWhile_le [of "\<lambda>b. b \<noteq> 0" "take m path"]
    by (simp add: k_def)
  have nz: "path ! i \<noteq> 0" if "i < k" for i
    using that km nth_mem [of i "takeWhile (\<lambda>b. b \<noteq> 0) (take m path)"] len m
      takeWhile_nth [of i "\<lambda>b. b \<noteq> 0" "take m path"] set_takeWhileD
    by (fastforce simp: k_def)
  have z: "path ! k = 0" if "k < m"
    using nth_length_takeWhile [of "\<lambda>b. b \<noteq> 0" "take m path"] that len m by (simp add: k_def)
  have spec: "length ?R = 108" "\<And>i. i < 107 \<Longrightarrow> int i < int plen \<Longrightarrow> \<forall>l<i. path ! l \<noteq> 0 \<Longrightarrow> ?R ! i = path ! i"
    using copy_path_name_spec [of 0 107 out path "int plen"] len by auto
  show ?thesis
  proof (rule takeWhile_nul_eq [where k = k])
    show "k \<le> length (take m path)" and "k < length (?R[m := 0])"
      using km m len spec(1) by auto
    show "?R[m := 0] ! i = take m path ! i \<and> take m path ! i \<noteq> 0" if "i < k" for i
      using that km m nz spec by (auto simp: nth_list_update)
    show "?R[m := 0] ! k = 0"
      using km m z nz spec by (cases "k = m") (auto simp: nth_list_update)
    show "take m path ! k = 0" if "k < length (take m path)"
      using that z by simp
  qed
qed


lemma copy_abstract_name_spec:
  assumes "copy_abstract_name path plen [j..<n] (out, j) = (out', k)"
    and "j \<le> n" and "n \<le> length out"
  shows "length out' = length out \<and> j \<le> k \<and> k \<le> n \<and> (\<forall>i<j. out' ! i = out ! i) \<and>
    (\<forall>i. j \<le> i \<and> i < k \<longrightarrow> out' ! i = path ! i \<and> path ! i \<noteq> 0 \<and> int i < plen) \<and>
    (k = n \<or> plen \<le> int k \<or> path ! k = 0)"
  using assms
proof (induction "n - j" arbitrary: j out)
  case 0
  then show ?case by auto
next
  case (Suc d)
  then have up: "[j..<n] = j # [Suc j..<n]" and lt: "j < length out"
    by (simp_all add: upt_conv_Cons)
  show ?case
  proof (cases "int j \<ge> plen \<or> path ! j = 0")
    case True
    then have "copy_abstract_name path plen [j..<n] (out, j) = (out, j)" unfolding up by auto
    with Suc.prems True show ?thesis by auto
  next
    case False
    then have "copy_abstract_name path plen [Suc j..<n] (out[j := path ! j], Suc j) = (out', k)"
      using Suc.prems(1) unfolding up by simp
    then have IH: "length out' = length (out[j := path ! j]) \<and> Suc j \<le> k \<and> k \<le> n \<and>
      (\<forall>i<Suc j. out' ! i = out[j := path ! j] ! i) \<and>
      (\<forall>i. Suc j \<le> i \<and> i < k \<longrightarrow> out' ! i = path ! i \<and> path ! i \<noteq> 0 \<and> int i < plen) \<and>
      (k = n \<or> plen \<le> int k \<or> path ! k = 0)"
      using Suc.hyps(2) Suc.prems by (intro Suc.hyps(1)) auto
    have "out' ! i = path ! i \<and> path ! i \<noteq> 0 \<and> int i < plen" if "j \<le> i" "i < k" for i
      using IH that lt False by (cases "i = j") auto
    with IH show ?thesis by (auto simp: nth_list_update)
  qed
qed

lemma copy_abstract_name_string:
  assumes len: "length out = 108" "length path = 108" and p: "1 < plen" "plen \<le> 108"
    and cp: "copy_abstract_name path (int plen) [1..<107] (out[0 := 0x40], 1) = (out', k)"
  shows "takeWhile (\<lambda>b. b \<noteq> 0) (out'[k := 0]) =
    0x40 # takeWhile (\<lambda>b. b \<noteq> 0) (drop 1 (take (min plen 107) path))"
proof -
  let ?m = "min plen 107"
  let ?ys = "0x40 # drop 1 (take ?m path)"
  have "1 \<le> (107 :: nat)" "107 \<le> length (out[0 := 0x40 :: u8])" using len by simp_all
  note s = copy_abstract_name_spec [OF cp this]
  have kp: "int k \<le> int plen"
  proof (rule ccontr)
    assume "\<not> int k \<le> int plen"
    then have "1 \<le> plen \<and> plen < k" using p by simp
    then have "int plen < int plen" using s by blast
    then show False by simp
  qed
  have k: "1 \<le> k" "k \<le> ?m" "length out' = 108" "out' ! 0 = 0x40"
    using s len kp by auto
  show ?thesis
  proof (subst takeWhile_nul_eq [where k = k and ys = ?ys])
    show "k \<le> length ?ys" and "k < length (out'[k := 0])"
      using k len p by auto
    show "out'[k := 0] ! i = ?ys ! i \<and> ?ys ! i \<noteq> 0" if "i < k" for i
      using that s k len by (cases i) (auto simp: nth_list_update)
    show "out'[k := 0] ! k = 0" using k by simp
    show "?ys ! k = 0" if "k < length ?ys"
    proof -
      have "k < 107" and "k < plen" using that k len p by (auto simp: min_def split: if_splits)
      then have "path ! k = 0" using s by auto
      then show ?thesis using that k len by (cases k) auto
    qed
  qed simp
qed


section \<open>Endpoints keep their shape\<close>

text \<open>
  What every consumer of an endpoint relies on: the arrays have their size, the path is a C string,
  the address length is that of no address, IPv4 or IPv6, and port and family are 16-bit values.
\<close>

definition endpoint_ok :: "network_endpoint \<Rightarrow> bool" where
  "endpoint_ok ep \<longleftrightarrow>
     network_endpoint_wf ep \<and> nul_terminated (ep_path ep) \<and> ep_addr_len ep \<in> {0, 4, 16} \<and>
     unat (ep_port ep) < 65536 \<and> unat (ep_family ep) < 65536"

lemma unat_ucast_u16 [simp]: "unat (ucast (w :: u16) :: u32) < 65536"
proof -
  have "unat (ucast w :: u32) \<le> unat w"
    by (simp add: unsigned_ucast_eq)
  also have "unat w < 65536" using unsigned_less [of w, where 'a = nat] by simp
  finally show ?thesis .
qed

lemma sint_small:
  assumes "unat (w :: u32) < 2 ^ 31"
  shows "sint w = int (unat w)"
proof -
  have "int (unat w) < int (2 ^ 31)" using assms by (simp only: of_nat_less_iff)
  then have "uint w < 2 ^ 31" by simp
  moreover have "- (2 ^ 31) \<le> uint w"
    by (rule order_trans [of _ 0]) simp_all
  ultimately have "signed_take_bit 31 (uint w) = uint w"
    by (intro signed_take_bit_int_eq_self)
  then show ?thesis by (simp add: sint_uint)
qed

lemma reset_network_endpoint_ok: "network_endpoint_wf ep \<Longrightarrow> endpoint_ok (reset_network_endpoint ep)"
  by (simp add: endpoint_ok_def reset_network_endpoint_def network_endpoint_wf_def)

lemma copy_unix_sockaddr_path_ok:
  assumes "endpoint_ok ep" and len: "length un = 108" and pl: "unat plen \<le> 108"
  shows "endpoint_ok (copy_unix_sockaddr_path un plen ep)"
proof -
  have e: "length (ep_path ep) = 108" using assms(1) by (simp add: endpoint_ok_def network_endpoint_wf_def)
  have "nul_terminated (ep_path (copy_unix_sockaddr_path un plen ep)) \<and>
        length (ep_path (copy_unix_sockaddr_path un plen ep)) = 108"
  proof (cases "plen = 0 \<or> (un ! 0 = 0 \<and> \<not> unix_has_name un (sint plen) [1..<108])")
    case True
    then show ?thesis using assms(1) e by (auto simp: copy_unix_sockaddr_path_def endpoint_ok_def)
  next
    case named: False
    show ?thesis
    proof (cases "un ! 0 = 0")
      case True
      obtain out' k where cp:
        "copy_abstract_name un (sint plen) [1..<107] ((ep_path ep)[0 := 0x40], 1) = (out', k)"
        by fastforce
      then have "length out' = 108 \<and> k \<le> 107"
        using copy_abstract_name_spec [OF cp] e by simp
      then show ?thesis using named True cp by (simp add: copy_unix_sockaddr_path_def)
    next
      case False
      have "length (copy_path_name un (sint plen) [0..<107] (ep_path ep)) = 108"
        using copy_path_name_spec [of 0 107 "ep_path ep" un "sint plen"] e by simp
      then show ?thesis
        using named False by (auto simp: copy_unix_sockaddr_path_def Let_def)
    qed
  qed
  then show ?thesis
    using assms(1)
    by (auto simp: endpoint_ok_def network_endpoint_wf_def copy_unix_sockaddr_path_def Let_def
        split: prod.splits if_splits)
qed

lemma parse_sockaddr_in_ok:
  assumes "bpf_env_ok env" and "endpoint_ok ep"
  shows "endpoint_ok (parse_sockaddr_in env ptr ep)"
  using assms probe_user_length [OF assms(1)]
  by (auto simp: parse_sockaddr_in_def endpoint_ok_def network_endpoint_wf_def byte_simps
      split: prod.splits)

lemma parse_sockaddr_in6_ok:
  assumes "bpf_env_ok env" and "endpoint_ok ep"
  shows "endpoint_ok (parse_sockaddr_in6 env ptr ep)"
  using assms probe_user_length [OF assms(1)]
  by (auto simp: parse_sockaddr_in6_def endpoint_ok_def network_endpoint_wf_def byte_simps
      split: prod.splits)

lemma parse_sockaddr_un_ok:
  assumes "bpf_env_ok env" and "endpoint_ok ep"
  shows "endpoint_ok (parse_sockaddr_un env ptr len ep)"
proof -
  define cl :: u32 where "cl = (if unat len > 110 then of_nat 110 else len)"
  have cl: "unat cl \<le> 110" by (auto simp: cl_def)
  show ?thesis
  proof (cases "unat cl \<ge> 2")
    case True
    then have "unat (cl - 2) \<le> 108" using cl by (simp add: unat_sub word_le_nat_alt)
    moreover obtain rc b where pr: "env_probe_user env ptr (unat cl) = (rc, b)"
      by fastforce
    define un where "un = drop 2 (b @ replicate (110 - unat cl) 0)"
    have "length un = 108"
      using probe_user_length [OF assms(1) pr] cl True by (simp add: un_def)
    moreover have "parse_sockaddr_un env ptr len ep =
        (if rc = 0 then copy_unix_sockaddr_path un (cl - 2) ep else ep)"
      unfolding parse_sockaddr_un_def cl_def [symmetric] Let_def un_def
      using True by (simp only: pr prod.case if_True)
    ultimately show ?thesis
      using assms(2) by (simp add: copy_unix_sockaddr_path_ok)
  next
    case False
    then show ?thesis
      using assms(2) unfolding parse_sockaddr_un_def cl_def [symmetric] Let_def
      by (simp only: if_False)
  qed
qed

lemma parse_sockaddr_user_endpoint_ok:
  assumes "bpf_env_ok env" and "network_endpoint_wf ep"
  shows "endpoint_ok (parse_sockaddr_user env user_ptr len ep)"
proof -
  have r: "endpoint_ok (reset_network_endpoint ep)"
    using assms(2) by (rule reset_network_endpoint_ok)
  then have "unat f < 65536 \<Longrightarrow> endpoint_ok (reset_network_endpoint ep\<lparr>ep_family := f\<rparr>)" for f
    by (simp add: endpoint_ok_def network_endpoint_wf_def)
  with r show ?thesis
    using assms(1)
    by (auto simp: parse_sockaddr_user_def Let_def parse_sockaddr_in_ok parse_sockaddr_in6_ok
        parse_sockaddr_un_ok split: prod.splits)
qed

text \<open>
  C40. Whatever user memory holds and whatever length the caller names, the snapshot taken of a
  socket address keeps the array sizes, stores a terminated path, an address length of 0, 4 or 16
  and a 16-bit port and family.
\<close>

theorem parse_sockaddr_user_bounds:
  assumes "bpf_env_ok env" and "network_endpoint_wf ep"
  shows "let ep' = parse_sockaddr_user env user_ptr len ep in
    network_endpoint_wf ep' \<and> nul_terminated (ep_path ep') \<and> ep_addr_len ep' \<in> {0, 4, 16} \<and>
    unat (ep_port ep') < 65536 \<and> unat (ep_family ep') < 65536"
  using parse_sockaddr_user_endpoint_ok [OF assms(1,2)] by (simp add: endpoint_ok_def Let_def)

lemma sample_env_ok: "bpf_env_ok sample_env"
  by (simp add: bpf_env_ok_def sample_env_def user_str_ok_def kernel_str_ok_def hash_map_ops_ok
      hash_ops_ok_imp)

theorem parse_sockaddr_user_bounds_witness:
  "bpf_env_ok sample_env \<and>
   nul_terminated (ep_path (parse_sockaddr_user sample_env 4096 16 zero_endpoint))"
  using parse_sockaddr_user_bounds [OF sample_env_ok zero_wf(2), of 4096 16] sample_env_ok
  by (simp add: Let_def)

lemma unix_has_name_iff:
  "unix_has_name path plen is \<longleftrightarrow> (\<exists>i \<in> set (takeWhile (\<lambda>i. int i < plen) is). path ! i \<noteq> 0)"
  by (induction "is") auto

lemma unix_has_name_108:
  assumes "plen \<le> 108"
  shows "unix_has_name path (int plen) [1..<108] \<longleftrightarrow> (\<exists>i. 1 \<le> i \<and> i < plen \<and> path ! i \<noteq> 0)"
proof -
  have "takeWhile (\<lambda>i. int i < int plen) [1..<108] = take (plen - 1) [1..<108]"
    using assms by (intro takeWhile_eq_take_P_nth) auto
  then show ?thesis using assms by (auto simp: unix_has_name_iff Bex_def)
qed

text \<open>The C string a path array holds, as bytes.\<close>

abbreviation (input) path_bytes :: "u8 list \<Rightarrow> u8 list" where
  "path_bytes bs \<equiv> takeWhile (\<lambda>b. b \<noteq> 0) bs"

text \<open>
  C39. A UNIX socket address of \<open>plen\<close> path bytes is stored as its path name up to the first NUL, at
  most 107 bytes; an abstract name (leading NUL) is stored behind an \<open>@\<close>, up to its next NUL; an
  unnamed socket leaves the path as it was.
\<close>

theorem copy_unix_sockaddr_path_string:
  assumes "length un = 108" and "0 < unat plen" and "unat plen \<le> 108" and "network_endpoint_wf ep"
  shows "path_bytes (ep_path (copy_unix_sockaddr_path un plen ep)) =
    (if un ! 0 \<noteq> 0 then path_bytes (take (min (unat plen) 107) un)
     else if \<exists>i. 1 \<le> i \<and> i < unat plen \<and> un ! i \<noteq> 0
     then 0x40 # path_bytes (drop 1 (take (min (unat plen) 107) un))
     else path_bytes (ep_path ep))"
proof -
  have s: "sint plen = int (unat plen)" using assms(3) by (intro sint_small) simp
  have e: "length (ep_path ep) = 108" using assms(4) by (simp add: network_endpoint_wf_def)
  have nz: "plen \<noteq> 0" using assms(2) by auto
  show ?thesis
  proof (cases "un ! 0 = 0")
    case True
    obtain out' k where cp:
      "copy_abstract_name un (int (unat plen)) [1..<107] ((ep_path ep)[0 := 0x40], 1) = (out', k)"
      by fastforce
    show ?thesis
    proof (cases "\<exists>i. 1 \<le> i \<and> i < unat plen \<and> un ! i \<noteq> 0")
      case named: True
      then have p1: "1 < unat plen" by auto
      have "unix_has_name un (sint plen) [1..<EVENT_LOGGER_UNIX_PATH_LEN]"
        using named assms(3) unfolding s by (simp only: unix_has_name_108)
      then have "ep_path (copy_unix_sockaddr_path un plen ep) = out'[k := 0]"
        using True nz cp by (simp add: copy_unix_sockaddr_path_def s)
      then show ?thesis
        using copy_abstract_name_string [OF e assms(1) p1 assms(3) cp] named True by simp
    next
      case False
      then have "\<not> unix_has_name un (sint plen) [1..<EVENT_LOGGER_UNIX_PATH_LEN]"
        using assms(3) unfolding s by (simp only: unix_has_name_108) simp
      then show ?thesis
        using True False nz by (auto simp: copy_unix_sockaddr_path_def)
    qed
  next
    case False
    with nz assms e show ?thesis
      using copy_path_name_string [of "ep_path ep" un "unat plen"]
      by (auto simp: copy_unix_sockaddr_path_def s Let_def min_def)
  qed
qed

theorem copy_unix_sockaddr_path_string_witness:
  "path_bytes (ep_path (copy_unix_sockaddr_path (0x2f # 0x61 # replicate 106 0) 3 zero_endpoint)) =
     [0x2f, 0x61]"
  using copy_unix_sockaddr_path_string [of "0x2f # 0x61 # replicate 106 0" 3 zero_endpoint] by simp

section \<open>Vector sums and flow identity\<close>

lemma sum_iovec_lengths_eq:
  "sum_iovec_lengths env iov count =
     sum_list (map (iovec_len_at env iov) [0..<min MAX_IOVEC_ENTRIES (unat count)])"
  by (simp add: sum_iovec_lengths_def sum_iovec_loop_eq MAX_IOVEC_ENTRIES_def
      takeWhile_upt [where k = "unat count"] of_nat_less_word_iff)

lemma sum_mmsghdr_eq:
  "sum_mmsghdr_loop env amount msgs count [0..<MAX_MMSGHDR_ENTRIES] 0 =
     sum_list (map (mmsg_amount_at env amount msgs) [0..<min MAX_MMSGHDR_ENTRIES (unat count)])"
  by (simp add: sum_mmsghdr_loop_eq MAX_MMSGHDR_ENTRIES_def
      takeWhile_upt [where k = "unat count"] of_nat_less_word_iff)

text \<open>
  The requested size of a vectored operation is the sum, modulo \<open>2 ^ 64\<close>, of the lengths of its
  readable entries among the first eight; the requested size of a message vector is the sum of
  those sums over its first eight headers, as the source lays the headers out.
\<close>

theorem vector_lengths_bounded:
  "sum_iovec_lengths env iov count =
     (\<Sum>i\<leftarrow>[0..<min 8 (unat count)]. iovec_len_at env iov i) \<and>
   sum_mmsghdr_lengths env msgs n =
     (\<Sum>i\<leftarrow>[0..<min 8 (unat n)]. mmsg_amount_at env
        (\<lambda>item. let h = dec_msghdr_min item in
           \<Sum>j\<leftarrow>[0..<min 8 (unat (mh_msg_iovlen h))]. iovec_len_at env (mh_msg_iov h) j) msgs i)"
  unfolding sum_mmsghdr_lengths_def sum_mmsghdr_eq sum_iovec_lengths_eq Let_def
  unfolding MAX_IOVEC_ENTRIES_def MAX_MMSGHDR_ENTRIES_def
  by (rule conjI refl)+

text \<open>
  The bytes a message-vector exit reports are, for each of the first eight headers, the 32-bit
  word found 32 bytes into a 40-byte header: with user space's 64-byte \<open>struct mmsghdr\<close> that is
  the low half of \<open>msg_control\<close> of the first message, not its \<open>msg_len\<close> at offset 56.
\<close>

theorem mmsghdr_transfers_layout:
  "sum_mmsghdr_transfers (env\<lparr>env_probe_user := mem_probe mem\<rparr>) msgs n =
     (\<Sum>i\<leftarrow>[0..<min 8 (unat n)].
        ucast (le_word (map (\<lambda>j. mem (msgs + of_nat (40 * i) + of_nat j)) [32..<36]) :: u32))"
proof -
  have "mmsg_amount_at (env\<lparr>env_probe_user := mem_probe mem\<rparr>)
          (\<lambda>item. ucast (le_word (field_at 32 4 item) :: u32)) msgs i =
        ucast (le_word (map (\<lambda>j. mem (msgs + of_nat (40 * i) + of_nat j)) [32..<36]) :: u32)" for i
    by (simp add: mmsg_amount_at_def mem_probe_def field_at_def drop_map take_map mult.commute)
  then show ?thesis
    unfolding sum_mmsghdr_transfers_def sum_mmsghdr_eq unfolding MAX_MMSGHDR_ENTRIES_def
    by (intro arg_cong [where f = sum_list] map_cong refl)
qed

text \<open>
  Two flow identities are equal exactly when the values they fold are: the mixing steps lose
  nothing, so a collision of flow identities is a collision of the fields themselves.
\<close>

theorem flow_id_injective:
  "compute_network_flow_id env e = compute_network_flow_id env' e' \<longleftrightarrow>
     network_flow_key env e = network_flow_key env' e'"
  by (simp add: compute_network_flow_id_def inj_eq [OF inj_hash_fold64])

lemma xor_if: "(if c then y XOR x else y) = y XOR (if c then x else (0 :: u64))"
  by simp

lemma xor_cancel_left: "a XOR b = a XOR c \<longleftrightarrow> b = (c :: u64)"
proof
  assume "a XOR b = a XOR c"
  then have "a XOR (a XOR b) = a XOR (a XOR c)" by simp
  then show "b = c" by (simp add: xor.assoc [symmetric])
qed simp

text \<open>The part of the key that does not depend on the kind.\<close>

lemma network_flow_key_kind:
  "\<exists>r. \<forall>k. network_flow_key env (e\<lparr>ne_kind := k\<rparr>) = r XOR push_bit 48 (ucast k)"
proof -
  have pull: "(p XOR push_bit 48 k) XOR x = (p XOR x) XOR (push_bit 48 k :: u64)" for p k x
    by (simp only: ac_simps)
  show ?thesis
    unfolding network_flow_key_def Let_def xor_if pull
    by (cases e) (simp only: network_event.simps, blast)
qed

lemma push_bit_ucast_eq_iff:
  "push_bit 48 (ucast (k :: u32) :: u64) = push_bit 48 (ucast k') \<longleftrightarrow> (ucast k :: u16) = ucast k'"
proof
  assume l: "push_bit 48 (ucast k :: u64) = push_bit 48 (ucast k')"
  show "(ucast k :: u16) = ucast k'"
  proof (rule bit_word_eqI)
    fix n assume "n < LENGTH(16)"
    with arg_cong [OF l, of "\<lambda>x. bit x (n + 48)"]
    show "bit (ucast k :: u16) n = bit (ucast k' :: u16) n" by (simp add: bit_simps)
  qed
next
  assume r: "(ucast k :: u16) = ucast k'"
  show "push_bit 48 (ucast k :: u64) = push_bit 48 (ucast k')"
  proof (rule bit_word_eqI)
    fix n assume n: "n < LENGTH(64)"
    with arg_cong [OF r, of "\<lambda>x. bit x (n - 48)"]
    show "bit (push_bit 48 (ucast k) :: u64) n = bit (push_bit 48 (ucast k') :: u64) n"
      by (simp add: bit_simps) linarith?
  qed
qed

text \<open>
  The kind of the operation is part of the flow identity: the same task, descriptor and
  endpoints get a different identity for each kind of operation, so a connect, a write and a read
  of one socket never share one.
\<close>

theorem flow_id_depends_on_kind:
  "compute_network_flow_id env (e\<lparr>ne_kind := k\<rparr>) = compute_network_flow_id env (e\<lparr>ne_kind := k'\<rparr>) \<longleftrightarrow>
     (ucast k :: u16) = ucast k'"
proof -
  obtain r where "\<And>k. network_flow_key env (e\<lparr>ne_kind := k\<rparr>) = r XOR push_bit 48 (ucast k)"
    using network_flow_key_kind by blast
  then show ?thesis
    by (simp only: compute_network_flow_id_def inj_eq [OF inj_hash_fold64] xor_cancel_left
        push_bit_ucast_eq_iff)
qed

section \<open>Transport\<close>

text \<open>
  Outside UNIX sockets the transport is recognised from the exact socket type only: a type that
  carries the \<open>SOCK_CLOEXEC\<close> or \<open>SOCK_NONBLOCK\<close> bit is reported as unknown.
\<close>

theorem transport_of_flagged_type:
  assumes "flag \<in> {0x800, 0x80000, 0x80800}"
  shows "infer_network_transport d (t OR flag) =
     (if d = AF_UNIX then NETWORK_TRANSPORT_UNIX else NETWORK_TRANSPORT_UNKNOWN)"
proof -
  have b: "bit flag 11 \<or> bit flag 19" using assms by auto
  have "t OR flag \<notin> {SOCK_STREAM, SOCK_DGRAM, SOCK_RAW}"
  proof
    assume "t OR flag \<in> {SOCK_STREAM, SOCK_DGRAM, SOCK_RAW}"
    then have "\<not> bit (t OR flag) 11" and "\<not> bit (t OR flag) 19" by auto
    then show False using b by (simp add: bit_or_iff)
  qed
  then show ?thesis by (simp add: infer_network_transport_def)
qed

end
