(* ===== verification/Bpf_Pairing.thy ===== *)
theory Bpf_Pairing
  imports Bpf_Network Bpf_Common_Facts "HOL-Library.Sublist"
begin

text \<open>
  How an exit finds its enter. \<open>enter_exit\<close> states what a pairing table promises its handlers,
  without saying what the keys, payloads and records are; the lemmas of its context are proved once
  and hold for the file, the syscall and the network table, which are its three interpretations.
\<close>

section \<open>The pairing interface\<close>

locale enter_exit =
  fixes tbl :: "kstate \<Rightarrow> 'k \<rightharpoonup> 'v"
    and key :: "bpf_env \<Rightarrow> 'n \<Rightarrow> 'k"
    and save :: "bpf_env \<Rightarrow> 'n \<Rightarrow> 'v \<Rightarrow> kstate \<Rightarrow> int \<times> kstate"
    and emit :: "bpf_env \<Rightarrow> 'n \<Rightarrow> s64 \<Rightarrow> kstate \<Rightarrow> int \<times> kstate"
    and room :: "bpf_env \<Rightarrow> bool"
    and fin :: "bpf_env \<Rightarrow> 'n \<Rightarrow> s64 \<Rightarrow> 'v \<Rightarrow> event_variant"
  assumes save_old: "tbl s (key env n) = Some w \<Longrightarrow>
      fst (save env n v s) = -1 \<and> tbl (snd (save env n v s)) = tbl s"
    and save_new: "bpf_env_ok env \<Longrightarrow> tbl s (key env n) = None \<Longrightarrow> 0 \<le> fst (save env n v s) \<Longrightarrow>
      tbl (snd (save env n v s)) (key env n) = Some v"
    and save_entry: "bpf_env_ok env \<Longrightarrow> tbl (snd (save env n v s)) k = Some w \<Longrightarrow>
      tbl s k = Some w \<or> (k = key env n \<and> w = v)"
    and save_events: "events (snd (save env n v s)) = events s"
    and emit_table: "bpf_env_ok env \<Longrightarrow> tbl (snd (emit env n r s)) = (tbl s)(key env n := None)"
    and emit_events: "events (snd (emit env n r s)) = events s @
      (case tbl s (key env n) of
         None \<Rightarrow> []
       | Some v \<Rightarrow> if room env then [fin env n r v] else [])"
    and key_task: "key env n = key env' n' \<longleftrightarrow> env_pid_tgid env = env_pid_tgid env' \<and> n = n'"

text \<open>A history of a table: the enters and exits it serves, in order.\<close>

datatype ('n, 'v) call = Enter bpf_env 'n 'v | Exit bpf_env 'n s64

primrec call_env :: "('n, 'v) call \<Rightarrow> bpf_env" where
  "call_env (Enter env n v) = env"
| "call_env (Exit env n r) = env"

primrec is_enter :: "('n, 'v) call \<Rightarrow> bool" where
  "is_enter (Enter env n v) = True"
| "is_enter (Exit env n r) = False"

fun run_calls ::
  "(bpf_env \<Rightarrow> 'n \<Rightarrow> 'v \<Rightarrow> kstate \<Rightarrow> int \<times> kstate) \<Rightarrow> (bpf_env \<Rightarrow> 'n \<Rightarrow> s64 \<Rightarrow> kstate \<Rightarrow> int \<times> kstate) \<Rightarrow>
   ('n, 'v) call list \<Rightarrow> kstate \<Rightarrow> kstate" where
  "run_calls save emit [] s = s"
| "run_calls save emit (Enter env n v # cs) s = run_calls save emit cs (snd (save env n v s))"
| "run_calls save emit (Exit env n r # cs) s = run_calls save emit cs (snd (emit env n r s))"

text \<open>
  What an ideal tracer would report of a history: it knows the tasks themselves and not the keys of a
  table, remembers for each task and call number the arguments of the enter until the exit, however
  many are open, and never runs out of room. \<open>exits_seen\<close> holds of a history in which no task enters
  a call it has not left yet, that is, in which every exit was seen; other tasks may do what they
  like meanwhile.
\<close>

fun ideal_records ::
  "(bpf_env \<Rightarrow> 'n \<Rightarrow> s64 \<Rightarrow> 'v \<Rightarrow> event_variant) \<Rightarrow> ('n, 'v) call list \<Rightarrow> (u64 \<times> 'n \<rightharpoonup> 'v) \<Rightarrow>
   event_variant list" where
  "ideal_records fin [] m = []"
| "ideal_records fin (Enter env n v # cs) m = ideal_records fin cs (m((env_pid_tgid env, n) \<mapsto> v))"
| "ideal_records fin (Exit env n r # cs) m =
     (case m (env_pid_tgid env, n) of None \<Rightarrow> [] | Some v \<Rightarrow> [fin env n r v]) @
     ideal_records fin cs (m((env_pid_tgid env, n) := None))"

fun exits_seen :: "('n, 'v) call list \<Rightarrow> (u64 \<times> 'n) set \<Rightarrow> bool" where
  "exits_seen [] pending \<longleftrightarrow> True"
| "exits_seen (Enter env n v # cs) pending \<longleftrightarrow>
     (env_pid_tgid env, n) \<notin> pending \<and> exits_seen cs (insert (env_pid_tgid env, n) pending)"
| "exits_seen (Exit env n r # cs) pending \<longleftrightarrow> exits_seen cs (pending - {(env_pid_tgid env, n)})"

context enter_exit
begin

text \<open>
  The bounded table implements the ideal one up to lost records: saves may fail, entries be evicted
  and reservations be refused, but what is reported is what the ideal tracer reports, in its order.
\<close>

text \<open>Every entry of the table is what the ideal tracer remembers of the same task and call.\<close>

definition within :: "kstate \<Rightarrow> (u64 \<times> 'n \<rightharpoonup> 'v) \<Rightarrow> bool" where
  "within s m \<longleftrightarrow> (\<forall>k w. tbl s k = Some w \<longrightarrow>
     (\<exists>env n. k = key env n \<and> m (env_pid_tgid env, n) = Some w))"

lemma withinD: "within s m \<Longrightarrow> tbl s (key env n) = Some w \<Longrightarrow> m (env_pid_tgid env, n) = Some w"
  unfolding within_def using key_task by metis

lemma within_save:
  assumes "bpf_env_ok env" and "within s m" and "m (env_pid_tgid env, n) = None"
  shows "within (snd (save env n v s)) (m((env_pid_tgid env, n) \<mapsto> v))"
  unfolding within_def
proof (intro allI impI)
  fix k w assume "tbl (snd (save env n v s)) k = Some w"
  then consider "tbl s k = Some w" | "k = key env n" "w = v" using save_entry [OF assms(1)] by blast
  then show "\<exists>env' n'. k = key env' n' \<and> (m((env_pid_tgid env, n) \<mapsto> v)) (env_pid_tgid env', n') = Some w"
  proof cases
    case 1
    then obtain env' n' where "k = key env' n'" "m (env_pid_tgid env', n') = Some w"
      using assms(2) unfolding within_def by blast
    then show ?thesis using assms(3) by (intro exI [of _ env'] exI [of _ n']) auto
  next
    case 2
    then show ?thesis by (intro exI [of _ env] exI [of _ n]) simp
  qed
qed

lemma within_emit:
  assumes "bpf_env_ok env" and "within s m"
  shows "within (snd (emit env n r s)) (m((env_pid_tgid env, n) := None))"
  unfolding within_def
proof (intro allI impI)
  fix k w assume "tbl (snd (emit env n r s)) k = Some w"
  then have k: "k \<noteq> key env n" "tbl s k = Some w" by (auto simp: emit_table [OF assms(1)] split: if_splits)
  then obtain env' n' where "k = key env' n'" "m (env_pid_tgid env', n') = Some w"
    using assms(2) unfolding within_def by blast
  then show "\<exists>env' n'. k = key env' n' \<and> (m((env_pid_tgid env, n) := None)) (env_pid_tgid env', n') = Some w"
    using k(1) key_task by (intro exI [of _ env'] exI [of _ n']) auto
qed

lemma refines_ideal:
  assumes "\<forall>c \<in> set cs. bpf_env_ok (call_env c)" and "within s m" and "exits_seen cs (dom m)"
  shows "\<exists>es. events (run_calls save emit cs s) = events s @ es \<and> subseq es (ideal_records fin cs m)"
  using assms
proof (induction cs arbitrary: s m)
  case (Cons c cs)
  have rest: "\<forall>c \<in> set cs. bpf_env_ok (call_env c)" using Cons.prems(1) by simp
  show ?case
  proof (cases c)
    case (Enter env n v)
    let ?m = "m((env_pid_tgid env, n) \<mapsto> v)"
    have "within (snd (save env n v s)) ?m"
      using Cons.prems Enter by (intro within_save) auto
    moreover have "exits_seen cs (dom ?m)" using Cons.prems(3) Enter by simp
    ultimately have "\<exists>es. events (run_calls save emit cs (snd (save env n v s))) =
        events (snd (save env n v s)) @ es \<and> subseq es (ideal_records fin cs ?m)"
      using Cons.IH rest by blast
    then show ?thesis
      using Enter save_events [of env n v s] by (simp del: fun_upd_apply)
  next
    case (Exit env n r)
    let ?s = "snd (emit env n r s)" and ?m = "m((env_pid_tgid env, n) := None)"
    have "within ?s ?m" using Cons.prems Exit by (intro within_emit) auto
    moreover have "exits_seen cs (dom ?m)" using Cons.prems(3) Exit by simp
    ultimately obtain es where es: "events (run_calls save emit cs ?s) = events ?s @ es"
      "subseq es (ideal_records fin cs ?m)"
      using Cons.IH rest by blast
    obtain e1 where "events ?s = events s @ e1"
      "subseq e1 (case m (env_pid_tgid env, n) of None \<Rightarrow> [] | Some v \<Rightarrow> [fin env n r v])"
      using emit_events [of env n r s] withinD [OF Cons.prems(2)]
      by (cases "tbl s (key env n)") (auto split: if_splits option.splits)
    then show ?thesis
      using es Exit list_emb_append_mono by fastforce
  qed
qed simp

text \<open>
  And it loses nothing when every save is granted without evicting another entry and every exit
  gets its reservation.
\<close>

lemma complete_ideal:
  assumes "\<forall>c \<in> set cs. room (call_env c) \<and> bpf_env_ok (call_env c)"
    and "\<And>c n v s. c \<in> set cs \<Longrightarrow> tbl s (key (call_env c) n) = None \<Longrightarrow>
      tbl (snd (save (call_env c) n v s)) = (tbl s)(key (call_env c) n \<mapsto> v)"
    and "\<forall>env n. tbl s (key env n) = m (env_pid_tgid env, n)" and "exits_seen cs (dom m)"
  shows "events (run_calls save emit cs s) = events s @ ideal_records fin cs m"
  using assms
proof (induction cs arbitrary: s m)
  case (Cons c cs)
  have rest: "\<forall>c \<in> set cs. room (call_env c) \<and> bpf_env_ok (call_env c)" using Cons.prems(1) by simp
  have IH: "events (run_calls save emit cs s') = events s' @ ideal_records fin cs m'"
    if "\<forall>env n. tbl s' (key env n) = m' (env_pid_tgid env, n)" and "exits_seen cs (dom m')" for s' m'
    by (rule Cons.IH [OF rest Cons.prems(2) that]) simp_all
  have tbl: "tbl s (key env' n') = m (env_pid_tgid env', n')" for env' n'
    using Cons.prems(3) by blast
  show ?case
  proof (cases c)
    case (Enter env n v)
    let ?m = "m((env_pid_tgid env, n) \<mapsto> v)"
    have "m (env_pid_tgid env, n) = None" using Cons.prems(4) Enter by auto
    then have upd: "tbl (snd (save env n v s)) = (tbl s)(key env n \<mapsto> v)"
      using Cons.prems(2) [where c = c and n = n and s = s and v = v] tbl Enter by (simp del: fun_upd_apply)
    have "\<forall>env' n'. tbl (snd (save env n v s)) (key env' n') = ?m (env_pid_tgid env', n')"
      by (simp add: upd key_task tbl)
    moreover have "exits_seen cs (dom ?m)" using Cons.prems(4) Enter by simp
    ultimately have "events (run_calls save emit cs (snd (save env n v s))) =
        events (snd (save env n v s)) @ ideal_records fin cs ?m"
      by (rule IH)
    then show ?thesis by (simp add: Enter save_events del: fun_upd_apply)
  next
    case (Exit env n r)
    then have ok: "bpf_env_ok env" "room env" using Cons.prems(1) by auto
    let ?m = "m((env_pid_tgid env, n) := None)"
    have "\<forall>env' n'. tbl (snd (emit env n r s)) (key env' n') = ?m (env_pid_tgid env', n')"
      by (simp add: emit_table [OF ok(1)] key_task tbl)
    moreover have "exits_seen cs (dom ?m)" using Cons.prems(4) Exit by simp
    ultimately have "events (run_calls save emit cs (snd (emit env n r s))) =
        events (snd (emit env n r s)) @ ideal_records fin cs ?m"
      by (rule IH)
    then show ?thesis
      using ok(2) by (simp add: Exit emit_events tbl del: fun_upd_apply split: option.split)
  qed
qed simp

lemma paired_record:
  assumes "bpf_env_ok env" and "tbl s (key env n) = None" and "save env n v s = (rc, s')"
    and "0 \<le> rc" and "key env' n' = key env n"
  shows "events (snd (emit env' n' r s')) = events s @ (if room env' then [fin env' n' r v] else [])"
  using save_new [OF assms(1,2), of v] save_events [of env n v s] emit_events [of env' n' r s'] assms
  by simp

lemma exit_is_one_shot:
  assumes "bpf_env_ok env" and "key env' n' = key env n"
  shows "events (snd (emit env' n' r' (snd (emit env n r s)))) = events (snd (emit env n r s))"
  using emit_events [of env' n' r' "snd (emit env n r s)"] emit_table [OF assms(1), of n r s] assms(2)
  by simp

lemma exit_reports_oldest_enter:
  assumes "tbl s (key env n) = Some w" and "key env' n' = key env n"
  shows "events (snd (emit env' n' r (snd (save env n v s)))) =
    events s @ (if room env' then [fin env' n' r w] else [])"
  using save_old [OF assms(1), of v] save_events [of env n v s]
    emit_events [of env' n' r "snd (save env n v s)"] assms
  by simp

text \<open>Whatever an exit found, it leaves its key free: the next pair is reported as it happened.\<close>

lemma next_pair_reports_itself:
  assumes "bpf_env_ok env1" and "bpf_env_ok env2" and "key env2 n2 = key env1 n1"
    and "key env3 n3 = key env2 n2" and "0 \<le> fst (save env2 n2 v (snd (emit env1 n1 r1 s)))"
  shows "events (snd (emit env3 n3 r3 (snd (save env2 n2 v (snd (emit env1 n1 r1 s)))))) =
    events (snd (emit env1 n1 r1 s)) @ (if room env3 then [fin env3 n3 r3 v] else [])"
proof -
  have "tbl (snd (emit env1 n1 r1 s)) (key env2 n2) = None"
    using emit_table [OF assms(1)] assms(3) by simp
  from paired_record [OF assms(2) this prod.collapse [symmetric] assms(5,4)] show ?thesis .
qed

text \<open>Every record of a history is the payload of an enter under the key of a later exit.\<close>

lemma record_has_enter:
  assumes "\<forall>c \<in> set cs. bpf_env_ok (call_env c)"
    and "e \<in> set (events (run_calls save emit cs s))"
  shows "e \<in> set (events s) \<or>
    (\<exists>env n r v. Exit env n r \<in> set cs \<and> e = fin env n r v \<and>
       (tbl s (key env n) = Some v \<or>
        (\<exists>env' n'. Enter env' n' v \<in> set cs \<and> key env' n' = key env n)))"
  using assms
proof (induction cs arbitrary: s)
  case Nil
  then show ?case by simp
next
  case (Cons c cs)
  show ?case
  proof (cases c)
    case (Enter env n v)
    with Cons.prems have ok: "bpf_env_ok env" by simp
    have "e \<in> set (events (snd (save env n v s))) \<or>
      (\<exists>env0 n0 r w. Exit env0 n0 r \<in> set cs \<and> e = fin env0 n0 r w \<and>
         (tbl (snd (save env n v s)) (key env0 n0) = Some w \<or>
          (\<exists>env' n'. Enter env' n' w \<in> set cs \<and> key env' n' = key env0 n0)))"
      using Cons.prems Enter by (intro Cons.IH) auto
    then show ?thesis
      using Enter save_events [of env n v s] save_entry [OF ok, of n v s] by fastforce
  next
    case (Exit env n r)
    with Cons.prems have ok: "bpf_env_ok env" by simp
    have "e \<in> set (events (snd (emit env n r s))) \<or>
      (\<exists>env0 n0 r0 w. Exit env0 n0 r0 \<in> set cs \<and> e = fin env0 n0 r0 w \<and>
         (tbl (snd (emit env n r s)) (key env0 n0) = Some w \<or>
          (\<exists>env' n'. Enter env' n' w \<in> set cs \<and> key env' n' = key env0 n0)))"
      using Cons.prems Exit by (intro Cons.IH) auto
    moreover have "e \<in> set (events s) \<or> (\<exists>v. tbl s (key env n) = Some v \<and> e = fin env n r v)"
      if "e \<in> set (events (snd (emit env n r s)))"
      using that emit_events [of env n r s] by (auto split: option.splits if_splits)
    ultimately show ?thesis
      using Exit by (fastforce simp: emit_table [OF ok] split: if_splits)
  qed
qed

text \<open>A table never emits more records than it was given enters, and each uses one up.\<close>

lemma save_card:
  assumes "bpf_env_ok env" and "finite (dom (tbl s))"
  shows "finite (dom (tbl (snd (save env n v s))))"
    and "card (dom (tbl (snd (save env n v s)))) \<le> Suc (card (dom (tbl s)))"
proof -
  have sub: "dom (tbl (snd (save env n v s))) \<subseteq> insert (key env n) (dom (tbl s))"
    using save_entry [OF assms(1), of n v s] by (auto simp: dom_def)
  show "finite (dom (tbl (snd (save env n v s))))"
    using sub assms(2) by (meson finite.insertI finite_subset)
  have "card (dom (tbl (snd (save env n v s)))) \<le> card (insert (key env n) (dom (tbl s)))"
    using sub assms(2) by (intro card_mono) auto
  also have "\<dots> \<le> Suc (card (dom (tbl s)))" by (rule card_insert_le_m1) simp_all
  finally show "card (dom (tbl (snd (save env n v s)))) \<le> Suc (card (dom (tbl s)))" .
qed

lemma emit_card:
  assumes "bpf_env_ok env" and "finite (dom (tbl s))"
  shows "length (events (snd (emit env n r s))) + card (dom (tbl (snd (emit env n r s)))) \<le>
    length (events s) + card (dom (tbl s))"
proof (cases "tbl s (key env n)")
  case None
  then show ?thesis by (simp add: emit_events emit_table [OF assms(1)] domIff)
next
  case (Some v)
  then have "key env n \<in> dom (tbl s)" by auto
  then have "Suc (card (dom (tbl s) - {key env n})) = card (dom (tbl s))"
    using assms(2) by (intro card_Suc_Diff1)
  then show ?thesis
    using Some by (simp add: emit_events emit_table [OF assms(1)])
qed

lemma records_bounded_by_enters:
  assumes "\<forall>c \<in> set cs. bpf_env_ok (call_env c)" and "finite (dom (tbl s))"
  shows "length (events (run_calls save emit cs s)) + card (dom (tbl (run_calls save emit cs s))) \<le>
    length (events s) + card (dom (tbl s)) + length (filter is_enter cs)"
  using assms
proof (induction cs arbitrary: s)
  case (Cons c cs)
  show ?case
  proof (cases c)
    case (Enter env n v)
    then have ok: "bpf_env_ok env" using Cons.prems by simp
    note sc = save_card [OF ok Cons.prems(2), of n v]
    show ?thesis
      using Cons.IH [OF _ sc(1)] Cons.prems sc(2) save_events [of env n v s] Enter by simp
  next
    case (Exit env n r)
    then have ok: "bpf_env_ok env" using Cons.prems by simp
    then have "finite (dom (tbl (snd (emit env n r s))))"
      using Cons.prems(2) by (simp add: emit_table)
    then show ?thesis
      using Cons.IH emit_card [OF ok Cons.prems(2), of n r] Cons.prems Exit by fastforce
  qed
qed simp

end

section \<open>What the helpers leave alone\<close>

lemma stat_inc_frame [simp, frame_simps]:
  "events (stat_inc env k s) = events s"
  "file_enter_state (stat_inc env k s) = file_enter_state s"
  "syscall_enter_state (stat_inc env k s) = syscall_enter_state s"
  "network_enter_state (stat_inc env k s) = network_enter_state s"
  "socket_fd_state (stat_inc env k s) = socket_fd_state s"
  "suppress_tgid (stat_inc env k s) = suppress_tgid s"
  "file_probe_enabled (stat_inc env k s) = file_probe_enabled s"
  "process_probe_enabled (stat_inc env k s) = process_probe_enabled s"
  "syscall_probe_enabled (stat_inc env k s) = syscall_probe_enabled s"
  "network_probe_enabled (stat_inc env k s) = network_probe_enabled s"
  "network_scratch (stat_inc env k s) = network_scratch s"
  by (simp_all add: stat_inc_def)

lemma ringbuf_submit_frame [simp, frame_simps]:
  "events (ringbuf_submit e s) = events s @ [e]"
  "file_enter_state (ringbuf_submit e s) = file_enter_state s"
  "syscall_enter_state (ringbuf_submit e s) = syscall_enter_state s"
  "network_enter_state (ringbuf_submit e s) = network_enter_state s"
  "socket_fd_state (ringbuf_submit e s) = socket_fd_state s"
  by (simp_all add: ringbuf_submit_def)

lemma delete_entry_frame [simp, frame_simps]:
  "events (delete_file_entry env k1 s) = events s"
  "events (delete_syscall_entry env k2 s) = events s"
  "events (delete_network_entry env k3 s) = events s"
  by (simp_all add: delete_file_entry_def delete_syscall_entry_def delete_network_entry_def)

lemma socket_fd_frame [simp, frame_simps]:
  "events (snd (add_socket_fd env fd s)) = events s"
  "network_enter_state (snd (add_socket_fd env fd s)) = network_enter_state s"
  "events (snd (delete_socket_fd env fd s)) = events s"
  "network_enter_state (snd (delete_socket_fd env fd s)) = network_enter_state s"
  by (simp_all add: add_socket_fd_def delete_socket_fd_def split: prod.splits)

lemma reserve_frame:
  "snd (reserve_process_event env kind s) =
     (if env_rb_process env = None then stat_inc env BPF_STAT_RINGBUF_RESERVE_FAIL s else s)"
  "snd (reserve_file_event env kind s) =
     (if env_rb_file env = None then stat_inc env BPF_STAT_RINGBUF_RESERVE_FAIL s else s)"
  "snd (reserve_syscall_event env s) =
     (if env_rb_syscall env = None then stat_inc env BPF_STAT_RINGBUF_RESERVE_FAIL s else s)"
  "snd (reserve_network_event env kind s) =
     (if env_rb_network env = None then stat_inc env BPF_STAT_RINGBUF_RESERVE_FAIL s else s)"
  by (simp_all add: reserve_process_event_def reserve_file_event_def reserve_syscall_event_def
      reserve_network_event_def split: option.splits)

lemma reserve_fst_None:
  "fst (reserve_process_event env kind s) = None \<longleftrightarrow> env_rb_process env = None"
  "fst (reserve_file_event env kind s) = None \<longleftrightarrow> env_rb_file env = None"
  "fst (reserve_syscall_event env s) = None \<longleftrightarrow> env_rb_syscall env = None"
  "fst (reserve_network_event env kind s) = None \<longleftrightarrow> env_rb_network env = None"
  by (simp_all add: reserve_process_event_def reserve_file_event_def reserve_syscall_event_def
      reserve_network_event_def split: option.splits)

section \<open>The finished records\<close>

definition file_exit_record :: "bpf_env \<Rightarrow> u32 \<Rightarrow> s64 \<Rightarrow> file_event \<Rightarrow> event_variant" where
  "file_exit_record env kind ret_code state =
     FileEv (state\<lparr>fe_hdr := (fe_hdr state)\<lparr>hdr_ts_ns := env_ktime_exit env\<rparr>,
                   fe_ret := ucast ret_code\<rparr>)"

definition syscall_exit_record :: "bpf_env \<Rightarrow> s32 \<Rightarrow> s64 \<Rightarrow> syscall_event \<Rightarrow> event_variant" where
  "syscall_exit_record env nr ret_code state =
     SyscallEv (state\<lparr>se_hdr := (se_hdr state)\<lparr>hdr_ts_ns := env_ktime_exit env\<rparr>,
                      se_is_enter := 0, se_ret := ret_code\<rparr>)"

text \<open>The descriptors an exit puts into the record, and what it does to the descriptor table.\<close>

definition network_exit_fds ::
  "bpf_env \<Rightarrow> u32 \<Rightarrow> s64 \<Rightarrow> network_state_value \<Rightarrow> network_event \<Rightarrow> network_event" where
  "network_exit_fds env kind ret_code state out =
     (if sint ret_code < 0 then out
      else if kind = NETWORK_SOCKET then out\<lparr>ne_fd := ucast ret_code\<rparr>
      else if kind = NETWORK_SOCKETPAIR \<and> nsv_peer_fd_ptr state \<noteq> 0 \<and>
              fst (env_probe_user env (nsv_peer_fd_ptr state) 8) = 0
      then let fds = snd (env_probe_user env (nsv_peer_fd_ptr state) 8)
           in out\<lparr>ne_fd := le_word (field_at 0 4 fds), ne_peer_fd := le_word (field_at 4 4 fds)\<rparr>
      else if kind \<in> {NETWORK_ACCEPT, NETWORK_ACCEPT4} then out\<lparr>ne_peer_fd := ucast ret_code\<rparr>
      else out)"

definition network_exit_sockets ::
  "bpf_env \<Rightarrow> u32 \<Rightarrow> s64 \<Rightarrow> network_state_value \<Rightarrow> network_event \<Rightarrow> kstate \<Rightarrow> kstate" where
  "network_exit_sockets env kind ret_code state out s =
     (if sint ret_code < 0 then s
      else if kind = NETWORK_SOCKET then snd (add_socket_fd env (ucast ret_code) s)
      else if kind = NETWORK_SOCKETPAIR \<and> nsv_peer_fd_ptr state \<noteq> 0 \<and>
              fst (env_probe_user env (nsv_peer_fd_ptr state) 8) = 0
      then let fds = snd (env_probe_user env (nsv_peer_fd_ptr state) 8)
           in snd (add_socket_fd env (le_word (field_at 4 4 fds))
                (snd (add_socket_fd env (le_word (field_at 0 4 fds)) s)))
      else if kind \<in> {NETWORK_ACCEPT, NETWORK_ACCEPT4} then snd (add_socket_fd env (ucast ret_code) s)
      else if kind = NETWORK_CLOSE then snd (delete_socket_fd env (ne_fd out) s)
      else s)"

lemma nx_fds:
  "nx_close env kind r (nx_accept4 env kind r (nx_accept env kind r
     (nx_socketpair env kind r state (nx_socket env kind r (out, s))))) =
   (network_exit_fds env kind r state out, network_exit_sockets env kind r state out s)"
  by (cases "sint r < 0"; cases "env_probe_user env (nsv_peer_fd_ptr state) 8")
    (auto simp: nx_socket_def nx_socketpair_def nx_accept_def nx_accept4_def nx_close_def
      network_exit_fds_def network_exit_sockets_def Let_def)

definition network_exit_event ::
  "bpf_env \<Rightarrow> u32 \<Rightarrow> s64 \<Rightarrow> network_state_value \<Rightarrow> network_event" where
  "network_exit_event env kind r state =
     (let out = (nsv_ev state)\<lparr>ne_hdr := (ne_hdr (nsv_ev state))\<lparr>hdr_ts_ns := env_ktime_exit env\<rparr>,
                               ne_ret := ucast r\<rparr>
      in nx_opt env kind r state (nx_local env kind r state (nx_flow env (nx_mmsg env kind r state
           (nx_bytes kind r (nx_remote env kind r state
             (network_exit_fds env kind r state out)))))))"

lemma network_exit_sockets_frame [simp, frame_simps]:
  "events (network_exit_sockets env kind r state out s) = events s"
  "network_enter_state (network_exit_sockets env kind r state out s) = network_enter_state s"
  by (simp_all add: network_exit_sockets_def Let_def)

lemma emit_network_exit_event_eq:
  "emit_network_exit_event env kind r s =
     (case network_enter_state s (make_network_key env kind) of
        None \<Rightarrow> (0, stat_inc env BPF_STAT_NETWORK_STATE_MISS s)
      | Some state \<Rightarrow>
          (0, delete_network_entry env (make_network_key env kind)
             (if env_rb_network env = None then stat_inc env BPF_STAT_RINGBUF_RESERVE_FAIL s
              else ringbuf_submit (NetworkEv (network_exit_event env kind r state))
                (network_exit_sockets env kind r state (nsv_ev state) s))))"
proof (cases "network_enter_state s (make_network_key env kind)")
  case None
  then show ?thesis by (simp add: emit_network_exit_event_def)
next
  case (Some state)
  let ?out = "(nsv_ev state)\<lparr>ne_hdr := (ne_hdr (nsv_ev state))\<lparr>hdr_ts_ns := env_ktime_exit env\<rparr>,
                            ne_ret := ucast r\<rparr>"
  have sock: "network_exit_sockets env kind r state ?out s =
      network_exit_sockets env kind r state (nsv_ev state) s" for s
    by (simp add: network_exit_sockets_def)
  obtain res s1 where res: "reserve_network_event env kind s = (res, s1)" by fastforce
  show ?thesis
  proof (cases res)
    case None
    then show ?thesis
      using Some res reserve_frame(4) [of env kind s] reserve_fst_None(4) [of env kind s]
      by (simp add: emit_network_exit_event_def)
  next
    case (Some ev)
    then have s1: "s1 = s" and "env_rb_network env \<noteq> None"
      using res reserve_frame(4) [of env kind s] reserve_fst_None(4) [of env kind s] by auto
    then obtain m where rb: "env_rb_network env = Some m" by blast
    obtain o1 s2 where n1: "nx_socket env kind r (?out, s1) = (o1, s2)" by fastforce
    obtain o2 s3 where n2: "nx_socketpair env kind r state (o1, s2) = (o2, s3)" by fastforce
    obtain o3 s4 where n3: "nx_accept env kind r (o2, s3) = (o3, s4)" by fastforce
    obtain o4 s5 where n4: "nx_accept4 env kind r (o3, s4) = (o4, s5)" by fastforce
    obtain o5 s6 where n5: "nx_close env kind r (o4, s5) = (o5, s6)" by fastforce
    have "(o5, s6) = (network_exit_fds env kind r state ?out,
        network_exit_sockets env kind r state (nsv_ev state) s)"
      using s1 nx_fds [of env kind r state ?out s1] n1 n2 n3 n4 n5 sock by simp
    then show ?thesis
      using \<open>network_enter_state s _ = Some state\<close> res Some s1 rb n1 n2 n3 n4 n5
      by (simp add: emit_network_exit_event_def network_exit_event_def is_network_port_allowed_def
          Let_def)
  qed
qed

lemma emit_file_exit_event_eq:
  "emit_file_exit_event env kind r s =
     (case file_enter_state s (make_file_key env kind) of
        None \<Rightarrow> (0, stat_inc env BPF_STAT_FILE_STATE_MISS s)
      | Some state \<Rightarrow>
          (0, delete_file_entry env (make_file_key env kind)
             (if env_rb_file env = None then stat_inc env BPF_STAT_RINGBUF_RESERVE_FAIL s
              else ringbuf_submit (file_exit_record env kind r state) s)))"
  by (simp add: emit_file_exit_event_def file_exit_record_def reserve_file_event_def Let_def
      split: option.splits)

lemma emit_syscall_exit_event_eq:
  "emit_syscall_exit_event env nr r s =
     (case syscall_enter_state s (make_syscall_key env nr) of
        None \<Rightarrow> (0, stat_inc env BPF_STAT_SYSCALL_STATE_MISS s)
      | Some state \<Rightarrow>
          (0, delete_syscall_entry env (make_syscall_key env nr)
             (if env_rb_syscall env = None then stat_inc env BPF_STAT_RINGBUF_RESERVE_FAIL s
              else ringbuf_submit (syscall_exit_record env nr r state) s)))"
  by (simp add: emit_syscall_exit_event_def syscall_exit_record_def reserve_syscall_event_def
      Let_def split: option.splits)

section \<open>The three tables\<close>

text \<open>The three keys tell tasks and calls apart.\<close>

lemma task_keys:
  "make_file_key env n = make_file_key env' n' \<longleftrightarrow> env_pid_tgid env = env_pid_tgid env' \<and> n = n'"
  "make_syscall_key env nr = make_syscall_key env' nr' \<longleftrightarrow> env_pid_tgid env = env_pid_tgid env' \<and> nr = nr'"
  "make_network_key env n = make_network_key env' n' \<longleftrightarrow> env_pid_tgid env = env_pid_tgid env' \<and> n = n'"
  by (auto simp: make_file_key_def make_syscall_key_def make_network_key_def)

interpretation file_pairs:
  enter_exit file_enter_state make_file_key save_file_enter_state emit_file_exit_event
    "\<lambda>env. env_rb_file env \<noteq> None" file_exit_record
proof unfold_locales
  fix s :: kstate and env n v w r and k :: file_state_key
  show "file_enter_state s (make_file_key env n) = Some w \<Longrightarrow>
      fst (save_file_enter_state env n v s) = -1 \<and>
      file_enter_state (snd (save_file_enter_state env n v s)) = file_enter_state s"
    by (simp add: save_file_enter_state_def)
  show "bpf_env_ok env \<Longrightarrow> file_enter_state s (make_file_key env n) = None \<Longrightarrow>
      0 \<le> fst (save_file_enter_state env n v s) \<Longrightarrow>
      file_enter_state (snd (save_file_enter_state env n v s)) (make_file_key env n) = Some v"
    using map_ops_ok_update(1) [OF bpf_env_okD(10)]
    by (simp add: save_file_enter_state_def Let_def split: prod.splits)
  show "bpf_env_ok env \<Longrightarrow> file_enter_state (snd (save_file_enter_state env n v s)) k = Some w \<Longrightarrow>
      file_enter_state s k = Some w \<or> (k = make_file_key env n \<and> w = v)"
    using map_ops_ok_entry [OF bpf_env_okD(10), of env "file_enter_state s" "make_file_key env n" v k w]
    by (auto simp: save_file_enter_state_def Let_def split: prod.splits option.splits if_splits)
  show "events (snd (save_file_enter_state env n v s)) = events s"
    by (simp add: save_file_enter_state_def Let_def split: prod.splits option.splits)
  show "bpf_env_ok env \<Longrightarrow> file_enter_state (snd (emit_file_exit_event env n r s)) =
      (file_enter_state s)(make_file_key env n := None)"
    using map_ops_ok_delete [OF bpf_env_okD(10), of env]
    by (auto simp: emit_file_exit_event_eq delete_file_entry_def fun_upd_idem_iff split: option.splits)
  show "events (snd (emit_file_exit_event env n r s)) = events s @
      (case file_enter_state s (make_file_key env n) of None \<Rightarrow> []
       | Some v \<Rightarrow> if env_rb_file env \<noteq> None then [file_exit_record env n r v] else [])"
    by (auto simp: emit_file_exit_event_eq split: option.splits)
qed (rule task_keys)

interpretation syscall_pairs:
  enter_exit syscall_enter_state make_syscall_key save_syscall_enter_state emit_syscall_exit_event
    "\<lambda>env. env_rb_syscall env \<noteq> None" syscall_exit_record
proof unfold_locales
  fix s :: kstate and env n v w r and k :: syscall_state_key
  show "syscall_enter_state s (make_syscall_key env n) = Some w \<Longrightarrow>
      fst (save_syscall_enter_state env n v s) = -1 \<and>
      syscall_enter_state (snd (save_syscall_enter_state env n v s)) = syscall_enter_state s"
    by (simp add: save_syscall_enter_state_def)
  show "bpf_env_ok env \<Longrightarrow> syscall_enter_state s (make_syscall_key env n) = None \<Longrightarrow>
      0 \<le> fst (save_syscall_enter_state env n v s) \<Longrightarrow>
      syscall_enter_state (snd (save_syscall_enter_state env n v s)) (make_syscall_key env n) = Some v"
    using map_ops_ok_update(1) [OF bpf_env_okD(11)]
    by (simp add: save_syscall_enter_state_def Let_def split: prod.splits)
  show "bpf_env_ok env \<Longrightarrow> syscall_enter_state (snd (save_syscall_enter_state env n v s)) k = Some w \<Longrightarrow>
      syscall_enter_state s k = Some w \<or> (k = make_syscall_key env n \<and> w = v)"
    using map_ops_ok_entry [OF bpf_env_okD(11), of env "syscall_enter_state s" "make_syscall_key env n" v k w]
    by (auto simp: save_syscall_enter_state_def Let_def split: prod.splits option.splits if_splits)
  show "events (snd (save_syscall_enter_state env n v s)) = events s"
    by (simp add: save_syscall_enter_state_def Let_def split: prod.splits option.splits)
  show "bpf_env_ok env \<Longrightarrow> syscall_enter_state (snd (emit_syscall_exit_event env n r s)) =
      (syscall_enter_state s)(make_syscall_key env n := None)"
    using map_ops_ok_delete [OF bpf_env_okD(11), of env]
    by (auto simp: emit_syscall_exit_event_eq delete_syscall_entry_def fun_upd_idem_iff split: option.splits)
  show "events (snd (emit_syscall_exit_event env n r s)) = events s @
      (case syscall_enter_state s (make_syscall_key env n) of None \<Rightarrow> []
       | Some v \<Rightarrow> if env_rb_syscall env \<noteq> None then [syscall_exit_record env n r v] else [])"
    by (auto simp: emit_syscall_exit_event_eq split: option.splits)
qed (rule task_keys)

interpretation network_pairs:
  enter_exit network_enter_state make_network_key save_network_enter_state emit_network_exit_event
    "\<lambda>env. env_rb_network env \<noteq> None" "\<lambda>env kind r v. NetworkEv (network_exit_event env kind r v)"
proof unfold_locales
  fix s :: kstate and env n v w r and k :: network_state_key
  show "network_enter_state s (make_network_key env n) = Some w \<Longrightarrow>
      fst (save_network_enter_state env n v s) = -1 \<and>
      network_enter_state (snd (save_network_enter_state env n v s)) = network_enter_state s"
    by (simp add: save_network_enter_state_def)
  show "bpf_env_ok env \<Longrightarrow> network_enter_state s (make_network_key env n) = None \<Longrightarrow>
      0 \<le> fst (save_network_enter_state env n v s) \<Longrightarrow>
      network_enter_state (snd (save_network_enter_state env n v s)) (make_network_key env n) = Some v"
    using map_ops_ok_update(1) [OF bpf_env_okD(12)]
    by (simp add: save_network_enter_state_def Let_def split: prod.splits)
  show "bpf_env_ok env \<Longrightarrow> network_enter_state (snd (save_network_enter_state env n v s)) k = Some w \<Longrightarrow>
      network_enter_state s k = Some w \<or> (k = make_network_key env n \<and> w = v)"
    using map_ops_ok_entry [OF bpf_env_okD(12), of env "network_enter_state s" "make_network_key env n" v k w]
    by (auto simp: save_network_enter_state_def Let_def split: prod.splits option.splits if_splits)
  show "events (snd (save_network_enter_state env n v s)) = events s"
    by (simp add: save_network_enter_state_def Let_def split: prod.splits option.splits)
  show "bpf_env_ok env \<Longrightarrow> network_enter_state (snd (emit_network_exit_event env n r s)) =
      (network_enter_state s)(make_network_key env n := None)"
    using map_ops_ok_delete [OF bpf_env_okD(12), of env]
    by (auto simp: emit_network_exit_event_eq delete_network_entry_def fun_upd_idem_iff
        split: option.splits)
  show "events (snd (emit_network_exit_event env n r s)) = events s @
      (case network_enter_state s (make_network_key env n) of None \<Rightarrow> []
       | Some v \<Rightarrow> if env_rb_network env \<noteq> None then [NetworkEv (network_exit_event env n r v)]
                  else [])"
    by (auto simp: emit_network_exit_event_eq split: option.splits)
qed (rule task_keys)

end
