(* ===== verification/Bpf_Invariant.thy ===== *)
theory Bpf_Invariant
  imports Bpf_Pairing Decoder
begin

text \<open>
  What is true of every record the BPF side builds, saves or submits, and the helpers' part in
  keeping it: the header names the task, the type and the size; arrays have their size and C
  strings end; a saved payload belongs to the task and the kind of its key. The lemmas of this
  theory are the ones the handlers of \<open>Bpf_System\<close> are checked with.
\<close>

section \<open>Well-formed payloads\<close>

definition hdr_ok :: "u64 \<Rightarrow> u32 \<Rightarrow> nat \<Rightarrow> event_header \<Rightarrow> bool" where
  "hdr_ok pt tag sz h \<longleftrightarrow>
     event_header_wf h \<and> nul_terminated (hdr_comm h) \<and> hdr_type h = tag \<and> unat (hdr_size h) = sz \<and>
     hdr_pid h = ucast pt \<and> hdr_tgid h = ucast (drop_bit 32 pt)"

definition process_ok :: "u64 \<Rightarrow> process_event \<Rightarrow> bool" where
  "process_ok pt e \<longleftrightarrow>
     hdr_ok pt EVENT_TYPE_PROCESS sizeof_process_event (pe_hdr e) \<and> process_event_wf e \<and>
     nul_terminated (pe_filename e) \<and> nul_terminated (pe_exec_path e) \<and>
     nul_terminated (pe_cmdline e) \<and> nul_terminated (pe_cwd e) \<and> nul_terminated (pe_parent_comm e)"

definition file_ok :: "u64 \<Rightarrow> file_event \<Rightarrow> bool" where
  "file_ok pt e \<longleftrightarrow>
     hdr_ok pt EVENT_TYPE_FILE sizeof_file_event (fe_hdr e) \<and> file_event_wf e \<and>
     nul_terminated (fe_path_a e) \<and> nul_terminated (fe_path_b e)"

definition syscall_ok :: "u64 \<Rightarrow> syscall_event \<Rightarrow> bool" where
  "syscall_ok pt e \<longleftrightarrow> hdr_ok pt EVENT_TYPE_SYSCALL sizeof_syscall_event (se_hdr e)"

definition network_ok :: "u64 \<Rightarrow> network_event \<Rightarrow> bool" where
  "network_ok pt e \<longleftrightarrow>
     hdr_ok pt EVENT_TYPE_NETWORK sizeof_network_event (ne_hdr e) \<and>
     length (ne_optval_prefix e) = 16 \<and> endpoint_ok (ne_local e) \<and> endpoint_ok (ne_remote e)"

lemmas payload_ok_defs = hdr_ok_def process_ok_def file_ok_def syscall_ok_def network_ok_def

text \<open>A record as it reaches user space, submitted by the task \<open>pt\<close>.\<close>

primrec event_ok :: "u64 \<Rightarrow> event_variant \<Rightarrow> bool" where
  "event_ok pt (ProcessEv e) \<longleftrightarrow> process_ok pt e \<and> pe_kind e \<in> set process_event_kinds"
| "event_ok pt (FileEv e) \<longleftrightarrow> file_ok pt e \<and> fe_kind e \<in> set file_event_kinds"
| "event_ok pt (SyscallEv e) \<longleftrightarrow> syscall_ok pt e \<and> se_is_enter e = 0"
| "event_ok pt (NetworkEv e) \<longleftrightarrow> network_ok pt e \<and> ne_kind e \<in> set network_event_kinds"

lemma event_ok_decodable: "event_ok pt e \<Longrightarrow> event_wf e \<and> well_tagged e"
  by (cases e)
    (auto simp: payload_ok_defs well_tagged_def endpoint_ok_def network_event_wf_def
      syscall_event_wf_def)

lemma event_ok_header:
  "event_ok pt e \<Longrightarrow> hdr_tgid (ev_hdr e) = ucast (drop_bit 32 pt) \<and> hdr_pid (ev_hdr e) = ucast pt \<and>
     nul_terminated (hdr_comm (ev_hdr e))"
  by (cases e) (auto simp: payload_ok_defs)

definition tables_ok :: "kstate \<Rightarrow> bool" where
  "tables_ok s \<longleftrightarrow>
     (\<forall>k v. file_enter_state s k = Some v \<longrightarrow> file_ok (fk_pid_tgid k) v \<and> fe_kind v = fk_kind k) \<and>
     (\<forall>k v. syscall_enter_state s k = Some v \<longrightarrow>
        syscall_ok (sk_pid_tgid k) v \<and> se_syscall_nr v = sk_syscall_nr k) \<and>
     (\<forall>k v. network_enter_state s k = Some v \<longrightarrow>
        network_ok (nk_pid_tgid k) (nsv_ev v) \<and> ne_kind (nsv_ev v) = nk_kind k)"

lemma tables_okI:
  assumes "\<And>k v. file_enter_state s k = Some v \<Longrightarrow> file_ok (fk_pid_tgid k) v \<and> fe_kind v = fk_kind k"
    and "\<And>k v. syscall_enter_state s k = Some v \<Longrightarrow>
      syscall_ok (sk_pid_tgid k) v \<and> se_syscall_nr v = sk_syscall_nr k"
    and "\<And>k v. network_enter_state s k = Some v \<Longrightarrow>
      network_ok (nk_pid_tgid k) (nsv_ev v) \<and> ne_kind (nsv_ev v) = nk_kind k"
  shows "tables_ok s"
  using assms by (simp add: tables_ok_def)

lemma tables_okD:
  assumes "tables_ok s"
  shows "file_enter_state s fk = Some fv \<Longrightarrow> file_ok (fk_pid_tgid fk) fv \<and> fe_kind fv = fk_kind fk"
    and "syscall_enter_state s sk = Some sv \<Longrightarrow>
      syscall_ok (sk_pid_tgid sk) sv \<and> se_syscall_nr sv = sk_syscall_nr sk"
    and "network_enter_state s nk = Some nv \<Longrightarrow>
      network_ok (nk_pid_tgid nk) (nsv_ev nv) \<and> ne_kind (nsv_ev nv) = nk_kind nk"
  using assms by (simp_all add: tables_ok_def)

lemma tables_ok_stat_inc [simp]: "tables_ok (stat_inc env k s) = tables_ok s"
  by (simp add: tables_ok_def)

lemma tables_ok_submit [simp]: "tables_ok (ringbuf_submit e s) = tables_ok s"
  by (simp add: tables_ok_def)

section \<open>Reserved records\<close>

lemma fill_header_ok [keep_intros]:
  "bpf_env_ok env \<Longrightarrow> sz < 2 ^ 32 \<Longrightarrow>
     hdr_ok (env_pid_tgid env) tag sz ((fill_header env tag h)\<lparr>hdr_size := of_nat sz\<rparr>)"
  using bpf_env_okD(1,2) [of env]
  by (simp add: hdr_ok_def fill_header_def event_header_wf_def cur_pid_def cur_tgid_def
      unat_of_nat take_bit_nat_eq_self unsigned_of_nat)

lemma reserve_process_ok:
  assumes "bpf_env_ok env" and "reserve_process_event env kind s = (Some ev, s')"
  shows "process_ok (env_pid_tgid env) ev \<and> pe_kind ev = kind \<and> s' = s"
  using assms bpf_env_okD(6) [OF assms(1)] fill_header_ok [OF assms(1), of 1120 EVENT_TYPE_PROCESS]
  by (auto simp: reserve_process_event_def process_ok_def process_event_wf_def hdr_ok_def
      split: option.splits)

lemma reserve_file_ok:
  assumes "bpf_env_ok env" and "reserve_file_event env kind s = (Some ev, s')"
  shows "file_ok (env_pid_tgid env) ev \<and> fe_kind ev = kind \<and> s' = s"
  using assms bpf_env_okD(7) [OF assms(1)] fill_header_ok [OF assms(1), of 592 EVENT_TYPE_FILE]
  by (auto simp: reserve_file_event_def file_ok_def file_event_wf_def hdr_ok_def
      split: option.splits)

lemma reserve_syscall_ok:
  assumes "bpf_env_ok env" and "reserve_syscall_event env s = (Some ev, s')"
  shows "syscall_ok (env_pid_tgid env) ev \<and> s' = s"
  using assms fill_header_ok [OF assms(1), of 96 EVENT_TYPE_SYSCALL]
  by (auto simp: reserve_syscall_event_def syscall_ok_def split: option.splits)

lemma reserve_network_ok:
  assumes "bpf_env_ok env" and "reserve_network_event env kind s = (Some ev, s')"
  shows "network_ok (env_pid_tgid env) ev \<and> ne_kind ev = kind \<and> s' = s"
  using assms bpf_env_okD(9) [OF assms(1)] fill_header_ok [OF assms(1), of 448 EVENT_TYPE_NETWORK]
  by (auto simp: reserve_network_event_def network_ok_def network_event_wf_def
      reset_network_endpoint_ok split: option.splits)

section \<open>Copies into a payload\<close>

lemma copy_user_path_ok:
  assumes "bpf_env_ok env" and "length d = EVENT_LOGGER_PATH_LEN"
  shows "length (copy_user_path env d ptr) = EVENT_LOGGER_PATH_LEN \<and>
    nul_terminated (copy_user_path env d ptr)"
proof (cases "ptr = 0")
  case True
  then show ?thesis using assms(2) by (simp add: copy_user_path_def)
next
  case False
  obtain rc d' where r: "env_probe_user_str env ptr (length d) d = (rc, d')" by fastforce
  show ?thesis
    using probe_user_str_ok [OF assms(1) r] r False assms(2) by (simp add: copy_user_path_def)
qed

lemma copy_optval_prefix_length:
  assumes "bpf_env_ok env"
  shows "length (copy_optval_prefix env d ptr len) = max (length d) (if ptr = 0 \<or> len = 0 then 0
    else if len > 16 then 16 else unat len)"
  using bpf_env_okD(3) [OF assms] by (auto simp: copy_optval_prefix_def Let_def)

lemma copy_optval_prefix_16:
  assumes "bpf_env_ok env" and "length d = 16"
  shows "length (copy_optval_prefix env d ptr len) = 16"
proof -
  have "unat len \<le> 16" if "\<not> len > 16" using that by (simp add: word_le_nat_alt not_less)
  then show ?thesis using assms(2) by (auto simp: copy_optval_prefix_length [OF assms(1)])
qed

lemma parse_sockaddr_keeps [keep_intros]:
  "bpf_env_ok env \<Longrightarrow> endpoint_ok ep \<Longrightarrow> endpoint_ok (parse_sockaddr_user env ptr len ep)"
  using parse_sockaddr_user_endpoint_ok by (simp add: endpoint_ok_def)

lemma fill_msghdr_ok [keep_intros]:
  assumes "bpf_env_ok env" and "network_ok pt ev"
  shows "network_ok pt (fill_msghdr env msg ev)" and "ne_kind (fill_msghdr env msg ev) = ne_kind ev"
  using assms
  by (auto simp: fill_msghdr_def network_ok_def Let_def parse_sockaddr_keeps split: prod.splits)

section \<open>The exit record\<close>

lemma nx_remote_ok: "bpf_env_ok env \<Longrightarrow> network_ok pt out \<Longrightarrow> network_ok pt (nx_remote env kind r st out)"
  by (simp add: nx_remote_def network_ok_def parse_sockaddr_keeps)

lemma nx_local_ok: "bpf_env_ok env \<Longrightarrow> network_ok pt out \<Longrightarrow> network_ok pt (nx_local env kind r st out)"
  by (simp add: nx_local_def network_ok_def parse_sockaddr_keeps)

lemma nx_opt_ok: "bpf_env_ok env \<Longrightarrow> network_ok pt out \<Longrightarrow> network_ok pt (nx_opt env kind r st out)"
  by (simp add: nx_opt_def network_ok_def Let_def copy_optval_prefix_16 split: prod.splits)

lemma nx_plain_ok [simp]:
  "network_ok pt (nx_bytes kind r out) = network_ok pt out"
  "network_ok pt (nx_mmsg env kind r st out) = network_ok pt out"
  "network_ok pt (nx_flow env out) = network_ok pt out"
  "network_ok pt (network_exit_fds env kind r st out) = network_ok pt out"
  by (simp_all add: nx_bytes_def nx_mmsg_def nx_flow_def network_exit_fds_def network_ok_def Let_def)

lemma nx_kind [simp]:
  "ne_kind (nx_remote env kind r st out) = ne_kind out"
  "ne_kind (nx_local env kind r st out) = ne_kind out"
  "ne_kind (nx_opt env kind r st out) = ne_kind out"
  "ne_kind (nx_bytes kind r out) = ne_kind out"
  "ne_kind (nx_mmsg env kind r st out) = ne_kind out"
  "ne_kind (nx_flow env out) = ne_kind out"
  "ne_kind (network_exit_fds env kind r st out) = ne_kind out"
  by (simp_all add: nx_remote_def nx_local_def nx_opt_def nx_bytes_def nx_mmsg_def nx_flow_def
      network_exit_fds_def Let_def split: prod.splits)

lemma network_exit_event_ok:
  assumes "bpf_env_ok env" and "network_ok pt (nsv_ev st)"
  shows "network_ok pt (network_exit_event env kind r st) \<and>
    ne_kind (network_exit_event env kind r st) = ne_kind (nsv_ev st)"
proof -
  have "network_ok pt ((nsv_ev st)\<lparr>ne_hdr := (ne_hdr (nsv_ev st))\<lparr>hdr_ts_ns := env_ktime_exit env\<rparr>,
                                  ne_ret := ucast r\<rparr>)"
    using assms(2) by (simp add: network_ok_def hdr_ok_def event_header_wf_def)
  then show ?thesis
    using assms(1)
    by (simp add: network_exit_event_def Let_def nx_remote_ok nx_local_ok nx_opt_ok)
qed

end
