(* ===== verification/Bpf_Process.thy ===== *)
theory Bpf_Process
  imports Bpf_Emit
begin

text \<open>
  bpf/event_logger_process.bpf.c: the six process lifecycle handlers, each a single-shot record
  reserved, completed and submitted in one invocation.
\<close>

definition on_sched_exec :: "bpf_env \<Rightarrow> kstate \<Rightarrow> int \<times> kstate" where
  "on_sched_exec env s =
     (if \<not> is_event_allowed env s \<or> \<not> is_process_probe_enabled s PROCESS_EXEC then (0, s)
      else case reserve_process_event env PROCESS_EXEC s of
             (None, s) \<Rightarrow> (0, s)
           | (Some ev, s) \<Rightarrow>
               let filename_off = env_data_loc_filename env AND 0xFFFF;
                   (rc, path) = env_probe_kernel_str env (env_ctx env + ucast filename_off)
                     (length (pe_exec_path ev)) (pe_exec_path ev);
                   ev = ev\<lparr>pe_exec_path := path\<rparr>
               in (0, ringbuf_submit (ProcessEv ev) s))"

definition on_sched_fork :: "bpf_env \<Rightarrow> kstate \<Rightarrow> int \<times> kstate" where
  "on_sched_fork env s =
     (if \<not> is_event_allowed env s \<or> \<not> is_process_probe_enabled s PROCESS_FORK then (0, s)
      else case reserve_process_event env PROCESS_FORK s of
             (None, s) \<Rightarrow> (0, s)
           | (Some ev, s) \<Rightarrow>
               let ev = ev\<lparr>pe_child_pid := env_child_pid env\<rparr>
               in (0, ringbuf_submit (ProcessEv ev) s))"

definition on_sched_exit :: "bpf_env \<Rightarrow> kstate \<Rightarrow> int \<times> kstate" where
  "on_sched_exit env s =
     (if \<not> is_event_allowed env s \<or> \<not> is_process_probe_enabled s PROCESS_EXIT then (0, s)
      else case reserve_process_event env PROCESS_EXIT s of
             (None, s) \<Rightarrow> (0, s)
           | (Some ev, s) \<Rightarrow>
               let ev = ev\<lparr>pe_exit_code := get_current_exit_code env\<rparr>
               in (0, ringbuf_submit (ProcessEv ev) s))"

definition on_sys_exit_clone :: "bpf_env \<Rightarrow> kstate \<Rightarrow> int \<times> kstate" where
  "on_sys_exit_clone env s =
     (if \<not> is_event_allowed env s \<or> \<not> is_process_probe_enabled s PROCESS_CLONE then (0, s)
      else case reserve_process_event env PROCESS_CLONE s of
             (None, s) \<Rightarrow> (0, s)
           | (Some ev, s) \<Rightarrow>
               let ev = (if sint (env_ret env) > 0 then ev\<lparr>pe_child_pid := ucast (env_ret env)\<rparr>
                         else ev)
               in (0, ringbuf_submit (ProcessEv ev) s))"

definition on_sys_exit_clone3 :: "bpf_env \<Rightarrow> kstate \<Rightarrow> int \<times> kstate" where
  "on_sys_exit_clone3 env s =
     (if \<not> is_event_allowed env s \<or> \<not> is_process_probe_enabled s PROCESS_CLONE3 then (0, s)
      else case reserve_process_event env PROCESS_CLONE3 s of
             (None, s) \<Rightarrow> (0, s)
           | (Some ev, s) \<Rightarrow>
               let ev = (if sint (env_ret env) > 0 then ev\<lparr>pe_child_pid := ucast (env_ret env)\<rparr>
                         else ev)
               in (0, ringbuf_submit (ProcessEv ev) s))"

definition on_sys_exit_vfork :: "bpf_env \<Rightarrow> kstate \<Rightarrow> int \<times> kstate" where
  "on_sys_exit_vfork env s =
     (if \<not> is_event_allowed env s \<or> \<not> is_process_probe_enabled s PROCESS_VFORK then (0, s)
      else case reserve_process_event env PROCESS_VFORK s of
             (None, s) \<Rightarrow> (0, s)
           | (Some ev, s) \<Rightarrow>
               let ev = (if sint (env_ret env) > 0 then ev\<lparr>pe_child_pid := ucast (env_ret env)\<rparr>
                         else ev)
               in (0, ringbuf_submit (ProcessEv ev) s))"

end
