(* ===== verification/Bpf_File.thy ===== *)
theory Bpf_File
  imports Bpf_Emit
begin

text \<open>
  bpf/event_logger_file.bpf.c: the enter handlers stash the request, the exit handlers emit it with
  the return code.
\<close>

definition on_sys_enter_openat :: "bpf_env \<Rightarrow> kstate \<Rightarrow> int \<times> kstate" where
  "on_sys_enter_openat env s =
     (if \<not> is_event_allowed env s \<or> \<not> is_file_probe_enabled s FILE_OPENAT then (0, s)
      else case reserve_file_event env FILE_OPENAT s of
             (None, s) \<Rightarrow> (0, s)
           | (Some ev, s) \<Rightarrow>
               let ev = ev\<lparr>fe_dfd := ucast (env_args env 0), fe_flags := ucast (env_args env 2),
                           fe_mode := ucast (env_args env 3)\<rparr>;
                   ev = ev\<lparr>fe_path_a := copy_user_path env (fe_path_a ev) (env_args env 1)\<rparr>
               in (0, snd (save_file_enter_state env FILE_OPENAT ev s)))"

definition on_sys_enter_unlinkat :: "bpf_env \<Rightarrow> kstate \<Rightarrow> int \<times> kstate" where
  "on_sys_enter_unlinkat env s =
     (if \<not> is_event_allowed env s \<or> \<not> is_file_probe_enabled s FILE_UNLINKAT then (0, s)
      else case reserve_file_event env FILE_UNLINKAT s of
             (None, s) \<Rightarrow> (0, s)
           | (Some ev, s) \<Rightarrow>
               let ev = ev\<lparr>fe_dfd := ucast (env_args env 0), fe_flags := ucast (env_args env 2)\<rparr>;
                   ev = ev\<lparr>fe_path_a := copy_user_path env (fe_path_a ev) (env_args env 1)\<rparr>
               in (0, snd (save_file_enter_state env FILE_UNLINKAT ev s)))"

definition on_sys_enter_renameat2 :: "bpf_env \<Rightarrow> kstate \<Rightarrow> int \<times> kstate" where
  "on_sys_enter_renameat2 env s =
     (if \<not> is_event_allowed env s \<or> \<not> is_file_probe_enabled s FILE_RENAMEAT2 then (0, s)
      else case reserve_file_event env FILE_RENAMEAT2 s of
             (None, s) \<Rightarrow> (0, s)
           | (Some ev, s) \<Rightarrow>
               let ev = ev\<lparr>fe_dfd := ucast (env_args env 0), fe_mode := ucast (env_args env 2),
                           fe_flags := ucast (env_args env 4)\<rparr>;
                   ev = ev\<lparr>fe_path_a := copy_user_path env (fe_path_a ev) (env_args env 1)\<rparr>;
                   ev = ev\<lparr>fe_path_b := copy_user_path env (fe_path_b ev) (env_args env 3)\<rparr>
               in (0, snd (save_file_enter_state env FILE_RENAMEAT2 ev s)))"

definition on_sys_exit_openat :: "bpf_env \<Rightarrow> kstate \<Rightarrow> int \<times> kstate" where
  "on_sys_exit_openat env s =
     (if \<not> is_event_allowed env s \<or> \<not> is_file_probe_enabled s FILE_OPENAT then (0, s)
      else emit_file_exit_event env FILE_OPENAT (env_ret env) s)"

definition on_sys_exit_unlinkat :: "bpf_env \<Rightarrow> kstate \<Rightarrow> int \<times> kstate" where
  "on_sys_exit_unlinkat env s =
     (if \<not> is_event_allowed env s \<or> \<not> is_file_probe_enabled s FILE_UNLINKAT then (0, s)
      else emit_file_exit_event env FILE_UNLINKAT (env_ret env) s)"

definition on_sys_exit_renameat2 :: "bpf_env \<Rightarrow> kstate \<Rightarrow> int \<times> kstate" where
  "on_sys_exit_renameat2 env s =
     (if \<not> is_event_allowed env s \<or> \<not> is_file_probe_enabled s FILE_RENAMEAT2 then (0, s)
      else emit_file_exit_event env FILE_RENAMEAT2 (env_ret env) s)"

end
