(* ===== verification/Bpf_Syscall.thy ===== *)
theory Bpf_Syscall
  imports Bpf_Emit
begin

text \<open>
  bpf/event_logger_syscall.bpf.c: the two raw syscall handlers, paired by task and syscall number.
\<close>

definition on_raw_sys_enter :: "bpf_env \<Rightarrow> kstate \<Rightarrow> int \<times> kstate" where
  "on_raw_sys_enter env s =
     (if \<not> is_event_allowed env s \<or> \<not> is_syscall_probe_enabled s then (0, s)
      else let nr = ucast (env_id env) in
        if \<not> is_syscall_allowed nr then (0, s)
        else case reserve_syscall_event env s of
               (None, s) \<Rightarrow> (0, s)
             | (Some ev, s) \<Rightarrow>
                 let ev = ev\<lparr>se_is_enter := 1, se_syscall_nr := nr, se_arg0 := env_args env 0,
                             se_arg1 := env_args env 1, se_arg2 := env_args env 2\<rparr>
                 in (0, snd (save_syscall_enter_state env nr ev s)))"

definition on_raw_sys_exit :: "bpf_env \<Rightarrow> kstate \<Rightarrow> int \<times> kstate" where
  "on_raw_sys_exit env s =
     (if \<not> is_event_allowed env s \<or> \<not> is_syscall_probe_enabled s then (0, s)
      else let nr = ucast (env_id env) in
        if \<not> is_syscall_allowed nr then (0, s)
        else emit_syscall_exit_event env nr (env_ret env) s)"

end
