(* ===== verification/Bpf_System.thy ===== *)
theory Bpf_System
  imports Bpf_Invariant Bpf_Process Bpf_File Bpf_Syscall
begin

text \<open>
  The whole BPF object (bpf/event_logger.bpf.c): its programs, one file of the object after the
  other, and a
  run of the system as any sequence of invocations, each with its own environment. \<open>handler_ok\<close> is
  the contract every handler keeps; from it follow the invariant of reachable states, that every
  submitted record decodes, that the collector never reports itself, and that a disabled probe
  stays silent.
\<close>

section \<open>The programs\<close>

type_synonym bpf_program = "bpf_env \<Rightarrow> kstate \<Rightarrow> int \<times> kstate"

definition process_programs :: "bpf_program list" where
  "process_programs =
     [on_sched_exec, on_sched_fork, on_sched_exit, on_sys_exit_clone, on_sys_exit_clone3,
      on_sys_exit_vfork]"

definition file_programs :: "bpf_program list" where
  "file_programs =
     [on_sys_enter_openat, on_sys_enter_unlinkat, on_sys_enter_renameat2, on_sys_exit_openat,
      on_sys_exit_unlinkat, on_sys_exit_renameat2]"

definition syscall_programs :: "bpf_program list" where
  "syscall_programs =
     [on_raw_sys_enter, on_raw_sys_exit]"

definition network_enter_programs :: "bpf_program list" where
  "network_enter_programs =
     [on_sys_enter_socket, on_sys_enter_socketpair, on_sys_enter_connect, on_sys_enter_bind,
      on_sys_enter_accept, on_sys_enter_accept4, on_sys_enter_listen,
      on_sys_enter_getsockname, on_sys_enter_getpeername, on_sys_enter_setsockopt,
      on_sys_enter_getsockopt, on_sys_enter_sendto, on_sys_enter_sendmsg,
      on_sys_enter_recvfrom, on_sys_enter_recvmsg, on_sys_enter_read, on_sys_enter_write,
      on_sys_enter_readv, on_sys_enter_writev, on_sys_enter_sendmmsg, on_sys_enter_recvmmsg,
      on_sys_enter_shutdown, on_sys_enter_close]"

definition network_exit_programs :: "bpf_program list" where
  "network_exit_programs =
     [on_sys_exit_socket, on_sys_exit_socketpair, on_sys_exit_connect, on_sys_exit_bind,
      on_sys_exit_accept, on_sys_exit_accept4, on_sys_exit_listen, on_sys_exit_getsockname,
      on_sys_exit_getpeername, on_sys_exit_setsockopt, on_sys_exit_getsockopt,
      on_sys_exit_sendto, on_sys_exit_sendmsg, on_sys_exit_recvfrom, on_sys_exit_recvmsg,
      on_sys_exit_read, on_sys_exit_write, on_sys_exit_readv, on_sys_exit_writev,
      on_sys_exit_sendmmsg, on_sys_exit_recvmmsg, on_sys_exit_shutdown, on_sys_exit_close]"

definition bpf_programs :: "bpf_program list" where
  "bpf_programs =
     process_programs @ file_programs @ syscall_programs @ network_enter_programs @
     network_exit_programs"

text \<open>Whether the toggles let a record of this family and kind through.\<close>

primrec probe_enabled :: "kstate \<Rightarrow> event_variant \<Rightarrow> bool" where
  "probe_enabled s (ProcessEv e) = is_process_probe_enabled s (pe_kind e)"
| "probe_enabled s (FileEv e) = is_file_probe_enabled s (fe_kind e)"
| "probe_enabled s (SyscallEv e) = is_syscall_probe_enabled s"
| "probe_enabled s (NetworkEv e) = is_network_probe_enabled s (ne_kind e)"

text \<open>The maps user space writes before it attaches the programs.\<close>

definition same_config :: "kstate \<Rightarrow> kstate \<Rightarrow> bool" where
  "same_config s s' \<longleftrightarrow>
     file_probe_enabled s' = file_probe_enabled s \<and>
     process_probe_enabled s' = process_probe_enabled s \<and>
     syscall_probe_enabled s' = syscall_probe_enabled s \<and>
     network_probe_enabled s' = network_probe_enabled s \<and>
     suppress_tgid s' = suppress_tgid s"

lemma same_config_refl [simp]: "same_config s s"
  by (simp add: same_config_def)

lemma same_config_trans: "same_config s s' \<Longrightarrow> same_config s' s'' \<Longrightarrow> same_config s s''"
  by (simp add: same_config_def)

lemma same_config_probe_enabled: "same_config s s' \<Longrightarrow> probe_enabled s' e = probe_enabled s e"
  by (cases e) (simp_all add: same_config_def is_process_probe_enabled_def
      is_file_probe_enabled_def is_syscall_probe_enabled_def is_network_probe_enabled_def)

lemma same_config_allowed: "same_config s s' \<Longrightarrow> is_event_allowed env s' = is_event_allowed env s"
  by (simp add: same_config_def is_event_allowed_def is_not_suppressed_self_def)

lemma same_config_stat_inc [simp]: "same_config s (stat_inc env k s') = same_config s s'"
  by (simp add: same_config_def)

section \<open>The contract of a handler\<close>

definition handler_step_ok :: "bpf_env \<Rightarrow> kstate \<Rightarrow> int \<times> kstate \<Rightarrow> bool" where
  "handler_step_ok env s res \<longleftrightarrow>
     fst res = 0 \<and> tables_ok (snd res) \<and> same_config s (snd res) \<and>
     (events (snd res) = events s \<or>
      (\<exists>e. events (snd res) = events s @ [e] \<and> event_ok (env_pid_tgid env) e \<and>
           is_event_allowed env s \<and> probe_enabled s e))"

definition handler_ok :: "bpf_program \<Rightarrow> bool" where
  "handler_ok p \<longleftrightarrow> (\<forall>env s. bpf_env_ok env \<longrightarrow> tables_ok s \<longrightarrow> handler_step_ok env s (p env s))"

lemma handler_okI:
  "(\<And>env s. bpf_env_ok env \<Longrightarrow> tables_ok s \<Longrightarrow> handler_step_ok env s (p env s)) \<Longrightarrow> handler_ok p"
  by (simp add: handler_ok_def)

lemma handler_step_silent:
  "tables_ok s' \<Longrightarrow> same_config s s' \<Longrightarrow> events s' = events s \<Longrightarrow> handler_step_ok env s (0, s')"
  by (simp add: handler_step_ok_def)

lemma handler_step_emits:
  "tables_ok s \<Longrightarrow> event_ok (env_pid_tgid env) e \<Longrightarrow> is_event_allowed env s \<Longrightarrow> probe_enabled s e \<Longrightarrow>
     handler_step_ok env s (0, ringbuf_submit e s)"
  by (simp add: handler_step_ok_def same_config_def ringbuf_submit_def tables_ok_def)

section \<open>Process handlers\<close>

lemma reserve_None_frame:
  "reserve_process_event env kind s = (None, s') \<Longrightarrow> s' = stat_inc env BPF_STAT_RINGBUF_RESERVE_FAIL s"
  "reserve_file_event env kind s = (None, s') \<Longrightarrow> s' = stat_inc env BPF_STAT_RINGBUF_RESERVE_FAIL s"
  "reserve_syscall_event env s = (None, s') \<Longrightarrow> s' = stat_inc env BPF_STAT_RINGBUF_RESERVE_FAIL s"
  "reserve_network_event env kind s = (None, s') \<Longrightarrow> s' = stat_inc env BPF_STAT_RINGBUF_RESERVE_FAIL s"
  by (auto simp: reserve_process_event_def reserve_file_event_def reserve_syscall_event_def
      reserve_network_event_def split: option.splits)

text \<open>What the six process handlers have in common: gates, reservation, completion, submission.\<close>

lemma process_handler_ok:
  assumes p: "\<And>env s. p env s =
      (if \<not> is_event_allowed env s \<or> \<not> is_process_probe_enabled s kind then (0, s)
       else case reserve_process_event env kind s of
              (None, s) \<Rightarrow> (0, s)
            | (Some ev, s) \<Rightarrow> (0, ringbuf_submit (ProcessEv (fill env ev)) s))"
    and k: "kind \<in> set process_event_kinds"
    and fill: "\<And>env ev. bpf_env_ok env \<Longrightarrow> process_ok (env_pid_tgid env) ev \<Longrightarrow>
      process_ok (env_pid_tgid env) (fill env ev) \<and> pe_kind (fill env ev) = pe_kind ev"
  shows "handler_ok p"
proof (rule handler_okI)
  fix env s assume env: "bpf_env_ok env" and s: "tables_ok s"
  show "handler_step_ok env s (p env s)"
  proof (cases "is_event_allowed env s \<and> is_process_probe_enabled s kind")
    case False
    then show ?thesis using s by (auto simp: p handler_step_ok_def)
  next
    case True
    obtain res s' where r: "reserve_process_event env kind s = (res, s')" by fastforce
    show ?thesis
    proof (cases res)
      case None
      then show ?thesis
        using True r s reserve_None_frame(1) [OF r [unfolded None]]
        by (simp add: p handler_step_silent)
    next
      case (Some ev)
      with r have ev: "process_ok (env_pid_tgid env) ev" "pe_kind ev = kind" "s' = s"
        using reserve_process_ok [OF env] by blast+
      then show ?thesis
        using True r Some s k fill [OF env ev(1)] by (simp add: p handler_step_emits)
    qed
  qed
qed

lemma on_sched_exec_ok [keep_intros]: "handler_ok on_sched_exec"
proof (rule process_handler_ok [where kind = PROCESS_EXEC and fill = "\<lambda>env ev. ev\<lparr>pe_exec_path :=
    snd (env_probe_kernel_str env (env_ctx env + ucast (env_data_loc_filename env AND 0xFFFF))
      (length (pe_exec_path ev)) (pe_exec_path ev))\<rparr>"])
  fix env ev assume a: "bpf_env_ok env" "process_ok (env_pid_tgid env) ev"
  obtain rc path where r: "env_probe_kernel_str env
      (env_ctx env + ucast (env_data_loc_filename env AND 0xFFFF))
      (length (pe_exec_path ev)) (pe_exec_path ev) = (rc, path)" by fastforce
  have "nul_terminated (pe_exec_path ev)" using a(2) by (simp add: process_ok_def)
  with probe_kernel_str_ok [OF a(1) r] a(2) r
  show "process_ok (env_pid_tgid env) (ev\<lparr>pe_exec_path :=
      snd (env_probe_kernel_str env (env_ctx env + ucast (env_data_loc_filename env AND 0xFFFF))
        (length (pe_exec_path ev)) (pe_exec_path ev))\<rparr>) \<and>
    pe_kind (ev\<lparr>pe_exec_path :=
      snd (env_probe_kernel_str env (env_ctx env + ucast (env_data_loc_filename env AND 0xFFFF))
        (length (pe_exec_path ev)) (pe_exec_path ev))\<rparr>) = pe_kind ev"
    by (simp add: process_ok_def process_event_wf_def)
qed (auto simp: on_sched_exec_def process_event_kinds_def Let_def split: prod.splits option.splits)

lemma process_ok_child [simp]:
  "process_ok pt (ev\<lparr>pe_child_pid := c\<rparr>) = process_ok pt ev"
  "process_ok pt (ev\<lparr>pe_exit_code := c\<rparr>) = process_ok pt ev"
  by (simp_all add: process_ok_def process_event_wf_def)

lemma on_sched_fork_ok [keep_intros]: "handler_ok on_sched_fork"
  by (rule process_handler_ok [where kind = PROCESS_FORK and
        fill = "\<lambda>env ev. ev\<lparr>pe_child_pid := env_child_pid env\<rparr>"])
    (auto simp: on_sched_fork_def process_event_kinds_def split: prod.splits option.splits)

lemma on_sched_exit_ok [keep_intros]: "handler_ok on_sched_exit"
  by (rule process_handler_ok [where kind = PROCESS_EXIT and
        fill = "\<lambda>env ev. ev\<lparr>pe_exit_code := get_current_exit_code env\<rparr>"])
    (auto simp: on_sched_exit_def process_event_kinds_def split: prod.splits option.splits)

lemma clone_handlers_ok [keep_intros]:
  "handler_ok on_sys_exit_clone" "handler_ok on_sys_exit_clone3" "handler_ok on_sys_exit_vfork"
proof -
  let ?fill = "\<lambda>env ev. if sint (env_ret env) > 0 then ev\<lparr>pe_child_pid := ucast (env_ret env)\<rparr> else ev"
  show "handler_ok on_sys_exit_clone"
    by (rule process_handler_ok [where kind = PROCESS_CLONE and fill = ?fill])
      (auto simp: on_sys_exit_clone_def process_event_kinds_def split: prod.splits option.splits)
  show "handler_ok on_sys_exit_clone3"
    by (rule process_handler_ok [where kind = PROCESS_CLONE3 and fill = ?fill])
      (auto simp: on_sys_exit_clone3_def process_event_kinds_def split: prod.splits option.splits)
  show "handler_ok on_sys_exit_vfork"
    by (rule process_handler_ok [where kind = PROCESS_VFORK and fill = ?fill])
      (auto simp: on_sys_exit_vfork_def process_event_kinds_def split: prod.splits option.splits)
qed

section \<open>File handlers\<close>

lemma save_file_step_ok:
  assumes "bpf_env_ok env" and "tables_ok s" and "file_ok (env_pid_tgid env) ev" and "fe_kind ev = kind"
  shows "handler_step_ok env s (0, snd (save_file_enter_state env kind ev s))"
proof (rule handler_step_silent)
  have fr: "syscall_enter_state (snd (save_file_enter_state env kind ev s)) = syscall_enter_state s"
    "network_enter_state (snd (save_file_enter_state env kind ev s)) = network_enter_state s"
    "same_config s (snd (save_file_enter_state env kind ev s))"
    by (simp_all add: save_file_enter_state_def same_config_def Let_def
        split: option.splits prod.splits)
  then show "same_config s (snd (save_file_enter_state env kind ev s))" by simp
  show "tables_ok (snd (save_file_enter_state env kind ev s))"
  proof (rule tables_okI)
    fix k v assume "file_enter_state (snd (save_file_enter_state env kind ev s)) k = Some v"
    then show "file_ok (fk_pid_tgid k) v \<and> fe_kind v = fk_kind k"
      using file_pairs.save_entry [OF assms(1), of kind ev s k v] assms(3,4)
        tables_okD(1) [OF assms(2), of k v]
      by (auto simp: make_file_key_def)
  qed (simp_all add: fr tables_okD [OF assms(2)])
qed (rule file_pairs.save_events)

lemma file_enter_handler_ok:
  assumes p: "\<And>env s. p env s =
      (if \<not> is_event_allowed env s \<or> \<not> is_file_probe_enabled s kind then (0, s)
       else case reserve_file_event env kind s of
              (None, s) \<Rightarrow> (0, s)
            | (Some ev, s) \<Rightarrow> (0, snd (save_file_enter_state env kind (fill env ev) s)))"
    and fill: "\<And>env ev. bpf_env_ok env \<Longrightarrow> file_ok (env_pid_tgid env) ev \<Longrightarrow>
      file_ok (env_pid_tgid env) (fill env ev) \<and> fe_kind (fill env ev) = fe_kind ev"
  shows "handler_ok p"
proof (rule handler_okI)
  fix env s assume env: "bpf_env_ok env" and s: "tables_ok s"
  obtain res s' where r: "reserve_file_event env kind s = (res, s')" by fastforce
  show "handler_step_ok env s (p env s)"
  proof (cases res)
    case None
    then show ?thesis
      using r s reserve_None_frame(2) [OF r [unfolded None]] by (simp add: p handler_step_silent)
  next
    case (Some ev)
    with r have ev: "file_ok (env_pid_tgid env) ev" "fe_kind ev = kind" "s' = s"
      using reserve_file_ok [OF env] by blast+
    then show ?thesis
      using r s Some fill [OF env ev(1)] save_file_step_ok [OF env s, of "fill env ev" kind]
      by (simp add: p handler_step_silent)
  qed
qed

lemma file_exit_record_ok:
  "file_ok pt v \<Longrightarrow> fe_kind v \<in> set file_event_kinds \<Longrightarrow> event_ok pt (file_exit_record env kind r v)"
  by (simp add: file_exit_record_def file_ok_def file_event_wf_def hdr_ok_def event_header_wf_def)

lemma tables_ok_delete_entry:
  assumes "bpf_env_ok env" and "tables_ok s"
  shows "tables_ok (delete_file_entry env fk s)"
    and "tables_ok (delete_syscall_entry env sk s)"
    and "tables_ok (delete_network_entry env nk s)"
  using assms(2) map_ops_ok_delete [OF bpf_env_okD(10) [OF assms(1)]]
    map_ops_ok_delete [OF bpf_env_okD(11) [OF assms(1)]]
    map_ops_ok_delete [OF bpf_env_okD(12) [OF assms(1)]]
  by (simp_all add: tables_ok_def delete_file_entry_def delete_syscall_entry_def
      delete_network_entry_def)

lemma same_config_frames [simp]:
  "same_config s (ringbuf_submit e s') = same_config s s'"
  "same_config s (delete_file_entry env k1 s') = same_config s s'"
  "same_config s (delete_syscall_entry env k2 s') = same_config s s'"
  "same_config s (delete_network_entry env k3 s') = same_config s s'"
  by (simp_all add: same_config_def ringbuf_submit_def delete_file_entry_def
      delete_syscall_entry_def delete_network_entry_def)

lemma file_exit_handler_ok:
  assumes p: "\<And>env s. p env s =
      (if \<not> is_event_allowed env s \<or> \<not> is_file_probe_enabled s kind then (0, s)
       else emit_file_exit_event env kind (env_ret env) s)"
    and k: "kind \<in> set file_event_kinds"
  shows "handler_ok p"
proof (rule handler_okI)
  fix env s assume env: "bpf_env_ok env" and s: "tables_ok s"
  show "handler_step_ok env s (p env s)"
  proof (cases "file_enter_state s (make_file_key env kind)")
    case None
    then show ?thesis using s by (simp add: p emit_file_exit_event_eq handler_step_silent)
  next
    case (Some v)
    then have "file_ok (env_pid_tgid env) v" "fe_kind v = kind"
      using tables_okD(1) [OF s Some] by (simp_all add: make_file_key_def)
    then show ?thesis
      using Some s k file_exit_record_ok [of "env_pid_tgid env" v env kind "env_ret env"]
        tables_ok_delete_entry(1) [OF env]
      by (auto simp: p emit_file_exit_event_eq handler_step_ok_def file_exit_record_def)
  qed
qed

lemma file_enter_handlers_ok [keep_intros]:
  "handler_ok on_sys_enter_openat" "handler_ok on_sys_enter_unlinkat"
  "handler_ok on_sys_enter_renameat2"
proof -
  let ?a = "\<lambda>env ev. copy_user_path env (fe_path_a ev) (env_args env 1)"
  show "handler_ok on_sys_enter_openat"
    by (rule file_enter_handler_ok [where kind = FILE_OPENAT and fill = "\<lambda>env ev. ev\<lparr>
          fe_dfd := ucast (env_args env 0), fe_flags := ucast (env_args env 2),
          fe_mode := ucast (env_args env 3), fe_path_a := ?a env ev\<rparr>"])
      (auto simp: on_sys_enter_openat_def file_ok_def file_event_wf_def copy_user_path_ok Let_def
        split: prod.splits option.splits)
  show "handler_ok on_sys_enter_unlinkat"
    by (rule file_enter_handler_ok [where kind = FILE_UNLINKAT and fill = "\<lambda>env ev. ev\<lparr>
          fe_dfd := ucast (env_args env 0), fe_flags := ucast (env_args env 2),
          fe_path_a := ?a env ev\<rparr>"])
      (auto simp: on_sys_enter_unlinkat_def file_ok_def file_event_wf_def copy_user_path_ok Let_def
        split: prod.splits option.splits)
  show "handler_ok on_sys_enter_renameat2"
    by (rule file_enter_handler_ok [where kind = FILE_RENAMEAT2 and fill = "\<lambda>env ev. ev\<lparr>
          fe_dfd := ucast (env_args env 0), fe_mode := ucast (env_args env 2),
          fe_flags := ucast (env_args env 4), fe_path_a := ?a env ev,
          fe_path_b := copy_user_path env (fe_path_b ev) (env_args env 3)\<rparr>"])
      (auto simp: on_sys_enter_renameat2_def file_ok_def file_event_wf_def copy_user_path_ok Let_def
        split: prod.splits option.splits)
qed

lemma file_exit_handlers_ok [keep_intros]:
  "handler_ok on_sys_exit_openat" "handler_ok on_sys_exit_unlinkat"
  "handler_ok on_sys_exit_renameat2"
proof -
  show "handler_ok on_sys_exit_openat"
    by (rule file_exit_handler_ok [where kind = FILE_OPENAT])
      (simp_all add: on_sys_exit_openat_def file_event_kinds_def)
  show "handler_ok on_sys_exit_unlinkat"
    by (rule file_exit_handler_ok [where kind = FILE_UNLINKAT])
      (simp_all add: on_sys_exit_unlinkat_def file_event_kinds_def)
  show "handler_ok on_sys_exit_renameat2"
    by (rule file_exit_handler_ok [where kind = FILE_RENAMEAT2])
      (simp_all add: on_sys_exit_renameat2_def file_event_kinds_def)
qed

section \<open>Syscall handlers\<close>

lemma syscall_ok_upd [simp]:
  "syscall_ok pt (ev\<lparr>se_is_enter := a\<rparr>) = syscall_ok pt ev"
  "syscall_ok pt (ev\<lparr>se_syscall_nr := b\<rparr>) = syscall_ok pt ev"
  "syscall_ok pt (ev\<lparr>se_arg0 := c\<rparr>) = syscall_ok pt ev"
  "syscall_ok pt (ev\<lparr>se_arg1 := c\<rparr>) = syscall_ok pt ev"
  "syscall_ok pt (ev\<lparr>se_arg2 := c\<rparr>) = syscall_ok pt ev"
  "syscall_ok pt (ev\<lparr>se_ret := c\<rparr>) = syscall_ok pt ev"
  by (simp_all add: syscall_ok_def)

lemma save_syscall_step_ok:
  assumes "bpf_env_ok env" and "tables_ok s" and "syscall_ok (env_pid_tgid env) ev"
    and "se_syscall_nr ev = nr"
  shows "handler_step_ok env s (0, snd (save_syscall_enter_state env nr ev s))"
proof (rule handler_step_silent)
  have fr: "file_enter_state (snd (save_syscall_enter_state env nr ev s)) = file_enter_state s"
    "network_enter_state (snd (save_syscall_enter_state env nr ev s)) = network_enter_state s"
    "same_config s (snd (save_syscall_enter_state env nr ev s))"
    by (simp_all add: save_syscall_enter_state_def same_config_def Let_def
        split: option.splits prod.splits)
  then show "same_config s (snd (save_syscall_enter_state env nr ev s))" by simp
  show "tables_ok (snd (save_syscall_enter_state env nr ev s))"
  proof (rule tables_okI)
    fix k v assume "syscall_enter_state (snd (save_syscall_enter_state env nr ev s)) k = Some v"
    then show "syscall_ok (sk_pid_tgid k) v \<and> se_syscall_nr v = sk_syscall_nr k"
      using syscall_pairs.save_entry [OF assms(1), of nr ev s k v] assms(3,4)
        tables_okD(2) [OF assms(2), of k v]
      by (auto simp: make_syscall_key_def)
  qed (simp_all add: fr tables_okD [OF assms(2)])
qed (rule syscall_pairs.save_events)

lemma on_raw_sys_enter_ok [keep_intros]: "handler_ok on_raw_sys_enter"
proof (rule handler_okI)
  fix env s assume env: "bpf_env_ok env" and s: "tables_ok s"
  obtain res s' where r: "reserve_syscall_event env s = (res, s')" by fastforce
  show "handler_step_ok env s (on_raw_sys_enter env s)"
  proof (cases res)
    case None
    then show ?thesis
      using r s reserve_None_frame(3) [OF r [unfolded None]]
      by (simp add: on_raw_sys_enter_def is_syscall_allowed_def Let_def handler_step_silent)
  next
    case (Some ev)
    with r have "syscall_ok (env_pid_tgid env) ev" "s' = s"
      using reserve_syscall_ok [OF env] by blast+
    then show ?thesis
      using r s Some save_syscall_step_ok [OF env s]
      by (simp add: on_raw_sys_enter_def is_syscall_allowed_def Let_def handler_step_silent)
  qed
qed

lemma on_raw_sys_exit_ok [keep_intros]: "handler_ok on_raw_sys_exit"
proof (rule handler_okI)
  fix env s assume env: "bpf_env_ok env" and s: "tables_ok s"
  let ?k = "make_syscall_key env (ucast (env_id env))"
  show "handler_step_ok env s (on_raw_sys_exit env s)"
  proof (cases "syscall_enter_state s ?k")
    case None
    then show ?thesis
      using s by (simp add: on_raw_sys_exit_def is_syscall_allowed_def Let_def
          emit_syscall_exit_event_eq handler_step_silent)
  next
    case (Some v)
    then have "syscall_ok (env_pid_tgid env) v"
      using tables_okD(2) [OF s Some] by (simp add: make_syscall_key_def)
    then have "event_ok (env_pid_tgid env) (syscall_exit_record env nr r v)" for nr r
      by (simp add: syscall_exit_record_def syscall_ok_def hdr_ok_def event_header_wf_def)
    then show ?thesis
      using Some s tables_ok_delete_entry(2) [OF env]
      by (auto simp: on_raw_sys_exit_def is_syscall_allowed_def Let_def
          emit_syscall_exit_event_eq handler_step_ok_def syscall_exit_record_def)
  qed
qed

section \<open>Network handlers\<close>

lemma save_network_step_ok:
  assumes "bpf_env_ok env" and "tables_ok s" and "network_ok (env_pid_tgid env) (nsv_ev st)"
    and "ne_kind (nsv_ev st) = kind"
  shows "handler_step_ok env s (0, snd (save_network_enter_state env kind st s))"
proof (rule handler_step_silent)
  have fr: "file_enter_state (snd (save_network_enter_state env kind st s)) = file_enter_state s"
    "syscall_enter_state (snd (save_network_enter_state env kind st s)) = syscall_enter_state s"
    "same_config s (snd (save_network_enter_state env kind st s))"
    by (simp_all add: save_network_enter_state_def same_config_def Let_def
        split: option.splits prod.splits)
  then show "same_config s (snd (save_network_enter_state env kind st s))" by simp
  show "tables_ok (snd (save_network_enter_state env kind st s))"
  proof (rule tables_okI)
    fix k v assume "network_enter_state (snd (save_network_enter_state env kind st s)) k = Some v"
    then show "network_ok (nk_pid_tgid k) (nsv_ev v) \<and> ne_kind (nsv_ev v) = nk_kind k"
      using network_pairs.save_entry [OF assms(1), of kind st s k v] assms(3,4)
        tables_okD(3) [OF assms(2), of k v]
      by (auto simp: make_network_key_def)
  qed (simp_all add: fr tables_okD [OF assms(2)])
qed (rule network_pairs.save_events)

text \<open>What a handler fills in keeps the payload well formed and its kind.\<close>

definition fill_ok :: "(bpf_env \<Rightarrow> network_state_value \<Rightarrow> network_state_value) \<Rightarrow> bool" where
  "fill_ok fill \<longleftrightarrow>
     (\<forall>env pt st. bpf_env_ok env \<longrightarrow> network_ok pt (nsv_ev st) \<longrightarrow>
        network_ok pt (nsv_ev (fill env st)) \<and> ne_kind (nsv_ev (fill env st)) = ne_kind (nsv_ev st))"

lemma net_enter_body_ok:
  assumes "fill_ok fill" and "bpf_env_ok env" and "tables_ok s"
  shows "handler_step_ok env s (net_enter_body env kind (fill env) s)"
proof -
  obtain res s' where r: "reserve_network_event env kind s = (res, s')" by fastforce
  show ?thesis
  proof (cases res)
    case None
    then show ?thesis
      using r assms(3) reserve_None_frame(4) [OF r [unfolded None]]
      by (simp add: net_enter_body_def handler_step_silent)
  next
    case (Some ev)
    with r have ev: "network_ok (env_pid_tgid env) ev" "ne_kind ev = kind" "s' = s"
      using reserve_network_ok [OF assms(2)] by blast+
    show ?thesis
    proof (cases "net_scratch env s")
      case None
      then show ?thesis
        using r Some ev assms(3) by (simp add: net_enter_body_def handler_step_silent)
    next
      case (Some st)
      have "network_ok (env_pid_tgid env) (nsv_ev (fill env (st\<lparr>nsv_ev := ev\<rparr>))) \<and>
          ne_kind (nsv_ev (fill env (st\<lparr>nsv_ev := ev\<rparr>))) = kind"
        using assms(1,2) ev unfolding fill_ok_def by fastforce
      then show ?thesis
        using r Some \<open>res = Some ev\<close> ev save_network_step_ok [OF assms(2,3)]
        by (simp add: net_enter_body_def)
    qed
  qed
qed

lemma net_enter_ok:
  assumes "fill_ok fill"
  shows "handler_ok (\<lambda>env. net_enter env kind (fill env))"
    and "handler_ok (\<lambda>env. net_enter_socket_fd env kind (fill env))"
  using net_enter_body_ok [OF assms]
  by (auto intro!: handler_okI simp: net_enter_def net_enter_socket_fd_def handler_step_silent)

lemma net_exit_ok:
  assumes "kind \<in> set network_event_kinds"
  shows "handler_ok (\<lambda>env. net_exit env kind)"
proof (rule handler_okI)
  fix env s assume env: "bpf_env_ok env" and s: "tables_ok s"
  show "handler_step_ok env s (net_exit env kind s)"
  proof (cases "network_enter_state s (make_network_key env kind)")
    case None
    then show ?thesis
      using s by (simp add: net_exit_def emit_network_exit_event_eq handler_step_silent)
  next
    case (Some v)
    then have "network_ok (env_pid_tgid env) (nsv_ev v)" "ne_kind (nsv_ev v) = kind"
      using tables_okD(3) [OF s Some] by (simp_all add: make_network_key_def)
    then have ev: "event_ok (env_pid_tgid env) (NetworkEv (network_exit_event env kind r v))"
      "ne_kind (network_exit_event env kind r v) = kind" for r
      using network_exit_event_ok [OF env] assms by simp_all
    have fr: "tables_ok (network_exit_sockets env kind r v out s)"
      "same_config s (network_exit_sockets env kind r v out s)" for r out
      using s by (auto simp: tables_ok_def same_config_def network_exit_sockets_def add_socket_fd_def
          delete_socket_fd_def Let_def split: prod.splits)
    show ?thesis
      using Some s ev fr tables_ok_delete_entry(3) [OF env]
      by (auto simp: net_exit_def emit_network_exit_event_eq handler_step_ok_def)
  qed
qed

lemma network_ok_upd [simp]:
  "network_ok pt (ev\<lparr>ne_fd := x0\<rparr>) = network_ok pt ev"
  "network_ok pt (ev\<lparr>ne_domain := x1\<rparr>) = network_ok pt ev"
  "network_ok pt (ev\<lparr>ne_sock_type := x2\<rparr>) = network_ok pt ev"
  "network_ok pt (ev\<lparr>ne_protocol := x3\<rparr>) = network_ok pt ev"
  "network_ok pt (ev\<lparr>ne_flags := x4\<rparr>) = network_ok pt ev"
  "network_ok pt (ev\<lparr>ne_backlog := x5\<rparr>) = network_ok pt ev"
  "network_ok pt (ev\<lparr>ne_how := x6\<rparr>) = network_ok pt ev"
  "network_ok pt (ev\<lparr>ne_opt_level := x7\<rparr>) = network_ok pt ev"
  "network_ok pt (ev\<lparr>ne_opt_name := x8\<rparr>) = network_ok pt ev"
  "network_ok pt (ev\<lparr>ne_opt_len := x9\<rparr>) = network_ok pt ev"
  "network_ok pt (ev\<lparr>ne_direction := x10\<rparr>) = network_ok pt ev"
  "network_ok pt (ev\<lparr>ne_transport := x11\<rparr>) = network_ok pt ev"
  "network_ok pt (ev\<lparr>ne_bytes_requested := x12\<rparr>) = network_ok pt ev"
  by (simp_all add: network_ok_def)

lemma network_ok_endpoints:
  "network_ok pt ev \<Longrightarrow> endpoint_ok (ne_local ev)" "network_ok pt ev \<Longrightarrow> endpoint_ok (ne_remote ev)"
  "network_ok pt ev \<Longrightarrow> length (ne_optval_prefix ev) = 16"
  by (simp_all add: network_ok_def)

lemma network_ok_upd_if:
  "network_ok pt ev \<Longrightarrow> endpoint_ok ep \<Longrightarrow> network_ok pt (ev\<lparr>ne_local := ep\<rparr>)"
  "network_ok pt ev \<Longrightarrow> endpoint_ok ep \<Longrightarrow> network_ok pt (ev\<lparr>ne_remote := ep\<rparr>)"
  "network_ok pt ev \<Longrightarrow> length d = 16 \<Longrightarrow> network_ok pt (ev\<lparr>ne_optval_prefix := d\<rparr>)"
  by (simp_all add: network_ok_def)

lemmas net_fill_simps =
  fill_ok_def Let_def fill_msghdr_ok network_ok_upd_if network_ok_endpoints parse_sockaddr_keeps
  copy_optval_prefix_16

lemmas net_enter_handler_defs =
  on_sys_enter_socket_def [abs_def] on_sys_enter_socketpair_def [abs_def]
  on_sys_enter_connect_def [abs_def] on_sys_enter_bind_def [abs_def] on_sys_enter_accept_def
  [abs_def] on_sys_enter_accept4_def [abs_def] on_sys_enter_listen_def [abs_def]
  on_sys_enter_getsockname_def [abs_def] on_sys_enter_getpeername_def [abs_def]
  on_sys_enter_setsockopt_def [abs_def] on_sys_enter_getsockopt_def [abs_def]
  on_sys_enter_sendto_def [abs_def] on_sys_enter_sendmsg_def [abs_def] on_sys_enter_recvfrom_def
  [abs_def] on_sys_enter_recvmsg_def [abs_def] on_sys_enter_read_def [abs_def]
  on_sys_enter_write_def [abs_def] on_sys_enter_readv_def [abs_def] on_sys_enter_writev_def
  [abs_def] on_sys_enter_sendmmsg_def [abs_def] on_sys_enter_recvmmsg_def [abs_def]
  on_sys_enter_shutdown_def [abs_def] on_sys_enter_close_def [abs_def]

lemmas net_exit_handler_defs =
  on_sys_exit_socket_def [abs_def] on_sys_exit_socketpair_def [abs_def] on_sys_exit_connect_def
  [abs_def] on_sys_exit_bind_def [abs_def] on_sys_exit_accept_def [abs_def]
  on_sys_exit_accept4_def [abs_def] on_sys_exit_listen_def [abs_def] on_sys_exit_getsockname_def
  [abs_def] on_sys_exit_getpeername_def [abs_def] on_sys_exit_setsockopt_def [abs_def]
  on_sys_exit_getsockopt_def [abs_def] on_sys_exit_sendto_def [abs_def] on_sys_exit_sendmsg_def
  [abs_def] on_sys_exit_recvfrom_def [abs_def] on_sys_exit_recvmsg_def [abs_def]
  on_sys_exit_read_def [abs_def] on_sys_exit_write_def [abs_def] on_sys_exit_readv_def [abs_def]
  on_sys_exit_writev_def [abs_def] on_sys_exit_sendmmsg_def [abs_def] on_sys_exit_recvmmsg_def
  [abs_def] on_sys_exit_shutdown_def [abs_def] on_sys_exit_close_def [abs_def]

lemma net_enter_handlers_ok [keep_intros]:
  "handler_ok on_sys_enter_socket"
  "handler_ok on_sys_enter_socketpair"
  "handler_ok on_sys_enter_connect"
  "handler_ok on_sys_enter_bind"
  "handler_ok on_sys_enter_accept"
  "handler_ok on_sys_enter_accept4"
  "handler_ok on_sys_enter_listen"
  "handler_ok on_sys_enter_getsockname"
  "handler_ok on_sys_enter_getpeername"
  "handler_ok on_sys_enter_setsockopt"
  "handler_ok on_sys_enter_getsockopt"
  "handler_ok on_sys_enter_sendto"
  "handler_ok on_sys_enter_sendmsg"
  "handler_ok on_sys_enter_recvfrom"
  "handler_ok on_sys_enter_recvmsg"
  "handler_ok on_sys_enter_read"
  "handler_ok on_sys_enter_write"
  "handler_ok on_sys_enter_readv"
  "handler_ok on_sys_enter_writev"
  "handler_ok on_sys_enter_sendmmsg"
  "handler_ok on_sys_enter_recvmmsg"
  "handler_ok on_sys_enter_shutdown"
  "handler_ok on_sys_enter_close"
  unfolding net_enter_handler_defs
  by (rule net_enter_ok, simp add: net_fill_simps)+

lemma net_exit_handlers_ok [keep_intros]:
  "handler_ok on_sys_exit_socket"
  "handler_ok on_sys_exit_socketpair"
  "handler_ok on_sys_exit_connect"
  "handler_ok on_sys_exit_bind"
  "handler_ok on_sys_exit_accept"
  "handler_ok on_sys_exit_accept4"
  "handler_ok on_sys_exit_listen"
  "handler_ok on_sys_exit_getsockname"
  "handler_ok on_sys_exit_getpeername"
  "handler_ok on_sys_exit_setsockopt"
  "handler_ok on_sys_exit_getsockopt"
  "handler_ok on_sys_exit_sendto"
  "handler_ok on_sys_exit_sendmsg"
  "handler_ok on_sys_exit_recvfrom"
  "handler_ok on_sys_exit_recvmsg"
  "handler_ok on_sys_exit_read"
  "handler_ok on_sys_exit_write"
  "handler_ok on_sys_exit_readv"
  "handler_ok on_sys_exit_writev"
  "handler_ok on_sys_exit_sendmmsg"
  "handler_ok on_sys_exit_recvmmsg"
  "handler_ok on_sys_exit_shutdown"
  "handler_ok on_sys_exit_close"
  unfolding net_exit_handler_defs
  by (rule net_exit_ok, simp add: network_event_kinds_def)+

section \<open>Runs of the system\<close>

lemma bpf_programs_ok: "p \<in> set bpf_programs \<Longrightarrow> handler_ok p"
  by (auto simp: bpf_programs_def process_programs_def file_programs_def syscall_programs_def
      network_enter_programs_def network_exit_programs_def intro: keep_intros)

text \<open>
  One invocation of one program in a well-behaved environment; \<open>bpf_runs s s'\<close> holds when some
  sequence of invocations leads from \<open>s\<close> to \<open>s'\<close>.
\<close>

inductive bpf_step :: "kstate \<Rightarrow> kstate \<Rightarrow> bool" where
  invoke: "p \<in> set bpf_programs \<Longrightarrow> bpf_env_ok env \<Longrightarrow> bpf_step s (snd (p env s))"

inductive bpf_runs :: "kstate \<Rightarrow> kstate \<Rightarrow> bool" where
  start: "bpf_runs s s"
| step: "bpf_runs s s' \<Longrightarrow> bpf_step s' s'' \<Longrightarrow> bpf_runs s s''"

inductive_cases bpf_stepE: "bpf_step s s'"

text \<open>Nothing saved and nothing submitted yet; the toggles are whatever user space chose.\<close>

definition bpf_loaded :: "kstate \<Rightarrow> bool" where
  "bpf_loaded s \<longleftrightarrow>
     events s = [] \<and> file_enter_state s = Map.empty \<and> syscall_enter_state s = Map.empty \<and>
     network_enter_state s = Map.empty"

lemma bpf_step_handler:
  assumes "bpf_step s s'" and "tables_ok s"
  obtains env where "bpf_env_ok env" and "handler_step_ok env s (0, s')"
  using assms(1)
proof (cases rule: bpf_step.cases)
  case (invoke p env)
  then have "handler_step_ok env s (p env s)"
    using bpf_programs_ok assms(2) by (auto simp: handler_ok_def)
  then have "handler_step_ok env s (0, s')"
    using invoke by (simp add: handler_step_ok_def)
  with invoke that show ?thesis by blast
qed

lemma bpf_runs_invariant:
  assumes "bpf_runs s0 s" and "bpf_loaded s0"
  shows "tables_ok s \<and> same_config s0 s \<and>
    (\<forall>e \<in> set (events s). \<exists>env. event_ok (env_pid_tgid env) e \<and> is_event_allowed env s0 \<and>
       probe_enabled s0 e)"
  using assms
proof (induction rule: bpf_runs.induct)
  case (start s)
  then show ?case by (simp add: bpf_loaded_def tables_ok_def)
next
  case (step s s' s'')
  then have IH: "tables_ok s'" "same_config s s'"
    "\<forall>e \<in> set (events s'). \<exists>env. event_ok (env_pid_tgid env) e \<and> is_event_allowed env s \<and>
       probe_enabled s e" by blast+
  obtain env where h: "handler_step_ok env s' (0, s'')"
    using bpf_step_handler [OF step.hyps(2) IH(1)] by blast
  then have "tables_ok s''" and "same_config s s''"
    using IH(2) same_config_trans by (auto simp: handler_step_ok_def)
  moreover have "\<exists>env. event_ok (env_pid_tgid env) e \<and> is_event_allowed env s \<and> probe_enabled s e"
    if "e \<in> set (events s'')" for e
    using that IH h same_config_allowed [OF IH(2)] same_config_probe_enabled [OF IH(2)]
    by (auto simp: handler_step_ok_def)
  ultimately show ?case by blast
qed

end
