(* ===== verification/Bpf_Properties.thy ===== *)
theory Bpf_Properties
  imports Bpf_System
begin

text \<open>
  What the BPF side promises its consumer, over any sequence of invocations and over the whole life
  of one call: submitted records decode to themselves, every C string in them ends, the collector
  and disabled probes stay silent, an exit record carries the arguments of its enter, and what the
  descriptor table and the miss counter say about sockets.
\<close>

section \<open>A concrete run\<close>

text \<open>An environment with room in the ring buffer, and an object with every toggle on.\<close>

definition demo_process_event :: process_event where
  "demo_process_event =
     \<lparr>pe_hdr = zero_header, pe_kind = 0, pe_exit_code = 0, pe_child_pid = 0,
      pe_filename = replicate 256 7, pe_exec_path = replicate 256 7, pe_cmdline = replicate 256 7,
      pe_cwd = replicate 256 7, pe_parent_comm = replicate 16 7, pe_start_time_ticks = 7\<rparr>"

definition demo_file_event :: file_event where
  "demo_file_event =
     \<lparr>fe_hdr = zero_header, fe_kind = 0, fe_dfd = 0, fe_flags = 0, fe_mode = 0, fe_ret = 0,
      fe_path_a = replicate 256 7, fe_path_b = replicate 256 7\<rparr>"

definition demo_syscall_event :: syscall_event where
  "demo_syscall_event =
     \<lparr>se_hdr = zero_header, se_is_enter = 0, se_syscall_nr = 0, se_arg0 = 0, se_arg1 = 0,
      se_arg2 = 0, se_ret = 0\<rparr>"

definition demo_env :: bpf_env where
  "demo_env = sample_env\<lparr>env_rb_process := Some demo_process_event,
     env_rb_file := Some demo_file_event, env_rb_syscall := Some demo_syscall_event,
     env_rb_network := Some zero_network_event, env_ret := 3\<rparr>"

definition demo_state :: kstate where
  "demo_state = initial_kstate\<lparr>process_probe_enabled := array_map 8 1,
     file_probe_enabled := array_map 4 1, syscall_probe_enabled := array_map 1 1,
     network_probe_enabled := array_map 32 1, suppress_tgid := array_map 1 7\<rparr>"

lemma demo_env_ok: "bpf_env_ok demo_env"
  using sample_env_ok
  by (simp add: bpf_env_ok_def demo_env_def event_wf_defs demo_process_event_def
      demo_file_event_def demo_syscall_event_def zero_header_def zero_network_event_def
      zero_endpoint_def)

lemma initial_loaded: "bpf_loaded initial_kstate"
  by (simp add: bpf_loaded_def initial_kstate_def)

lemma demo_loaded: "bpf_loaded demo_state"
  using initial_loaded by (simp add: bpf_loaded_def demo_state_def)

definition demo_exit :: kstate where
  "demo_exit = snd (on_sched_exit demo_env demo_state)"

lemma demo_runs: "bpf_runs demo_state demo_exit"
proof -
  have "bpf_step demo_state demo_exit"
    unfolding demo_exit_def using demo_env_ok
    by (intro bpf_step.invoke) (simp_all add: bpf_programs_def process_programs_def)
  then show ?thesis by (blast intro: bpf_runs.intros)
qed

definition demo_record :: event_variant where
  "demo_record = hd (events demo_exit)"

lemma demo_exit_events: "events demo_exit = [demo_record]"
  by (simp add: demo_exit_def demo_record_def on_sched_exit_def demo_state_def initial_kstate_def
      is_event_allowed_def is_not_suppressed_self_def is_current_pid_allowed_def
      is_current_uid_allowed_def is_process_probe_enabled_def array_map_def cur_tgid_def
      demo_env_def sample_env_def reserve_process_event_def Let_def)

section \<open>Every run\<close>

text \<open>
  C2. End to end: whatever sequence of invocations the kernel makes after loading, every record
  submitted to the ring buffer is accepted by the user-space decoder and decodes to the very
  fields the handler wrote.
\<close>

theorem submitted_records_decode:
  assumes "bpf_loaded s0" and "bpf_runs s0 s" and "e \<in> set (events s)"
  shows "Decode (enc_event p e @ rest) = Some e"
proof -
  obtain pt where "event_ok pt e"
    using bpf_runs_invariant [OF assms(2,1)] assms(3) by blast
  then show ?thesis using event_ok_decodable by (blast intro: Decode_enc_event)
qed

theorem submitted_records_decode_witness:
  "Decode (enc_event (\<lambda>_. 0) demo_record @ [1]) = Some demo_record"
  using submitted_records_decode [OF demo_loaded demo_runs] by (simp add: demo_exit_events)

text \<open>The char arrays of a record, which the consumer reads as C strings.\<close>

primrec event_strings :: "event_variant \<Rightarrow> u8 list list" where
  "event_strings (ProcessEv e) =
     [hdr_comm (pe_hdr e), pe_filename e, pe_exec_path e, pe_cmdline e, pe_cwd e, pe_parent_comm e]"
| "event_strings (FileEv e) = [hdr_comm (fe_hdr e), fe_path_a e, fe_path_b e]"
| "event_strings (SyscallEv e) = [hdr_comm (se_hdr e)]"
| "event_strings (NetworkEv e) =
     [hdr_comm (ne_hdr e), ep_path (ne_local e), ep_path (ne_remote e)]"

lemma event_ok_strings: "event_ok pt e \<Longrightarrow> bs \<in> set (event_strings e) \<Longrightarrow> nul_terminated bs"
  by (cases e) (auto simp: payload_ok_defs endpoint_ok_def)

lemma hdr_comm_in_strings [simp]: "hdr_comm (ev_hdr e) \<in> set (event_strings e)"
  by (cases e) simp_all

text \<open>
  C10. Every char array of a submitted record holds a NUL: the consumer, which reads them as C
  strings, never runs past one.
\<close>

theorem submitted_strings_terminate:
  assumes "bpf_loaded s0" and "bpf_runs s0 s" and "e \<in> set (events s)" and "bs \<in> set (event_strings e)"
  shows "\<exists>str. c_str bs = Some str \<and> length str < length bs"
proof -
  obtain pt where "event_ok pt e"
    using bpf_runs_invariant [OF assms(2,1)] assms(3) by blast
  then obtain str where "c_str bs = Some str"
    using event_ok_strings assms(4) c_str_Some_iff by blast
  then show ?thesis using c_str_length by blast
qed

theorem submitted_strings_terminate_witness:
  "\<exists>str. c_str (hdr_comm (ev_hdr demo_record)) = Some str \<and>
    length str < length (hdr_comm (ev_hdr demo_record))"
  using submitted_strings_terminate
    [OF demo_loaded demo_runs, of demo_record "hdr_comm (ev_hdr demo_record)"]
  by (simp add: demo_exit_events)

text \<open>
  C17. Self-suppression: once the collector has stored its thread group, no record of any family,
  whether submitted at once or saved by an enter and submitted by an exit, carries that group.
\<close>

theorem collector_never_reports_itself:
  assumes "bpf_loaded s0" and "suppress_tgid s0 0 = Some t" and "t \<noteq> 0"
    and "bpf_runs s0 s" and "e \<in> set (events s)"
  shows "hdr_tgid (ev_hdr e) \<noteq> t"
proof -
  obtain env where "event_ok (env_pid_tgid env) e" and "is_event_allowed env s0"
    using bpf_runs_invariant [OF assms(4,1)] assms(5) by blast
  then show ?thesis
    using event_ok_header assms(2,3)
    by (auto simp: is_event_allowed_def is_not_suppressed_self_def cur_tgid_def)
qed

theorem collector_never_reports_itself_witness:
  "hdr_tgid (ev_hdr demo_record) \<noteq> 7"
  using collector_never_reports_itself [OF demo_loaded _ _ demo_runs, of 7 demo_record]
  by (simp add: demo_exit_events) (simp add: demo_state_def array_map_def)

text \<open>
  C19. A record is submitted only if the toggle of its family and kind is on, also when the record
  was completed by an exit; in particular the object emits nothing until user space enables
  something.
\<close>

theorem disabled_probes_are_silent:
  assumes "bpf_loaded s0" and "bpf_runs s0 s" and "e \<in> set (events s)"
  shows "probe_enabled s0 e"
  using bpf_runs_invariant [OF assms(2,1)] assms(3) by blast

theorem disabled_probes_are_silent_witness: "probe_enabled demo_state demo_record"
  using disabled_probes_are_silent [OF demo_loaded demo_runs] by (simp add: demo_exit_events)

lemma initial_disabled: "event_ok pt e \<Longrightarrow> \<not> probe_enabled initial_kstate e"
  by (cases e) (auto simp: initial_kstate_def array_map_def is_process_probe_enabled_def
      is_file_probe_enabled_def is_syscall_probe_enabled_def is_network_probe_enabled_def
      process_event_kinds_def file_event_kinds_def network_event_kinds_def)

text \<open>
  Straight after loading every toggle is zero, and then no sequence of invocations submits
  anything.
\<close>

theorem loaded_object_is_silent:
  assumes "bpf_runs initial_kstate s"
  shows "events s = []"
proof (rule ccontr)
  assume "events s \<noteq> []"
  then obtain e where "e \<in> set (events s)" by (cases "events s") auto
  then show False
    using bpf_runs_invariant [OF assms initial_loaded] initial_disabled by blast
qed

text \<open>
  The log only grows, by at most one record for each invocation, and no handler changes a
  toggle or the suppressed group.
\<close>

theorem invocation_appends_one:
  assumes "p \<in> set bpf_programs" and "bpf_env_ok env" and "tables_ok s"
  shows "fst (p env s) = 0 \<and> tables_ok (snd (p env s)) \<and> same_config s (snd (p env s)) \<and>
    (events (snd (p env s)) = events s \<or> (\<exists>e. events (snd (p env s)) = events s @ [e]))"
  using bpf_programs_ok [OF assms(1)] assms(2,3)
  by (auto simp: handler_ok_def handler_step_ok_def)

section \<open>One call\<close>

text \<open>
  C11. An \<open>openat\<close> whose enter was saved and whose exit finds room is reported once, by its exit:
  with the descriptor, flags, mode and path its enter saw, the return code and time of the exit,
  and the task of both.
\<close>

theorem openat_reported_with_its_arguments:
  assumes env: "bpf_env_ok env" "bpf_env_ok env'" and task: "env_pid_tgid env' = env_pid_tgid env"
    and gates: "is_event_allowed env s" "is_file_probe_enabled s FILE_OPENAT"
    and fresh: "file_enter_state s (make_file_key env FILE_OPENAT) = None"
    and room: "env_rb_file env \<noteq> None" "env_rb_file env' \<noteq> None"
    and saved: "\<And>ev. 0 \<le> fst (update_elem (env_file_map env) (file_enter_state s)
      (make_file_key env FILE_OPENAT) ev)"
  shows "\<exists>e. events (snd (on_sys_exit_openat env' (snd (on_sys_enter_openat env s)))) =
      events s @ [FileEv e] \<and>
    fe_kind e = FILE_OPENAT \<and> fe_dfd e = ucast (env_args env 0) \<and> fe_flags e = ucast (env_args env 2) \<and>
    fe_mode e = ucast (env_args env 3) \<and> fe_ret e = ucast (env_ret env') \<and>
    hdr_ts_ns (fe_hdr e) = env_ktime_exit env' \<and> hdr_pid (fe_hdr e) = cur_pid env \<and>
    (\<exists>old. fe_path_a e = copy_user_path env old (env_args env 1))"
proof -
  obtain raw where raw: "env_rb_file env = Some raw" using room(1) by blast
  obtain ev s1 where r: "reserve_file_event env FILE_OPENAT s = (Some ev, s1)"
    using raw by (simp add: reserve_file_event_def)
  note ok = reserve_file_ok [OF env(1) r]
  define ev' where "ev' = ev\<lparr>fe_dfd := ucast (env_args env 0), fe_flags := ucast (env_args env 2),
    fe_mode := ucast (env_args env 3), fe_path_a := copy_user_path env (fe_path_a ev) (env_args env 1)\<rparr>"
  obtain rc s2 where sv: "save_file_enter_state env FILE_OPENAT ev' s = (rc, s2)" by fastforce
  have enter: "snd (on_sys_enter_openat env s) = s2"
    using gates r ok sv by (simp add: on_sys_enter_openat_def ev'_def Let_def)
  have rc: "0 \<le> rc"
    using sv fresh saved [of ev'] by (auto simp: save_file_enter_state_def Let_def split: prod.splits)
  have key: "make_file_key env' FILE_OPENAT = make_file_key env FILE_OPENAT"
    using task by (simp add: make_file_key_def)
  have cfg: "is_event_allowed env' s2" "is_file_probe_enabled s2 FILE_OPENAT"
  proof -
    have c: "same_config s s2"
      using sv by (auto simp: save_file_enter_state_def Let_def same_config_def
          split: option.splits prod.splits)
    show "is_event_allowed env' s2"
      using c gates(1) task
      by (auto simp: same_config_def is_event_allowed_def is_not_suppressed_self_def cur_tgid_def
          split: option.splits)
    show "is_file_probe_enabled s2 FILE_OPENAT"
      using c gates(2) by (simp add: same_config_def is_file_probe_enabled_def)
  qed
  have "events (snd (on_sys_exit_openat env' s2)) =
      events s @ [file_exit_record env' FILE_OPENAT (env_ret env') ev']"
    using file_pairs.paired_record [OF env(1) fresh sv rc key, of "env_ret env'"] cfg room(2)
    by (simp add: on_sys_exit_openat_def)
  then show ?thesis
    using ok unfolding enter
    by (auto simp: file_exit_record_def ev'_def file_ok_def hdr_ok_def cur_pid_def)
qed

theorem openat_reported_with_its_arguments_witness:
  "\<exists>e. events (snd (on_sys_exit_openat demo_env (snd (on_sys_enter_openat demo_env demo_state)))) =
     [FileEv e] \<and> fe_ret e = 3"
  using openat_reported_with_its_arguments [OF demo_env_ok demo_env_ok refl, of demo_state]
  by (simp add: demo_env_def sample_env_def demo_state_def initial_kstate_def array_map_def
      is_event_allowed_def is_not_suppressed_self_def is_current_pid_allowed_def
      is_current_uid_allowed_def is_file_probe_enabled_def hash_map_ops_def cur_tgid_def
      STATE_MAP_MAX_ENTRIES_def) blast

text \<open>
  C32. A lost exit costs one call, and only one: while the enter it left behind is pending, a new
  enter of the same task and kind is dropped and the next exit reports the old arguments with the new
  return code; after that exit, the next saved enter is reported by its own exit as it happened.
\<close>

theorem network_exit_reports_stale_enter:
  assumes "network_enter_state s (make_network_key env kind) = Some old"
    and "env_pid_tgid env' = env_pid_tgid env" and "env_rb_network env' \<noteq> None"
    and "bpf_env_ok env'" and "bpf_env_ok env2" and "env_pid_tgid env2 = env_pid_tgid env"
    and "env_pid_tgid env3 = env_pid_tgid env" and "env_rb_network env3 \<noteq> None"
  shows "let s1 = snd (emit_network_exit_event env' kind r (snd (save_network_enter_state env kind new s)))
    in events s1 = events s @ [NetworkEv (network_exit_event env' kind r old)] \<and>
      (0 \<le> fst (save_network_enter_state env2 kind later s1) \<longrightarrow>
       events (snd (emit_network_exit_event env3 kind r3 (snd (save_network_enter_state env2 kind later s1)))) =
         events s1 @ [NetworkEv (network_exit_event env3 kind r3 later)])"
  using network_pairs.exit_reports_oldest_enter [OF assms(1), of env' kind r new]
    network_pairs.next_pair_reports_itself [OF assms(4,5), of kind kind env3 kind later r
      "snd (save_network_enter_state env kind new s)" r3] assms(2,3,6-8)
  by (simp add: make_network_key_def Let_def)

text \<open>The entry a call left behind.\<close>

definition demo_pending :: kstate where
  "demo_pending = demo_state\<lparr>network_enter_state :=
     [make_network_key demo_env NETWORK_CONNECT \<mapsto>
        zero_network_state\<lparr>nsv_ev := zero_network_event\<lparr>ne_fd := 5\<rparr>\<rparr>]\<rparr>"

theorem network_exit_reports_stale_enter_witness:
  "\<exists>s1. events s1 = [NetworkEv (network_exit_event demo_env NETWORK_CONNECT 0
       (zero_network_state\<lparr>nsv_ev := zero_network_event\<lparr>ne_fd := 5\<rparr>\<rparr>))] \<and>
     (0 \<le> fst (save_network_enter_state demo_env NETWORK_CONNECT zero_network_state s1) \<longrightarrow>
      length (events (snd (emit_network_exit_event demo_env NETWORK_CONNECT 1
        (snd (save_network_enter_state demo_env NETWORK_CONNECT zero_network_state s1))))) = 2)"
proof -
  have p: "network_enter_state demo_pending (make_network_key demo_env NETWORK_CONNECT) =
      Some (zero_network_state\<lparr>nsv_ev := zero_network_event\<lparr>ne_fd := 5\<rparr>\<rparr>)" "events demo_pending = []"
    by (simp_all add: demo_pending_def demo_state_def initial_kstate_def)
  have "env_rb_network demo_env \<noteq> None" by (simp add: demo_env_def)
  from network_exit_reports_stale_enter [OF p(1) refl this demo_env_ok demo_env_ok refl refl this,
      of 0 zero_network_state zero_network_state 1] p(2)
  show ?thesis unfolding Let_def by (metis append_Nil length_append_singleton list.size(3) numeral_2_eq_2)
qed

text \<open>
  Over any history of socket calls the records reported never outnumber the enters saved: each
  record uses its enter up, also when entries are evicted, saves fail or reservations fail.
\<close>

theorem network_records_bounded_by_enters:
  assumes "\<forall>c \<in> set cs. bpf_env_ok (call_env c)" and "bpf_loaded s"
  shows "length (events (run_calls save_network_enter_state emit_network_exit_event cs s)) \<le>
    length (filter is_enter cs)"
  using network_pairs.records_bounded_by_enters [OF assms(1), of s] assms(2)
  by (simp add: bpf_loaded_def)

text \<open>
  Every file record of a history carries what some enter of the same task and kind saved; no
  record mixes the arguments of two calls.
\<close>

theorem file_records_have_enter:
  assumes "\<forall>c \<in> set cs. bpf_env_ok (call_env c)" and "bpf_loaded s"
    and "FileEv e \<in> set (events (run_calls save_file_enter_state emit_file_exit_event cs s))"
  shows "\<exists>env kind ev env' r. Enter env kind ev \<in> set cs \<and> Exit env' kind r \<in> set cs \<and>
    env_pid_tgid env' = env_pid_tgid env \<and>
    e = ev\<lparr>fe_hdr := (fe_hdr ev)\<lparr>hdr_ts_ns := env_ktime_exit env'\<rparr>, fe_ret := ucast r\<rparr>"
  using file_pairs.record_has_enter [OF assms(1,3)] assms(2)
  by (fastforce simp: bpf_loaded_def make_file_key_def file_exit_record_def)

section \<open>Socket descriptors\<close>

lemma tracked_after_add:
  assumes "bpf_env_ok env" and "0 \<le> fst (add_socket_fd env fd s)"
  shows "is_socket_fd env fd (snd (add_socket_fd env fd s))"
proof -
  obtain rc m where u: "update_elem (env_socket_map env) (socket_fd_state s)
      (make_socket_key env fd) \<lparr>sfv_is_socket = 1\<rparr> = (rc, m)" by fastforce
  show ?thesis
    using assms(2) hash_ops_ok_update [OF bpf_env_okD(13) [OF assms(1)] u] u
    by (simp add: add_socket_fd_def is_socket_fd_def)
qed

lemma untracked_after_delete:
  assumes "bpf_env_ok env"
  shows "\<not> is_socket_fd env fd (snd (delete_socket_fd env fd s))"
proof -
  obtain rc m where u: "delete_elem (env_socket_map env) (socket_fd_state s)
      (make_socket_key env fd) = (rc, m)" by fastforce
  then have "m = (socket_fd_state s)(make_socket_key env fd := None)"
    using hash_ops_ok_delete [OF bpf_env_okD(13) [OF assms], of "socket_fd_state s"
        "make_socket_key env fd"] by simp
  then show ?thesis using u by (simp add: delete_socket_fd_def is_socket_fd_def)
qed

lemma is_socket_fd_frame [simp]:
  "is_socket_fd env fd (stat_inc env k s) = is_socket_fd env fd s"
  "is_socket_fd env fd (ringbuf_submit e s) = is_socket_fd env fd s"
  "is_socket_fd env fd (delete_network_entry env key s) = is_socket_fd env fd s"
  by (simp_all add: is_socket_fd_def delete_network_entry_def)

text \<open>
  A successful \<open>socket\<close> whose exit finds its enter, room in the ring buffer and room in the
  table marks the returned descriptor as a socket of the thread group; without room in the ring
  buffer the descriptor table is not touched and the socket stays unknown.
\<close>

theorem socket_exit_tracks_descriptor:
  assumes "bpf_env_ok env" and "network_enter_state s (make_network_key env NETWORK_SOCKET) = Some st"
    and "0 \<le> sint r" and "0 \<le> fst (add_socket_fd env (ucast r) s)"
  shows "is_socket_fd env (ucast r) (snd (emit_network_exit_event env NETWORK_SOCKET r s)) \<longleftrightarrow>
    env_rb_network env \<noteq> None \<or> is_socket_fd env (ucast r) s"
  using assms(2,3) tracked_after_add [OF assms(1,4)]
  by (auto simp: emit_network_exit_event_eq network_exit_sockets_def)

definition demo_socket_pending :: kstate where
  "demo_socket_pending = demo_state\<lparr>network_enter_state :=
     [make_network_key demo_env NETWORK_SOCKET \<mapsto> zero_network_state,
      make_network_key demo_env NETWORK_CLOSE \<mapsto>
        zero_network_state\<lparr>nsv_ev := zero_network_event\<lparr>ne_fd := 5\<rparr>\<rparr>]\<rparr>"

text \<open>
  C30. After the exit of a \<open>close\<close> that finds its enter, the descriptor is still taken for a socket
  exactly when it was before and either the call failed or there was no room in the ring buffer:
  a full ring buffer leaves a closed descriptor marked, and a regular file that reuses the number
  is then reported as a socket.
\<close>

theorem close_exit_untracks_descriptor:
  assumes "bpf_env_ok env" and "network_enter_state s (make_network_key env NETWORK_CLOSE) = Some st"
  shows "is_socket_fd env (ne_fd (nsv_ev st)) (snd (emit_network_exit_event env NETWORK_CLOSE r s)) \<longleftrightarrow>
    is_socket_fd env (ne_fd (nsv_ev st)) s \<and> (sint r < 0 \<or> env_rb_network env = None)"
  using assms(2) untracked_after_delete [OF assms(1)]
  by (auto simp: emit_network_exit_event_eq network_exit_sockets_def)

theorem close_exit_untracks_descriptor_witness:
  "\<not> is_socket_fd demo_env 5
     (snd (emit_network_exit_event demo_env NETWORK_CLOSE 0 demo_socket_pending))"
  using close_exit_untracks_descriptor [OF demo_env_ok, of demo_socket_pending
      "zero_network_state\<lparr>nsv_ev := zero_network_event\<lparr>ne_fd := 5\<rparr>\<rparr>" 0]
  by (simp add: demo_socket_pending_def make_network_key_def demo_env_def)

text \<open>
  A \<open>read\<close> of a descriptor that is not a socket saves nothing, and its exit then counts a
  network state miss and submits nothing: the counter measures ordinary file reads as well as lost
  correlations.
\<close>

theorem regular_read_counts_as_miss:
  assumes "is_event_allowed env s" and "is_network_probe_enabled s NETWORK_READ"
    and "\<not> is_socket_fd env (ucast (env_args env 0)) s"
    and "network_enter_state s (make_network_key env NETWORK_READ) = None"
    and "env_pid_tgid env' = env_pid_tgid env"
  shows "on_sys_exit_read env' (snd (on_sys_enter_read env s)) =
    (0, stat_inc env' BPF_STAT_NETWORK_STATE_MISS s)"
proof -
  have "is_event_allowed env' s"
    using assms(1,5)
    by (auto simp: is_event_allowed_def is_not_suppressed_self_def cur_tgid_def split: option.splits)
  then show ?thesis
    using assms by (simp add: on_sys_exit_read_def on_sys_enter_read_def net_enter_socket_fd_def
        net_exit_def emit_network_exit_event_eq make_network_key_def)
qed

end
