(* ===== verification/Pipeline.thy ===== *)
theory Pipeline
  imports Sink_Properties Registry_Properties Bpf_Properties
begin

text \<open>
  src/main.cpp's record callback with src/metrics and src/policy: raw bytes are counted, decoded,
  kept from the collector's own events, normalised, resolved by the registry and written by the
  sink. The result is None where a stage would read past a char array.
\<close>

section \<open>Counters and policy\<close>

record Metrics =
  m_received :: u64
  m_decoded :: u64
  m_dropped :: u64

definition Metrics_new :: Metrics where
  "Metrics_new = \<lparr>m_received = 0, m_decoded = 0, m_dropped = 0\<rparr>"

definition IncrementReceived :: "Metrics \<Rightarrow> Metrics" where
  "IncrementReceived m = m\<lparr>m_received := m_received m + 1\<rparr>"

definition IncrementDecoded :: "Metrics \<Rightarrow> Metrics" where
  "IncrementDecoded m = m\<lparr>m_decoded := m_decoded m + 1\<rparr>"

definition IncrementDropped :: "Metrics \<Rightarrow> Metrics" where
  "IncrementDropped m = m\<lparr>m_dropped := m_dropped m + 1\<rparr>"

definition Allow :: "event_variant \<Rightarrow> bool" where
  "Allow event = True"

definition IsSelfEvent :: "event_variant \<Rightarrow> u32 \<Rightarrow> bool" where
  "IsSelfEvent event self_tgid \<longleftrightarrow> hdr_tgid (ev_hdr event) = self_tgid"

section \<open>The callback\<close>

record pipeline =
  pl_metrics :: Metrics
  pl_registry :: EntityRegistry
  pl_sink :: JsonSink

definition on_record ::
  "reg_env \<Rightarrow> sink_env \<Rightarrow> u32 \<Rightarrow> u8 list \<Rightarrow> pipeline \<Rightarrow> pipeline option" where
  "on_record renv senv self_tgid raw p =
     (let p = p\<lparr>pl_metrics := IncrementReceived (pl_metrics p)\<rparr>
      in case Decode raw of
           None \<Rightarrow> Some (p\<lparr>pl_metrics := IncrementDropped (pl_metrics p)\<rparr>)
         | Some event \<Rightarrow>
             let p = p\<lparr>pl_metrics := IncrementDecoded (pl_metrics p)\<rparr>
             in if IsSelfEvent event self_tgid then Some p
                else case Normalize event of
                       None \<Rightarrow> None
                     | Some canonical \<Rightarrow>
                         let (canonical, registry) = Ingest renv canonical (pl_registry p);
                             p = p\<lparr>pl_registry := registry\<rparr>
                         in if \<not> Allow event then Some p
                            else map_option (\<lambda>js. p\<lparr>pl_sink := js\<rparr>)
                                   (Write senv canonical (pl_sink p)))"

text \<open>One delivery: what the system answers while the callback runs, and the bytes.\<close>

type_synonym delivery = "reg_env \<times> sink_env \<times> u8 list"

fun deliver_all :: "u32 \<Rightarrow> delivery list \<Rightarrow> pipeline \<Rightarrow> pipeline option" where
  "deliver_all self_tgid [] p = Some p"
| "deliver_all self_tgid ((renv, senv, raw) # ds) p =
     (case on_record renv senv self_tgid raw p of
        None \<Rightarrow> None
      | Some p' \<Rightarrow> deliver_all self_tgid ds p')"

section \<open>No undefined read\<close>

lemma serialized_line_defined:
  assumes "\<forall>bs \<in> set (event_strings (ce_raw c)). nul_terminated bs"
  shows "\<exists>line. serialized_line c = Some line"
proof -
  have esc: "\<exists>s. JsonEscape_c bs = Some s" if "nul_terminated bs" for bs
    using that by (simp add: JsonEscape_c_def c_str_def)
  have "nul_terminated (hdr_comm (ev_hdr (ce_raw c)))" using assms by simp
  then obtain comm where comm: "JsonEscape_c (hdr_comm (ev_hdr (ce_raw c))) = Some comm"
    using esc by blast
  have "\<exists>s. WritePayload (ce_raw c) pe = Some s" for pe
  proof (cases "ce_raw c")
    case (FileEv e)
    then obtain a b where "JsonEscape_c (fe_path_a e) = Some a" "JsonEscape_c (fe_path_b e) = Some b"
      using assms esc by fastforce
    then show ?thesis using FileEv by (simp add: WriteFileBody_def)
  next
    case (NetworkEv e)
    then obtain a b where "JsonEscape_c (ep_path (ne_local e)) = Some a"
      "JsonEscape_c (ep_path (ne_remote e)) = Some b"
      using assms esc by fastforce
    then show ?thesis
      using NetworkEv by (simp add: WriteNetworkBody_def WriteNetworkEndpoint_def Let_def)
  qed simp_all
  then obtain body where "WritePayload (ce_raw c) (ce_subject_process c) = Some body" by blast
  then show ?thesis
    using comm by (simp add: serialized_line_def WriteEventBody_def WriteHeader_def
        WriteProcessInfo_def Let_def)
qed

lemma Normalize_defined:
  assumes "\<forall>bs \<in> set (event_strings e). nul_terminated bs"
  shows "\<exists>c. Normalize e = Some c"
proof -
  have "set (normalized_strings e) \<subseteq> set (event_strings e)" by (cases e) auto
  then show ?thesis using assms Normalize_None_iff [of e] by auto
qed

lemma Ingest_raw: "ce_raw (fst (Ingest env ev r)) = ce_raw ev"
  by (auto simp: Ingest_def ingest_action_def CanonicalEvent.defs Let_def split: prod.splits if_splits)

lemma Write_defined:
  assumes "\<forall>bs \<in> set (event_strings (ce_raw c)). nul_terminated bs"
  shows "\<exists>js'. Write senv c js = Some js'"
  using serialized_line_defined [OF assms] by (auto simp: Write_def)

text \<open>What the callback does to a record of the BPF side that is not the collector's own.\<close>

lemma on_record_foreign:
  assumes "Decode raw = Some e" and "hdr_tgid (ev_hdr e) \<noteq> self_tgid" and "Normalize e = Some c"
    and "Ingest renv c (pl_registry p) = (c', r)" and "Write senv c' (pl_sink p) = Some js"
  shows "on_record renv senv self_tgid raw p = Some (p
    \<lparr>pl_metrics := IncrementDecoded (IncrementReceived (pl_metrics p)), pl_registry := r, pl_sink := js\<rparr>)"
  using assms by (simp add: on_record_def IsSelfEvent_def Allow_def)

lemma on_record_self:
  assumes "Decode raw = Some e" and "hdr_tgid (ev_hdr e) = self_tgid"
  shows "on_record renv senv self_tgid raw p = Some (p
    \<lparr>pl_metrics := IncrementDecoded (IncrementReceived (pl_metrics p))\<rparr>)"
  using assms by (simp add: on_record_def IsSelfEvent_def)

lemma on_record_malformed:
  assumes "Decode raw = None"
  shows "on_record renv senv self_tgid raw p = Some (p
    \<lparr>pl_metrics := IncrementDropped (IncrementReceived (pl_metrics p))\<rparr>)"
  using assms by (simp add: on_record_def)

text \<open>Any bytes, whatever the stages answer.\<close>

lemma on_record_counts:
  assumes "on_record renv senv self_tgid raw p = Some p'"
    and "m_received (pl_metrics p) = m_decoded (pl_metrics p) + m_dropped (pl_metrics p)"
  shows "m_received (pl_metrics p') = m_decoded (pl_metrics p') + m_dropped (pl_metrics p') \<and>
    m_received (pl_metrics p') = m_received (pl_metrics p) + 1 \<and>
    ((pl_registry p' \<noteq> pl_registry p \<or> pl_sink p' \<noteq> pl_sink p) \<longrightarrow>
       (\<exists>e. Decode raw = Some e \<and> hdr_tgid (ev_hdr e) \<noteq> self_tgid))"
proof (cases "Decode raw")
  case None
  then show ?thesis
    using assms by (auto simp: on_record_malformed IncrementReceived_def IncrementDropped_def)
next
  case (Some e)
  have m: "pl_metrics p' = IncrementDecoded (IncrementReceived (pl_metrics p))"
    using assms(1) Some
    by (auto simp: on_record_def Allow_def Let_def split: option.splits prod.splits if_splits)
  show ?thesis
    using assms Some on_record_self [OF Some]
    by (auto simp: m IncrementReceived_def IncrementDecoded_def)
qed

text \<open>A record whose strings end goes through, whatever the stages' states are.\<close>

lemma on_record_defined:
  assumes "Decode raw = Some e" and "\<forall>bs \<in> set (event_strings e). nul_terminated bs"
    and "reg_ok (pl_registry p)" and "iter_ok renv"
    and "unat (next_id (pl_registry p)) + 2 < 2 ^ 64"
  shows "\<exists>p'. on_record renv senv self_tgid raw p = Some p' \<and>
    pl_metrics p' = IncrementDecoded (IncrementReceived (pl_metrics p)) \<and>
    reg_ok (pl_registry p') \<and>
    unat (next_id (pl_registry p')) \<le> unat (next_id (pl_registry p)) + 2"
proof (cases "hdr_tgid (ev_hdr e) = self_tgid")
  case True
  then show ?thesis using assms on_record_self by simp
next
  case False
  obtain c where c: "Normalize e = Some c" using Normalize_defined [OF assms(2)] by blast
  obtain c' r where ing: "Ingest renv c (pl_registry p) = (c', r)" by fastforce
  have "ce_raw c' = e"
    using Ingest_raw [of renv c "pl_registry p"] ing Normalize_frame(1) [OF c] by simp
  then obtain js where "Write senv c' (pl_sink p) = Some js"
    using Write_defined [of c'] assms(2) by blast
  from on_record_foreign [OF assms(1) False c ing this] show ?thesis
    using Ingest_ok [OF assms(3,4,5), of c] ing by simp
qed

lemma submitted_decodes_and_terminates:
  assumes "bpf_loaded s0" and "bpf_runs s0 s" and "e \<in> set (events s)"
  shows "Decode (enc_event gap e @ rest) = Some e"
    and "\<forall>bs \<in> set (event_strings e). nul_terminated bs"
proof -
  obtain pt where "event_ok pt e"
    using bpf_runs_invariant [OF assms(2,1)] assms(3) by blast
  then show "Decode (enc_event gap e @ rest) = Some e"
    and "\<forall>bs \<in> set (event_strings e). nul_terminated bs"
    using event_ok_decodable event_ok_strings Decode_enc_event by blast+
qed

text \<open>The bytes of records that runs of the loaded object submitted.\<close>

definition delivered_from :: "kstate \<Rightarrow> delivery list \<Rightarrow> bool" where
  "delivered_from s0 ds \<longleftrightarrow>
     (\<forall>(renv, senv, raw) \<in> set ds.
        iter_ok renv \<and>
        (\<exists>s e gap rest. bpf_runs s0 s \<and> e \<in> set (events s) \<and> raw = enc_event gap e @ rest))"

lemma delivered_from_one:
  assumes "iter_ok renv" and "bpf_runs s0 s" and "e \<in> set (events s)"
  shows "delivered_from s0 [(renv, senv, enc_event gap e)]"
proof -
  have "enc_event gap e = enc_event gap e @ []" by simp
  then show ?thesis using assms unfolding delivered_from_def by force
qed

lemma delivered_from_append [simp]:
  "delivered_from s0 (ds @ ds') \<longleftrightarrow> delivered_from s0 ds \<and> delivered_from s0 ds'"
  unfolding delivered_from_def by (simp add: ball_Un)

lemma deliver_all_append:
  "deliver_all self_tgid (ds @ ds') p = Option.bind (deliver_all self_tgid ds p) (deliver_all self_tgid ds')"
  by (induction ds arbitrary: p) (auto split: option.splits)

lemma deliver_all_defined:
  assumes "bpf_loaded s0" and "delivered_from s0 ds"
    and "reg_ok (pl_registry p)" and "unat (next_id (pl_registry p)) + 2 * length ds < 2 ^ 64"
  shows "\<exists>p'. deliver_all self_tgid ds p = Some p' \<and> reg_ok (pl_registry p') \<and>
    m_received (pl_metrics p') = m_received (pl_metrics p) + of_nat (length ds) \<and>
    m_decoded (pl_metrics p') = m_decoded (pl_metrics p) + of_nat (length ds) \<and>
    m_dropped (pl_metrics p') = m_dropped (pl_metrics p)"
  using assms(2-4)
proof (induction ds arbitrary: p)
  case (Cons d ds)
  obtain renv senv raw where d: "d = (renv, senv, raw)" using prod_cases3 by blast
  obtain s e gap rest where e: "iter_ok renv" "bpf_runs s0 s" "e \<in> set (events s)"
      "raw = enc_event gap e @ rest"
    and ds: "delivered_from s0 ds"
    using Cons.prems(1) d by (auto simp: delivered_from_def)
  have "unat (next_id (pl_registry p)) + 2 < 2 ^ 64" using Cons.prems(3) by simp
  then obtain p1 where p1: "on_record renv senv self_tgid raw p = Some p1"
    "pl_metrics p1 = IncrementDecoded (IncrementReceived (pl_metrics p))" "reg_ok (pl_registry p1)"
    "unat (next_id (pl_registry p1)) \<le> unat (next_id (pl_registry p)) + 2"
    using on_record_defined submitted_decodes_and_terminates [OF assms(1) e(2,3)] Cons.prems(2) e
    by metis
  then have "unat (next_id (pl_registry p1)) + 2 * length ds < 2 ^ 64" using Cons.prems(3) by simp
  from Cons.IH [OF ds p1(3) this] obtain p' where p': "deliver_all self_tgid ds p1 = Some p'"
    "reg_ok (pl_registry p')"
    "m_received (pl_metrics p') = m_received (pl_metrics p1) + of_nat (length ds)"
    "m_decoded (pl_metrics p') = m_decoded (pl_metrics p1) + of_nat (length ds)"
    "m_dropped (pl_metrics p') = m_dropped (pl_metrics p1)"
    by blast
  then show ?case using d p1(1,2) by (simp add: IncrementDecoded_def IncrementReceived_def)
qed simp

end
