(* ===== verification/Runtime_Config.thy ===== *)
theory Runtime_Config
  imports Proc_Util
begin

text \<open>
  The two readers of the runtime config file: \<open>LoadRuntimeConfig\<close> of
  src/collector/collector_libbpf.cpp (toggles and allowlists for the kernel side) and
  \<open>LoadSinkRuntimeConfig\<close> of src/main.cpp (path and size limit of the sink). A file is its text,
  None when it cannot be opened; strings are lists of bytes as characters.
\<close>

section \<open>Standard library\<close>

text \<open>Successive \<open>std::getline\<close>: the last piece is not read when it is empty.\<close>

function getlines :: "char \<Rightarrow> string \<Rightarrow> string list" where
  "getlines d s =
     (if s = [] then []
      else takeWhile (\<lambda>c. c \<noteq> d) s # getlines d (drop 1 (dropWhile (\<lambda>c. c \<noteq> d) s)))"
  by pat_completeness auto
termination
proof (relation "measure (length \<circ> snd)")
  fix d :: char and s :: string assume "s \<noteq> []"
  then have "length (drop 1 (dropWhile (\<lambda>c. c \<noteq> d) s)) < length s"
    using length_dropWhile_le [of "\<lambda>c. c \<noteq> d" s] by (cases s) (auto intro: le_imp_less_Suc diff_le_self le_trans)
  then show "((d, drop 1 (dropWhile (\<lambda>c. c \<noteq> d) s)), d, s) \<in> measure (length \<circ> snd)" by simp
qed simp

declare getlines.simps [simp del]

definition find_char :: "char \<Rightarrow> string \<Rightarrow> nat option" where
  "find_char c s = (if c \<in> set s then Some (length (takeWhile (\<lambda>x. x \<noteq> c) s)) else None)"

definition starts_with :: "string \<Rightarrow> string \<Rightarrow> bool" where
  "starts_with p s \<longleftrightarrow> take (length p) s = p"

text \<open>\<open>std::tolower\<close> in the C locale.\<close>

definition to_lower :: "char \<Rightarrow> char" where
  "to_lower c = (let n = of_char c :: nat in if 65 \<le> n \<and> n \<le> 90 then char_of (n + 32) else c)"

text \<open>\<open>std::stol\<close> on a 64-bit \<open>long\<close>: None for no digit and for a value out of range.\<close>

definition stol :: "string \<Rightarrow> s64 option" where
  "stol s =
     (let s = dropWhile is_space s;
          (neg, s) = (case s of c # r \<Rightarrow> if c = CHR ''-'' then (True, r)
                                        else if c = CHR ''+'' then (False, r) else (False, s)
                      | [] \<Rightarrow> (False, s));
          ds = takeWhile is_digit s; n = digits_value ds
      in if ds = [] \<or> n > 2 ^ 63 \<or> (n = 2 ^ 63 \<and> \<not> neg) then None
         else Some (if neg then - of_nat n else of_nat n))"

section \<open>The collector's config\<close>

record FileProbeConfig =
  fp_openat :: bool
  fp_unlinkat :: bool
  fp_renameat2 :: bool

record DomainConfig =
  dc_process :: bool
  dc_file :: bool
  dc_syscall :: bool
  dc_network_socket :: bool

record RuntimeConfig =
  rc_domains :: DomainConfig
  rc_file_probes :: FileProbeConfig
  rc_pid_allowlist :: "u32 list"
  rc_uid_allowlist :: "u32 list"
  rc_syscall_allowlist :: "s32 list"
  rc_port_allowlist :: "u32 list"

definition default_runtime_config :: RuntimeConfig where
  "default_runtime_config =
     \<lparr>rc_domains = \<lparr>dc_process = True, dc_file = True, dc_syscall = True, dc_network_socket = False\<rparr>,
      rc_file_probes = \<lparr>fp_openat = True, fp_unlinkat = True, fp_renameat2 = True\<rparr>,
      rc_pid_allowlist = [], rc_uid_allowlist = [], rc_syscall_allowlist = [],
      rc_port_allowlist = []\<rparr>"

definition Trim :: "string \<Rightarrow> string" where
  "Trim s = rev (dropWhile is_space (rev (dropWhile is_space s)))"

text \<open>The new value of the output argument, the old one when the text is neither word.\<close>

definition ParseBool :: "string \<Rightarrow> bool \<Rightarrow> bool" where
  "ParseBool value out =
     (let value = map to_lower (Trim value)
      in if value = ''true'' then True else if value = ''false'' then False else out)"

definition allowlist_body :: "string \<Rightarrow> string option" where
  "allowlist_body value =
     (case (find_char (CHR ''['') value, find_char (CHR '']'') value) of
        (Some l, Some r) \<Rightarrow> if r \<le> l then None else Some (take (r - l - 1) (drop (l + 1) value))
      | _ \<Rightarrow> None)"

fun push_int32 :: "string list \<Rightarrow> s32 list \<Rightarrow> s32 list" where
  "push_int32 [] out = out"
| "push_int32 (tok # toks) out =
     (let tok = Trim tok
      in if tok = [] then push_int32 toks out
         else case stol tok of
                None \<Rightarrow> push_int32 toks out
              | Some parsed \<Rightarrow> push_int32 toks (out @ [ucast parsed]))"

definition ParseInt32AllowlistInline :: "string \<Rightarrow> s32 list \<Rightarrow> s32 list" where
  "ParseInt32AllowlistInline value out =
     (case allowlist_body value of
        None \<Rightarrow> out
      | Some body \<Rightarrow> push_int32 (getlines (CHR '','') body) out)"

fun push_uint32 :: "string list \<Rightarrow> u32 list \<Rightarrow> u32 list" where
  "push_uint32 [] out = out"
| "push_uint32 (tok # toks) out =
     (let tok = Trim tok
      in if tok = [] then push_uint32 toks out
         else case stoull tok of
                None \<Rightarrow> push_uint32 toks out
              | Some parsed \<Rightarrow>
                  if parsed \<le> 0xFFFFFFFF then push_uint32 toks (out @ [ucast parsed])
                  else push_uint32 toks out)"

definition ParseUint32AllowlistInline :: "string \<Rightarrow> u32 list \<Rightarrow> u32 list" where
  "ParseUint32AllowlistInline value out =
     (case allowlist_body value of
        None \<Rightarrow> out
      | Some body \<Rightarrow> push_uint32 (getlines (CHR '','') body) out)"

record parse_state =
  ps_cfg :: RuntimeConfig
  ps_file_probes :: bool
  ps_domains :: bool
  ps_network_filters :: bool

definition strip_comment :: "string \<Rightarrow> string" where
  "strip_comment line = (case find_char (CHR ''#'') line of Some p \<Rightarrow> take p line | None \<Rightarrow> line)"

text \<open>A \<open>key: value\<close> line inside a section.\<close>

definition file_probe_line :: "string \<Rightarrow> string \<Rightarrow> RuntimeConfig \<Rightarrow> RuntimeConfig" where
  "file_probe_line key value cfg =
     (let fp = rc_file_probes cfg
      in cfg\<lparr>rc_file_probes :=
           (if key = ''openat'' then fp\<lparr>fp_openat := ParseBool value (fp_openat fp)\<rparr>
            else if key = ''unlinkat'' then fp\<lparr>fp_unlinkat := ParseBool value (fp_unlinkat fp)\<rparr>
            else if key = ''renameat2'' then fp\<lparr>fp_renameat2 := ParseBool value (fp_renameat2 fp)\<rparr>
            else fp)\<rparr>)"

definition domain_line :: "string \<Rightarrow> string \<Rightarrow> RuntimeConfig \<Rightarrow> RuntimeConfig" where
  "domain_line key value cfg =
     (let d = rc_domains cfg
      in cfg\<lparr>rc_domains :=
           (if key = ''process'' then d\<lparr>dc_process := ParseBool value (dc_process d)\<rparr>
            else if key = ''file'' then d\<lparr>dc_file := ParseBool value (dc_file d)\<rparr>
            else if key = ''syscall'' then d\<lparr>dc_syscall := ParseBool value (dc_syscall d)\<rparr>
            else if key = ''network_socket''
            then d\<lparr>dc_network_socket := ParseBool value (dc_network_socket d)\<rparr>
            else d)\<rparr>)"

definition config_line :: "parse_state \<Rightarrow> string \<Rightarrow> parse_state" where
  "config_line st line =
     (let trimmed = Trim (strip_comment line); cfg = ps_cfg st
      in if trimmed = [] then st
         else if trimmed = ''file_probes:''
         then st\<lparr>ps_file_probes := True, ps_domains := False, ps_network_filters := False\<rparr>
         else if trimmed = ''domains:''
         then st\<lparr>ps_file_probes := False, ps_domains := True, ps_network_filters := False\<rparr>
         else if trimmed = ''network_filters:''
         then st\<lparr>ps_file_probes := False, ps_domains := False, ps_network_filters := True\<rparr>
         else if last trimmed = CHR '':''
         then st\<lparr>ps_file_probes := False, ps_domains := False, ps_network_filters := False\<rparr>
         else if starts_with ''pid_allowlist:'' trimmed
         then st\<lparr>ps_cfg := cfg\<lparr>rc_pid_allowlist :=
                   ParseUint32AllowlistInline trimmed (rc_pid_allowlist cfg)\<rparr>\<rparr>
         else if starts_with ''uid_allowlist:'' trimmed
         then st\<lparr>ps_cfg := cfg\<lparr>rc_uid_allowlist :=
                   ParseUint32AllowlistInline trimmed (rc_uid_allowlist cfg)\<rparr>\<rparr>
         else if starts_with ''syscall_allowlist:'' trimmed
         then st\<lparr>ps_cfg := cfg\<lparr>rc_syscall_allowlist :=
                   ParseInt32AllowlistInline trimmed (rc_syscall_allowlist cfg)\<rparr>\<rparr>
         else if ps_network_filters st \<and> starts_with ''port_allowlist:'' trimmed
         then st\<lparr>ps_cfg := cfg\<lparr>rc_port_allowlist :=
                   ParseUint32AllowlistInline trimmed (rc_port_allowlist cfg)\<rparr>\<rparr>
         else case find_char (CHR '':'') trimmed of
                None \<Rightarrow> st
              | Some colon \<Rightarrow>
                  let key = Trim (take colon trimmed); value = Trim (drop (colon + 1) trimmed)
                  in if ps_file_probes st then st\<lparr>ps_cfg := file_probe_line key value cfg\<rparr>
                     else if ps_domains st then st\<lparr>ps_cfg := domain_line key value cfg\<rparr>
                     else st)"

definition LoadRuntimeConfig :: "string option \<Rightarrow> RuntimeConfig \<Rightarrow> bool \<times> RuntimeConfig" where
  "LoadRuntimeConfig contents cfg =
     (case contents of
        None \<Rightarrow> (False, cfg)
      | Some text \<Rightarrow>
          (True, ps_cfg (foldl config_line
             \<lparr>ps_cfg = cfg, ps_file_probes = False, ps_domains = False, ps_network_filters = False\<rparr>
             (getlines (CHR 0x0A) text))))"

text \<open>The environment variable wins over the compiled-in path.\<close>

definition DefaultConfigPath :: "string option \<Rightarrow> string" where
  "DefaultConfigPath env_path = (case env_path of Some p \<Rightarrow> p | None \<Rightarrow> ''config/default.yaml'')"

section \<open>The sink's config\<close>

record SinkRuntimeConfig =
  sc_path :: string
  sc_max_file_size_bytes :: u64

definition default_sink_config :: SinkRuntimeConfig where
  "default_sink_config =
     \<lparr>sc_path = ''/var/log/etracegen/events.ndjson'', sc_max_file_size_bytes = 100 * 1024 * 1024\<rparr>"

text \<open>src/main.cpp has its own copies of these two functions.\<close>

definition Trim_main :: "string \<Rightarrow> string" where
  "Trim_main s = rev (dropWhile is_space (rev (dropWhile is_space s)))"

definition DefaultConfigPath_main :: "string option \<Rightarrow> string" where
  "DefaultConfigPath_main env_path = (case env_path of Some p \<Rightarrow> p | None \<Rightarrow> ''config/default.yaml'')"

lemma main_readers: "Trim_main s = Trim s" "DefaultConfigPath_main env_path = DefaultConfigPath env_path"
  by (simp_all add: Trim_main_def Trim_def DefaultConfigPath_main_def DefaultConfigPath_def)

definition strip_quotes :: "string \<Rightarrow> string" where
  "strip_quotes value =
     (if 2 \<le> length value \<and>
         ((hd value = CHR 0x22 \<and> last value = CHR 0x22) \<or> (hd value = CHR 0x27 \<and> last value = CHR 0x27))
      then take (length value - 2) (drop 1 value) else value)"

definition sink_line :: "bool \<times> SinkRuntimeConfig \<Rightarrow> string \<Rightarrow> bool \<times> SinkRuntimeConfig" where
  "sink_line st line =
     (let (in_sink, cfg) = st; trimmed = Trim_main (strip_comment line)
      in if trimmed = [] then st
         else if trimmed = ''sink:'' then (True, cfg)
         else if last trimmed = CHR '':'' then (False, cfg)
         else if \<not> in_sink then st
         else case find_char (CHR '':'') trimmed of
                None \<Rightarrow> st
              | Some colon \<Rightarrow>
                  let key = Trim_main (take colon trimmed);
                      value = strip_quotes (Trim_main (drop (colon + 1) trimmed))
                  in if key = ''path'' then (in_sink, cfg\<lparr>sc_path := value\<rparr>)
                     else if key = ''max_file_size_bytes''
                     then (in_sink, case stoull value of
                                      Some n \<Rightarrow> cfg\<lparr>sc_max_file_size_bytes := n\<rparr> | None \<Rightarrow> cfg)
                     else st)"

lemmas sink_line_eq = sink_line_def [unfolded main_readers]

definition LoadSinkRuntimeConfig :: "string option \<Rightarrow> SinkRuntimeConfig" where
  "LoadSinkRuntimeConfig contents =
     (case contents of
        None \<Rightarrow> default_sink_config
      | Some text \<Rightarrow> snd (foldl sink_line (False, default_sink_config) (getlines (CHR 0x0A) text)))"

end
