(* ===== verification/Collector.thy ===== *)
theory Collector
  imports Runtime_Config Bpf_System
begin

text \<open>
  src/collector/collector.h and collector_libbpf.cpp: the libbpf backend. It opens and loads the
  object, reads the config, writes the toggles, allowlists and its own thread group into the maps,
  attaches every program, and keeps a report of what went wrong. libbpf's answers are the argument
  \<open>env\<close>; the maps of a loaded object are the \<open>kstate\<close> of the kernel side. What it writes to stderr is in
  Collector_Log.
\<close>

section \<open>State\<close>

record KernelBpfStats =
  ks_ringbuf_reserve_fail :: u64
  ks_file_state_save_fail :: u64
  ks_file_state_collision :: u64
  ks_file_state_miss :: u64
  ks_syscall_state_save_fail :: u64
  ks_syscall_state_collision :: u64
  ks_syscall_state_miss :: u64
  ks_network_state_save_fail :: u64
  ks_network_state_collision :: u64
  ks_network_state_miss :: u64

record CollectorStartupReport =
  sr_backend_name :: string
  sr_bpf_object_path :: string
  sr_config_path :: string
  sr_programs_total :: u32
  sr_programs_attached :: u32
  sr_programs_attach_failed :: u32
  sr_runtime_config_loaded :: bool
  sr_map_events_found :: bool
  sr_map_bpf_stats_found :: bool
  sr_map_file_probe_enabled_found :: bool
  sr_map_syscall_allowlist_found :: bool
  sr_map_pid_allowlist_found :: bool
  sr_map_uid_allowlist_found :: bool
  sr_map_network_probe_enabled_found :: bool
  sr_map_network_port_allowlist_found :: bool
  sr_map_network_port_filter_enabled_found :: bool
  sr_map_suppress_tgid_found :: bool
  sr_file_probe_toggles_applied :: bool
  sr_syscall_allowlist_applied_count :: u32
  sr_pid_allowlist_applied_count :: u32
  sr_uid_allowlist_applied_count :: u32
  sr_network_probe_toggles_applied :: bool
  sr_network_port_allowlist_applied_count :: u32
  sr_degraded :: bool
  sr_degrade_reason :: string

text \<open>
  \<open>cl_kernel\<close> is the map contents of the loaded object, gone when the object is closed; \<open>cl_links\<close>
  holds the names of the attached programs.
\<close>

record LibbpfCollector =
  cl_cb :: bool
  cl_obj :: bool
  cl_kernel :: "kstate option"
  cl_rb :: bool
  cl_links :: "string list"
  cl_started :: bool
  cl_report :: CollectorStartupReport
  cl_report_available :: bool

text \<open>
  \<open>ce_map_fd\<close> is the descriptor of a map by name, negative when the object has no such map;
  \<open>ce_update\<close> whether storing a key in a map succeeds; \<open>ce_programs\<close> the object's programs by name
  with the outcome of attaching each.
\<close>

record collector_env =
  ce_env_bpf_object :: "string option"
  ce_env_config :: "string option"
  ce_object_macro :: "string option"
  ce_read_file :: "string \<Rightarrow> string option"
  ce_open_ok :: bool
  ce_load_ret :: int
  ce_map_fd :: "string \<Rightarrow> int"
  ce_update :: "string \<Rightarrow> u32 \<Rightarrow> bool"
  ce_programs :: "(string option \<times> bool) list"
  ce_ring_buffer_ok :: bool
  ce_pid :: u32
  ce_cpu_count :: int
  ce_lookup :: "u32 \<Rightarrow> bool"

text \<open>The path compiled in, or the built-in one when the build defines none.\<close>

definition DefaultBpfObjectPath :: "string option \<Rightarrow> string" where
  "DefaultBpfObjectPath object_macro =
     (case object_macro of Some path \<Rightarrow> path | None \<Rightarrow> ''bpf/event_logger.bpf.o'')"

definition default_report :: CollectorStartupReport where
  "default_report =
     \<lparr>sr_backend_name = [], sr_bpf_object_path = [], sr_config_path = [], sr_programs_total = 0,
      sr_programs_attached = 0, sr_programs_attach_failed = 0, sr_runtime_config_loaded = False,
      sr_map_events_found = False, sr_map_bpf_stats_found = False,
      sr_map_file_probe_enabled_found = False, sr_map_syscall_allowlist_found = False,
      sr_map_pid_allowlist_found = False, sr_map_uid_allowlist_found = False,
      sr_map_network_probe_enabled_found = False, sr_map_network_port_allowlist_found = False,
      sr_map_network_port_filter_enabled_found = False, sr_map_suppress_tgid_found = False,
      sr_file_probe_toggles_applied = False, sr_syscall_allowlist_applied_count = 0,
      sr_pid_allowlist_applied_count = 0, sr_uid_allowlist_applied_count = 0,
      sr_network_probe_toggles_applied = False, sr_network_port_allowlist_applied_count = 0,
      sr_degraded = False, sr_degrade_reason = []\<rparr>"

definition new_collector :: LibbpfCollector where
  "new_collector =
     \<lparr>cl_cb = False, cl_obj = False, cl_kernel = None, cl_rb = False, cl_links = [],
      cl_started = False, cl_report = default_report, cl_report_available = False\<rparr>"

definition AppendDegradeReason :: "string \<Rightarrow> CollectorStartupReport \<Rightarrow> CollectorStartupReport" where
  "AppendDegradeReason message r =
     (if message = [] then r
      else r\<lparr>sr_degrade_reason :=
               (if sr_degrade_reason r \<noteq> [] then sr_degrade_reason r @ ''; '' else []) @ message,
             sr_degraded := True\<rparr>)"

text \<open>A reason that applies only when something failed.\<close>

definition degrade_if :: "bool \<Rightarrow> string \<Rightarrow> CollectorStartupReport \<Rightarrow> CollectorStartupReport" where
  "degrade_if failed message r = (if failed then AppendDegradeReason message r else r)"

section \<open>Writing the maps\<close>

definition map_update_elem ::
  "collector_env \<Rightarrow> string \<Rightarrow> u32 \<Rightarrow> 'v \<Rightarrow> (u32 \<rightharpoonup> 'v) \<Rightarrow> bool \<times> (u32 \<rightharpoonup> 'v)" where
  "map_update_elem env name key value m =
     (if ce_update env name key then (True, m(key \<mapsto> value)) else (False, m))"

definition toggle_value :: "bool \<Rightarrow> u8" where
  "toggle_value enabled = (if enabled then 1 else 0)"

fun set_toggles ::
  "collector_env \<Rightarrow> string \<Rightarrow> (u32 \<times> bool) list \<Rightarrow> bool \<times> (u32 \<rightharpoonup> u8) \<Rightarrow> bool \<times> (u32 \<rightharpoonup> u8)" where
  "set_toggles env name [] st = st"
| "set_toggles env name ((key, enabled) # toggles) (all_ok, m) =
     (let (stored, m) = map_update_elem env name key (toggle_value enabled) m
      in set_toggles env name toggles (if stored then all_ok else False, m))"

definition ApplyFileProbeConfig ::
  "collector_env \<Rightarrow> FileProbeConfig \<Rightarrow> (u32 \<rightharpoonup> u8) \<Rightarrow> bool \<times> (u32 \<rightharpoonup> u8)" where
  "ApplyFileProbeConfig env cfg m =
     (if ce_map_fd env ''file_probe_enabled'' < 0 then (False, m)
      else set_toggles env ''file_probe_enabled''
             [(FILE_OPENAT, fp_openat cfg), (FILE_UNLINKAT, fp_unlinkat cfg),
              (FILE_RENAMEAT2, fp_renameat2 cfg)] (True, m))"

definition ApplyProcessProbeConfig ::
  "collector_env \<Rightarrow> bool \<Rightarrow> (u32 \<rightharpoonup> u8) \<Rightarrow> bool \<times> (u32 \<rightharpoonup> u8)" where
  "ApplyProcessProbeConfig env enabled m =
     (if ce_map_fd env ''process_probe_enabled'' < 0 then (False, m)
      else set_toggles env ''process_probe_enabled''
             (map (\<lambda>k. (k, enabled)) [PROCESS_EXEC, PROCESS_FORK, PROCESS_EXIT, PROCESS_CLONE,
                PROCESS_CLONE3, PROCESS_VFORK]) (True, m))"

definition network_toggle_keys :: "u32 list" where
  "network_toggle_keys =
     [NETWORK_SOCKET, NETWORK_SOCKETPAIR, NETWORK_CONNECT, NETWORK_BIND, NETWORK_LISTEN,
      NETWORK_ACCEPT, NETWORK_ACCEPT4, NETWORK_GETSOCKNAME, NETWORK_GETPEERNAME,
      NETWORK_SETSOCKOPT, NETWORK_GETSOCKOPT, NETWORK_CLOSE, NETWORK_SENDTO, NETWORK_RECVFROM,
      NETWORK_SHUTDOWN, NETWORK_SENDMSG, NETWORK_RECVMSG, NETWORK_READ, NETWORK_WRITE,
      NETWORK_READV, NETWORK_WRITEV, NETWORK_SENDMMSG, NETWORK_RECVMMSG]"

definition ApplyNetworkProbeConfig ::
  "collector_env \<Rightarrow> bool \<Rightarrow> (u32 \<rightharpoonup> u8) \<Rightarrow> bool \<times> (u32 \<rightharpoonup> u8)" where
  "ApplyNetworkProbeConfig env enabled m =
     (if ce_map_fd env ''network_probe_enabled'' < 0 then (False, m)
      else set_toggles env ''network_probe_enabled''
             (map (\<lambda>k. (k, enabled)) network_toggle_keys) (True, m))"

text \<open>The loop of both allowlist writers; the count is of the entries that were stored.\<close>

fun store_entries ::
  "collector_env \<Rightarrow> string \<Rightarrow> u32 list \<Rightarrow> u32 \<times> (u32 \<rightharpoonup> u8) \<Rightarrow> u32 \<times> (u32 \<rightharpoonup> u8)" where
  "store_entries env name [] st = st"
| "store_entries env name (key # keys) (applied, m) =
     (let (stored, m) = map_update_elem env name key 1 m
      in store_entries env name keys (if stored then applied + 1 else applied, m))"

definition ApplyU32AllowlistConfig ::
  "collector_env \<Rightarrow> string \<Rightarrow> u32 list \<Rightarrow> (u32 \<rightharpoonup> u8) \<Rightarrow> u32 \<times> (u32 \<rightharpoonup> u8)" where
  "ApplyU32AllowlistConfig env name allowlist m =
     (if ce_map_fd env name < 0 then (0, m) else store_entries env name allowlist (0, m))"

definition ApplySyscallAllowlistConfig ::
  "collector_env \<Rightarrow> s32 list \<Rightarrow> (u32 \<rightharpoonup> u8) \<Rightarrow> u32 \<times> (u32 \<rightharpoonup> u8)" where
  "ApplySyscallAllowlistConfig env allowlist m =
     (if ce_map_fd env ''syscall_allowlist'' < 0 then (0, m)
      else store_entries env ''syscall_allowlist'' allowlist (0, m))"

definition SetAllowlistEnabled ::
  "collector_env \<Rightarrow> string \<Rightarrow> bool \<Rightarrow> (u32 \<rightharpoonup> u8) \<Rightarrow> bool \<times> (u32 \<rightharpoonup> u8)" where
  "SetAllowlistEnabled env name enabled m =
     (if ce_map_fd env name < 0 then (False, m)
      else map_update_elem env name 0 (toggle_value enabled) m)"

definition store_own_tgid :: "collector_env \<Rightarrow> kstate \<Rightarrow> bool \<times> kstate" where
  "store_own_tgid env k =
     (if ce_map_fd env ''suppress_tgid'' < 0 then (True, k)
      else let (stored, m) = map_update_elem env ''suppress_tgid'' 0 (ce_pid env) (suppress_tgid k)
           in (stored, k\<lparr>suppress_tgid := m\<rparr>))"

section \<open>Start\<close>

definition missing_map_reasons :: "(string \<times> string) list" where
  "missing_map_reasons =
     [(''bpf_stats'', ''bpf_stats map missing; kernel diagnostics unavailable''),
      (''file_probe_enabled'', ''file_probe_enabled map missing; runtime file toggles disabled''),
      (''process_probe_enabled'', ''process_probe_enabled map missing; runtime process toggles disabled''),
      (''syscall_probe_enabled'', ''syscall_probe_enabled map missing; runtime syscall domain toggle disabled''),
      (''syscall_allowlist'', ''syscall_allowlist map missing; runtime syscall gating disabled''),
      (''pid_allowlist'', ''pid_allowlist map missing; runtime pid filtering disabled''),
      (''uid_allowlist'', ''uid_allowlist map missing; runtime uid filtering disabled''),
      (''network_probe_enabled'', ''network_probe_enabled map missing; runtime network probe toggles disabled''),
      (''network_port_allowlist'', ''network_port_allowlist map missing; runtime network port filtering disabled''),
      (''network_port_filter_enabled'', ''network_port_filter_enabled map missing; network port filter activation unavailable''),
      (''pid_filter_enabled'', ''pid_filter_enabled map missing; pid filtering activation unavailable''),
      (''uid_filter_enabled'', ''uid_filter_enabled map missing; uid filtering activation unavailable''),
      (''suppress_tgid'', ''suppress_tgid map missing; self-event suppression in-kernel disabled'')]"

definition note_missing_maps :: "collector_env \<Rightarrow> CollectorStartupReport \<Rightarrow> CollectorStartupReport" where
  "note_missing_maps env r =
     fold (\<lambda>(name, message). degrade_if (ce_map_fd env name < 0) message) missing_map_reasons r"

definition report_found_maps :: "collector_env \<Rightarrow> CollectorStartupReport \<Rightarrow> CollectorStartupReport" where
  "report_found_maps env r =
     r\<lparr>sr_map_events_found := ce_map_fd env ''events'' \<ge> 0,
       sr_map_bpf_stats_found := ce_map_fd env ''bpf_stats'' \<ge> 0,
       sr_map_file_probe_enabled_found := ce_map_fd env ''file_probe_enabled'' \<ge> 0,
       sr_map_syscall_allowlist_found := ce_map_fd env ''syscall_allowlist'' \<ge> 0,
       sr_map_pid_allowlist_found := ce_map_fd env ''pid_allowlist'' \<ge> 0,
       sr_map_uid_allowlist_found := ce_map_fd env ''uid_allowlist'' \<ge> 0,
       sr_map_network_probe_enabled_found := ce_map_fd env ''network_probe_enabled'' \<ge> 0,
       sr_map_network_port_allowlist_found := ce_map_fd env ''network_port_allowlist'' \<ge> 0,
       sr_map_network_port_filter_enabled_found := ce_map_fd env ''network_port_filter_enabled'' \<ge> 0,
       sr_map_suppress_tgid_found := ce_map_fd env ''suppress_tgid'' \<ge> 0\<rparr>"

definition effective_file_probes :: "RuntimeConfig \<Rightarrow> FileProbeConfig" where
  "effective_file_probes cfg =
     (if dc_file (rc_domains cfg) then rc_file_probes cfg
      else (rc_file_probes cfg)\<lparr>fp_openat := False, fp_unlinkat := False, fp_renameat2 := False\<rparr>)"

definition effective_syscall_allowlist :: "RuntimeConfig \<Rightarrow> s32 list" where
  "effective_syscall_allowlist cfg =
     (if dc_syscall (rc_domains cfg) then rc_syscall_allowlist cfg else [])"

text \<open>The toggles of the four domains.\<close>

definition apply_probes ::
  "collector_env \<Rightarrow> RuntimeConfig \<Rightarrow> kstate \<times> CollectorStartupReport \<Rightarrow> kstate \<times> CollectorStartupReport" where
  "apply_probes env cfg st =
     (let (k, r) = st;
          (okp, m) = ApplyProcessProbeConfig env (dc_process (rc_domains cfg)) (process_probe_enabled k);
          k = k\<lparr>process_probe_enabled := m\<rparr>;
          r = degrade_if (\<not> okp) ''process probe toggle apply failed'' r;
          (oks, m) = SetAllowlistEnabled env ''syscall_probe_enabled'' (dc_syscall (rc_domains cfg))
                       (syscall_probe_enabled k);
          k = k\<lparr>syscall_probe_enabled := m\<rparr>;
          r = degrade_if (\<not> oks) ''syscall probe toggle apply failed'' r;
          (okf, m) = ApplyFileProbeConfig env (effective_file_probes cfg) (file_probe_enabled k);
          k = k\<lparr>file_probe_enabled := m\<rparr>;
          r = r\<lparr>sr_file_probe_toggles_applied := okf\<rparr>;
          r = degrade_if (\<not> okf) ''file probe toggle apply failed'' r;
          (okn, m) = ApplyNetworkProbeConfig env (dc_network_socket (rc_domains cfg))
                       (network_probe_enabled k);
          k = k\<lparr>network_probe_enabled := m\<rparr>;
          r = r\<lparr>sr_network_probe_toggles_applied := okn\<rparr>;
          r = degrade_if (\<not> okn) ''network probe toggle apply failed'' r
      in (k, r))"

text \<open>The four allowlists.\<close>

definition apply_allowlists ::
  "collector_env \<Rightarrow> RuntimeConfig \<Rightarrow> kstate \<times> CollectorStartupReport \<Rightarrow> kstate \<times> CollectorStartupReport" where
  "apply_allowlists env cfg st =
     (let (k, r) = st;
          (n, m) = ApplyU32AllowlistConfig env ''pid_allowlist'' (rc_pid_allowlist cfg) (pid_allowlist k);
          k = k\<lparr>pid_allowlist := m\<rparr>; r = r\<lparr>sr_pid_allowlist_applied_count := n\<rparr>;
          (n, m) = ApplyU32AllowlistConfig env ''uid_allowlist'' (rc_uid_allowlist cfg) (uid_allowlist k);
          k = k\<lparr>uid_allowlist := m\<rparr>; r = r\<lparr>sr_uid_allowlist_applied_count := n\<rparr>;
          (n, m) = ApplySyscallAllowlistConfig env (effective_syscall_allowlist cfg) (syscall_allowlist k);
          k = k\<lparr>syscall_allowlist := m\<rparr>; r = r\<lparr>sr_syscall_allowlist_applied_count := n\<rparr>;
          (n, m) = ApplyU32AllowlistConfig env ''network_port_allowlist'' (rc_port_allowlist cfg)
                     (network_port_allowlist k);
          k = k\<lparr>network_port_allowlist := m\<rparr>; r = r\<lparr>sr_network_port_allowlist_applied_count := n\<rparr>
      in (k, r))"

text \<open>The filter flags and the collector's own thread group.\<close>

definition apply_filters ::
  "collector_env \<Rightarrow> RuntimeConfig \<Rightarrow> kstate \<times> CollectorStartupReport \<Rightarrow> kstate \<times> CollectorStartupReport" where
  "apply_filters env cfg st =
     (let (k, r) = st;
          (okp, m) = SetAllowlistEnabled env ''pid_filter_enabled'' (rc_pid_allowlist cfg \<noteq> [])
                       (pid_filter_enabled k);
          k = k\<lparr>pid_filter_enabled := m\<rparr>;
          r = degrade_if (\<not> okp) ''pid filter enable flag apply failed'' r;
          (oku, m) = SetAllowlistEnabled env ''uid_filter_enabled'' (rc_uid_allowlist cfg \<noteq> [])
                       (uid_filter_enabled k);
          k = k\<lparr>uid_filter_enabled := m\<rparr>;
          r = degrade_if (\<not> oku) ''uid filter enable flag apply failed'' r;
          (okn, m) = SetAllowlistEnabled env ''network_port_filter_enabled'' (rc_port_allowlist cfg \<noteq> [])
                       (network_port_filter_enabled k);
          k = k\<lparr>network_port_filter_enabled := m\<rparr>;
          r = degrade_if (\<not> okn) ''network port filter enable flag apply failed'' r;
          (stored, k) = store_own_tgid env k;
          r = degrade_if (\<not> stored) ''suppress_tgid apply failed'' r
      in (k, r))"

text \<open>The closing checks: an allowlist of which nothing was stored.\<close>

definition check_applied :: "RuntimeConfig \<Rightarrow> CollectorStartupReport \<Rightarrow> CollectorStartupReport" where
  "check_applied cfg r =
     (let r = degrade_if (rc_pid_allowlist cfg \<noteq> [] \<and> sr_pid_allowlist_applied_count r = 0)
                ''pid allowlist entries were not applied'' r;
          r = degrade_if (rc_uid_allowlist cfg \<noteq> [] \<and> sr_uid_allowlist_applied_count r = 0)
                ''uid allowlist entries were not applied'' r;
          r = degrade_if (effective_syscall_allowlist cfg \<noteq> [] \<and> sr_syscall_allowlist_applied_count r = 0)
                ''syscall allowlist entries were not applied'' r
      in degrade_if (rc_port_allowlist cfg \<noteq> [] \<and> sr_network_port_allowlist_applied_count r = 0)
           ''network port allowlist entries were not applied'' r)"

text \<open>The loop over the programs: the names of the attached and of the failed ones.\<close>

definition program_name :: "string option \<Rightarrow> string" where
  "program_name name = (case name of Some n \<Rightarrow> n | None \<Rightarrow> ''<unknown>'')"

fun attach_programs ::
  "(string option \<times> bool) list \<Rightarrow> string list \<times> string list \<Rightarrow> string list \<times> string list" where
  "attach_programs [] st = st"
| "attach_programs ((name, attached) # progs) (links, failed) =
     (if \<not> attached then attach_programs progs (links, failed @ [program_name name])
      else attach_programs progs (links @ [program_name name], failed))"

fun join_comma :: "string list \<Rightarrow> string" where
  "join_comma [] = []"
| "join_comma [s] = s"
| "join_comma (s # t # ss) = s @ '','' @ join_comma (t # ss)"

definition report_programs ::
  "nat \<Rightarrow> string list \<Rightarrow> string list \<Rightarrow> CollectorStartupReport \<Rightarrow> CollectorStartupReport" where
  "report_programs count links failed r =
     (let r = r\<lparr>sr_programs_total := of_nat count, sr_programs_attached := of_nat (length links),
                sr_programs_attach_failed := of_nat (length failed)\<rparr>
      in degrade_if (failed \<noteq> []) (''attach failures='' @ join_comma failed) r)"

definition Stop :: "LibbpfCollector \<Rightarrow> LibbpfCollector" where
  "Stop c = c\<lparr>cl_started := False, cl_rb := False, cl_links := [], cl_obj := False,
              cl_kernel := None, cl_cb := False\<rparr>"

definition fail_start :: "string \<Rightarrow> LibbpfCollector \<Rightarrow> bool \<times> LibbpfCollector" where
  "fail_start message c = (False, Stop (c\<lparr>cl_report := AppendDegradeReason message (cl_report c)\<rparr>))"

text \<open>From the configured maps to a running reader.\<close>

definition finish_start :: "collector_env \<Rightarrow> LibbpfCollector \<Rightarrow> bool \<times> LibbpfCollector" where
  "finish_start env c =
     (let (links, failed) = attach_programs (ce_programs env) (cl_links c, []);
          attached = drop (length (cl_links c)) links;
          c = c\<lparr>cl_links := links,
                cl_report := report_programs (length (ce_programs env)) attached failed (cl_report c)\<rparr>
      in if attached = []
         then fail_start ''no BPF programs attached'' c
         else if \<not> sr_map_events_found (cl_report c) then fail_start ''events map missing'' c
         else if \<not> ce_ring_buffer_ok env then fail_start ''failed to create ring buffer reader'' c
         else (True, c\<lparr>cl_rb := True, cl_started := True\<rparr>))"

definition configure :: "collector_env \<Rightarrow> LibbpfCollector \<Rightarrow> LibbpfCollector" where
  "configure env c =
     (let path = DefaultConfigPath (ce_env_config env);
          (loaded, cfg) = LoadRuntimeConfig (ce_read_file env path) default_runtime_config;
          r = (cl_report c)\<lparr>sr_config_path := path, sr_runtime_config_loaded := loaded\<rparr>;
          r = degrade_if (\<not> loaded) ''runtime config not found; defaults used'' r;
          r = report_found_maps env r;
          r = note_missing_maps env r;
          (k, r) = apply_probes env cfg (initial_kstate, r);
          (k, r) = apply_allowlists env cfg (k, r);
          (k, r) = apply_filters env cfg (k, r);
          r = check_applied cfg r
      in c\<lparr>cl_kernel := Some k, cl_report := r\<rparr>)"

definition Start :: "collector_env \<Rightarrow> bool \<Rightarrow> LibbpfCollector \<Rightarrow> bool \<times> LibbpfCollector" where
  "Start env cb c =
     (let c = c\<lparr>cl_cb := cb, cl_report := default_report\<lparr>sr_backend_name := ''libbpf''\<rparr>,
                cl_report_available := True\<rparr>
      in if \<not> cb
         then (False, c\<lparr>cl_report := AppendDegradeReason ''missing callback'' (cl_report c)\<rparr>)
         else let path = (case ce_env_bpf_object env of Some p \<Rightarrow> p | None \<Rightarrow> DefaultBpfObjectPath (ce_object_macro env));
                  c = c\<lparr>cl_report := (cl_report c)\<lparr>sr_bpf_object_path := path\<rparr>\<rparr>
              in if \<not> ce_open_ok env
                 then (False, c\<lparr>cl_obj := False,
                         cl_report := AppendDegradeReason ''failed to open BPF object'' (cl_report c)\<rparr>)
                 else let c = c\<lparr>cl_obj := True\<rparr>
                      in if ce_load_ret env \<noteq> 0 then fail_start ''failed to load BPF object'' c
                         else finish_start env (configure env c))"

section \<open>Running and reading\<close>

text \<open>
  What a poll hands to the callback, in order, of what the ring buffer has ready; the callback
  itself belongs to the caller.
\<close>

definition OnRingBufferEvent :: "LibbpfCollector \<Rightarrow> 'd \<Rightarrow> 'd list" where
  "OnRingBufferEvent c data = (if \<not> cl_cb c then [] else [data])"

definition PollOnce :: "LibbpfCollector \<Rightarrow> 'd list \<Rightarrow> 'd list" where
  "PollOnce c available =
     (if \<not> cl_started c \<or> \<not> cl_rb c then [] else concat (map (OnRingBufferEvent c) available))"

text \<open>The sum over the possible CPUs, None for a failed read.\<close>

definition ReadPerCpuCounter :: "collector_env \<Rightarrow> kstate \<Rightarrow> u32 \<Rightarrow> u64 option" where
  "ReadPerCpuCounter env k key =
     (if ce_cpu_count env \<le> 0 then None
      else if \<not> ce_lookup env key then None
      else Some (foldl (\<lambda>acc cpu. acc + bpf_stats k cpu key) 0 [0..<nat (ce_cpu_count env)]))"

definition stat_fields :: "(u32 \<times> (u64 \<Rightarrow> KernelBpfStats \<Rightarrow> KernelBpfStats)) list" where
  "stat_fields =
     [(BPF_STAT_RINGBUF_RESERVE_FAIL, \<lambda>v s. s\<lparr>ks_ringbuf_reserve_fail := v\<rparr>),
      (BPF_STAT_FILE_STATE_SAVE_FAIL, \<lambda>v s. s\<lparr>ks_file_state_save_fail := v\<rparr>),
      (BPF_STAT_FILE_STATE_COLLISION, \<lambda>v s. s\<lparr>ks_file_state_collision := v\<rparr>),
      (BPF_STAT_FILE_STATE_MISS, \<lambda>v s. s\<lparr>ks_file_state_miss := v\<rparr>),
      (BPF_STAT_SYSCALL_STATE_SAVE_FAIL, \<lambda>v s. s\<lparr>ks_syscall_state_save_fail := v\<rparr>),
      (BPF_STAT_SYSCALL_STATE_COLLISION, \<lambda>v s. s\<lparr>ks_syscall_state_collision := v\<rparr>),
      (BPF_STAT_SYSCALL_STATE_MISS, \<lambda>v s. s\<lparr>ks_syscall_state_miss := v\<rparr>),
      (BPF_STAT_NETWORK_STATE_SAVE_FAIL, \<lambda>v s. s\<lparr>ks_network_state_save_fail := v\<rparr>),
      (BPF_STAT_NETWORK_STATE_COLLISION, \<lambda>v s. s\<lparr>ks_network_state_collision := v\<rparr>),
      (BPF_STAT_NETWORK_STATE_MISS, \<lambda>v s. s\<lparr>ks_network_state_miss := v\<rparr>)]"

fun read_stats ::
  "collector_env \<Rightarrow> kstate \<Rightarrow> (u32 \<times> (u64 \<Rightarrow> KernelBpfStats \<Rightarrow> KernelBpfStats)) list \<Rightarrow>
   KernelBpfStats \<Rightarrow> bool \<times> KernelBpfStats" where
  "read_stats env k [] out = (True, out)"
| "read_stats env k ((key, store) # rest) out =
     (case ReadPerCpuCounter env k key of
        None \<Rightarrow> (False, out)
      | Some v \<Rightarrow> read_stats env k rest (store v out))"

definition ReadKernelBpfStats ::
  "collector_env \<Rightarrow> LibbpfCollector \<Rightarrow> KernelBpfStats \<Rightarrow> bool \<times> KernelBpfStats" where
  "ReadKernelBpfStats env c out =
     (case cl_kernel c of
        None \<Rightarrow> (False, out)
      | Some k \<Rightarrow>
          if ce_map_fd env ''bpf_stats'' < 0 then (False, out) else read_stats env k stat_fields out)"

definition ReadStartupReport :: "LibbpfCollector \<Rightarrow> CollectorStartupReport option" where
  "ReadStartupReport c = (if cl_report_available c then Some (cl_report c) else None)"

end
