(* ===== verification/Config_Properties.thy ===== *)
theory Config_Properties
  imports Runtime_Config
begin

text \<open>
  What the config readers recover: a file written in the documented layout is read back exactly.
\<close>

section \<open>Lines, trimming and lists\<close>

lemma getlines_Nil [simp]: "getlines d [] = []"
  by (simp add: getlines.simps)

lemma split_at_first:
  "d \<notin> set l \<Longrightarrow> takeWhile (\<lambda>c. c \<noteq> d) (l @ d # rest) = l \<and> dropWhile (\<lambda>c. c \<noteq> d) (l @ d # rest) = d # rest"
  by (induction l) auto

lemma split_at_none: "d \<notin> set l \<Longrightarrow> takeWhile (\<lambda>c. c \<noteq> d) l = l \<and> dropWhile (\<lambda>c. c \<noteq> d) l = []"
  by (induction l) auto

lemma getlines_cons: "d \<notin> set l \<Longrightarrow> getlines d (l @ d # rest) = l # getlines d rest"
  by (subst getlines.simps) (simp add: split_at_first)

lemma getlines_last: "d \<notin> set l \<Longrightarrow> l \<noteq> [] \<Longrightarrow> getlines d l = [l]"
  by (subst getlines.simps) (simp add: split_at_none)

lemma Trim_inner:
  assumes "\<forall>c \<in> set sp. is_space c" and "s \<noteq> []" and "\<not> is_space (hd s)" and "\<not> is_space (last s)"
  shows "Trim (sp @ s) = s"
proof -
  have "dropWhile is_space (sp @ s) = s"
    using assms(1-3) by (cases s) (simp_all add: dropWhile_append2)
  moreover have "dropWhile is_space (rev s) = rev s"
    using assms(2,4) by (cases s rule: rev_cases) simp_all
  ultimately show ?thesis by (simp add: Trim_def)
qed

lemma strip_comment_id: "CHR ''#'' \<notin> set s \<Longrightarrow> strip_comment s = s"
  by (simp add: strip_comment_def find_char_def)

lemma allowlist_body_brackets:
  assumes "CHR ''['' \<notin> set p" and "CHR '']'' \<notin> set p" and "CHR '']'' \<notin> set body"
  shows "allowlist_body (p @ ''['' @ body @ '']'') = Some body"
proof -
  have "find_char (CHR ''['') (p @ ''['' @ body @ '']'') = Some (length p)"
    using assms split_at_first [of "CHR ''[''" p "body @ '']''"] by (simp add: find_char_def)
  moreover have "takeWhile (\<lambda>x. x \<noteq> CHR '']'') (p @ ''['' @ body @ '']'') = p @ ''['' @ body"
    using assms split_at_first [of "CHR '']''" "p @ ''['' @ body" "[]"] by simp
  then have "find_char (CHR '']'') (p @ ''['' @ body @ '']'') = Some (length p + 1 + length body)"
    by (simp add: find_char_def)
  ultimately show ?thesis by (simp add: allowlist_body_def)
qed

text \<open>A list as the documentation writes it: comma-separated numbers.\<close>

fun comma_list :: "string list \<Rightarrow> string" where
  "comma_list [] = []"
| "comma_list [s] = s"
| "comma_list (s # t # ss) = s @ '','' @ comma_list (t # ss)"

lemma getlines_comma_list:
  assumes "\<forall>s \<in> set ss. s \<noteq> [] \<and> CHR '','' \<notin> set s"
  shows "getlines (CHR '','') (comma_list ss) = ss"
  using assms
  by (induction ss rule: comma_list.induct) (simp_all add: getlines_last getlines_cons)

definition decimal_int :: "s32 \<Rightarrow> string" where
  "decimal_int w = (if sint w < 0 then CHR ''-'' # decimal (nat (- sint w)) else decimal (nat (sint w)))"

lemma decimal_chars: "c \<in> set (decimal n) \<Longrightarrow> is_digit c"
  using decimal_digits [of n] by blast

lemma decimal_no_space: "decimal n \<noteq> [] \<and> \<not> is_space (hd (decimal n)) \<and> \<not> is_space (last (decimal n))"
  using decimal_digits [of n] digit_no_space by (metis hd_in_set last_in_set)

lemma Trim_decimal: "Trim (decimal n) = decimal n"
  using Trim_inner [of "[]" "decimal n"] decimal_no_space by simp

lemma push_uint32_decimals: "push_uint32 (map (\<lambda>w. decimal (unat w)) ws) out = out @ ws"
proof (induction ws arbitrary: out)
  case (Cons w ws)
  have lt: "unat w < 2 ^ 32" using unsigned_less [of w, where 'a = nat] by simp
  then have "stoull (decimal (unat w)) = Some (of_nat (unat w))" by (intro stoull_decimal) simp
  moreover have "(of_nat (unat w) :: u64) \<le> 0xFFFFFFFF"
    using lt by (simp add: word_le_nat_alt unsigned_ucast_eq take_bit_nat_eq_self)
  moreover have "ucast (of_nat (unat w) :: u64) = w"
    by (rule bit_word_eqI) (simp add: bit_simps)
  ultimately show ?case
    using Cons decimal_no_space [of "unat w"] by (simp add: Trim_decimal Let_def)
qed simp

lemma stol_digits:
  assumes "ds \<noteq> []" and "\<forall>c \<in> set ds. is_digit c" and "digits_value ds < 2 ^ 63"
  shows "stol ds = Some (of_nat (digits_value ds))" and "stol (CHR ''-'' # ds) = Some (- of_nat (digits_value ds))"
proof -
  obtain c r where cr: "ds = c # r" using assms(1) by (cases ds) auto
  then have c: "\<not> is_space c" "c \<noteq> CHR ''-''" "c \<noteq> CHR ''+''"
    using assms(2) digit_no_space by auto
  have tw: "takeWhile is_digit ds = ds" using assms(2) by (simp add: takeWhile_eq_all_conv)
  have "\<not> is_space (CHR ''-'')" by (simp add: is_space_def)
  then show "stol ds = Some (of_nat (digits_value ds))" and "stol (CHR ''-'' # ds) = Some (- of_nat (digits_value ds))"
    using assms(1,3) c tw cr unfolding stol_def by (simp_all add: Let_def)
qed

lemma stol_decimal_int: "stol (decimal_int w) = Some (of_int (sint w))"
proof -
  have b: "- (2 ^ 31) \<le> sint w" "sint w < 2 ^ 31"
    using sint_greater_eq [of w] sint_less [of w] by simp_all
  note d = decimal_digits
  show ?thesis
  proof (cases "sint w < 0")
    case True
    then have "stol (decimal_int w) = Some (- of_nat (nat (- sint w)))"
      using stol_digits(2) [of "decimal (nat (- sint w))"] d [of "nat (- sint w)"] b
      by (simp add: decimal_int_def)
    then show ?thesis using True by simp
  next
    case False
    then have "stol (decimal_int w) = Some (of_nat (nat (sint w)))"
      using stol_digits(1) [of "decimal (nat (sint w))"] d [of "nat (sint w)"] b
      by (simp add: decimal_int_def)
    then show ?thesis using False by simp
  qed
qed

lemma ucast_of_sint: "ucast (of_int (sint (w :: s32)) :: s64) = w"
proof -
  have "ucast (scast w :: s64) = w" by (rule bit_word_eqI) (auto simp: bit_simps)
  moreover have "(of_int (sint w) :: s64) = scast w" by simp
  ultimately show ?thesis by simp
qed

lemma decimal_int_no_space:
  "decimal_int w \<noteq> [] \<and> \<not> is_space (hd (decimal_int w)) \<and> \<not> is_space (last (decimal_int w))"
  using decimal_no_space [of "nat (- sint w)"] decimal_no_space [of "nat (sint w)"]
  by (simp add: decimal_int_def is_space_def)

lemma push_int32_decimals: "push_int32 (map decimal_int ws) out = out @ ws"
proof (induction ws arbitrary: out)
  case (Cons w ws)
  have "Trim (decimal_int w) = decimal_int w"
    using Trim_inner [of "[]" "decimal_int w"] decimal_int_no_space by simp
  then show ?case
    using Cons decimal_int_no_space [of w] ucast_of_sint [of w]
    by (simp add: stol_decimal_int Let_def)
qed simp

section \<open>A config file in the documented layout\<close>

definition bool_text :: "bool \<Rightarrow> string" where
  "bool_text b = (if b then ''true'' else ''false'')"

definition u32_list_text :: "u32 list \<Rightarrow> string" where
  "u32_list_text ws = ''['' @ comma_list (map (\<lambda>w. decimal (unat w)) ws) @ '']''"

definition s32_list_text :: "s32 list \<Rightarrow> string" where
  "s32_list_text ws = ''['' @ comma_list (map decimal_int ws) @ '']''"

definition config_lines :: "RuntimeConfig \<Rightarrow> string list" where
  "config_lines cfg =
     [''domains:'',
      ''  process: '' @ bool_text (dc_process (rc_domains cfg)),
      ''  file: '' @ bool_text (dc_file (rc_domains cfg)),
      ''  syscall: '' @ bool_text (dc_syscall (rc_domains cfg)),
      ''  network_socket: '' @ bool_text (dc_network_socket (rc_domains cfg)),
      ''file_probes:'',
      ''  openat: '' @ bool_text (fp_openat (rc_file_probes cfg)),
      ''  unlinkat: '' @ bool_text (fp_unlinkat (rc_file_probes cfg)),
      ''  renameat2: '' @ bool_text (fp_renameat2 (rc_file_probes cfg)),
      ''filters:'',
      ''  pid_allowlist: '' @ u32_list_text (rc_pid_allowlist cfg),
      ''  uid_allowlist: '' @ u32_list_text (rc_uid_allowlist cfg),
      ''  syscall_allowlist: '' @ s32_list_text (rc_syscall_allowlist cfg),
      ''network_filters:'',
      ''  port_allowlist: '' @ u32_list_text (rc_port_allowlist cfg)]"

definition config_text :: "RuntimeConfig \<Rightarrow> string" where
  "config_text cfg = concat (map (\<lambda>l. l @ [CHR 0x0A]) (config_lines cfg))"

lemma getlines_text:
  "\<forall>l \<in> set ls. CHR 0x0A \<notin> set l \<Longrightarrow> getlines (CHR 0x0A) (concat (map (\<lambda>l. l @ [CHR 0x0A]) ls)) = ls"
  by (induction ls) (simp_all add: getlines_cons)

text \<open>The characters of a rendered list.\<close>

definition list_char :: "char \<Rightarrow> bool" where
  "list_char c \<longleftrightarrow> is_digit c \<or> c = CHR ''-'' \<or> c = CHR '',''"

lemma comma_list_chars:
  "\<forall>s \<in> set ss. \<forall>c \<in> set s. is_digit c \<or> c = CHR ''-'' \<Longrightarrow> c \<in> set (comma_list ss) \<Longrightarrow> list_char c"
  by (induction ss rule: comma_list.induct) (auto simp: list_char_def)

lemma decimal_int_chars: "c \<in> set (decimal_int w) \<Longrightarrow> is_digit c \<or> c = CHR ''-''"
  by (auto simp: decimal_int_def dest: decimal_chars split: if_splits)

lemma list_char_plain:
  "list_char c \<Longrightarrow> c \<noteq> CHR ''['' \<and> c \<noteq> CHR '']'' \<and> c \<noteq> CHR ''#'' \<and> c \<noteq> CHR 0x0A"
  by (auto simp: list_char_def is_digit_def)

lemma u32_list_chars: "c \<in> set (comma_list (map (\<lambda>w. decimal (unat w)) ws)) \<Longrightarrow> list_char c"
  by (erule comma_list_chars [rotated]) (auto dest: decimal_chars)

lemma s32_list_chars: "c \<in> set (comma_list (map decimal_int ws)) \<Longrightarrow> list_char c"
  by (erule comma_list_chars [rotated]) (auto dest: decimal_int_chars)

lemma no_comma: "CHR '','' \<notin> set (decimal n)" "CHR '','' \<notin> set (decimal_int w)"
  using decimal_chars [of "CHR '',''"] decimal_int_chars [of "CHR '',''"] by (auto simp: is_digit_def)

lemma list_text_plain:
  "CHR ''#'' \<notin> set (u32_list_text ws)" "CHR 0x0A \<notin> set (u32_list_text ws)"
  "CHR ''#'' \<notin> set (s32_list_text vs)" "CHR 0x0A \<notin> set (s32_list_text vs)"
  by (auto simp: u32_list_text_def s32_list_text_def
      dest!: u32_list_chars s32_list_chars dest: list_char_plain)

lemma ParseUint32_list_text:
  assumes "CHR ''['' \<notin> set p" and "CHR '']'' \<notin> set p"
  shows "ParseUint32AllowlistInline (p @ u32_list_text ws) out = out @ ws"
proof -
  let ?body = "comma_list (map (\<lambda>w. decimal (unat w)) ws)"
  have "CHR '']'' \<notin> set ?body" using u32_list_chars list_char_plain by blast
  then have "allowlist_body (p @ u32_list_text ws) = Some ?body"
    using assms allowlist_body_brackets by (simp add: u32_list_text_def)
  moreover have "getlines (CHR '','') ?body = map (\<lambda>w. decimal (unat w)) ws"
    by (rule getlines_comma_list) (simp add: decimal_no_space no_comma)
  ultimately show ?thesis
    by (simp add: ParseUint32AllowlistInline_def push_uint32_decimals)
qed

lemma ParseInt32_list_text:
  assumes "CHR ''['' \<notin> set p" and "CHR '']'' \<notin> set p"
  shows "ParseInt32AllowlistInline (p @ s32_list_text ws) out = out @ ws"
proof -
  let ?body = "comma_list (map decimal_int ws)"
  have "CHR '']'' \<notin> set ?body" using s32_list_chars list_char_plain by blast
  then have "allowlist_body (p @ s32_list_text ws) = Some ?body"
    using assms allowlist_body_brackets by (simp add: s32_list_text_def)
  moreover have "getlines (CHR '','') ?body = map decimal_int ws"
    by (rule getlines_comma_list) (simp add: decimal_int_no_space no_comma)
  ultimately show ?thesis
    by (simp add: ParseInt32AllowlistInline_def push_int32_decimals)
qed

lemma digit_not_colon: "is_digit c \<Longrightarrow> c \<noteq> CHR '':''"
  by (auto simp: is_digit_def)

text \<open>The trimmed, comment-free form of each kind of line.\<close>

lemma is_space_simps [simp]:
  "is_space (CHR '' '')" "\<not> is_space (CHR '']'')" "\<not> is_space (CHR '':'')"
  by (simp_all add: is_space_def)

lemma trim_line:
  assumes "CHR ''#'' \<notin> set s" and "s \<noteq> []" and "\<not> is_space (hd s)" and "\<not> is_space (last s)"
  shows "Trim (strip_comment (''  '' @ s)) = s"
proof -
  have "strip_comment (''  '' @ s) = ''  '' @ s" using assms(1) by (intro strip_comment_id) simp
  then show ?thesis using Trim_inner [of "''  ''" s] assms by simp
qed

lemma ParseBool_text: "ParseBool (bool_text b) out = b"
  by (simp add: ParseBool_def bool_text_def Trim_def to_lower_def is_space_def)

lemma section_lines:
  "config_line st ''domains:'' = st\<lparr>ps_file_probes := False, ps_domains := True, ps_network_filters := False\<rparr>"
  "config_line st ''file_probes:'' = st\<lparr>ps_file_probes := True, ps_domains := False, ps_network_filters := False\<rparr>"
  "config_line st ''filters:'' = st\<lparr>ps_file_probes := False, ps_domains := False, ps_network_filters := False\<rparr>"
  "config_line st ''network_filters:'' = st\<lparr>ps_file_probes := False, ps_domains := False, ps_network_filters := True\<rparr>"
  by (simp_all add: config_line_def strip_comment_def find_char_def Trim_def is_space_def Let_def)

lemma allowlist_lines:
  "config_line st (''  pid_allowlist: '' @ u32_list_text ws) =
     st\<lparr>ps_cfg := (ps_cfg st)\<lparr>rc_pid_allowlist := rc_pid_allowlist (ps_cfg st) @ ws\<rparr>\<rparr>"
  "config_line st (''  uid_allowlist: '' @ u32_list_text ws) =
     st\<lparr>ps_cfg := (ps_cfg st)\<lparr>rc_uid_allowlist := rc_uid_allowlist (ps_cfg st) @ ws\<rparr>\<rparr>"
  "config_line st (''  syscall_allowlist: '' @ s32_list_text vs) =
     st\<lparr>ps_cfg := (ps_cfg st)\<lparr>rc_syscall_allowlist := rc_syscall_allowlist (ps_cfg st) @ vs\<rparr>\<rparr>"
  "ps_network_filters st \<Longrightarrow> config_line st (''  port_allowlist: '' @ u32_list_text ws) =
     st\<lparr>ps_cfg := (ps_cfg st)\<lparr>rc_port_allowlist := rc_port_allowlist (ps_cfg st) @ ws\<rparr>\<rparr>"
proof -
  have l: "last (u32_list_text ws) = CHR '']''" "u32_list_text ws \<noteq> []"
    "last (s32_list_text vs) = CHR '']''" "s32_list_text vs \<noteq> []"
    by (simp_all add: u32_list_text_def s32_list_text_def)
  note t = trim_line [of "''pid_allowlist: '' @ u32_list_text ws"]
    trim_line [of "''uid_allowlist: '' @ u32_list_text ws"]
    trim_line [of "''syscall_allowlist: '' @ s32_list_text vs"]
    trim_line [of "''port_allowlist: '' @ u32_list_text ws"]
  note p = ParseUint32_list_text [of "''pid_allowlist: ''" ws]
    ParseUint32_list_text [of "''uid_allowlist: ''" ws]
    ParseInt32_list_text [of "''syscall_allowlist: ''" vs]
    ParseUint32_list_text [of "''port_allowlist: ''" ws]
  have "Trim (strip_comment (''  pid_allowlist: '' @ u32_list_text ws)) = ''pid_allowlist: '' @ u32_list_text ws"
    using t(1) l by (simp add: list_text_plain is_space_def)
  then show "config_line st (''  pid_allowlist: '' @ u32_list_text ws) =
     st\<lparr>ps_cfg := (ps_cfg st)\<lparr>rc_pid_allowlist := rc_pid_allowlist (ps_cfg st) @ ws\<rparr>\<rparr>"
    using l p(1) by (simp add: config_line_def starts_with_def Let_def)
  have "Trim (strip_comment (''  uid_allowlist: '' @ u32_list_text ws)) = ''uid_allowlist: '' @ u32_list_text ws"
    using t(2) l by (simp add: list_text_plain is_space_def)
  then show "config_line st (''  uid_allowlist: '' @ u32_list_text ws) =
     st\<lparr>ps_cfg := (ps_cfg st)\<lparr>rc_uid_allowlist := rc_uid_allowlist (ps_cfg st) @ ws\<rparr>\<rparr>"
    using l p(2) by (simp add: config_line_def starts_with_def Let_def)
  have "Trim (strip_comment (''  syscall_allowlist: '' @ s32_list_text vs)) = ''syscall_allowlist: '' @ s32_list_text vs"
    using t(3) l by (simp add: list_text_plain is_space_def)
  then show "config_line st (''  syscall_allowlist: '' @ s32_list_text vs) =
     st\<lparr>ps_cfg := (ps_cfg st)\<lparr>rc_syscall_allowlist := rc_syscall_allowlist (ps_cfg st) @ vs\<rparr>\<rparr>"
    using l p(3) by (simp add: config_line_def starts_with_def Let_def)
  have "Trim (strip_comment (''  port_allowlist: '' @ u32_list_text ws)) = ''port_allowlist: '' @ u32_list_text ws"
    using t(4) l by (simp add: list_text_plain is_space_def)
  then show "ps_network_filters st \<Longrightarrow> config_line st (''  port_allowlist: '' @ u32_list_text ws) =
     st\<lparr>ps_cfg := (ps_cfg st)\<lparr>rc_port_allowlist := rc_port_allowlist (ps_cfg st) @ ws\<rparr>\<rparr>"
    using l p(4) by (simp add: config_line_def starts_with_def Let_def)
qed

lemma toggle_lines:
  "ps_domains st \<Longrightarrow> \<not> ps_file_probes st \<Longrightarrow>
     config_line st (''  process: '' @ bool_text b) = st\<lparr>ps_cfg := domain_line ''process'' (bool_text b) (ps_cfg st)\<rparr>"
  "ps_domains st \<Longrightarrow> \<not> ps_file_probes st \<Longrightarrow>
     config_line st (''  file: '' @ bool_text b) = st\<lparr>ps_cfg := domain_line ''file'' (bool_text b) (ps_cfg st)\<rparr>"
  "ps_domains st \<Longrightarrow> \<not> ps_file_probes st \<Longrightarrow>
     config_line st (''  syscall: '' @ bool_text b) = st\<lparr>ps_cfg := domain_line ''syscall'' (bool_text b) (ps_cfg st)\<rparr>"
  "ps_domains st \<Longrightarrow> \<not> ps_file_probes st \<Longrightarrow>
     config_line st (''  network_socket: '' @ bool_text b) = st\<lparr>ps_cfg := domain_line ''network_socket'' (bool_text b) (ps_cfg st)\<rparr>"
  "ps_file_probes st \<Longrightarrow>
     config_line st (''  openat: '' @ bool_text b) = st\<lparr>ps_cfg := file_probe_line ''openat'' (bool_text b) (ps_cfg st)\<rparr>"
  "ps_file_probes st \<Longrightarrow>
     config_line st (''  unlinkat: '' @ bool_text b) = st\<lparr>ps_cfg := file_probe_line ''unlinkat'' (bool_text b) (ps_cfg st)\<rparr>"
  "ps_file_probes st \<Longrightarrow>
     config_line st (''  renameat2: '' @ bool_text b) = st\<lparr>ps_cfg := file_probe_line ''renameat2'' (bool_text b) (ps_cfg st)\<rparr>"
  by (cases b; simp add: bool_text_def config_line_def strip_comment_def find_char_def Trim_def
      starts_with_def is_space_def Let_def)+

lemmas config_line_steps = section_lines toggle_lines [simplified] allowlist_lines [simplified]

lemma LoadRuntimeConfig_text:
  "LoadRuntimeConfig (Some (config_text cfg)) default_runtime_config = (True, cfg)"
proof -
  have "\<forall>l \<in> set (config_lines cfg). CHR 0x0A \<notin> set l"
    by (simp add: config_lines_def list_text_plain bool_text_def)
  then have "getlines (CHR 0x0A) (config_text cfg) = config_lines cfg"
    unfolding config_text_def by (rule getlines_text)
  then show ?thesis
    unfolding LoadRuntimeConfig_def config_lines_def
    by (simp add: default_runtime_config_def config_line_steps domain_line_def file_probe_line_def
        ParseBool_text Let_def)
qed

text \<open>
  C20. A config file in the documented layout is read back exactly: every domain and file toggle,
  and every entry of the four allowlists in order, from any values.
\<close>

theorem LoadRuntimeConfig_roundtrip:
  "LoadRuntimeConfig (Some (config_text cfg)) default_runtime_config = (True, cfg)"
  by (rule LoadRuntimeConfig_text)

section \<open>The sink's section\<close>

definition sink_config_lines :: "string \<Rightarrow> u64 \<Rightarrow> string list" where
  "sink_config_lines path n =
     [''sink:'', ''  path: '' @ [CHR 0x22] @ path @ [CHR 0x22],
      ''  max_file_size_bytes: '' @ decimal (unat n)]"

definition sink_config_text :: "string \<Rightarrow> u64 \<Rightarrow> string" where
  "sink_config_text path n = concat (map (\<lambda>l. l @ [CHR 0x0A]) (sink_config_lines path n))"

lemma quote_no_space [simp]: "\<not> is_space (CHR 0x22)"
  by (simp add: is_space_def)

lemma strip_quotes_quoted: "strip_quotes ([CHR 0x22] @ path @ [CHR 0x22]) = path"
  by (simp add: strip_quotes_def)

lemma strip_quotes_decimal: "strip_quotes (decimal n) = decimal n"
proof -
  have "is_digit (hd (decimal n))" using decimal_digits [of n] hd_in_set by blast
  then have "hd (decimal n) \<noteq> CHR 0x22" "hd (decimal n) \<noteq> CHR 0x27" by (auto simp: is_digit_def)
  then show ?thesis by (simp add: strip_quotes_def)
qed

lemma sink_path_line:
  assumes "CHR ''#'' \<notin> set path"
  shows "sink_line (True, cfg) (''  path: '' @ [CHR 0x22] @ path @ [CHR 0x22]) = (True, cfg\<lparr>sc_path := path\<rparr>)"
proof -
  have t: "Trim (strip_comment (''  path: '' @ [CHR 0x22] @ path @ [CHR 0x22])) = ''path: '' @ [CHR 0x22] @ path @ [CHR 0x22]"
    using trim_line [of "''path: '' @ [CHR 0x22] @ path @ [CHR 0x22]"] assms by (simp add: is_space_def)
  have v: "Trim (drop 5 (''path: '' @ [CHR 0x22] @ path @ [CHR 0x22])) = [CHR 0x22] @ path @ [CHR 0x22]"
    using Trim_inner [of "'' ''" "[CHR 0x22] @ path @ [CHR 0x22]"] by simp
  have k: "Trim (take 4 (''path: '' @ [CHR 0x22] @ path @ [CHR 0x22])) = ''path''"
    by (simp add: Trim_def is_space_def)
  have c: "find_char (CHR '':'') (''path: '' @ [CHR 0x22] @ path @ [CHR 0x22]) = Some 4"
    by (simp add: find_char_def)
  show ?thesis
    unfolding sink_line_eq t using v k c strip_quotes_quoted [of path] by (simp add: Let_def)
qed

lemma sink_limit_line:
  "sink_line (True, cfg) (''  max_file_size_bytes: '' @ decimal (unat n)) = (True, cfg\<lparr>sc_max_file_size_bytes := n\<rparr>)"
proof -
  let ?d = "decimal (unat n)"
  note d = decimal_no_space [of "unat n"] and ch = decimal_digits [of "unat n"]
  have hash: "CHR ''#'' \<notin> set ?d" using ch by (auto simp: is_digit_def)
  have l: "last ?d \<noteq> CHR '':''" using ch last_in_set by (metis digit_not_colon)
  have t: "Trim (strip_comment (''  max_file_size_bytes: '' @ ?d)) = ''max_file_size_bytes: '' @ ?d"
    using trim_line [of "''max_file_size_bytes: '' @ ?d"] hash d by (simp add: is_space_def)
  have v: "Trim (drop 20 (''max_file_size_bytes: '' @ ?d)) = ?d"
    using Trim_inner [of "'' ''" ?d] d by simp
  have k: "Trim (take 19 (''max_file_size_bytes: '' @ ?d)) = ''max_file_size_bytes''"
    by (simp add: Trim_def is_space_def)
  have c: "find_char (CHR '':'') (''max_file_size_bytes: '' @ ?d) = Some 19"
    by (simp add: find_char_def)
  have s: "stoull ?d = Some n"
    using stoull_decimal [of "unat n"] unsigned_less [of n, where 'a = nat] by simp
  show ?thesis
    unfolding sink_line_eq t using v k c l d s strip_quotes_decimal [of "unat n"] by (simp add: Let_def)
qed

text \<open>
  C35. The sink's section is read back exactly: any path in quotes, blanks and colons included, as
  long as it holds neither a hash nor a line break, and any 64-bit limit.
\<close>

theorem LoadSinkRuntimeConfig_roundtrip:
  assumes "CHR ''#'' \<notin> set path" and "CHR 0x0A \<notin> set path"
  shows "LoadSinkRuntimeConfig (Some (sink_config_text path n)) =
    \<lparr>sc_path = path, sc_max_file_size_bytes = n\<rparr>"
proof -
  have "CHR 0x0A \<notin> set (decimal (unat n))"
    using decimal_chars [of "CHR 0x0A" "unat n"] by (auto simp: is_digit_def)
  then have "getlines (CHR 0x0A) (sink_config_text path n) = sink_config_lines path n"
    unfolding sink_config_text_def using assms(2) by (intro getlines_text) (simp add: sink_config_lines_def)
  moreover have "sink_line (False, default_sink_config) ''sink:'' = (True, default_sink_config)"
    by (simp add: sink_line_eq strip_comment_def find_char_def Trim_def is_space_def Let_def)
  ultimately show ?thesis
    using sink_path_line [OF assms(1)] sink_limit_line
    by (simp add: LoadSinkRuntimeConfig_def sink_config_lines_def default_sink_config_def)
qed

theorem LoadSinkRuntimeConfig_roundtrip_witness:
  "LoadSinkRuntimeConfig (Some (sink_config_text ''/var/log: a'' 4096)) =
    \<lparr>sc_path = ''/var/log: a'', sc_max_file_size_bytes = 4096\<rparr>"
  by (rule LoadSinkRuntimeConfig_roundtrip) simp_all

text \<open>A hash ends the line even inside quotes.\<close>

lemma hash_in_quotes_cuts_path:
  "sink_line (True, cfg) (''  path: '' @ [CHR 0x22] @ ''/a#b'' @ [CHR 0x22]) =
     (True, cfg\<lparr>sc_path := [CHR 0x22] @ ''/a''\<rparr>)"
  by (simp add: sink_line_eq strip_comment_def find_char_def Trim_def is_space_def
      strip_quotes_def Let_def)

text \<open>The two readers of numbers disagree: one checks the range of an entry, the other wraps it.\<close>

lemma allowlists_treat_range_differently:
  "ParseUint32AllowlistInline ''pid_allowlist: [4294967297]'' [] = []"
  "ParseInt32AllowlistInline ''syscall_allowlist: [4294967297]'' [] = [1]"
  by (simp_all add: ParseUint32AllowlistInline_def ParseInt32AllowlistInline_def allowlist_body_def
      find_char_def getlines_last Trim_def is_space_def stoull_def stol_def is_digit_def
      digits_value_def Let_def)

end
