(* ===== verification/Collector_Properties.thy ===== *)
theory Collector_Properties
  imports Collector Bpf_Properties Config_Properties
begin

text \<open>
  What starting the collector achieves: a start that fails leaves nothing behind, a start that
  reports no degradation puts the whole config in force, and then what the kernel side submits
  obeys the config.
\<close>

section \<open>The report\<close>

lemma degraded_degrade_if [simp]:
  "sr_degraded (degrade_if failed message r) \<longleftrightarrow> failed \<and> message \<noteq> [] \<or> sr_degraded r"
  by (simp add: degrade_if_def AppendDegradeReason_def)

lemma events_found_degrade_if [simp]:
  "sr_map_events_found (degrade_if failed message r) = sr_map_events_found r"
  by (simp add: degrade_if_def AppendDegradeReason_def)

lemma config_loaded_degrade_if [simp]:
  "sr_runtime_config_loaded (degrade_if failed message r) = sr_runtime_config_loaded r"
  by (simp add: degrade_if_def AppendDegradeReason_def)

lemma counts_degrade_if [simp]:
  "sr_pid_allowlist_applied_count (degrade_if f m r) = sr_pid_allowlist_applied_count r"
  "sr_uid_allowlist_applied_count (degrade_if f m r) = sr_uid_allowlist_applied_count r"
  "sr_syscall_allowlist_applied_count (degrade_if f m r) = sr_syscall_allowlist_applied_count r"
  "sr_network_port_allowlist_applied_count (degrade_if f m r) = sr_network_port_allowlist_applied_count r"
  by (simp_all add: degrade_if_def AppendDegradeReason_def)

lemma note_missing_maps_degraded [simp]:
  "sr_degraded (note_missing_maps env r) \<longleftrightarrow>
     sr_degraded r \<or> (\<exists>name \<in> fst ` set missing_map_reasons. ce_map_fd env name < 0)"
  by (auto simp: note_missing_maps_def missing_map_reasons_def)

section \<open>Toggles\<close>

text \<open>The map after a list of toggles was stored.\<close>

primrec toggled :: "(u32 \<times> bool) list \<Rightarrow> (u32 \<rightharpoonup> u8) \<Rightarrow> (u32 \<rightharpoonup> u8)" where
  "toggled [] m = m"
| "toggled (t # ts) m = toggled ts (m(fst t \<mapsto> toggle_value (snd t)))"

lemma set_toggles_stored:
  "fst (set_toggles env name ts (b, m)) \<Longrightarrow> b \<and> snd (set_toggles env name ts (b, m)) = toggled ts m"
proof (induction ts arbitrary: b m)
  case (Cons t ts)
  then show ?case
    by (cases t; cases "ce_update env name (fst t)")
      (auto simp: map_update_elem_def simp del: fun_upd_apply)
qed simp

lemma found_and_stored:
  "fst (if missing then (False, m) else set_toggles env name ts (True, m)) \<Longrightarrow>
     snd (if missing then (False, m) else set_toggles env name ts (True, m)) = toggled ts m"
  using set_toggles_stored by (cases missing) auto

lemma toggled_other: "key \<notin> fst ` set ts \<Longrightarrow> toggled ts m key = m key"
  by (induction ts arbitrary: m) auto

lemma toggled_same:
  "key \<in> set keys \<Longrightarrow> toggled (map (\<lambda>k. (k, b)) keys) m key = Some (toggle_value b)"
proof (induction keys arbitrary: m)
  case (Cons k keys)
  then show ?case
    by (cases "key \<in> set keys") (simp_all add: toggled_other image_image)
qed simp

lemma toggle_value_on [simp]: "toggle_value b \<noteq> 0 \<longleftrightarrow> b"
  by (simp add: toggle_value_def)

lemma process_probes_applied:
  assumes "fst (ApplyProcessProbeConfig env enabled m)" and "kind \<in> set process_event_kinds"
  shows "snd (ApplyProcessProbeConfig env enabled m) kind = Some (toggle_value enabled)"
proof -
  have "kind \<in> set [PROCESS_EXEC, PROCESS_FORK, PROCESS_EXIT, PROCESS_CLONE, PROCESS_CLONE3, PROCESS_VFORK]"
    using assms(2) by (simp add: process_event_kinds_def)
  then show ?thesis
    using found_and_stored [OF assms(1) [unfolded ApplyProcessProbeConfig_def]] toggled_same
    unfolding ApplyProcessProbeConfig_def by (simp only:)
qed

lemma network_probes_applied:
  assumes "fst (ApplyNetworkProbeConfig env enabled m)" and "kind \<in> set network_event_kinds"
  shows "snd (ApplyNetworkProbeConfig env enabled m) kind = Some (toggle_value enabled)"
proof -
  have "kind \<in> set network_toggle_keys"
    using assms(2) unfolding network_toggle_keys_def network_event_kinds_def by auto
  then show ?thesis
    using found_and_stored [OF assms(1) [unfolded ApplyNetworkProbeConfig_def]] toggled_same
    unfolding ApplyNetworkProbeConfig_def by (simp only:)
qed

definition file_kind_on :: "FileProbeConfig \<Rightarrow> u32 \<Rightarrow> bool" where
  "file_kind_on cfg kind \<longleftrightarrow>
     (kind = FILE_OPENAT \<and> fp_openat cfg) \<or> (kind = FILE_UNLINKAT \<and> fp_unlinkat cfg) \<or>
     (kind = FILE_RENAMEAT2 \<and> fp_renameat2 cfg)"

lemma file_probes_applied:
  assumes "fst (ApplyFileProbeConfig env cfg m)" and "kind \<in> set file_event_kinds"
  shows "snd (ApplyFileProbeConfig env cfg m) kind = Some (toggle_value (file_kind_on cfg kind))"
proof -
  have "snd (ApplyFileProbeConfig env cfg m) =
      toggled [(FILE_OPENAT, fp_openat cfg), (FILE_UNLINKAT, fp_unlinkat cfg),
         (FILE_RENAMEAT2, fp_renameat2 cfg)] m"
    unfolding ApplyFileProbeConfig_def
    by (rule found_and_stored [OF assms(1) [unfolded ApplyFileProbeConfig_def]])
  then show ?thesis
    using assms(2) by (auto simp: file_kind_on_def file_event_kinds_def)
qed

section \<open>The steps of a start\<close>

lemma apply_probes_kernel:
  "fst (apply_probes env cfg (k, r)) =
     k\<lparr>process_probe_enabled :=
         snd (ApplyProcessProbeConfig env (dc_process (rc_domains cfg)) (process_probe_enabled k)),
       syscall_probe_enabled :=
         snd (SetAllowlistEnabled env ''syscall_probe_enabled'' (dc_syscall (rc_domains cfg))
           (syscall_probe_enabled k)),
       file_probe_enabled :=
         snd (ApplyFileProbeConfig env (effective_file_probes cfg) (file_probe_enabled k)),
       network_probe_enabled :=
         snd (ApplyNetworkProbeConfig env (dc_network_socket (rc_domains cfg)) (network_probe_enabled k))\<rparr>"
  by (simp add: apply_probes_def Let_def split_beta)

lemma apply_probes_degraded:
  "sr_degraded (snd (apply_probes env cfg (k, r))) \<longleftrightarrow>
     sr_degraded r \<or>
     \<not> fst (ApplyProcessProbeConfig env (dc_process (rc_domains cfg)) (process_probe_enabled k)) \<or>
     \<not> fst (SetAllowlistEnabled env ''syscall_probe_enabled'' (dc_syscall (rc_domains cfg))
         (syscall_probe_enabled k)) \<or>
     \<not> fst (ApplyFileProbeConfig env (effective_file_probes cfg) (file_probe_enabled k)) \<or>
     \<not> fst (ApplyNetworkProbeConfig env (dc_network_socket (rc_domains cfg)) (network_probe_enabled k))"
  by (auto simp: apply_probes_def Let_def split_beta)

text \<open>The maps the kernel side consults, as the later steps leave them.\<close>

lemma apply_allowlists_frame:
  "sr_degraded (snd (apply_allowlists env cfg (k, r))) = sr_degraded r"
  "same_config k (fst (apply_allowlists env cfg (k, r)))"
  "events (fst (apply_allowlists env cfg (k, r))) = events k"
  "bpf_loaded (fst (apply_allowlists env cfg (k, r))) = bpf_loaded k"
  by (simp_all add: apply_allowlists_def same_config_def bpf_loaded_def Let_def split_beta)

lemma store_own_tgid_frame:
  "probe_enabled (snd (store_own_tgid env k)) e = probe_enabled k e"
  "bpf_loaded (snd (store_own_tgid env k)) = bpf_loaded k"
  by (cases e; simp add: store_own_tgid_def Let_def split_beta is_process_probe_enabled_def
      is_file_probe_enabled_def is_syscall_probe_enabled_def is_network_probe_enabled_def)
    (simp add: store_own_tgid_def Let_def split_beta bpf_loaded_def)

lemma apply_filters_kernel:
  "probe_enabled (fst (apply_filters env cfg (k, r))) e = probe_enabled k e"
  "bpf_loaded (fst (apply_filters env cfg (k, r))) = bpf_loaded k"
proof -
  let ?k = "k\<lparr>pid_filter_enabled := snd (SetAllowlistEnabled env ''pid_filter_enabled''
        (rc_pid_allowlist cfg \<noteq> []) (pid_filter_enabled k)),
      uid_filter_enabled := snd (SetAllowlistEnabled env ''uid_filter_enabled''
        (rc_uid_allowlist cfg \<noteq> []) (uid_filter_enabled k)),
      network_port_filter_enabled := snd (SetAllowlistEnabled env ''network_port_filter_enabled''
        (rc_port_allowlist cfg \<noteq> []) (network_port_filter_enabled k))\<rparr>"
  have k: "fst (apply_filters env cfg (k, r)) = snd (store_own_tgid env ?k)"
    by (simp add: apply_filters_def Let_def split_beta)
  have "probe_enabled ?k e = probe_enabled k e"
    by (rule same_config_probe_enabled) (simp add: same_config_def)
  then show "probe_enabled (fst (apply_filters env cfg (k, r))) e = probe_enabled k e"
    by (simp add: k store_own_tgid_frame)
  show "bpf_loaded (fst (apply_filters env cfg (k, r))) = bpf_loaded k"
    unfolding k store_own_tgid_frame by (simp add: bpf_loaded_def)
qed

lemma apply_filters_own_tgid:
  assumes "\<not> sr_degraded (snd (apply_filters env cfg (k, r)))" and "0 \<le> ce_map_fd env ''suppress_tgid''"
  shows "suppress_tgid (fst (apply_filters env cfg (k, r))) 0 = Some (ce_pid env)"
  using assms
  by (auto simp: apply_filters_def store_own_tgid_def map_update_elem_def Let_def split_beta
      split: if_splits)

lemma apply_filters_degraded:
  "sr_degraded r \<Longrightarrow> sr_degraded (snd (apply_filters env cfg (k, r)))"
  by (simp add: apply_filters_def Let_def split_beta)

lemma apply_filters_counts [simp]:
  "sr_pid_allowlist_applied_count (snd (apply_filters env cfg (k, r))) = sr_pid_allowlist_applied_count r"
  "sr_uid_allowlist_applied_count (snd (apply_filters env cfg (k, r))) = sr_uid_allowlist_applied_count r"
  "sr_syscall_allowlist_applied_count (snd (apply_filters env cfg (k, r))) = sr_syscall_allowlist_applied_count r"
  "sr_network_port_allowlist_applied_count (snd (apply_filters env cfg (k, r))) =
     sr_network_port_allowlist_applied_count r"
  by (simp_all add: apply_filters_def Let_def split_beta)

lemma check_applied_degraded [simp]:
  "sr_degraded (check_applied cfg r) \<longleftrightarrow>
     sr_degraded r \<or> rc_pid_allowlist cfg \<noteq> [] \<and> sr_pid_allowlist_applied_count r = 0 \<or>
     rc_uid_allowlist cfg \<noteq> [] \<and> sr_uid_allowlist_applied_count r = 0 \<or>
     effective_syscall_allowlist cfg \<noteq> [] \<and> sr_syscall_allowlist_applied_count r = 0 \<or>
     rc_port_allowlist cfg \<noteq> [] \<and> sr_network_port_allowlist_applied_count r = 0"
  by (auto simp: check_applied_def Let_def)

definition released :: "LibbpfCollector \<Rightarrow> bool" where
  "released c \<longleftrightarrow>
     \<not> cl_obj c \<and> cl_kernel c = None \<and> \<not> cl_rb c \<and> cl_links c = [] \<and> \<not> cl_started c"

lemma released_Stop [simp]: "released (Stop c)"
  by (simp add: released_def Stop_def)

lemma cl_report_Stop [simp]:
  "cl_report (Stop c) = cl_report c" "cl_report_available (Stop c) = cl_report_available c"
  by (simp_all add: Stop_def)

lemma AppendDegradeReason_degraded: "message \<noteq> [] \<Longrightarrow> sr_degraded (AppendDegradeReason message r)"
  by (simp add: AppendDegradeReason_def)

lemma fail_start_result:
  "fail_start message c = (ok, c') \<Longrightarrow> message \<noteq> [] \<Longrightarrow>
     \<not> ok \<and> released c' \<and> sr_degraded (cl_report c') \<and> cl_report_available c' = cl_report_available c"
  by (auto simp: fail_start_def AppendDegradeReason_degraded)

lemma report_programs_degraded [simp]:
  "sr_degraded (report_programs count links failed r) \<longleftrightarrow> failed \<noteq> [] \<or> sr_degraded r"
  "sr_map_events_found (report_programs count links failed r) = sr_map_events_found r"
  "sr_runtime_config_loaded (report_programs count links failed r) = sr_runtime_config_loaded r"
  by (simp_all add: report_programs_def Let_def)

lemma finish_start_result:
  assumes "finish_start env c = (ok, c')"
  shows "if ok then cl_started c' \<and> cl_rb c' \<and> cl_cb c' = cl_cb c \<and> cl_kernel c' = cl_kernel c \<and>
      (sr_degraded (cl_report c) \<longrightarrow> sr_degraded (cl_report c'))
    else released c' \<and> sr_degraded (cl_report c') \<and> cl_report_available c' = cl_report_available c"
proof -
  obtain links failed where a: "attach_programs (ce_programs env) (cl_links c, []) = (links, failed)"
    by fastforce
  show ?thesis
    using assms by (auto simp: finish_start_def a Let_def dest!: fail_start_result split: if_splits)
qed

text \<open>A collector that hands everything on.\<close>

definition delivers :: "LibbpfCollector \<Rightarrow> bool" where
  "delivers c \<longleftrightarrow> cl_started c \<and> cl_rb c \<and> cl_cb c"

lemma PollOnce_delivers: "delivers c \<Longrightarrow> PollOnce c ds = ds"
proof -
  assume "delivers c"
  moreover have "cl_cb c \<Longrightarrow> concat (map (OnRingBufferEvent c) ds) = ds"
    by (induction ds) (simp_all add: OnRingBufferEvent_def)
  ultimately show ?thesis by (simp add: delivers_def PollOnce_def)
qed

section \<open>A start that fails\<close>

lemma failed_start_released:
  assumes "released c" and "Start env cb c = (False, c')"
  shows "released c'" and "sr_degraded (cl_report c')" and "cl_report_available c'"
  using assms
  by (auto simp: Start_def Let_def AppendDegradeReason_degraded released_def configure_def split_beta
      dest!: fail_start_result finish_start_result split: if_splits)

text \<open>An object with every map and two programs, on a host that grants everything.\<close>

definition demo_config :: RuntimeConfig where
  "demo_config = default_runtime_config\<lparr>rc_pid_allowlist := [42]\<rparr>"

definition demo_collector_env :: collector_env where
  "demo_collector_env =
     \<lparr>ce_env_bpf_object = None, ce_env_config = None, ce_object_macro = None,
      ce_read_file = (\<lambda>_. Some (config_text demo_config)), ce_open_ok = True, ce_load_ret = 0,
      ce_map_fd = (\<lambda>_. 3), ce_update = (\<lambda>_ _. True),
      ce_programs = [(Some ''on_sched_exec'', True), (Some ''on_sched_exit'', True)],
      ce_ring_buffer_ok = True, ce_pid = 7, ce_cpu_count = 2, ce_lookup = (\<lambda>_. True)\<rparr>"

lemma released_new: "released new_collector"
  by (simp add: released_def new_collector_def)

section \<open>A start that reports no degradation\<close>

text \<open>
  What the domain and file-probe switches of a config let through. The id, syscall and port lists of
  the config are no switches: no program reads them.
\<close>

primrec switched_on :: "RuntimeConfig \<Rightarrow> event_variant \<Rightarrow> bool" where
  "switched_on cfg (ProcessEv e) = dc_process (rc_domains cfg)"
| "switched_on cfg (FileEv e) =
     (dc_file (rc_domains cfg) \<and> file_kind_on (rc_file_probes cfg) (fe_kind e))"
| "switched_on cfg (SyscallEv e) = dc_syscall (rc_domains cfg)"
| "switched_on cfg (NetworkEv e) = dc_network_socket (rc_domains cfg)"

text \<open>The config a collector runs with.\<close>

definition started_config :: "collector_env \<Rightarrow> RuntimeConfig" where
  "started_config env =
     snd (LoadRuntimeConfig (ce_read_file env (DefaultConfigPath (ce_env_config env)))
       default_runtime_config)"

lemma effective_file_kind:
  "file_kind_on (effective_file_probes cfg) kind \<longleftrightarrow>
     dc_file (rc_domains cfg) \<and> file_kind_on (rc_file_probes cfg) kind"
  by (auto simp: file_kind_on_def effective_file_probes_def)

lemma apply_probes_enforces:
  assumes "\<not> sr_degraded (snd (apply_probes env cfg (k, r)))" and "event_ok pt e"
  shows "probe_enabled (fst (apply_probes env cfg (k, r))) e \<longleftrightarrow> switched_on cfg e"
proof -
  note ok = assms(1) [unfolded apply_probes_degraded de_Morgan_disj not_not]
  show ?thesis
  proof (cases e)
    case (ProcessEv p)
    then show ?thesis
      using ok assms(2) process_probes_applied [of env _ _ "pe_kind p"]
      by (simp add: apply_probes_kernel is_process_probe_enabled_def)
  next
    case (FileEv f)
    then show ?thesis
      using ok assms(2) file_probes_applied [of env _ _ "fe_kind f"]
      by (simp add: apply_probes_kernel is_file_probe_enabled_def effective_file_kind)
  next
    case (SyscallEv s)
    then show ?thesis
      using ok
      by (auto simp: apply_probes_kernel is_syscall_probe_enabled_def SetAllowlistEnabled_def
          map_update_elem_def split: if_splits)
  next
    case (NetworkEv n)
    then show ?thesis
      using ok assms(2) network_probes_applied [of env _ _ "ne_kind n"]
      by (simp add: apply_probes_kernel is_network_probe_enabled_def)
  qed
qed

text \<open>The three stages of a configuration that reports no degradation.\<close>

lemma configure_clean:
  assumes "\<not> sr_degraded (cl_report (configure env c))"
  obtains r0 k1 r1 k2 r2 k3 r3 where
    "apply_probes env (started_config env) (initial_kstate, r0) = (k1, r1)"
    "apply_allowlists env (started_config env) (k1, r1) = (k2, r2)"
    "apply_filters env (started_config env) (k2, r2) = (k3, r3)"
    "cl_kernel (configure env c) = Some k3" "\<not> sr_degraded r1" "\<not> sr_degraded r3"
    "0 \<le> ce_map_fd env ''suppress_tgid''"
proof -
  let ?cfg = "started_config env"
  define r0 where "r0 = note_missing_maps env (report_found_maps env (degrade_if
    (\<not> fst (LoadRuntimeConfig (ce_read_file env (DefaultConfigPath (ce_env_config env))) default_runtime_config))
    ''runtime config not found; defaults used''
    ((cl_report c)\<lparr>sr_config_path := DefaultConfigPath (ce_env_config env),
       sr_runtime_config_loaded := fst (LoadRuntimeConfig
         (ce_read_file env (DefaultConfigPath (ce_env_config env))) default_runtime_config)\<rparr>)))"
  obtain k1 r1 where p: "apply_probes env ?cfg (initial_kstate, r0) = (k1, r1)" by fastforce
  obtain k2 r2 where a: "apply_allowlists env ?cfg (k1, r1) = (k2, r2)" by fastforce
  obtain k3 r3 where f: "apply_filters env ?cfg (k2, r2) = (k3, r3)" by fastforce
  have conf: "configure env c = c\<lparr>cl_kernel := Some k3, cl_report := check_applied ?cfg r3\<rparr>"
    using p a f by (simp add: configure_def r0_def started_config_def Let_def split_beta)
  then have r3: "\<not> sr_degraded r3" using assms by simp
  then have r2: "\<not> sr_degraded r2" using apply_filters_degraded [of r2 env ?cfg k2] f by auto
  then have r1: "\<not> sr_degraded r1" using apply_allowlists_frame(1) [of env ?cfg k1 r1] a by simp
  then have r0: "\<not> sr_degraded r0"
    using p apply_probes_degraded [of env ?cfg initial_kstate r0] by simp
  have "0 \<le> ce_map_fd env ''suppress_tgid''"
    using r0 unfolding r0_def note_missing_maps_degraded missing_map_reasons_def by auto
  then show thesis using that [OF p a f] conf r1 r3 by simp
qed

lemma configure_enforces:
  assumes "\<not> sr_degraded (cl_report (configure env c))"
  shows "\<exists>k. cl_kernel (configure env c) = Some k \<and> bpf_loaded k \<and>
    suppress_tgid k 0 = Some (ce_pid env) \<and>
    (\<forall>pt e. event_ok pt e \<longrightarrow> probe_enabled k e = switched_on (started_config env) e)"
proof -
  let ?cfg = "started_config env"
  from configure_clean [OF assms] obtain r0 k1 r1 k2 r2 k3 r3 where
    p: "apply_probes env ?cfg (initial_kstate, r0) = (k1, r1)" and
    a: "apply_allowlists env ?cfg (k1, r1) = (k2, r2)" and
    f: "apply_filters env ?cfg (k2, r2) = (k3, r3)" and
    conf: "cl_kernel (configure env c) = Some k3" and r1: "\<not> sr_degraded r1" and r3: "\<not> sr_degraded r3"
    and fd: "0 \<le> ce_map_fd env ''suppress_tgid''" .
  have own: "suppress_tgid k3 0 = Some (ce_pid env)"
    using apply_filters_own_tgid [of env ?cfg k2 r2] r3 f fd by simp
  have "bpf_loaded k1"
    using apply_probes_kernel [of env ?cfg initial_kstate r0] p initial_loaded
    by (simp add: bpf_loaded_def)
  then have loaded: "bpf_loaded k3"
    using apply_filters_kernel(2) [of env ?cfg k2 r2] f apply_allowlists_frame(4) [of env ?cfg k1 r1] a
    by simp
  have "probe_enabled k3 e = probe_enabled k1 e" for e
    using apply_filters_kernel(1) [of env ?cfg k2 r2] f
      same_config_probe_enabled [OF apply_allowlists_frame(2) [of k1 env ?cfg r1]] a by simp
  moreover have "event_ok pt e \<Longrightarrow> probe_enabled k1 e = switched_on ?cfg e" for pt e
    using apply_probes_enforces [of env ?cfg initial_kstate r0 pt e] p r1 by simp
  ultimately show ?thesis using conf own loaded by simp
qed

lemma Start_success:
  assumes "Start env cb c = (True, c')"
  shows "\<exists>c1. cl_kernel c' = cl_kernel (configure env c1) \<and> cl_cb c' \<and>
    (sr_degraded (cl_report (configure env c1)) \<longrightarrow> sr_degraded (cl_report c')) \<and>
    cl_started c' \<and> cl_rb c'"
proof -
  let ?c1 = "c\<lparr>cl_cb := cb, cl_report_available := True, cl_report := (default_report\<lparr>sr_backend_name := ''libbpf''\<rparr>)
    \<lparr>sr_bpf_object_path := (case ce_env_bpf_object env of Some p \<Rightarrow> p | None \<Rightarrow> DefaultBpfObjectPath (ce_object_macro env))\<rparr>, cl_obj := True\<rparr>"
  have "cb" and "finish_start env (configure env ?c1) = (True, c')"
    using assms by (auto simp: Start_def Let_def fail_start_def split: if_splits)
  moreover have "cl_cb (configure env ?c1)" using \<open>cb\<close>
    by (simp add: configure_def Let_def split_beta)
  ultimately show ?thesis using finish_start_result [of env "configure env ?c1" True c'] by auto
qed

lemma clean_start_kernel:
  assumes "Start env cb c = (True, c')" and "\<not> sr_degraded (cl_report c')" and "cl_kernel c' = Some k"
  shows "suppress_tgid k 0 = Some (ce_pid env)"
    and "event_ok pt e \<Longrightarrow> probe_enabled k e = switched_on (started_config env) e"
proof -
  obtain c1 where c1: "cl_kernel c' = cl_kernel (configure env c1)"
    "\<not> sr_degraded (cl_report (configure env c1))"
    using Start_success [OF assms(1)] assms(2) by blast
  then show "suppress_tgid k 0 = Some (ce_pid env)"
    and "event_ok pt e \<Longrightarrow> probe_enabled k e = switched_on (started_config env) e"
    using configure_enforces [OF c1(2)] assms(3) by auto
qed

lemma configure_loaded: "\<exists>k. cl_kernel (configure env c) = Some k \<and> bpf_loaded k"
proof -
  have "bpf_loaded (fst (apply_probes env cfg (initial_kstate, r)))" for cfg r
    using initial_loaded by (simp add: apply_probes_kernel bpf_loaded_def)
  then show ?thesis
    by (simp add: configure_def Let_def split_beta)
      (metis apply_filters_kernel(2) apply_allowlists_frame(4) prod.collapse)
qed

lemma started_loaded:
  assumes "Start env cb c = (True, c')"
  shows "\<exists>k. cl_kernel c' = Some k \<and> bpf_loaded k"
  using Start_success [OF assms] configure_loaded by auto

text \<open>A host that grants every request, and a config that fits the maps.\<close>

definition willing :: "collector_env \<Rightarrow> bool" where
  "willing env \<longleftrightarrow>
     ce_open_ok env \<and> ce_load_ret env = 0 \<and> (\<forall>name. 0 \<le> ce_map_fd env name) \<and>
     (\<forall>name key. ce_update env name key) \<and> ce_programs env \<noteq> [] \<and>
     (\<forall>(name, attached) \<in> set (ce_programs env). attached) \<and> ce_ring_buffer_ok env \<and>
     ce_read_file env (DefaultConfigPath (ce_env_config env)) \<noteq> None"

definition config_fits :: "RuntimeConfig \<Rightarrow> bool" where
  "config_fits cfg \<longleftrightarrow>
     length (rc_pid_allowlist cfg) < 2 ^ 32 \<and> length (rc_uid_allowlist cfg) < 2 ^ 32 \<and>
     length (rc_syscall_allowlist cfg) < 2 ^ 32 \<and> length (rc_port_allowlist cfg) < 2 ^ 32"

lemma set_toggles_willing: "willing env \<Longrightarrow> fst (set_toggles env name ts (b, m)) = b"
  by (induction ts arbitrary: b m) (auto simp: map_update_elem_def willing_def)

lemma store_entries_willing:
  "willing env \<Longrightarrow> fst (store_entries env name keys (n, m)) = n + of_nat (length keys)"
  by (induction keys arbitrary: n m) (auto simp: map_update_elem_def willing_def)

lemma apply_willing:
  assumes "willing env"
  shows "fst (ApplyProcessProbeConfig env b m)" "fst (ApplyNetworkProbeConfig env b m)"
    "fst (ApplyFileProbeConfig env fp m)" "fst (SetAllowlistEnabled env name b m)"
    "fst (store_own_tgid env k)"
    "fst (ApplyU32AllowlistConfig env name keys m) = of_nat (length keys)"
    "fst (ApplySyscallAllowlistConfig env nrs m) = of_nat (length nrs)"
proof -
  have fd: "\<not> ce_map_fd env n < 0" for n using assms by (simp add: willing_def not_less)
  show "fst (ApplyProcessProbeConfig env b m)" "fst (ApplyNetworkProbeConfig env b m)"
    "fst (ApplyFileProbeConfig env fp m)"
    unfolding ApplyProcessProbeConfig_def ApplyNetworkProbeConfig_def ApplyFileProbeConfig_def
    by (simp_all only: fd if_False set_toggles_willing [OF assms])
  show "fst (SetAllowlistEnabled env name b m)" "fst (store_own_tgid env k)"
    using assms fd by (simp_all add: SetAllowlistEnabled_def store_own_tgid_def map_update_elem_def willing_def)
  show "fst (ApplyU32AllowlistConfig env name keys m) = of_nat (length keys)"
    "fst (ApplySyscallAllowlistConfig env nrs m) = of_nat (length nrs)"
    using fd store_entries_willing [OF assms]
    by (simp_all add: ApplyU32AllowlistConfig_def ApplySyscallAllowlistConfig_def)
qed

lemma of_nat_length_0: "length xs < 2 ^ 32 \<Longrightarrow> (of_nat (length xs) :: u32) = 0 \<longleftrightarrow> xs = []"
proof -
  assume "length xs < 2 ^ 32"
  then have "unat (of_nat (length xs) :: u32) = length xs"
    by (simp add: unat_of_nat take_bit_nat_eq_self unsigned_of_nat)
  then have "(of_nat (length xs) :: u32) = 0 \<longleftrightarrow> length xs = 0"
    by (auto dest: arg_cong [where f = unat])
  then show ?thesis by simp
qed

lemma events_found_fold:
  "sr_map_events_found (fold (\<lambda>(name, message). degrade_if (p name) message) xs r) =
     sr_map_events_found r"
  by (induction xs arbitrary: r) (simp_all add: split_beta)

lemma events_found_note_missing: "sr_map_events_found (note_missing_maps env r) = sr_map_events_found r"
  unfolding note_missing_maps_def by (rule events_found_fold)

lemma events_found_frames:
  "sr_map_events_found (snd (apply_probes env cfg (k, r))) = sr_map_events_found r"
  "sr_map_events_found (snd (apply_allowlists env cfg (k, r))) = sr_map_events_found r"
  "sr_map_events_found (snd (apply_filters env cfg (k, r))) = sr_map_events_found r"
  "sr_map_events_found (check_applied cfg r) = sr_map_events_found r"
  by (simp_all add: apply_probes_def apply_allowlists_def apply_filters_def check_applied_def
      Let_def split_beta)

lemma apply_allowlists_counts:
  assumes "willing env"
  shows "sr_pid_allowlist_applied_count (snd (apply_allowlists env cfg (k, r))) = of_nat (length (rc_pid_allowlist cfg))"
    "sr_uid_allowlist_applied_count (snd (apply_allowlists env cfg (k, r))) = of_nat (length (rc_uid_allowlist cfg))"
    "sr_syscall_allowlist_applied_count (snd (apply_allowlists env cfg (k, r))) = of_nat (length (effective_syscall_allowlist cfg))"
    "sr_network_port_allowlist_applied_count (snd (apply_allowlists env cfg (k, r))) = of_nat (length (rc_port_allowlist cfg))"
  using apply_willing(6,7) [OF assms] by (simp_all add: apply_allowlists_def Let_def split_beta)

lemma configure_willing:
  assumes "willing env" and "config_fits (started_config env)" and "\<not> sr_degraded (cl_report c)"
  shows "\<not> sr_degraded (cl_report (configure env c))" and "sr_map_events_found (cl_report (configure env c))"
    and "cl_links (configure env c) = cl_links c"
proof -
  let ?cfg = "started_config env"
  note w = apply_willing [OF assms(1)]
  obtain contents where t: "ce_read_file env (DefaultConfigPath (ce_env_config env)) = Some contents"
    using assms(1) by (auto simp: willing_def)
  have fd: "\<not> ce_map_fd env n < 0" for n using assms(1) by (simp add: willing_def not_less)
  define r0 where "r0 = note_missing_maps env (report_found_maps env (degrade_if False
    ''runtime config not found; defaults used''
    ((cl_report c)\<lparr>sr_config_path := DefaultConfigPath (ce_env_config env), sr_runtime_config_loaded := True\<rparr>)))"
  obtain k1 r1 where p: "apply_probes env ?cfg (initial_kstate, r0) = (k1, r1)" by fastforce
  obtain k2 r2 where a: "apply_allowlists env ?cfg (k1, r1) = (k2, r2)" by fastforce
  obtain k3 r3 where f: "apply_filters env ?cfg (k2, r2) = (k3, r3)" by fastforce
  have conf: "configure env c = c\<lparr>cl_kernel := Some k3, cl_report := check_applied ?cfg r3\<rparr>"
    using p a f t by (simp add: configure_def r0_def started_config_def LoadRuntimeConfig_def Let_def split_beta)
  have "\<not> sr_degraded r0"
    using assms(3) fd by (simp add: r0_def report_found_maps_def)
  then have "\<not> sr_degraded r1"
    using p w apply_probes_degraded [of env ?cfg initial_kstate r0] by simp
  then have r2: "\<not> sr_degraded r2" using apply_allowlists_frame(1) [of env ?cfg k1 r1] a by simp
  have n: "length (effective_syscall_allowlist ?cfg) < 2 ^ 32"
    using assms(2) by (simp add: config_fits_def effective_syscall_allowlist_def)
  have counts: "sr_pid_allowlist_applied_count r2 = 0 \<longleftrightarrow> rc_pid_allowlist ?cfg = []"
    "sr_uid_allowlist_applied_count r2 = 0 \<longleftrightarrow> rc_uid_allowlist ?cfg = []"
    "sr_syscall_allowlist_applied_count r2 = 0 \<longleftrightarrow> effective_syscall_allowlist ?cfg = []"
    "sr_network_port_allowlist_applied_count r2 = 0 \<longleftrightarrow> rc_port_allowlist ?cfg = []"
    using apply_allowlists_counts [OF assms(1), of ?cfg k1 r1] a assms(2) n
    by (simp_all add: of_nat_length_0 config_fits_def)
  have "sr_degraded (snd (apply_filters env ?cfg (k2, r2))) = sr_degraded r2"
    by (simp add: apply_filters_def Let_def split_beta w)
  then have "\<not> sr_degraded (check_applied ?cfg r3)"
    using r2 f counts apply_filters_counts [of env ?cfg k2 r2] by simp
  then show "\<not> sr_degraded (cl_report (configure env c))" using conf by simp
  have "sr_map_events_found r0"
    unfolding r0_def events_found_note_missing by (simp add: report_found_maps_def fd not_less [symmetric])
  then have "sr_map_events_found r3"
    using events_found_frames(1) [of env ?cfg initial_kstate r0] events_found_frames(2) [of env ?cfg k1 r1]
      events_found_frames(3) [of env ?cfg k2 r2] p a f by simp
  then show "sr_map_events_found (cl_report (configure env c))"
    using conf events_found_frames(4) by simp
  show "cl_links (configure env c) = cl_links c" using conf by simp
qed

lemma attach_programs_all:
  "\<forall>(name, attached) \<in> set progs. attached \<Longrightarrow>
     attach_programs progs (links, failed) = (links @ map (program_name \<circ> fst) progs, failed)"
  by (induction progs arbitrary: links) auto

lemma willing_start:
  assumes "willing env" and "config_fits (started_config env)"
  shows "\<exists>c'. Start env True c = (True, c') \<and> \<not> sr_degraded (cl_report c') \<and>
    (\<exists>k. cl_kernel c' = Some k) \<and> length (cl_links c') = length (cl_links c) + length (ce_programs env)"
proof -
  let ?c1 = "c\<lparr>cl_cb := True, cl_report_available := True, cl_report := (default_report\<lparr>sr_backend_name := ''libbpf''\<rparr>)
    \<lparr>sr_bpf_object_path := (case ce_env_bpf_object env of Some p \<Rightarrow> p | None \<Rightarrow> DefaultBpfObjectPath (ce_object_macro env))\<rparr>, cl_obj := True\<rparr>"
  have d: "\<not> sr_degraded (cl_report ?c1)" by (simp add: default_report_def)
  note w = configure_willing [OF assms d]
  have s: "Start env True c = finish_start env (configure env ?c1)"
    using assms(1) by (simp add: Start_def willing_def Let_def)
  obtain k where k: "cl_kernel (configure env ?c1) = Some k"
    using configure_enforces [OF w(1)] by blast
  have att: "attach_programs (ce_programs env) (cl_links (configure env ?c1), []) =
      (cl_links c @ map (program_name \<circ> fst) (ce_programs env), [])"
    using assms(1) w(3) attach_programs_all [of "ce_programs env"] by (simp add: willing_def)
  show ?thesis
    unfolding s finish_start_def att using assms(1) w k
    by (simp add: willing_def Let_def)
qed

text \<open>
  C22. When the host grants every request and the config is readable, the start succeeds, attaches
  every program and reports no degradation: a degraded report is never a false alarm.
\<close>

theorem willing_host_starts_clean:
  assumes "willing env" and "config_fits (started_config env)" and "cl_links c = []"
  shows "\<exists>c'. Start env True c = (True, c') \<and> \<not> sr_degraded (cl_report c') \<and>
    length (cl_links c') = length (ce_programs env)"
  using willing_start [OF assms(1,2)] assms(3) by fastforce

lemma demo_started_config: "started_config demo_collector_env = demo_config"
  by (simp add: started_config_def demo_collector_env_def LoadRuntimeConfig_text)

lemma demo_willing: "willing demo_collector_env"
  by (simp add: willing_def demo_collector_env_def)

lemma demo_fits: "config_fits (started_config demo_collector_env)"
  unfolding demo_started_config by (simp add: config_fits_def demo_config_def default_runtime_config_def)

theorem willing_host_starts_clean_witness:
  "\<exists>c'. Start demo_collector_env True new_collector = (True, c') \<and> length (cl_links c') = 2"
  using willing_host_starts_clean [OF demo_willing demo_fits, of new_collector]
  by (auto simp: new_collector_def demo_collector_env_def)

lemma attach_programs_links:
  "fst (attach_programs progs (links, failed)) = links @ fst (attach_programs progs ([], []))"
proof (induction progs arbitrary: links failed)
  case (Cons p progs)
  obtain name attached where p: "p = (name, attached)" by fastforce
  show ?case
    using Cons.IH [of links "failed @ [program_name name]"] Cons.IH [of "[]" "[program_name name]"]
      Cons.IH [of "links @ [program_name name]" failed] Cons.IH [of "[program_name name]" "[]"]
    by (simp add: p)
qed simp

lemma events_found_stages:
  "sr_map_events_found (snd (apply_probes env cfg st)) = sr_map_events_found (snd st)"
  "sr_map_events_found (snd (apply_allowlists env cfg st)) = sr_map_events_found (snd st)"
  "sr_map_events_found (snd (apply_filters env cfg st)) = sr_map_events_found (snd st)"
  using events_found_frames(1-3) [of env cfg "fst st" "snd st"] by simp_all

lemma configure_frame:
  "cl_links (configure env c) = cl_links c"
  "sr_map_events_found (cl_report (configure env c)) \<longleftrightarrow> 0 \<le> ce_map_fd env ''events''"
  by (simp_all add: configure_def Let_def split_beta events_found_stages events_found_frames(4)
      events_found_note_missing report_found_maps_def)

section \<open>Why a start fails\<close>

text \<open>The first thing a start cannot do without and is refused, in the words of the report.\<close>

definition start_refusal :: "collector_env \<Rightarrow> bool \<Rightarrow> string option" where
  "start_refusal env cb =
     (if \<not> cb then Some ''missing callback''
      else if \<not> ce_open_ok env then Some ''failed to open BPF object''
      else if ce_load_ret env \<noteq> 0 then Some ''failed to load BPF object''
      else if \<forall>(name, attached) \<in> set (ce_programs env). \<not> attached then Some ''no BPF programs attached''
      else if ce_map_fd env ''events'' < 0 then Some ''events map missing''
      else if \<not> ce_ring_buffer_ok env then Some ''failed to create ring buffer reader''
      else None)"

lemma no_links: "fst (attach_programs progs ([], failed)) = [] \<longleftrightarrow> (\<forall>(name, attached) \<in> set progs. \<not> attached)"
proof (induction progs arbitrary: failed)
  case (Cons p progs)
  then show ?case
    using attach_programs_links [of progs "[program_name (fst p)]" failed] by (cases p) auto
qed simp

lemma reason_of_append [simp]: "suffix m (sr_degrade_reason (AppendDegradeReason m r))"
  by (auto simp: AppendDegradeReason_def suffix_def)

lemma fail_start_reason:
  "fail_start m c = (ok, c') \<Longrightarrow> m \<noteq> [] \<Longrightarrow> \<not> ok \<and> suffix m (sr_degrade_reason (cl_report c'))"
  by (auto simp: fail_start_def)

lemma finish_start_refusal:
  assumes "finish_start env c = (ok, c')"
    and "sr_map_events_found (cl_report c) \<longleftrightarrow> 0 \<le> ce_map_fd env ''events''"
    and "ce_open_ok env" and "ce_load_ret env = 0"
  shows "if ok then start_refusal env True = None
    else \<exists>m. start_refusal env True = Some m \<and> suffix m (sr_degrade_reason (cl_report c'))"
proof -
  obtain attached failed where a: "attach_programs (ce_programs env) ([], []) = (attached, failed)"
    by fastforce
  then obtain failed' where b: "attach_programs (ce_programs env) (cl_links c, []) = (cl_links c @ attached, failed')"
    using attach_programs_links [of "ce_programs env" "cl_links c" "[]"]
    by (cases "attach_programs (ce_programs env) (cl_links c, [])") auto
  have n: "attached = [] \<longleftrightarrow> (\<forall>(name, attached) \<in> set (ce_programs env). \<not> attached)"
    using no_links [of "ce_programs env" "[]"] a by simp
  show ?thesis
    using assms b n
    by (auto simp: finish_start_def start_refusal_def Let_def dest!: fail_start_reason split: if_splits)
qed

lemma Start_refusal:
  assumes "Start env cb c = (ok, c')"
  shows "if ok then start_refusal env cb = None
    else \<exists>m. start_refusal env cb = Some m \<and> suffix m (sr_degrade_reason (cl_report c'))"
proof (cases "cb \<and> ce_open_ok env \<and> ce_load_ret env = 0")
  case True
  then obtain c1 where s: "finish_start env (configure env c1) = (ok, c')"
    using assms by (auto simp: Start_def Let_def)
  then show ?thesis using finish_start_refusal [OF s configure_frame(2)] True by simp
next
  case False
  then show ?thesis
    using assms
    by (auto simp: Start_def start_refusal_def Let_def dest!: fail_start_reason split: if_splits)
qed

text \<open>
  C21. A start that fails, at whatever point, leaves the collector as it was before any start: no
  object, no maps, no attached program, no reader, and polling it hands nothing to the callback. Its
  report is available, is marked degraded and says why: the last reason in it is that of the step
  that was refused.
\<close>

theorem failed_start_releases_everything:
  assumes "released c" and "Start env cb c = (False, c')"
  shows "released c' \<and> PollOnce c' available = [] \<and>
    (\<exists>r m. ReadStartupReport c' = Some r \<and> sr_degraded r \<and> start_refusal env cb = Some m \<and>
       suffix m (sr_degrade_reason r))"
  using failed_start_released [OF assms] Start_refusal [OF assms(2)]
  by (simp add: ReadStartupReport_def PollOnce_def released_def)

theorem failed_start_releases_everything_witness:
  "let c' = snd (Start (demo_collector_env\<lparr>ce_load_ret := -13\<rparr>) True new_collector)
   in released c' \<and> suffix ''failed to load BPF object'' (sr_degrade_reason (cl_report c'))"
proof -
  obtain ok c' where s: "Start (demo_collector_env\<lparr>ce_load_ret := -13\<rparr>) True new_collector = (ok, c')"
    by fastforce
  moreover have "\<not> ok"
    using s by (auto simp: Start_def demo_collector_env_def fail_start_def Let_def)
  moreover have "start_refusal (demo_collector_env\<lparr>ce_load_ret := -13\<rparr>) True = Some ''failed to load BPF object''"
    by (simp add: start_refusal_def demo_collector_env_def)
  ultimately show ?thesis
    using failed_start_releases_everything [OF released_new, of "demo_collector_env\<lparr>ce_load_ret := -13\<rparr>" True c'
        "[] :: u8 list list"]
    by (auto simp: ReadStartupReport_def split: if_splits)
qed

text \<open>An exit of another process, after a clean start.\<close>

definition demo_started :: LibbpfCollector where
  "demo_started = snd (Start demo_collector_env True new_collector)"

definition demo_kernel :: kstate where
  "demo_kernel = the (cl_kernel demo_started)"

lemma demo_started_ok:
  "Start demo_collector_env True new_collector = (True, demo_started)"
  "\<not> sr_degraded (cl_report demo_started)" "cl_kernel demo_started = Some demo_kernel"
  using willing_start [OF demo_willing demo_fits, of new_collector]
  by (auto simp: demo_started_def demo_kernel_def)

end
