(* ===== verification/Main_Program.thy ===== *)
theory Main_Program
  imports Pipeline Collector_Properties
begin

text \<open>
  src/main.cpp as a whole: build the sink, start the collector, poll until a signal clears the
  running flag, read the kernel counters, stop, report. The loop has no bound of its own, so it is
  a \<open>partial_function\<close>: None is a run that does not end (or an undefined read in the callback).
  One round is what the outside does during one turn of the loop.
\<close>

section \<open>The contract of a collector\<close>

text \<open>
  src/collector/collector.h: polling can begin when \<open>start\<close> returns true, and no events are
  produced when it returns false; \<open>stop\<close> detaches from the producers.
\<close>

locale event_source =
  fixes start :: "'env \<Rightarrow> 'c \<Rightarrow> bool \<times> 'c"
    and poll :: "'c \<Rightarrow> 'd list \<Rightarrow> 'd list"
    and stop :: "'c \<Rightarrow> 'c"
    and idle :: "'c \<Rightarrow> bool"
  assumes failed_start_idle: "idle c \<Longrightarrow> start env c = (False, c') \<Longrightarrow> idle c'"
    and stopped_idle: "idle (stop c)"
    and idle_silent: "idle c \<Longrightarrow> poll c ds = []"
    and started_delivers: "start env c = (True, c') \<Longrightarrow> poll c' ds = ds"
begin

lemma session_delivers:
  "start env c = (True, c') \<Longrightarrow> concat (map (poll c') dss) = concat dss"
  using started_delivers by (simp add: map_idI)

lemma stopped_silent: "poll (stop c) ds = []"
  by (rule idle_silent [OF stopped_idle])

lemma failed_silent: "idle c \<Longrightarrow> start env c = (False, c') \<Longrightarrow> concat (map (poll c') dss) = []"
  using idle_silent failed_start_idle by (simp add: concat_eq_Nil_conv)

end

interpretation libbpf: event_source "\<lambda>env. Start env True" PollOnce Stop released
proof unfold_locales
  show "released c'" if "released c" "Start env True c = (False, c')" for env c c'
    using failed_start_released that by blast
  show "PollOnce c' ds = ds" if "Start env True c = (True, c')" for env c c' and ds :: "'d list"
    using Start_success [OF that] by (intro PollOnce_delivers) (auto simp: delivers_def)
qed (simp_all add: PollOnce_def released_def Stop_def)

section \<open>Diagnostics\<close>

definition PrintKernelStats :: "KernelBpfStats \<Rightarrow> string \<Rightarrow> string" where
  "PrintKernelStats s label =
     label @ '' ringbuf_reserve_fail='' @ out_uint (ks_ringbuf_reserve_fail s)
       @ '' file_state_save_fail='' @ out_uint (ks_file_state_save_fail s)
       @ '' file_state_collision='' @ out_uint (ks_file_state_collision s)
       @ '' file_state_miss='' @ out_uint (ks_file_state_miss s)
       @ '' syscall_state_save_fail='' @ out_uint (ks_syscall_state_save_fail s)
       @ '' syscall_state_collision='' @ out_uint (ks_syscall_state_collision s)
       @ '' syscall_state_miss='' @ out_uint (ks_syscall_state_miss s)
       @ '' network_state_save_fail='' @ out_uint (ks_network_state_save_fail s)
       @ '' network_state_collision='' @ out_uint (ks_network_state_collision s)
       @ '' network_state_miss='' @ out_uint (ks_network_state_miss s) @ [CHR 0x0A]"

definition or_na :: "string \<Rightarrow> string" where
  "or_na s = (if s = [] then ''n/a'' else s)"

definition out_bool :: "bool \<Rightarrow> string" where
  "out_bool b = (if b then ''true'' else ''false'')"

definition PrintStartupReport :: "CollectorStartupReport \<Rightarrow> string" where
  "PrintStartupReport r =
     ''startup_report backend='' @ sr_backend_name r
       @ '' bpf_object_path='' @ or_na (sr_bpf_object_path r)
       @ '' config_path='' @ or_na (sr_config_path r)
       @ '' programs_total='' @ out_uint (sr_programs_total r)
       @ '' programs_attached='' @ out_uint (sr_programs_attached r)
       @ '' programs_attach_failed='' @ out_uint (sr_programs_attach_failed r)
       @ '' runtime_config_loaded='' @ out_bool (sr_runtime_config_loaded r)
       @ '' map_events_found='' @ out_bool (sr_map_events_found r)
       @ '' map_bpf_stats_found='' @ out_bool (sr_map_bpf_stats_found r)
       @ '' map_file_probe_enabled_found='' @ out_bool (sr_map_file_probe_enabled_found r)
       @ '' map_syscall_allowlist_found='' @ out_bool (sr_map_syscall_allowlist_found r)
       @ '' map_pid_allowlist_found='' @ out_bool (sr_map_pid_allowlist_found r)
       @ '' map_uid_allowlist_found='' @ out_bool (sr_map_uid_allowlist_found r)
       @ '' map_network_probe_enabled_found='' @ out_bool (sr_map_network_probe_enabled_found r)
       @ '' map_network_port_allowlist_found='' @ out_bool (sr_map_network_port_allowlist_found r)
       @ '' map_network_port_filter_enabled_found='' @ out_bool (sr_map_network_port_filter_enabled_found r)
       @ '' map_suppress_tgid_found='' @ out_bool (sr_map_suppress_tgid_found r)
       @ '' file_probe_toggles_applied='' @ out_bool (sr_file_probe_toggles_applied r)
       @ '' syscall_allowlist_applied_count='' @ out_uint (sr_syscall_allowlist_applied_count r)
       @ '' pid_allowlist_applied_count='' @ out_uint (sr_pid_allowlist_applied_count r)
       @ '' uid_allowlist_applied_count='' @ out_uint (sr_uid_allowlist_applied_count r)
       @ '' network_probe_toggles_applied='' @ out_bool (sr_network_probe_toggles_applied r)
       @ '' network_port_allowlist_applied_count='' @ out_uint (sr_network_port_allowlist_applied_count r)
       @ '' degraded='' @ out_bool (sr_degraded r)
       @ (if sr_degrade_reason r \<noteq> [] then '' degrade_reason='' @ quoted (sr_degrade_reason r) else [])
       @ [CHR 0x0A]"

definition PrintCounters :: "Metrics \<Rightarrow> string" where
  "PrintCounters m =
     ''received='' @ out_uint (m_received m) @ '' decoded='' @ out_uint (m_decoded m)
       @ '' dropped='' @ out_uint (m_dropped m) @ [CHR 0x0A]"

section \<open>The program\<close>

record poll_round =
  pr_running :: bool
  pr_ready :: "delivery list"
  pr_kernel :: kstate
  pr_now :: u64

record main_env =
  me_collector :: collector_env
  me_disk :: "string \<Rightarrow> string option"
  me_sink_open :: sink_env
  me_sink_close :: sink_env
  me_start_now :: u64
  me_rounds :: "nat \<Rightarrow> poll_round"

text \<open>\<open>ms_log\<close> is what was written to stderr, \<open>ms_sink_open\<close> whether the sink object exists.\<close>

record main_state =
  ms_pipeline :: pipeline
  ms_collector :: LibbpfCollector
  ms_next_report :: u64
  ms_log :: "string list"

definition BuildSink :: "main_env \<Rightarrow> JsonSink \<times> string" where
  "BuildSink env =
     (let cenv = me_collector env;
          cfg = LoadSinkRuntimeConfig (ce_read_file cenv (DefaultConfigPath_main (ce_env_config cenv)))
      in (JsonSink_new (me_sink_open env) (me_disk env (sc_path cfg)) (sc_max_file_size_bytes cfg),
          ''[sink] file_json path='' @ sc_path cfg @ '' max_file_size_bytes='' @
            out_uint (sc_max_file_size_bytes cfg) @ [CHR 0x0A]))"

definition kReportIntervalNs :: u64 where "kReportIntervalNs = 30 * 1000000000"

definition stats_line :: "collector_env \<Rightarrow> LibbpfCollector \<Rightarrow> string \<Rightarrow> string list" where
  "stats_line cenv c label =
     (let (read, s) = ReadKernelBpfStats cenv c \<lparr>ks_ringbuf_reserve_fail = 0,
            ks_file_state_save_fail = 0, ks_file_state_collision = 0, ks_file_state_miss = 0,
            ks_syscall_state_save_fail = 0, ks_syscall_state_collision = 0, ks_syscall_state_miss = 0,
            ks_network_state_save_fail = 0, ks_network_state_collision = 0, ks_network_state_miss = 0\<rparr>
      in if read then [PrintKernelStats s label] else [])"

text \<open>One turn of the loop: the kernel has moved on, then poll, then the periodic report.\<close>

definition main_round :: "main_env \<Rightarrow> poll_round \<Rightarrow> main_state \<Rightarrow> main_state option" where
  "main_round env rd st =
     (let c = (ms_collector st)\<lparr>cl_kernel := map_option (\<lambda>_. pr_kernel rd) (cl_kernel (ms_collector st))\<rparr>;
          st = st\<lparr>ms_collector := c\<rparr>
      in case deliver_all (ce_pid (me_collector env)) (PollOnce c (pr_ready rd)) (ms_pipeline st) of
           None \<Rightarrow> None
         | Some p \<Rightarrow>
             let st = st\<lparr>ms_pipeline := p\<rparr>
             in Some (if pr_now rd \<ge> ms_next_report st
                      then st\<lparr>ms_log := ms_log st @ stats_line (me_collector env) c ''kernel_stats_periodic'',
                              ms_next_report := pr_now rd + kReportIntervalNs\<rparr>
                      else st))"

partial_function (option) main_loop :: "main_env \<Rightarrow> nat \<Rightarrow> main_state \<Rightarrow> main_state option" where
  "main_loop env i st =
     (if \<not> pr_running (me_rounds env i) then Some st
      else Option.bind (main_round env (me_rounds env i) st) (main_loop env (i + 1)))"

text \<open>The exit code and the final state; the sink is destroyed when \<open>main\<close> returns.\<close>

definition close_sink :: "main_env \<Rightarrow> main_state \<Rightarrow> main_state" where
  "close_sink env st =
     st\<lparr>ms_pipeline := (ms_pipeline st)\<lparr>pl_sink := JsonSink_destroy (me_sink_close env) (pl_sink (ms_pipeline st))\<rparr>\<rparr>"

definition main_shutdown :: "main_env \<Rightarrow> main_state \<Rightarrow> main_state" where
  "main_shutdown env st =
     (let final = stats_line (me_collector env) (ms_collector st) ''kernel_stats_final'';
          st = st\<lparr>ms_collector := Stop (ms_collector st)\<rparr>;
          st = st\<lparr>ms_log := ms_log st @ [PrintCounters (pl_metrics (ms_pipeline st))] @ final\<rparr>
      in close_sink env st)"

definition main :: "main_env \<Rightarrow> (nat \<times> main_state) option" where
  "main env =
     (let (sink, sink_message) = BuildSink env;
          st = \<lparr>ms_pipeline = \<lparr>pl_metrics = Metrics_new, pl_registry = empty_registry, pl_sink = sink\<rparr>,
                ms_collector = new_collector, ms_next_report = 0, ms_log = [sink_message]\<rparr>
      in if \<not> ready sink
         then Some (1, close_sink env (st\<lparr>ms_log := ms_log st @
                 [''failed to initialize file sink; check sink.path permissions'' @ [CHR 0x0A]]\<rparr>))
         else let (started, c) = Start (me_collector env) True (ms_collector st);
                  st = st\<lparr>ms_collector := c\<rparr>;
                  st = (case ReadStartupReport c of
                          None \<Rightarrow> st | Some r \<Rightarrow> st\<lparr>ms_log := ms_log st @ [PrintStartupReport r]\<rparr>)
              in if \<not> started
                 then Some (1, close_sink env (st\<lparr>ms_log := ms_log st @
                         [''failed to start collector'' @ [CHR 0x0A]]\<rparr>))
                 else let st = st\<lparr>ms_next_report := me_start_now env + kReportIntervalNs\<rparr>
                      in map_option (\<lambda>st. (0, main_shutdown env st)) (main_loop env 0 st))"

section \<open>The loop\<close>

text \<open>The records of the rounds from \<open>i\<close> up to the one at which the flag is found cleared.\<close>

definition rounds_ready :: "main_env \<Rightarrow> nat \<Rightarrow> nat \<Rightarrow> delivery list" where
  "rounds_ready env i n = concat (map (\<lambda>j. pr_ready (me_rounds env j)) [i..<n])"

lemma rounds_ready_step: "i < n \<Longrightarrow> rounds_ready env i n = pr_ready (me_rounds env i) @ rounds_ready env (Suc i) n"
  by (simp add: rounds_ready_def upt_conv_Cons)

lemma main_round_delivers:
  assumes "delivers (ms_collector st)"
    and "deliver_all (ce_pid (me_collector env)) (pr_ready rd) (ms_pipeline st) = Some p"
  shows "\<exists>st'. main_round env rd st = Some st' \<and> delivers (ms_collector st') \<and> ms_pipeline st' = p"
proof -
  have "delivers ((ms_collector st)\<lparr>cl_kernel := k\<rparr>)" for k
    using assms(1) by (simp add: delivers_def)
  then show ?thesis using assms(2) by (simp add: main_round_def PollOnce_delivers Let_def)
qed

lemma main_loop_delivers:
  assumes "delivers (ms_collector st)" and "i \<le> n"
    and "\<forall>j. i \<le> j \<and> j < n \<longrightarrow> pr_running (me_rounds env j)" and "\<not> pr_running (me_rounds env n)"
    and "deliver_all (ce_pid (me_collector env)) (rounds_ready env i n) (ms_pipeline st) = Some p"
  shows "\<exists>st'. main_loop env i st = Some st' \<and> delivers (ms_collector st') \<and> ms_pipeline st' = p"
  using assms
proof (induction "n - i" arbitrary: i st)
  case 0
  then have "i = n" by simp
  then show ?case using 0 by (subst main_loop.simps) (simp add: rounds_ready_def)
next
  case (Suc d)
  then have i: "i < n" by simp
  let ?self = "ce_pid (me_collector env)"
  obtain q where q: "deliver_all ?self (pr_ready (me_rounds env i)) (ms_pipeline st) = Some q"
    "deliver_all ?self (rounds_ready env (Suc i) n) q = Some p"
    using Suc.prems(5) rounds_ready_step [OF i, of env] by (auto simp: deliver_all_append bind_eq_Some_conv)
  obtain st1 where st1: "main_round env (me_rounds env i) st = Some st1" "delivers (ms_collector st1)"
    "ms_pipeline st1 = q"
    using main_round_delivers [OF Suc.prems(1) q(1)] by blast
  have "\<exists>st'. main_loop env (Suc i) st1 = Some st' \<and> delivers (ms_collector st') \<and> ms_pipeline st' = p"
    using Suc i st1 q(2) by (intro Suc.hyps(1)) auto
  moreover have "main_loop env i st = main_loop env (Suc i) st1"
    using Suc.prems(3) i st1(1) by (subst main_loop.simps) simp
  ultimately show ?case by simp
qed

end
