(* ===== verification/Pipeline_Properties.thy ===== *)
theory Pipeline_Properties
  imports Pipeline
begin

text \<open>
  The program end to end: what a record the kernel side submits becomes, what the counters add up
  to, and which inputs leave no trace.
\<close>

section \<open>A concrete pipeline\<close>

definition demo_pipeline :: pipeline where
  "demo_pipeline = \<lparr>pl_metrics = Metrics_new, pl_registry = demo_registry, pl_sink = demo_sink\<rparr>"

definition demo_exit_header :: event_header where
  "demo_exit_header = \<lparr>hdr_ts_ns = 10, hdr_type = EVENT_TYPE_PROCESS,
     hdr_size = of_nat sizeof_process_event, hdr_pid = 101, hdr_tgid = 100, hdr_ppid = 1,
     hdr_uid = 0, hdr_gid = 0, hdr_comm = replicate 16 0\<rparr>"

definition demo_exit_event :: process_event where
  "demo_exit_event = \<lparr>pe_hdr = demo_exit_header, pe_kind = PROCESS_EXIT, pe_exit_code = 0,
     pe_child_pid = 0, pe_filename = (replicate 256 7)[0 := 0],
     pe_exec_path = (replicate 256 7)[0 := 0], pe_cmdline = (replicate 256 7)[0 := 0],
     pe_cwd = (replicate 256 7)[0 := 0], pe_parent_comm = (replicate 16 7)[0 := 0],
     pe_start_time_ticks = 0\<rparr>"

lemma demo_record_eq: "demo_record = ProcessEv demo_exit_event"
  by (simp add: demo_exit_def demo_record_def on_sched_exit_def demo_state_def initial_kstate_def
      is_event_allowed_def is_not_suppressed_self_def is_current_pid_allowed_def
      is_current_uid_allowed_def is_process_probe_enabled_def array_map_def cur_tgid_def
      demo_env_def sample_env_def reserve_process_event_def Let_def fill_header_def demo_process_event_def
      cur_pid_def get_current_exit_code_def get_current_ppid_def demo_exit_event_def
      demo_exit_header_def zero_header_def)

definition demo_exit_canonical :: CanonicalEvent where
  "demo_exit_canonical = the (Normalize demo_record)"

lemma demo_normalized: "Normalize demo_record = Some demo_exit_canonical"
  by (simp add: demo_exit_canonical_def demo_record_eq normalize_defs demo_exit_event_def)

lemma demo_exit_canonical_fields:
  "ce_action demo_exit_canonical = CaProcessExited" "ce_exec_path_hint demo_exit_canonical = []"
  "actor_key (ce_actor demo_exit_canonical) = 100" "er_id (ce_object_ref demo_exit_canonical) = 0"
  "ce_raw demo_exit_canonical = ProcessEv demo_exit_event"
  by (simp_all add: demo_exit_canonical_def demo_record_eq normalize_defs demo_exit_event_def
      ProcessAction_def MakeActor_def actor_key_def demo_exit_header_def)

text \<open>The entity the sink sees has no rich field.\<close>

lemma demo_ingested:
  "er_id (ce_subject (fst (Ingest demo_reg_env demo_exit_canonical demo_registry))) = 1"
  "er_id (ce_object_ref (fst (Ingest demo_reg_env demo_exit_canonical demo_registry))) = 0"
  "\<exists>e. ce_subject_process (fst (Ingest demo_reg_env demo_exit_canonical demo_registry)) = Some e \<and>
     pr_exec_path e = [] \<and> pr_cmdline e = [] \<and> pr_cwd e = [] \<and> pr_parent_comm e = [] \<and>
     pr_start_time_ticks e = 0"
proof -
  note f = demo_exit_canonical_fields
  let ?e = "seen_entity demo_reg_env (ce_actor demo_exit_canonical) (ce_ts_ns demo_exit_canonical) False demo_entity"
  let ?r = "demo_registry\<lparr>processes_by_id := (processes_by_id demo_registry)(1 \<mapsto> ?e)\<rparr>"
  have p: "ResolveProcess demo_reg_env (ce_actor demo_exit_canonical) (ce_ts_ns demo_exit_canonical)
      (ce_action demo_exit_canonical = CaProcessExeced) demo_registry = (1, ?r)"
    using ResolveProcess_known [of "ce_actor demo_exit_canonical" demo_registry 1 demo_entity demo_reg_env
        "ce_ts_ns demo_exit_canonical" False] demo_not_reused f
    by (simp add: demo_registry_def)
  show "er_id (ce_subject (fst (Ingest demo_reg_env demo_exit_canonical demo_registry))) = 1"
    by (simp add: Ingest_registry(2) [OF p])
  show "er_id (ce_object_ref (fst (Ingest demo_reg_env demo_exit_canonical demo_registry))) = 0"
    using f(4) by (simp add: Ingest_def ingest_action_def f(1) Let_def CanonicalEvent.defs split: prod.splits)
  have "pr_exec_path ?e = [] \<and> pr_cmdline ?e = [] \<and> pr_cwd ?e = [] \<and> pr_parent_comm ?e = [] \<and>
      pr_start_time_ticks ?e = 0"
    by (simp add: seen_entity_def UpdateFast_def IsReused_def demo_entity_def default_entity_def Let_def)
  then show "\<exists>e. ce_subject_process (fst (Ingest demo_reg_env demo_exit_canonical demo_registry)) = Some e \<and>
     pr_exec_path e = [] \<and> pr_cmdline e = [] \<and> pr_cwd e = [] \<and> pr_parent_comm e = [] \<and>
     pr_start_time_ticks e = 0"
    by (simp add: Ingest_registry(3) [OF p] ingest_action_def f(1,2) ingest_hint_def MarkExited_def
        RetireIndex_def Let_def)
qed

definition demo_exit_line :: string where
  "demo_exit_line = the (serialized_line (CanonicalEvent.extend
     ((default_canonical (ProcessEv demo_exit_event))\<lparr>ce_subject := \<lparr>er_kind = EkProcess, er_id = 1\<rparr>\<rparr>)
     \<lparr>ce_subject_process = Some default_entity\<rparr>))"

lemma demo_exit_line_short: "length demo_exit_line < 1000"
  by code_simp

lemma demo_exit_line_of:
  assumes "er_id (ce_subject (fst (Ingest demo_reg_env demo_exit_canonical r))) = 1"
    and "er_id (ce_object_ref (fst (Ingest demo_reg_env demo_exit_canonical r))) = 0"
    and "\<exists>e. ce_subject_process (fst (Ingest demo_reg_env demo_exit_canonical r)) = Some e \<and>
     pr_exec_path e = [] \<and> pr_cmdline e = [] \<and> pr_cwd e = [] \<and> pr_parent_comm e = [] \<and>
     pr_start_time_ticks e = 0"
  shows "serialized_line (fst (Ingest demo_reg_env demo_exit_canonical r)) = Some demo_exit_line"
proof -
  have comm: "\<exists>s. JsonEscape_c (hdr_comm demo_exit_header) = Some s"
    by (simp add: JsonEscape_c_def c_str_def demo_exit_header_def)
  have "ce_raw (fst (Ingest demo_reg_env demo_exit_canonical r)) = ProcessEv demo_exit_event"
    by (simp add: Ingest_raw demo_exit_canonical_fields)
  then show ?thesis
    using assms comm
    by (auto simp: demo_exit_line_def serialized_line_def WriteEventBody_def WriteHeader_def
        WriteProcessInfo_def WriteProcessBody_def pe_str_def pe_ticks_def CanonicalEvent.defs
        default_canonical_def default_entity_def default_entity_ref_def demo_exit_event_def Let_def)
qed

lemmas demo_exit_serialized = demo_exit_line_of [OF demo_ingested]

section \<open>One record\<close>

text \<open>
  C7. A record's whole way: whatever the kernel side submits, unless it is the collector's own, is
  decoded, normalised and resolved by the registry, and its line is pushed on the log the file
  shows; received and decoded go up by one and nothing else changes.
\<close>

theorem record_reaches_the_file:
  assumes "bpf_loaded s0" and "bpf_runs s0 s" and "e \<in> set (events s)"
    and "hdr_tgid (ev_hdr e) \<noteq> self_tgid" and "sink_shows (pl_sink p) ls" and "sink_env_ok senv"
    and "\<forall>c line. Normalize e = Some c \<longrightarrow>
      serialized_line (fst (Ingest renv c (pl_registry p))) = Some line \<longrightarrow> length line < 2 ^ 63"
  shows "\<exists>c line p'. Normalize e = Some c \<and> ce_raw (fst (Ingest renv c (pl_registry p))) = e \<and>
    serialized_line (fst (Ingest renv c (pl_registry p))) = Some line \<and>
    on_record renv senv self_tgid (enc_event gap e @ rest) p = Some p' \<and>
    sink_text (pl_sink p') = concat (log_write (max_file_size_bytes (pl_sink p)) line ls) \<and>
    pl_registry p' = snd (Ingest renv c (pl_registry p)) \<and>
    pl_metrics p' = IncrementDecoded (IncrementReceived (pl_metrics p))"
proof -
  note d = submitted_decodes_and_terminates [OF assms(1-3)]
  obtain c where c: "Normalize e = Some c" using Normalize_defined [OF d(2)] by blast
  obtain c' r where ing: "Ingest renv c (pl_registry p) = (c', r)" by fastforce
  have raw: "ce_raw c' = e"
    using Ingest_raw [of renv c "pl_registry p"] ing Normalize_frame(1) [OF c] by simp
  then obtain line where line: "serialized_line c' = Some line"
    using serialized_line_defined [of c'] d(2) by blast
  then have "length line < 2 ^ 63" using assms(7) c ing by simp
  then obtain js where js: "Write senv c' (pl_sink p) = Some js"
    "sink_shows js (log_write (max_file_size_bytes (pl_sink p)) line ls)"
    using Write_shows [OF assms(5,6) line] by blast
  show ?thesis
    using on_record_foreign [OF d(1) assms(4) c ing js(1)] c ing raw line js(2)
    by (simp add: sink_shows_def)
qed

theorem record_reaches_the_file_witness:
  "\<exists>p'. on_record demo_reg_env demo_sink_env 7 (enc_event (\<lambda>_. 0) demo_record) demo_pipeline = Some p' \<and>
    sink_text (pl_sink p') = demo_exit_line \<and> m_decoded (pl_metrics p') = 1"
proof -
  have "length demo_exit_line < 2 ^ 63" using demo_exit_line_short by simp
  moreover have "hdr_tgid (ev_hdr demo_record) \<noteq> 7"
    by (simp add: demo_record_eq demo_exit_event_def demo_exit_header_def)
  ultimately show ?thesis
    using record_reaches_the_file [OF demo_loaded demo_runs, of demo_record 7 demo_pipeline "[[]]"
        demo_sink_env demo_reg_env "\<lambda>_. 0" "[]"]
      demo_sink_shows demo_sink_env_ok demo_exit_line_short
    by (auto simp: demo_exit_events demo_pipeline_def demo_normalized demo_exit_serialized
        demo_sink_limit log_write_def log_kept_def Metrics_new_def IncrementDecoded_def
        IncrementReceived_def)
qed

section \<open>A stream of records\<close>

lemma deliver_all_fresh:
  assumes "bpf_loaded s0" and "delivered_from s0 ds"
    and "1 + 2 * length ds < 2 ^ 64" and "pl_registry p = empty_registry" and "pl_metrics p = Metrics_new"
  shows "\<exists>p'. deliver_all self_tgid ds p = Some p' \<and> ProcessCount (pl_registry p') \<le> 8192 \<and>
    pl_metrics p' = \<lparr>m_received = of_nat (length ds), m_decoded = of_nat (length ds), m_dropped = 0\<rparr>"
proof -
  have "reg_ok (pl_registry p)" and "unat (next_id (pl_registry p)) = 1"
    using assms(4) reg_ok_empty by (simp_all add: empty_registry_def)
  then show ?thesis
    using deliver_all_defined [OF assms(1,2), of p self_tgid] assms(3,5) reg_invD(2,3)
    unfolding ProcessCount_def kMaxEntries_def
    by (fastforce simp: Metrics_new_def)
qed

text \<open>
  Nothing is lost between kernel and registry: over any sequence of submitted records, each
  followed by any bytes, no stage reads outside an array, every record counts as received and
  decoded, none as dropped, and the registry stays within its cap.
\<close>

theorem delivered_records_are_all_decoded:
  assumes "bpf_loaded s0" and "delivered_from s0 ds"
    and "1 + 2 * length ds < 2 ^ 64" and "pl_registry p = empty_registry" and "pl_metrics p = Metrics_new"
  shows "\<exists>p'. deliver_all self_tgid ds p = Some p' \<and> ProcessCount (pl_registry p') \<le> 8192 \<and>
    pl_metrics p' = \<lparr>m_received = of_nat (length ds), m_decoded = of_nat (length ds), m_dropped = 0\<rparr>"
  by (rule deliver_all_fresh [OF assms])

text \<open>
  C28. The counters balance for any bytes whatsoever: received is decoded plus dropped, and a
  delivery that changes the registry or the file was decoded and was not the collector's own.
\<close>

theorem counters_balance:
  assumes "deliver_all self_tgid ds p = Some p'"
    and "m_received (pl_metrics p) = m_decoded (pl_metrics p) + m_dropped (pl_metrics p)"
  shows "m_received (pl_metrics p') = m_decoded (pl_metrics p') + m_dropped (pl_metrics p') \<and>
    m_received (pl_metrics p') = m_received (pl_metrics p) + of_nat (length ds) \<and>
    ((pl_registry p' \<noteq> pl_registry p \<or> pl_sink p' \<noteq> pl_sink p) \<longrightarrow>
       (\<exists>(renv, senv, raw) \<in> set ds. \<exists>e. Decode raw = Some e \<and> hdr_tgid (ev_hdr e) \<noteq> self_tgid))"
  using assms
proof (induction ds arbitrary: p)
  case (Cons d ds)
  obtain renv senv raw where d: "d = (renv, senv, raw)" using prod_cases3 by blast
  obtain p1 where p1: "on_record renv senv self_tgid raw p = Some p1"
    "deliver_all self_tgid ds p1 = Some p'"
    using Cons.prems(1) d by (auto split: option.splits)
  have step: "m_received (pl_metrics p1) = m_decoded (pl_metrics p1) + m_dropped (pl_metrics p1) \<and>
    m_received (pl_metrics p1) = m_received (pl_metrics p) + 1 \<and>
    ((pl_registry p1 \<noteq> pl_registry p \<or> pl_sink p1 \<noteq> pl_sink p) \<longrightarrow>
       (\<exists>e. Decode raw = Some e \<and> hdr_tgid (ev_hdr e) \<noteq> self_tgid))"
    by (rule on_record_counts [OF p1(1) Cons.prems(2)])
  note ih = Cons.IH [OF p1(2) conjunct1 [OF step]]
  have "\<exists>(renv, senv, raw) \<in> set (d # ds). \<exists>e. Decode raw = Some e \<and> hdr_tgid (ev_hdr e) \<noteq> self_tgid"
    if "pl_registry p' \<noteq> pl_registry p \<or> pl_sink p' \<noteq> pl_sink p"
  proof (cases "pl_registry p1 = pl_registry p \<and> pl_sink p1 = pl_sink p")
    case True
    then show ?thesis using that ih by auto
  next
    case False
    then show ?thesis using step d by auto
  qed
  moreover have "m_received (pl_metrics p') = m_received (pl_metrics p) + of_nat (length (d # ds))"
  proof -
    have "m_received (pl_metrics p') = m_received (pl_metrics p1) + of_nat (length ds)"
      and "m_received (pl_metrics p1) = m_received (pl_metrics p) + 1"
      using ih step by blast+
    then show ?thesis by simp
  qed
  ultimately show ?case using ih by blast
qed simp

theorem counters_balance_witness:
  "\<exists>p'. deliver_all 7 [(demo_reg_env, demo_sink_env, replicate 40 0)] demo_pipeline = Some p' \<and>
    m_received (pl_metrics p') = m_decoded (pl_metrics p') + m_dropped (pl_metrics p')"
proof -
  have "Decode (replicate 40 0) = None" by (simp add: Decode_def)
  then have run: "deliver_all 7 [(demo_reg_env, demo_sink_env, replicate 40 0)] demo_pipeline =
      Some (demo_pipeline\<lparr>pl_metrics := IncrementDropped (IncrementReceived Metrics_new)\<rparr>)"
    by (simp add: on_record_malformed demo_pipeline_def)
  show ?thesis
    using counters_balance [OF run] run by (auto simp: demo_pipeline_def Metrics_new_def)
qed

end
