(* ===== verification/Main_Properties.thy ===== *)
theory Main_Properties
  imports Main_Program Pipeline_Properties
begin

text \<open>
  The whole program: what a clean start guarantees about everything the kernel side then submits,
  that the program ends once it is told to, and what is then in the file.
\<close>

section \<open>A concrete run of the whole program\<close>

text \<open>The kernel side after a clean start, and an exit of another process under it.\<close>

definition demo_run :: kstate where
  "demo_run = snd (on_sched_exit demo_env demo_kernel)"

lemma demo_kernel_facts:
  "suppress_tgid demo_kernel 0 = Some 7" "is_process_probe_enabled demo_kernel PROCESS_EXIT"
  "bpf_loaded demo_kernel"
proof -
  note k = clean_start_kernel [OF demo_started_ok]
  show "suppress_tgid demo_kernel 0 = Some 7" using k(1) by (simp add: demo_collector_env_def)
  obtain pt where "event_ok pt demo_record"
    using bpf_runs_invariant [OF demo_runs demo_loaded] demo_exit_events by auto
  from k(2) [OF this] have "probe_enabled demo_kernel demo_record"
    by (simp add: demo_started_config demo_record_eq demo_config_def default_runtime_config_def)
  then show "is_process_probe_enabled demo_kernel PROCESS_EXIT"
    by (simp add: demo_record_eq demo_exit_event_def)
  show "bpf_loaded demo_kernel" using started_loaded [OF demo_started_ok(1)] demo_started_ok(3) by simp
qed

lemma demo_run_runs: "bpf_runs demo_kernel demo_run"
proof -
  have "bpf_step demo_kernel demo_run"
    unfolding demo_run_def using demo_env_ok
    by (intro bpf_step.invoke) (simp_all add: bpf_programs_def process_programs_def)
  then show ?thesis by (blast intro: bpf_runs.intros)
qed

lemma demo_run_log: "events demo_run = [demo_record]"
proof -
  have "is_event_allowed demo_env demo_kernel"
    by (simp add: is_event_allowed_def is_not_suppressed_self_def demo_kernel_facts cur_tgid_def
        is_current_pid_allowed_def is_current_uid_allowed_def demo_env_def sample_env_def)
  moreover have "reserve_process_event demo_env PROCESS_EXIT demo_kernel = (Some demo_exit_event, demo_kernel)"
    by (simp add: demo_exit_event_def demo_exit_header_def demo_env_def sample_env_def
        reserve_process_event_def fill_header_def demo_process_event_def cur_pid_def cur_tgid_def
        get_current_ppid_def zero_header_def)
  ultimately have "on_sched_exit demo_env demo_kernel =
      (0, ringbuf_submit (ProcessEv (demo_exit_event\<lparr>pe_exit_code := get_current_exit_code demo_env\<rparr>)) demo_kernel)"
    using demo_kernel_facts(2) by (simp add: on_sched_exit_def)
  moreover have "demo_exit_event\<lparr>pe_exit_code := get_current_exit_code demo_env\<rparr> = demo_exit_event"
    by (simp add: demo_exit_event_def get_current_exit_code_def demo_env_def sample_env_def)
  ultimately show ?thesis using demo_kernel_facts(3)
    by (simp add: demo_run_def ringbuf_submit_def demo_record_eq bpf_loaded_def)
qed

lemma demo_run_events: "demo_record \<in> set (events demo_run)"
  by (simp add: demo_run_log)

section \<open>The config in force\<close>

text \<open>
  C6. A start that succeeds and reports no degradation puts the domain and file-probe switches of the
  config file in force: whatever the kernel then does, no record is submitted for a domain or a file
  probe that the file switches off, and none of the collector's own thread group. The process, user,
  syscall and port allowlists of the same file restrict nothing, which is stated separately.
\<close>

theorem clean_start_enforces_switches:
  assumes "Start env True c = (True, c')" and "\<not> sr_degraded (cl_report c')" and "ce_pid env \<noteq> 0"
    and "cl_kernel c' = Some k" and "bpf_runs k s" and "e \<in> set (events s)"
  shows "switched_on (started_config env) e \<and> hdr_tgid (ev_hdr e) \<noteq> ce_pid env"
proof -
  note k = clean_start_kernel [OF assms(1,2,4)]
  have "bpf_loaded k" using started_loaded [OF assms(1)] assms(4) by simp
  then obtain benv where b: "event_ok (env_pid_tgid benv) e" "is_event_allowed benv k" "probe_enabled k e"
    using bpf_runs_invariant [OF assms(5)] assms(6) by blast
  have "hdr_tgid (ev_hdr e) \<noteq> ce_pid env"
    using b k(1) assms(3) event_ok_header
    by (auto simp: is_event_allowed_def is_not_suppressed_self_def cur_tgid_def)
  then show ?thesis using b k(2) by blast
qed

theorem clean_start_enforces_switches_witness:
  "switched_on demo_config demo_record \<and> hdr_tgid (ev_hdr demo_record) \<noteq> 7"
  using clean_start_enforces_switches [OF demo_started_ok(1,2) _ demo_started_ok(3) demo_run_runs demo_run_events]
  unfolding demo_started_config by (simp add: demo_collector_env_def)

section \<open>What the sink is given\<close>

text \<open>The events that reach the sink, with what the system answers to each write.\<close>

fun resolve_all :: "u32 \<Rightarrow> delivery list \<Rightarrow> EntityRegistry \<Rightarrow> (sink_env \<times> ResolvedEvent) list" where
  "resolve_all self_tgid [] r = []"
| "resolve_all self_tgid ((renv, senv, raw) # ds) r =
     (case Decode raw of
        None \<Rightarrow> resolve_all self_tgid ds r
      | Some event \<Rightarrow>
          if IsSelfEvent event self_tgid then resolve_all self_tgid ds r
          else case Normalize event of
                 None \<Rightarrow> resolve_all self_tgid ds r
               | Some canonical \<Rightarrow>
                   let (resolved, r') = Ingest renv canonical r
                   in (senv, resolved) # resolve_all self_tgid ds r')"

lemma deliver_all_writes:
  "deliver_all self_tgid ds p = Some p' \<Longrightarrow>
     write_all Write (resolve_all self_tgid ds (pl_registry p)) (pl_sink p) = Some (pl_sink p')"
proof (induction ds arbitrary: p)
  case (Cons d ds)
  obtain renv senv raw where d: "d = (renv, senv, raw)" using prod_cases3 by blast
  obtain p1 where p1: "on_record renv senv self_tgid raw p = Some p1" "deliver_all self_tgid ds p1 = Some p'"
    using Cons.prems d by (auto split: option.splits)
  note ih = Cons.IH [OF p1(2)]
  show ?case
  proof (cases "Decode raw")
    case None
    then show ?thesis using ih p1(1) d by (simp add: on_record_malformed) force
  next
    case (Some e)
    show ?thesis
    proof (cases "hdr_tgid (ev_hdr e) = self_tgid")
      case True
      then show ?thesis using ih p1(1) d Some on_record_self [OF Some True, of renv senv p]
        by (auto simp: IsSelfEvent_def)
    next
      case False
      then show ?thesis using ih p1(1) d Some
        by (auto simp: on_record_def IsSelfEvent_def Allow_def Let_def split: option.splits prod.splits)
    qed
  qed
qed simp

section \<open>The program ends, and the file is complete\<close>

lemma JsonSink_destroy_closes: "\<not> js_open (JsonSink_destroy env js)"
  by (simp add: JsonSink_destroy_def stream_close_def)

lemma main_runs:
  assumes "ready (fst (BuildSink env))" and "Start (me_collector env) True new_collector = (True, c)"
    and "\<forall>i < n. pr_running (me_rounds env i)" and "\<not> pr_running (me_rounds env n)"
    and "deliver_all (ce_pid (me_collector env)) (rounds_ready env 0 n)
      \<lparr>pl_metrics = Metrics_new, pl_registry = empty_registry, pl_sink = fst (BuildSink env)\<rparr> = Some p"
  shows "\<exists>st. main env = Some (0, st) \<and> pl_metrics (ms_pipeline st) = pl_metrics p \<and>
    pl_registry (ms_pipeline st) = pl_registry p \<and>
    pl_sink (ms_pipeline st) = JsonSink_destroy (me_sink_close env) (pl_sink p) \<and>
    released (ms_collector st)"
proof -
  obtain sink message where b: "BuildSink env = (sink, message)" by fastforce
  have c: "delivers c" using Start_success [OF assms(2)] by (auto simp: delivers_def)
  define logs where "logs = message # (case ReadStartupReport c of None \<Rightarrow> [] | Some r \<Rightarrow> [PrintStartupReport r])"
  define st where "st = \<lparr>ms_pipeline = \<lparr>pl_metrics = Metrics_new, pl_registry = empty_registry, pl_sink = sink\<rparr>,
    ms_collector = c, ms_next_report = me_start_now env + kReportIntervalNs, ms_log = logs\<rparr>"
  have main: "main env = map_option (\<lambda>st. (0, main_shutdown env st)) (main_loop env 0 st)"
    using assms(1,2) b
    by (cases "ReadStartupReport c") (simp_all add: main_def st_def logs_def Let_def)
  obtain st' where "main_loop env 0 st = Some st'" and "ms_pipeline st' = p"
    using main_loop_delivers [of st 0 n env p] c assms(3-5) b by (auto simp: st_def)
  then show ?thesis
    unfolding main by (simp add: main_shutdown_def close_sink_def Let_def)
qed

text \<open>
  C8. The program ends: once the start has succeeded and a signal has cleared the flag, however many
  rounds later, \<open>main\<close> returns 0 after exactly the rounds before it. Every record those rounds handed
  to the callback, all of them records that the kernel side had submitted, was received and decoded,
  none dropped; the registry is within its cap, the collector has let go of everything and the file
  is closed. What the kernel side submits after the last round is not read any more.
\<close>

theorem main_ends_after_signal:
  assumes "ready (fst (BuildSink env))" and "Start (me_collector env) True new_collector = (True, c)"
    and "cl_kernel c = Some k" and "\<forall>i < n. pr_running (me_rounds env i)"
    and "\<not> pr_running (me_rounds env n)" and "delivered_from k (rounds_ready env 0 n)"
    and "1 + 2 * length (rounds_ready env 0 n) < 2 ^ 64"
  shows "\<exists>st. main env = Some (0, st) \<and>
    pl_metrics (ms_pipeline st) = \<lparr>m_received = of_nat (length (rounds_ready env 0 n)),
      m_decoded = of_nat (length (rounds_ready env 0 n)), m_dropped = 0\<rparr> \<and>
    ProcessCount (pl_registry (ms_pipeline st)) \<le> 8192 \<and> released (ms_collector st) \<and>
    \<not> js_open (pl_sink (ms_pipeline st))"
proof -
  let ?p = "\<lparr>pl_metrics = Metrics_new, pl_registry = empty_registry, pl_sink = fst (BuildSink env)\<rparr>"
  have k: "bpf_loaded k" using started_loaded [OF assms(2)] assms(3) by simp
  obtain p where p: "deliver_all (ce_pid (me_collector env)) (rounds_ready env 0 n) ?p = Some p"
    "ProcessCount (pl_registry p) \<le> 8192"
    "pl_metrics p = \<lparr>m_received = of_nat (length (rounds_ready env 0 n)),
       m_decoded = of_nat (length (rounds_ready env 0 n)), m_dropped = 0\<rparr>"
    using deliver_all_fresh [OF k assms(6,7), of ?p] by auto
  then show ?thesis
    using main_runs [OF assms(1,2,4,5) p(1)] JsonSink_destroy_closes by auto
qed

text \<open>One round with one record, then the signal.\<close>

definition demo_main :: main_env where
  "demo_main = \<lparr>me_collector = demo_collector_env, me_disk = (\<lambda>_. None),
     me_sink_open = demo_sink_env, me_sink_close = demo_sink_env, me_start_now = 0,
     me_rounds = (\<lambda>i. if i = 0
       then \<lparr>pr_running = True, pr_ready = [(demo_reg_env, demo_sink_env, enc_event (\<lambda>_. 0) demo_record)],
             pr_kernel = demo_run, pr_now = 0\<rparr>
       else \<lparr>pr_running = False, pr_ready = [], pr_kernel = demo_run, pr_now = 0\<rparr>)\<rparr>"

lemma demo_main_config: "LoadSinkRuntimeConfig (Some (config_text demo_config)) = default_sink_config"
  by code_simp

lemma demo_main_sink:
  "fst (BuildSink demo_main) = JsonSink_new demo_sink_env None (100 * 1024 * 1024)"
  by (simp add: BuildSink_def demo_main_def demo_collector_env_def demo_main_config
      default_sink_config_def Let_def)

lemma demo_main_shows: "sink_shows (fst (BuildSink demo_main)) [[]]"
  using JsonSink_new_shows [of demo_sink_env None "100 * 1024 * 1024"]
  by (simp add: demo_main_sink demo_sink_env_def)

lemma demo_main_rounds:
  "rounds_ready demo_main 0 1 = [(demo_reg_env, demo_sink_env, enc_event (\<lambda>_. 0) demo_record)]"
  by (simp add: rounds_ready_def demo_main_def)

lemma demo_main_start:
  "Start (me_collector demo_main) True new_collector = (True, demo_started)"
  "ce_pid (me_collector demo_main) = 7"
  using demo_started_ok(1) by (simp_all add: demo_main_def demo_collector_env_def)

lemma demo_main_delivered: "delivered_from demo_kernel (rounds_ready demo_main 0 1)"
  unfolding demo_main_rounds by (rule delivered_from_one [OF demo_iter_ok demo_run_runs demo_run_events])

lemma demo_main_flags: "\<forall>i < 1. pr_running (me_rounds demo_main i)" "\<not> pr_running (me_rounds demo_main 1)"
  by (simp_all add: demo_main_def)

theorem main_ends_after_signal_witness:
  "\<exists>st. main demo_main = Some (0, st) \<and> m_decoded (pl_metrics (ms_pipeline st)) = 1"
  using main_ends_after_signal [OF sink_showsD(1) [OF demo_main_shows] demo_main_start(1)
      demo_started_ok(3) demo_main_flags demo_main_delivered]
  unfolding demo_main_rounds by auto

lemma destroyed_file:
  assumes "sink_shows js ls" and "si_force_ok env"
  shows "js_file (JsonSink_destroy env js) = Some (concat ls)"
  using sink_showsD(2,3,4) [OF assms(1)] assms(2)
  by (simp add: JsonSink_destroy_def ForceFlush_def stream_close_def stream_flush_def file_content_def)

text \<open>
  When the program has ended and the system granted the sink's requests, the file holds exactly the
  log of what was there before and of one line for each foreign record, in the order of delivery.
\<close>

lemma file_complete:
  assumes "sink_shows (fst (BuildSink env)) ls"
    and "Start (me_collector env) True new_collector = (True, c)" and "cl_kernel c = Some k"
    and "\<forall>i < n. pr_running (me_rounds env i)" and "\<not> pr_running (me_rounds env n)"
    and "delivered_from k (rounds_ready env 0 n)" and "1 + 2 * length (rounds_ready env 0 n) < 2 ^ 64"
    and "writable_events (resolve_all (ce_pid (me_collector env)) (rounds_ready env 0 n) empty_registry)"
    and "si_force_ok (me_sink_close env)"
  shows "\<exists>st. main env = Some (0, st) \<and>
    js_file (pl_sink (ms_pipeline st)) = Some (concat (fold
      (log_write (max_file_size_bytes (fst (BuildSink env))))
      (event_lines (resolve_all (ce_pid (me_collector env)) (rounds_ready env 0 n) empty_registry)) ls))"
proof -
  let ?self = "ce_pid (me_collector env)" and ?sink = "fst (BuildSink env)"
  let ?p = "\<lparr>pl_metrics = Metrics_new, pl_registry = empty_registry, pl_sink = ?sink\<rparr>"
  let ?log = "fold (log_write (max_file_size_bytes ?sink))
    (event_lines (resolve_all ?self (rounds_ready env 0 n) empty_registry)) ls"
  have k: "bpf_loaded k" using started_loaded [OF assms(2)] assms(3) by simp
  obtain p where p: "deliver_all ?self (rounds_ready env 0 n) ?p = Some p"
    using deliver_all_fresh [OF k assms(6,7), of ?p] by auto
  have "sink_shows (pl_sink p) ?log"
    using json_sink.write_all_shows [OF assms(1) writable_eventsD [OF assms(8)]]
      deliver_all_writes [OF p] by (simp add: event_lines_def)
  then show ?thesis
    using main_runs [OF sink_showsD(1) [OF assms(1)] assms(2,4,5) p] destroyed_file assms(9) by auto
qed

text \<open>The line of the demo record, resolved by a registry that knows nothing yet.\<close>

lemma demo_fresh_serialized:
  "serialized_line (fst (Ingest demo_reg_env demo_exit_canonical empty_registry)) = Some demo_exit_line"
proof -
  note f = demo_exit_canonical_fields
  let ?a = "ce_actor demo_exit_canonical" and ?t = "ce_ts_ns demo_exit_canonical"
  have ev: "EvictIfNeeded demo_reg_env (inserted demo_reg_env 100 ?a ?t empty_registry) =
      inserted demo_reg_env 100 ?a ?t empty_registry"
    by (simp add: EvictIfNeeded_def inserted_def empty_registry_def kMaxEntries_def)
  have p: "ResolveProcess demo_reg_env ?a ?t (ce_action demo_exit_canonical = CaProcessExeced) empty_registry =
      (1, inserted demo_reg_env 100 ?a ?t empty_registry)"
    using ResolveProcess_new [of ?a empty_registry] f(3) ev
    by (simp add: CreateProcess_eq) (simp add: empty_registry_def)
  let ?e = "new_entity demo_reg_env 100 ?a ?t 1"
  have e: "pr_exec_path ?e = []" "pr_cmdline ?e = []" "pr_cwd ?e = []" "pr_parent_comm ?e = []"
    "pr_start_time_ticks ?e = 0"
    by (simp_all add: new_entity_def RefreshRich_def refresh_exe_def refresh_cwd_def
        refresh_cmdline_def refresh_comm_def refresh_parent_comm_def refresh_start_time_def
        ReadProcSymlink_def ReadTextFile_def NormalizeCmdline_def RStrip_def pop_back_while_eq
        ReadStartTimeTicks_def ParseStartTimeTicks_def UpdateFast_def default_entity_def
        demo_reg_env_def Let_def)
  have sub: "er_id (ce_subject (fst (Ingest demo_reg_env demo_exit_canonical empty_registry))) = 1"
    by (simp add: Ingest_registry(2) [OF p])
  have obj: "er_id (ce_object_ref (fst (Ingest demo_reg_env demo_exit_canonical empty_registry))) = 0"
    using f(4) by (simp add: Ingest_def ingest_action_def f(1) Let_def CanonicalEvent.defs split: prod.splits)
  have "\<exists>e'. ce_subject_process (fst (Ingest demo_reg_env demo_exit_canonical empty_registry)) = Some e' \<and>
     pr_exec_path e' = [] \<and> pr_cmdline e' = [] \<and> pr_cwd e' = [] \<and> pr_parent_comm e' = [] \<and>
     pr_start_time_ticks e' = 0"
    unfolding Ingest_registry(3) [OF p]
    using e by (simp add: ingest_action_def f(1,2) ingest_hint_def
        MarkExited_def RetireIndex_def Let_def inserted_def empty_registry_def)
  then show ?thesis by (rule demo_exit_line_of [OF sub obj])
qed

lemma demo_resolved:
  "resolve_all 7 (rounds_ready demo_main 0 1) empty_registry =
     [(demo_sink_env, fst (Ingest demo_reg_env demo_exit_canonical empty_registry))]"
proof -
  have "Decode (enc_event (\<lambda>_. 0) demo_record) = Some demo_record"
    using submitted_decodes_and_terminates(1) [OF demo_kernel_facts(3) demo_run_runs demo_run_events, of "\<lambda>_. 0" "[]"]
    by simp
  moreover have "hdr_tgid (ev_hdr demo_record) \<noteq> 7"
    by (simp add: demo_record_eq demo_exit_event_def demo_exit_header_def)
  ultimately show ?thesis
    unfolding demo_main_rounds by (simp add: IsSelfEvent_def demo_normalized split_beta)
qed

lemma demo_main_writable:
  "writable_events (resolve_all (ce_pid (me_collector demo_main)) (rounds_ready demo_main 0 1) empty_registry)"
  using demo_fresh_serialized demo_exit_line_short demo_sink_env_ok
  unfolding demo_main_start(2) demo_resolved writable_events_def by simp

lemma demo_main_limit: "max_file_size_bytes (fst (BuildSink demo_main)) = 104857600"
  by (simp add: demo_main_sink JsonSink_new_def OpenFileAppend_def stream_open_def Let_def)

text \<open>
  C29. When the sink cannot be opened or the collector cannot be started, \<open>main\<close> returns 1, nothing
  was received, no program is attached and the registry is empty.
\<close>

theorem main_reports_failure:
  assumes "\<not> ready (fst (BuildSink env)) \<or> \<not> fst (Start (me_collector env) True new_collector)"
  shows "\<exists>st. main env = Some (1, st) \<and> released (ms_collector st) \<and>
    pl_metrics (ms_pipeline st) = Metrics_new \<and> pl_registry (ms_pipeline st) = empty_registry"
proof (cases "ready (fst (BuildSink env))")
  case False
  then show ?thesis
    by (simp add: main_def Let_def split_beta close_sink_def released_new)
next
  case True
  obtain c where c: "Start (me_collector env) True new_collector = (False, c)"
    using assms True by (cases "Start (me_collector env) True new_collector") auto
  then have "released c" using failed_start_released(1) [OF released_new] by blast
  then show ?thesis
    using True c by (cases "ReadStartupReport c") (simp_all add: main_def Let_def split_beta close_sink_def)
qed

theorem main_reports_failure_witness:
  "\<exists>st. main (demo_main\<lparr>me_sink_open := demo_sink_env\<lparr>si_open_app := False\<rparr>\<rparr>) = Some (1, st) \<and>
    released (ms_collector st)"
proof -
  have "\<not> ready (fst (BuildSink (demo_main\<lparr>me_sink_open := demo_sink_env\<lparr>si_open_app := False\<rparr>\<rparr>)))"
    by (simp add: BuildSink_def JsonSink_new_def OpenFileAppend_def stream_open_def Let_def)
  then show ?thesis using main_reports_failure by blast
qed

end
