(* ===== verification/End_To_End.thy ===== *)
theory End_To_End
  imports Main_Properties
begin

text \<open>
  Kernel and user side together: the rounds of the polling loop drain the log of a running kernel
  side in order, \<open>main\<close> writes one line for each event of that log, and what it leaves in the file are
  the newest of the lines, all of them while they fit the size limit.
\<close>

section \<open>Polling a running kernel side\<close>

text \<open>The bytes handed to the callback are the images of the events, in order.\<close>

definition hands_over :: "delivery list \<Rightarrow> event_variant list \<Rightarrow> bool" where
  "hands_over ds es \<longleftrightarrow>
     list_all2 (\<lambda>(renv, senv, raw) e. iter_ok renv \<and> (\<exists>gap. raw = enc_event gap e)) ds es"

text \<open>
  \<open>polled env s0 n s\<close>: in each of the first \<open>n\<close> rounds of \<open>env\<close> the kernel side went on from where
  it was, starting at \<open>s0\<close> and ending at \<open>s\<close>, and the round consumed what it had submitted since.
\<close>

inductive polled :: "main_env \<Rightarrow> kstate \<Rightarrow> nat \<Rightarrow> kstate \<Rightarrow> bool" for env s0 where
  none: "polled env s0 0 s0"
| round: "polled env s0 n s \<Longrightarrow> bpf_runs s s' \<Longrightarrow> pr_kernel (me_rounds env n) = s' \<Longrightarrow>
    hands_over (pr_ready (me_rounds env n)) (drop (length (events s)) (events s')) \<Longrightarrow>
    polled env s0 (Suc n) s'"

inductive_cases polled_SucE: "polled env s0 (Suc n) s"

lemma bpf_runs_trans: "bpf_runs s' s'' \<Longrightarrow> bpf_runs s s' \<Longrightarrow> bpf_runs s s''"
  by (induction rule: bpf_runs.induct) (auto intro: bpf_runs.step)

lemma bpf_runs_grow:
  assumes "bpf_runs s s'" and "tables_ok s"
  shows "tables_ok s' \<and> (\<exists>es. events s' = events s @ es)"
  using assms
proof (induction rule: bpf_runs.induct)
  case (step s s' s'')
  then have ok: "tables_ok s'" by blast
  obtain env where "handler_step_ok env s' (0, s'')" using bpf_step_handler [OF step.hyps(2) ok] by blast
  then show ?case using step by (auto simp: handler_step_ok_def)
qed simp

lemma polled_runs: "polled env s0 n s \<Longrightarrow> bpf_runs s0 s"
  by (induction rule: polled.induct) (auto intro: bpf_runs.start bpf_runs_trans)

lemma polled_ready:
  assumes "polled env s0 n s" and "bpf_loaded s0"
  shows "hands_over (rounds_ready env 0 n) (events s)"
  using assms
proof (induction rule: polled.induct)
  case none
  then show ?case by (simp add: rounds_ready_def hands_over_def bpf_loaded_def)
next
  case (round n s s')
  have "tables_ok s" using bpf_runs_invariant [OF polled_runs [OF round.hyps(1)] round.prems] by blast
  then obtain es where es: "events s' = events s @ es" using bpf_runs_grow [OF round.hyps(2)] by blast
  have "hands_over (rounds_ready env 0 n @ pr_ready (me_rounds env n)) (events s @ es)"
    using round.IH [OF round.prems] round.hyps(4) es unfolding hands_over_def
    by (intro list_all2_appendI) simp_all
  then show ?case using es by (simp add: rounds_ready_def)
qed

lemma hands_over_delivered:
  assumes "hands_over ds es" and "bpf_runs s0 s" and "set es \<subseteq> set (events s)"
  shows "delivered_from s0 ds"
  using assms(1,3) unfolding hands_over_def
proof (induction rule: list_all2_induct)
  case Nil
  then show ?case by (simp add: delivered_from_def)
next
  case (Cons d ds e es)
  obtain renv senv raw where d: "d = (renv, senv, raw)" using prod_cases3 by blast
  have "delivered_from s0 [d]"
    using Cons.hyps(1) Cons.prems assms(2) delivered_from_one unfolding d by fastforce
  moreover have "delivered_from s0 ds" using Cons by simp
  ultimately show ?case using delivered_from_append [of s0 "[d]" ds] by simp
qed

section \<open>What is resolved\<close>

definition foreign_events :: "u32 \<Rightarrow> event_variant list \<Rightarrow> event_variant list" where
  "foreign_events self_tgid es = filter (\<lambda>e. hdr_tgid (ev_hdr e) \<noteq> self_tgid) es"

lemma resolve_all_raw:
  assumes "hands_over ds es"
    and "\<forall>e \<in> set es. (\<forall>gap. Decode (enc_event gap e) = Some e) \<and>
      (\<forall>bs \<in> set (event_strings e). nul_terminated bs)"
  shows "map (\<lambda>ev. ce_raw (snd ev)) (resolve_all self_tgid ds r) = foreign_events self_tgid es"
  using assms unfolding hands_over_def
proof (induction arbitrary: r rule: list_all2_induct)
  case Nil
  then show ?case by (simp add: foreign_events_def)
next
  case (Cons d ds e es)
  obtain renv senv raw where d: "d = (renv, senv, raw)" using prod_cases3 by blast
  obtain gap where "raw = enc_event gap e" using Cons.hyps(1) d by auto
  then have dec: "Decode raw = Some e" using Cons.prems by simp
  obtain c where c: "Normalize e = Some c" using Normalize_defined Cons.prems by (meson list.set_intros(1))
  have IH: "map (\<lambda>ev. ce_raw (snd ev)) (resolve_all self_tgid ds r') = foreign_events self_tgid es" for r'
    using Cons.IH Cons.prems by simp
  have "ce_raw (fst (Ingest renv c r)) = e" using Ingest_raw Normalize_frame(1) [OF c] by simp
  then show ?case
    using dec c IH unfolding d
    by (auto simp: IsSelfEvent_def foreign_events_def split_beta)
qed

section \<open>From the kernel to the file\<close>

text \<open>
  C1. From the kernel to the file: let the rounds before the signal drain the log of a kernel side
  that any programs ran on meanwhile, and let the system grant what the sink asks for. Then \<open>main\<close>
  ends, and each event of that log that is not the collector's own was written as one line, in the
  order of submission, none skipped, none twice. The file holds the newest lines of what was there
  before followed by these, whole and in order, always the last one; the older ones are gone with the
  files that a rollover replaced. When the old text and the new lines together fit the size limit, or
  there is none, nothing is gone: the file is the old text followed by a line for every event.
\<close>

theorem newest_events_reach_the_file:
  assumes "sink_shows (fst (BuildSink env)) ls"
    and "Start (me_collector env) True new_collector = (True, c)" and "cl_kernel c = Some k"
    and "\<forall>i < n. pr_running (me_rounds env i)" and "\<not> pr_running (me_rounds env n)"
    and "polled env k n s" and "1 + 2 * length (events s) < 2 ^ 64"
    and "writable_events (resolve_all (ce_pid (me_collector env)) (rounds_ready env 0 n) empty_registry)"
    and "si_force_ok (me_sink_close env)"
  defines "limit \<equiv> max_file_size_bytes (fst (BuildSink env))"
  shows "\<exists>st evs lines d. main env = Some (0, st) \<and>
    map ce_raw evs = foreign_events (ce_pid (me_collector env)) (events s) \<and>
    map serialized_line evs = map Some lines \<and>
    js_file (pl_sink (ms_pipeline st)) = Some (concat (drop d (ls @ lines))) \<and>
    drop d (ls @ lines) = fold (log_write limit) lines ls \<and>
    (lines = [] \<or> d < length (ls @ lines)) \<and>
    (limit \<noteq> 0 \<and> unat limit < length (concat (ls @ lines)) \<or> drop d (ls @ lines) = ls @ lines)"
proof -
  let ?evs = "resolve_all (ce_pid (me_collector env)) (rounds_ready env 0 n) empty_registry"
  have k: "bpf_loaded k" using started_loaded [OF assms(2)] assms(3) by simp
  note runs = polled_runs [OF assms(6)] and ready = polled_ready [OF assms(6) k]
  have del: "delivered_from k (rounds_ready env 0 n)" by (rule hands_over_delivered [OF ready runs]) simp
  have "length (rounds_ready env 0 n) = length (events s)"
    using ready unfolding hands_over_def by (rule list_all2_lengthD)
  then have "1 + 2 * length (rounds_ready env 0 n) < 2 ^ 64" using assms(7) by simp
  from file_complete [OF assms(1-5) del this assms(8,9)]
  obtain st where st: "main env = Some (0, st)" "js_file (pl_sink (ms_pipeline st)) =
      Some (concat (fold (log_write limit) (event_lines ?evs) ls))"
    unfolding limit_def by blast
  have "Decode (enc_event gap e) = Some e" if "e \<in> set (events s)" for gap e
    using submitted_decodes_and_terminates(1) [OF k runs that, of gap "[]"] by simp
  then have "map ce_raw (map snd ?evs) = foreign_events (ce_pid (me_collector env)) (events s)"
    using resolve_all_raw [OF ready] submitted_decodes_and_terminates(2) [OF k runs] by (simp add: comp_def)
  moreover have "map serialized_line (map snd ?evs) = map Some (event_lines ?evs)"
    using assms(8) by (auto simp: writable_events_def event_lines_def)
  moreover obtain d where d: "fold (log_write limit) (event_lines ?evs) ls = drop d (ls @ event_lines ?evs)"
    using json_sink.log_is_newest by blast
  moreover have "event_lines ?evs = [] \<or> d < length (ls @ event_lines ?evs)"
    using json_sink.newest_is_last d drop_eq_Nil not_le by metis
  moreover have "limit \<noteq> 0 \<and> unat limit < length (concat (ls @ event_lines ?evs)) \<or>
      drop d (ls @ event_lines ?evs) = ls @ event_lines ?evs"
    using log_keeps_all [of limit ls "event_lines ?evs"] d by force
  ultimately show ?thesis
    using st by (intro exI [of _ st] exI [of _ "map snd ?evs"] exI [of _ "event_lines ?evs"] exI [of _ d] conjI) simp_all
qed

text \<open>The demo run: one exit record in the first round.\<close>

lemma demo_polled: "polled demo_main demo_kernel 1 demo_run"
proof -
  have "polled demo_main demo_kernel (Suc 0) demo_run"
    using demo_iter_ok demo_kernel_facts(3)
    by (intro polled.round [OF polled.none demo_run_runs])
      (auto simp: demo_main_def demo_run_log hands_over_def bpf_loaded_def)
  then show ?thesis by simp
qed

theorem newest_events_reach_the_file_witness:
  "\<exists>st evs line. main demo_main = Some (0, st) \<and> map ce_raw evs = [demo_record] \<and>
     map serialized_line evs = [Some line] \<and>
     (js_file (pl_sink (ms_pipeline st)) = Some line \<or> 104857600 < length line)"
proof -
  have "1 + 2 * length (events demo_run) < 2 ^ 64" and "si_force_ok (me_sink_close demo_main)"
    unfolding demo_run_log by simp_all (simp add: demo_main_def demo_sink_env_def)
  from newest_events_reach_the_file [OF demo_main_shows demo_main_start(1) demo_started_ok(3)
      demo_main_flags demo_polled this(1) demo_main_writable this(2)]
  obtain st evs lines d where r: "main demo_main = Some (0, st)"
    "map ce_raw evs = foreign_events 7 (events demo_run)" "map serialized_line evs = map Some lines"
    "js_file (pl_sink (ms_pipeline st)) = Some (concat (drop d ([[]] @ lines)))"
    "unat (104857600 :: u64) < length (concat ([[]] @ lines)) \<or> drop d ([[]] @ lines) = [[]] @ lines"
    unfolding demo_main_limit demo_main_start(2) by blast
  have "foreign_events 7 (events demo_run) = [demo_record]"
    by (simp add: demo_run_log foreign_events_def demo_record_eq demo_exit_event_def demo_exit_header_def)
  then have raw: "map ce_raw evs = [demo_record]" using r(2) by simp
  then obtain line where "lines = [line]"
    using r(3) by (cases lines; cases "tl lines") auto
  then show ?thesis
    using r(1,3,4,5) raw by (intro exI [of _ st] exI [of _ evs] exI [of _ line] conjI) auto
qed

end
