(* ===== verification/Enricher.thy ===== *)
theory Enricher
  imports Bpf_Properties Proc_Util
begin

text \<open>
  src/enricher/enricher.{h,cpp}: the enrichment of a process event in place from /proc. The stage
  is not part of the built program, which resolves context in the registry instead. It has its own
  copies of the readers of src/util/proc_util.cpp, shown to be the same functions. The result is
  None where the code reads a char array without a NUL as a string.
\<close>

section \<open>Fixed-size strings\<close>

definition char_byte :: "char \<Rightarrow> u8" where
  "char_byte c = of_nat (of_char c)"

definition CopyToFixed :: "u8 list \<Rightarrow> string \<Rightarrow> u8 list" where
  "CopyToFixed dst src =
     (if dst = [] then dst
      else let n = (if length src < length dst - 1 then length src else length dst - 1)
           in map char_byte (take n src) @ [0] @ drop (n + 1) dst)"

definition IsEmpty :: "u8 list \<Rightarrow> bool" where
  "IsEmpty s \<longleftrightarrow> s ! 0 = 0"

section \<open>Its own readers of /proc\<close>

definition ReadProcSymlink_enricher :: "proc_fs \<Rightarrow> string \<Rightarrow> string" where
  "ReadProcSymlink_enricher fs path =
     (case fs_readlink fs path of
        None \<Rightarrow> []
      | Some target \<Rightarrow> takeWhile (\<lambda>c. c \<noteq> CHR 0x00) (take (EVENT_LOGGER_PATH_LEN - 1) target))"

definition ReadTextFile_enricher :: "proc_fs \<Rightarrow> string \<Rightarrow> string" where
  "ReadTextFile_enricher fs path =
     (case fs_read fs path of None \<Rightarrow> [] | Some contents \<Rightarrow> contents)"

definition NormalizeCmdline_enricher :: "string \<Rightarrow> string" where
  "NormalizeCmdline_enricher raw =
     (if raw = [] then raw
      else let raw = map (\<lambda>c. if c = CHR 0x00 then CHR '' '' else c) raw
           in pop_back_while (\<lambda>c. c = CHR '' '') raw)"

definition RStrip_enricher :: "string \<Rightarrow> string" where
  "RStrip_enricher s = pop_back_while (\<lambda>c. c = CHR 0x0A \<or> c = CHR 0x0D \<or> c = CHR '' '') s"

definition ParseStartTimeTicks_enricher :: "string \<Rightarrow> u64" where
  "ParseStartTimeTicks_enricher stat_line =
     (if stat_line = [] then 0
      else case rfind2 (CHR '')'') (CHR '' '') stat_line of
             None \<Rightarrow> 0
           | Some close_paren \<Rightarrow>
               if close_paren + 2 \<ge> length stat_line then 0
               else let toks = tokens (drop (close_paren + 2) stat_line)
                    in if 19 < length toks
                       then (case stoull (toks ! 19) of None \<Rightarrow> 0 | Some v \<Rightarrow> v)
                       else 0)"

text \<open>The two copies of the readers in the source have not drifted apart.\<close>

lemma enricher_readers [simp]:
  "ReadProcSymlink_enricher = ReadProcSymlink" "ReadTextFile_enricher = ReadTextFile"
  "NormalizeCmdline_enricher = NormalizeCmdline" "RStrip_enricher = RStrip"
  "ParseStartTimeTicks_enricher = ParseStartTimeTicks"
  by (simp_all add: fun_eq_iff ReadProcSymlink_enricher_def ReadTextFile_enricher_def
      NormalizeCmdline_enricher_def RStrip_enricher_def ParseStartTimeTicks_enricher_def
      ReadProcSymlink_def ReadTextFile_def NormalizeCmdline_def RStrip_def ParseStartTimeTicks_def Let_def)

section \<open>The enrichment\<close>

text \<open>What each field is given: only an empty field, and only a value that was found.\<close>

definition fill_if_empty :: "u8 list \<Rightarrow> string \<Rightarrow> u8 list" where
  "fill_if_empty old found = (if IsEmpty old then if found \<noteq> [] then CopyToFixed old found else old else old)"

definition enrich_pid :: "process_event \<Rightarrow> u32" where
  "enrich_pid ev = (if hdr_tgid (pe_hdr ev) \<noteq> 0 then hdr_tgid (pe_hdr ev) else hdr_pid (pe_hdr ev))"

definition enrich_filename :: "process_event \<Rightarrow> process_event option" where
  "enrich_filename ev =
     (if IsEmpty (pe_filename ev) \<and> \<not> IsEmpty (pe_exec_path ev)
      then map_option (\<lambda>s. ev\<lparr>pe_filename := CopyToFixed (pe_filename ev) s\<rparr>) (c_str (pe_exec_path ev))
      else Some ev)"

definition enrich_parent_comm :: "proc_fs \<Rightarrow> process_event \<Rightarrow> process_event" where
  "enrich_parent_comm fs ev =
     (if hdr_ppid (pe_hdr ev) \<noteq> 0
      then ev\<lparr>pe_parent_comm := fill_if_empty (pe_parent_comm ev)
             (RStrip_enricher (ReadTextFile_enricher fs (''/proc/'' @ to_string (hdr_ppid (pe_hdr ev)) @ ''/comm'')))\<rparr>
      else ev)"

definition enrich_start_time :: "proc_fs \<Rightarrow> string \<Rightarrow> process_event \<Rightarrow> process_event" where
  "enrich_start_time fs pid_s ev =
     (if pe_start_time_ticks ev = 0
      then ev\<lparr>pe_start_time_ticks := ParseStartTimeTicks_enricher (ReadTextFile_enricher fs (''/proc/'' @ pid_s @ ''/stat''))\<rparr>
      else ev)"

definition EnrichProcessEvent :: "proc_fs \<Rightarrow> process_event \<Rightarrow> process_event option" where
  "EnrichProcessEvent fs ev =
     (if enrich_pid ev = 0 then Some ev
      else let pid_s = to_string (enrich_pid ev);
               ev = ev\<lparr>pe_exec_path := fill_if_empty (pe_exec_path ev)
                      (ReadProcSymlink_enricher fs (''/proc/'' @ pid_s @ ''/exe''))\<rparr>
           in case enrich_filename ev of
                None \<Rightarrow> None
              | Some ev \<Rightarrow>
                  let ev = ev\<lparr>pe_cwd := fill_if_empty (pe_cwd ev)
                             (ReadProcSymlink_enricher fs (''/proc/'' @ pid_s @ ''/cwd''))\<rparr>;
                      ev = ev\<lparr>pe_cmdline := fill_if_empty (pe_cmdline ev)
                             (NormalizeCmdline_enricher (ReadTextFile_enricher fs (''/proc/'' @ pid_s @ ''/cmdline'')))\<rparr>;
                      ev = enrich_parent_comm fs ev
                  in Some (enrich_start_time fs pid_s ev))"

definition Enrich :: "proc_fs \<Rightarrow> event_variant \<Rightarrow> event_variant option" where
  "Enrich fs event =
     (case event of
        ProcessEv ev \<Rightarrow> map_option ProcessEv (EnrichProcessEvent fs ev)
      | _ \<Rightarrow> Some event)"

section \<open>What a copy leaves\<close>

lemma CopyToFixed_shape:
  assumes "0 < length dst"
  shows "length (CopyToFixed dst src) = length dst" and "nul_terminated (CopyToFixed dst src)"
  using assms by (auto simp: CopyToFixed_def nul_terminated_def Let_def)

lemma CopyToFixed_again: "CopyToFixed (CopyToFixed dst src) src = CopyToFixed dst src"
proof (cases "dst = []")
  case False
  let ?n = "if length src < length dst - 1 then length src else length dst - 1"
  have n: "?n < length dst" and m: "length (map char_byte (take ?n src)) = ?n" using False by auto
  have len: "length (CopyToFixed dst src) = length dst" using False by (simp add: CopyToFixed_shape)
  have "drop (?n + 1) (CopyToFixed dst src) = drop (?n + 1) dst"
    using False m by (simp add: CopyToFixed_def Let_def)
  moreover have "CopyToFixed dst src \<noteq> []" using False len by fastforce
  ultimately show ?thesis
    using False len by (simp add: CopyToFixed_def [of "CopyToFixed dst src"] Let_def)
      (simp add: CopyToFixed_def Let_def)
qed (simp add: CopyToFixed_def)

lemma char_byte_zero: "char_byte c = 0 \<longleftrightarrow> c = CHR 0x00"
proof -
  have "unat (char_byte c) = of_char c"
    by (simp add: char_byte_def unat_of_nat take_bit_nat_eq_self unsigned_of_nat)
  moreover have "char_byte c = 0 \<longleftrightarrow> unat (char_byte c) = 0" by (simp only: unat_eq_zero)
  ultimately have "char_byte c = 0 \<longleftrightarrow> (of_char c :: nat) = 0" by simp
  moreover have "of_char (CHR 0x00) = (0 :: nat)" by simp
  ultimately show ?thesis by (metis of_char_eq_iff)
qed

text \<open>A string with something before its first NUL leaves a field that is not empty.\<close>

lemma CopyToFixed_nonempty:
  assumes "2 \<le> length dst" and "src \<noteq> []" and "hd src \<noteq> CHR 0x00"
  shows "\<not> IsEmpty (CopyToFixed dst src)"
proof -
  obtain c s where src: "src = c # s" using assms(2) by (cases src) auto
  have "(if length src < length dst - 1 then length src else length dst - 1) \<noteq> 0"
    using assms(1) src by simp
  then obtain k where "(if length src < length dst - 1 then length src else length dst - 1) = Suc k"
    using not0_implies_Suc by blast
  then have "CopyToFixed dst src ! 0 = char_byte c"
    using assms(1) src by (auto simp: CopyToFixed_def Let_def)
  then show ?thesis using assms(3) src char_byte_zero by (simp add: IsEmpty_def)
qed

lemma fill_again: "fill_if_empty (fill_if_empty old s) s = fill_if_empty old s"
  by (simp add: fill_if_empty_def CopyToFixed_again)

lemma fill_keeps: "\<not> IsEmpty old \<Longrightarrow> fill_if_empty old s = old"
  by (simp add: fill_if_empty_def)

lemma fill_shape:
  "0 < length old \<Longrightarrow> length (fill_if_empty old s) = length old"
  "nul_terminated old \<Longrightarrow> nul_terminated (fill_if_empty old s)"
proof -
  show "0 < length old \<Longrightarrow> length (fill_if_empty old s) = length old"
    by (simp add: fill_if_empty_def CopyToFixed_shape)
  assume "nul_terminated old"
  moreover from this have "0 < length old" by (auto simp: nul_terminated_def)
  ultimately show "nul_terminated (fill_if_empty old s)"
    by (simp add: fill_if_empty_def CopyToFixed_shape)
qed

lemma c_str_nonempty:
  assumes "c_str bs = Some s" and "\<not> IsEmpty bs"
  shows "s \<noteq> [] \<and> hd s \<noteq> CHR 0x00"
proof -
  obtain b r where bs: "bs = b # r" using assms(1) by (cases bs) (auto simp: c_str_def nul_terminated_def)
  then have b: "b \<noteq> 0" using assms(2) by (simp add: IsEmpty_def)
  then have "s = byte_char b # map byte_char (takeWhile (\<lambda>b. b \<noteq> 0) r)"
    using assms(1) bs by (auto simp: c_str_def split: if_splits)
  moreover have "byte_char b \<noteq> CHR 0x00"
  proof
    assume "byte_char b = CHR 0x00"
    then have "of_char (byte_char b) = (0 :: nat)" by simp
    then have "unat b = 0" using unat_byte_lt [of b] by (simp add: byte_char_def)
    then have "b = 0" by (simp only: unat_eq_zero)
    then show False using b by simp
  qed
  ultimately show ?thesis by simp
qed

text \<open>The enriched event, given the string of the filename step.\<close>

definition enriched :: "proc_fs \<Rightarrow> process_event \<Rightarrow> u8 list \<Rightarrow> process_event" where
  "enriched fs ev filename =
     (let pid_s = to_string (enrich_pid ev)
      in ev\<lparr>pe_exec_path := fill_if_empty (pe_exec_path ev) (ReadProcSymlink fs (''/proc/'' @ pid_s @ ''/exe'')),
            pe_filename := filename,
            pe_cwd := fill_if_empty (pe_cwd ev) (ReadProcSymlink fs (''/proc/'' @ pid_s @ ''/cwd'')),
            pe_cmdline := fill_if_empty (pe_cmdline ev)
              (NormalizeCmdline (ReadTextFile fs (''/proc/'' @ pid_s @ ''/cmdline''))),
            pe_parent_comm := (if hdr_ppid (pe_hdr ev) \<noteq> 0
              then fill_if_empty (pe_parent_comm ev)
                (RStrip (ReadTextFile fs (''/proc/'' @ to_string (hdr_ppid (pe_hdr ev)) @ ''/comm'')))
              else pe_parent_comm ev),
            pe_start_time_ticks := (if pe_start_time_ticks ev = 0
              then ParseStartTimeTicks (ReadTextFile fs (''/proc/'' @ pid_s @ ''/stat''))
              else pe_start_time_ticks ev)\<rparr>)"

definition enriched_exec :: "proc_fs \<Rightarrow> process_event \<Rightarrow> u8 list" where
  "enriched_exec fs ev =
     fill_if_empty (pe_exec_path ev) (ReadProcSymlink fs (''/proc/'' @ to_string (enrich_pid ev) @ ''/exe''))"

lemma EnrichProcessEvent_cases:
  assumes "enrich_pid ev \<noteq> 0"
  shows "EnrichProcessEvent fs ev =
    (if IsEmpty (pe_filename ev) \<and> \<not> IsEmpty (enriched_exec fs ev)
     then map_option (\<lambda>s. enriched fs ev (CopyToFixed (pe_filename ev) s)) (c_str (enriched_exec fs ev))
     else Some (enriched fs ev (pe_filename ev)))"
  using assms
  by (auto simp: EnrichProcessEvent_def enrich_filename_def enriched_def enrich_parent_comm_def
      enrich_start_time_def enriched_exec_def Let_def split: option.split)

lemma enriched_exec_again: "enriched_exec fs (enriched fs ev fn) = enriched_exec fs ev"
  by (simp add: enriched_exec_def enriched_def enrich_pid_def fill_again Let_def)

lemma enriched_fields [simp]:
  "pe_hdr (enriched fs ev fn) = pe_hdr ev" "pe_kind (enriched fs ev fn) = pe_kind ev"
  "pe_exit_code (enriched fs ev fn) = pe_exit_code ev" "pe_child_pid (enriched fs ev fn) = pe_child_pid ev"
  "pe_filename (enriched fs ev fn) = fn" "enrich_pid (enriched fs ev fn) = enrich_pid ev"
  by (simp_all add: enriched_def enrich_pid_def Let_def)

lemma enriched_again: "enriched fs (enriched fs ev fn) fn = enriched fs ev fn"
  by (simp add: enriched_def enrich_pid_def fill_again Let_def)

section \<open>What enrichment keeps\<close>

text \<open>
  C33. Enrichment respects the layout: an event with the array sizes of the schema and terminated
  strings is always enriched to such an event, with its header and payload numbers unchanged, and
  no field that already held a string is overwritten.
\<close>

theorem Enrich_keeps_layout:
  assumes "process_event_wf ev" and "\<forall>bs \<in> set (event_strings (ProcessEv ev)). nul_terminated bs"
  shows "\<exists>ev'. Enrich fs (ProcessEv ev) = Some (ProcessEv ev') \<and> process_event_wf ev' \<and>
    (\<forall>bs \<in> set (event_strings (ProcessEv ev')). nul_terminated bs) \<and> pe_hdr ev' = pe_hdr ev \<and>
    pe_kind ev' = pe_kind ev \<and> pe_exit_code ev' = pe_exit_code ev \<and> pe_child_pid ev' = pe_child_pid ev \<and>
    (\<forall>sel \<in> {pe_filename, pe_exec_path, pe_cmdline, pe_cwd, pe_parent_comm}.
       \<not> IsEmpty (sel ev) \<longrightarrow> sel ev' = sel ev)"
proof (cases "enrich_pid ev = 0")
  case True
  then show ?thesis using assms by (simp add: Enrich_def EnrichProcessEvent_def)
next
  case False
  have wf: "event_header_wf (pe_hdr ev)" "length (pe_filename ev) = 256" "length (pe_exec_path ev) = 256"
    "length (pe_cmdline ev) = 256" "length (pe_cwd ev) = 256" "length (pe_parent_comm ev) = 16"
    using assms(1) by (simp_all add: process_event_wf_def)
  have len: "0 < length old \<Longrightarrow> length old = n \<Longrightarrow> length (fill_if_empty old s) = n" for old s n
    using fill_shape(1) by blast
  have ok: "process_event_wf (enriched fs ev fn) \<and>
      (\<forall>bs \<in> set (event_strings (ProcessEv (enriched fs ev fn))). nul_terminated bs)"
    if "length fn = 256" "nul_terminated fn" for fn
    using that wf assms(2) len fill_shape(2)
    by (simp add: process_event_wf_def enriched_def Let_def del: length_greater_0_conv)
  have keep: "\<not> IsEmpty (sel ev) \<longrightarrow> sel (enriched fs ev fn) = sel ev"
    if "sel \<in> {pe_exec_path, pe_cmdline, pe_cwd, pe_parent_comm}" for sel fn
    using that by (auto simp: enriched_def fill_keeps Let_def)
  let ?exec = "enriched_exec fs ev"
  have "nul_terminated ?exec" using assms(2) fill_shape(2) by (simp add: enriched_exec_def)
  then obtain s where s: "c_str ?exec = Some s" using c_str_Some_iff by blast
  have copy: "length (CopyToFixed (pe_filename ev) s) = 256" "nul_terminated (CopyToFixed (pe_filename ev) s)"
    using wf(2) CopyToFixed_shape [of "pe_filename ev" s] by simp_all
  show ?thesis
  proof (cases "IsEmpty (pe_filename ev) \<and> \<not> IsEmpty ?exec")
    case True
    then have "Enrich fs (ProcessEv ev) = Some (ProcessEv (enriched fs ev (CopyToFixed (pe_filename ev) s)))"
      using EnrichProcessEvent_cases [OF False, of fs] s by (simp add: Enrich_def)
    then show ?thesis using ok [OF copy] keep True by fastforce
  next
    case nofill: False
    then have "Enrich fs (ProcessEv ev) = Some (ProcessEv (enriched fs ev (pe_filename ev)))"
      using EnrichProcessEvent_cases [OF False, of fs] by (auto simp add: Enrich_def)
    moreover have "nul_terminated (pe_filename ev)" using assms(2) by simp
    ultimately show ?thesis using ok [OF wf(2)] keep by fastforce
  qed
qed

text \<open>
  C34. Enriching twice is enriching once: with the same answers of /proc, a second pass over an
  enriched event of the schema's layout changes nothing.
\<close>

theorem Enrich_idempotent:
  assumes "process_event_wf ev" and "Enrich fs (ProcessEv ev) = Some e'"
  shows "Enrich fs e' = Some e'"
proof (cases "enrich_pid ev = 0")
  case True
  then show ?thesis using assms(2) by (auto simp: Enrich_def EnrichProcessEvent_def)
next
  case False
  have fn: "2 \<le> length (pe_filename ev)" using assms(1) by (simp add: process_event_wf_def)
  let ?exec = "enriched_exec fs ev"
  have again: "EnrichProcessEvent fs (enriched fs ev f) = Some (enriched fs ev f)"
    if "\<not> IsEmpty f \<or> IsEmpty ?exec" for f
  proof -
    show ?thesis
      using EnrichProcessEvent_cases [of "enriched fs ev f" fs] False that
      by (auto simp: enriched_exec_again enriched_again)
  qed
  show ?thesis
  proof (cases "IsEmpty (pe_filename ev) \<and> \<not> IsEmpty ?exec")
    case True
    then obtain s where s: "c_str ?exec = Some s"
      and e': "e' = ProcessEv (enriched fs ev (CopyToFixed (pe_filename ev) s))"
      using assms(2) EnrichProcessEvent_cases [OF False, of fs] by (auto simp: Enrich_def)
    have "\<not> IsEmpty (CopyToFixed (pe_filename ev) s)"
      using CopyToFixed_nonempty [OF fn] c_str_nonempty [OF s] True by blast
    then show ?thesis using again e' by (simp add: Enrich_def)
  next
    case nofill: False
    then have "e' = ProcessEv (enriched fs ev (pe_filename ev))"
      using assms(2) EnrichProcessEvent_cases [OF False, of fs] by (auto simp: Enrich_def split: if_splits)
    then show ?thesis using again nofill by (simp add: Enrich_def)
  qed
qed

text \<open>/proc of one process and a bare event of it.\<close>

definition demo_proc :: proc_fs where
  "demo_proc = \<lparr>fs_readlink = (\<lambda>_. Some ''/bin/sh''), fs_read = (\<lambda>_. Some ''sh'')\<rparr>"

definition demo_bare_event :: process_event where
  "demo_bare_event = \<lparr>pe_hdr = zero_header\<lparr>hdr_tgid := 5\<rparr>, pe_kind = 1, pe_exit_code = 0, pe_child_pid = 0,
     pe_filename = replicate 256 0, pe_exec_path = replicate 256 0, pe_cmdline = replicate 256 0,
     pe_cwd = replicate 256 0, pe_parent_comm = replicate 16 0, pe_start_time_ticks = 0\<rparr>"

lemma demo_bare_event_wf:
  "process_event_wf demo_bare_event" "\<forall>bs \<in> set (event_strings (ProcessEv demo_bare_event)). nul_terminated bs"
  by (auto simp: demo_bare_event_def event_wf_defs zero_header_def)

theorem Enrich_keeps_layout_witness:
  "\<exists>ev'. Enrich demo_proc (ProcessEv demo_bare_event) = Some (ProcessEv ev') \<and> process_event_wf ev'"
  using Enrich_keeps_layout [OF demo_bare_event_wf] by blast

theorem Enrich_idempotent_witness:
  "\<exists>e'. Enrich demo_proc (ProcessEv demo_bare_event) = Some e' \<and> e' \<noteq> ProcessEv demo_bare_event \<and>
     Enrich demo_proc e' = Some e'"
proof -
  let ?exec = "enriched_exec demo_proc demo_bare_event"
  have pid: "enrich_pid demo_bare_event \<noteq> 0" by (simp add: enrich_pid_def demo_bare_event_def)
  have exec: "?exec = CopyToFixed (replicate 256 0) ''/bin/sh''"
    by (simp add: enriched_exec_def fill_if_empty_def IsEmpty_def demo_bare_event_def demo_proc_def
        ReadProcSymlink_def)
  then have "\<not> IsEmpty ?exec" by (simp add: CopyToFixed_nonempty)
  moreover from exec obtain s where "c_str ?exec = Some s"
    using c_str_Some_iff CopyToFixed_shape(2) [of "replicate 256 0"] by fastforce
  moreover have "IsEmpty (pe_filename demo_bare_event)" by (simp add: demo_bare_event_def IsEmpty_def)
  ultimately have e: "Enrich demo_proc (ProcessEv demo_bare_event) =
      Some (ProcessEv (enriched demo_proc demo_bare_event (CopyToFixed (pe_filename demo_bare_event) s)))"
    using EnrichProcessEvent_cases [OF pid, of demo_proc] by (simp add: Enrich_def)
  have "pe_exec_path (enriched demo_proc demo_bare_event f) \<noteq> pe_exec_path demo_bare_event" for f
    using \<open>\<not> IsEmpty ?exec\<close>
    by (auto simp: enriched_def enriched_exec_def Let_def demo_bare_event_def IsEmpty_def)
  then have "enriched demo_proc demo_bare_event f \<noteq> demo_bare_event" for f by metis
  with Enrich_idempotent [OF demo_bare_event_wf(1) e] e show ?thesis by blast
qed

end
