(* ===== verification/Bpf_Calls.thy ===== *)
theory Bpf_Calls
  imports Bpf_Properties
begin

text \<open>
  Whole calls of the network and the raw-syscall handlers: what is reported of one call, what the
  table reports of any interleaving of calls, and what two threads of one process can do to the
  descriptor table between them.
\<close>

section \<open>Gates across a call\<close>

lemma same_task_allowed:
  assumes "same_config s s'" and "env_pid_tgid env' = env_pid_tgid env" and "is_event_allowed env s"
  shows "is_event_allowed env' s'"
  using assms
  by (auto simp: same_config_def is_event_allowed_def is_not_suppressed_self_def cur_tgid_def
      split: option.splits)

lemma save_network_config: "same_config s (snd (save_network_enter_state env kind v s))"
  by (auto simp: save_network_enter_state_def Let_def same_config_def split: option.splits prod.splits)

lemma save_syscall_config: "same_config s (snd (save_syscall_enter_state env nr v s))"
  by (auto simp: save_syscall_enter_state_def Let_def same_config_def split: option.splits prod.splits)

section \<open>One call\<close>

lemma flow_id_ignores_itself [simp]:
  "compute_network_flow_id env (e\<lparr>ne_flow_id := x\<rparr>) = compute_network_flow_id env e"
  by (simp add: compute_network_flow_id_def network_flow_key_def Let_def)

text \<open>Any of the calls whose enter handler has the common frame.\<close>

lemma network_call_reported:
  assumes env: "bpf_env_ok env" and task: "env_pid_tgid env' = env_pid_tgid env"
    and gates: "is_event_allowed env s" "is_network_probe_enabled s kind"
    and fresh: "network_enter_state s (make_network_key env kind) = None"
    and scratch: "network_scratch s (env_cpu env) 0 \<noteq> None"
    and room: "env_rb_network env \<noteq> None" "env_rb_network env' \<noteq> None"
    and saved: "\<And>v. 0 \<le> fst (update_elem (env_network_map env) (network_enter_state s)
      (make_network_key env kind) v)"
  shows "\<exists>ev. network_ok (env_pid_tgid env) ev \<and> ne_kind ev = kind \<and> ne_flow_id ev = 0 \<and>
    events (snd (net_exit env' kind (snd (net_enter env kind fill s)))) =
      events s @ [NetworkEv (network_exit_event env' kind (env_ret env')
        (fill (zero_network_state\<lparr>nsv_ev := ev\<rparr>)))]"
proof -
  obtain raw where raw: "env_rb_network env = Some raw" using room(1) by blast
  obtain ev s1 where r: "reserve_network_event env kind s = (Some ev, s1)"
    using raw by (simp add: reserve_network_event_def)
  note ok = reserve_network_ok [OF env r]
  have flow: "ne_flow_id ev = 0" using r raw by (auto simp: reserve_network_event_def)
  define v where "v = fill (zero_network_state\<lparr>nsv_ev := ev\<rparr>)"
  obtain rc s2 where sv: "save_network_enter_state env kind v s = (rc, s2)" by fastforce
  have enter: "snd (net_enter env kind fill s) = s2"
    using gates r ok sv scratch by (auto simp: net_enter_def net_enter_body_def net_scratch_def v_def Let_def)
  have rc: "0 \<le> rc"
    using sv fresh saved [of v] by (auto simp: save_network_enter_state_def Let_def split: prod.splits)
  have key: "make_network_key env' kind = make_network_key env kind"
    using task by (simp add: make_network_key_def)
  have c: "same_config s s2" using save_network_config [of s env kind v] sv by simp
  have "is_event_allowed env' s2" by (rule same_task_allowed [OF c task gates(1)])
  moreover have "is_network_probe_enabled s2 kind"
    using c gates(2) by (simp add: same_config_def is_network_probe_enabled_def)
  ultimately have "events (snd (net_exit env' kind s2)) =
      events s @ [NetworkEv (network_exit_event env' kind (env_ret env') v)]"
    using network_pairs.paired_record [OF env fresh sv rc key, of "env_ret env'"] room(2)
    by (simp add: net_exit_def)
  then show ?thesis using ok flow unfolding enter v_def by blast
qed

text \<open>
  C12. A \<open>connect\<close> is reported once, by its exit: outbound, with the descriptor and the address its
  enter was given, the return code and time of the exit, the task of both, and the flow identity of
  that very record.
\<close>

theorem connect_reported_with_its_arguments:
  assumes "bpf_env_ok env" and "env_pid_tgid env' = env_pid_tgid env"
    and "is_event_allowed env s" and "is_network_probe_enabled s NETWORK_CONNECT"
    and "network_enter_state s (make_network_key env NETWORK_CONNECT) = None"
    and "network_scratch s (env_cpu env) 0 \<noteq> None"
    and "env_rb_network env \<noteq> None" and "env_rb_network env' \<noteq> None"
    and "\<And>v. 0 \<le> fst (update_elem (env_network_map env) (network_enter_state s)
      (make_network_key env NETWORK_CONNECT) v)"
  shows "\<exists>e old. events (snd (on_sys_exit_connect env' (snd (on_sys_enter_connect env s)))) =
      events s @ [NetworkEv e] \<and>
    ne_kind e = NETWORK_CONNECT \<and> ne_fd e = ucast (env_args env 0) \<and>
    ne_remote e = parse_sockaddr_user env (env_args env 1) (ucast (env_args env 2)) old \<and>
    ne_direction e = NETWORK_DIRECTION_OUTBOUND \<and> ne_ret e = ucast (env_ret env') \<and>
    hdr_ts_ns (ne_hdr e) = env_ktime_exit env' \<and> hdr_pid (ne_hdr e) = cur_pid env \<and>
    hdr_tgid (ne_hdr e) = cur_tgid env \<and>
    ne_flow_id e = compute_network_flow_id env' e"
proof -
  define fill :: "network_state_value \<Rightarrow> network_state_value" where "fill state = (let ev = nsv_ev state;
         ev = ev\<lparr>ne_fd := ucast (env_args env 0),
                 ne_direction := infer_network_direction NETWORK_CONNECT\<rparr>;
         ev = ev\<lparr>ne_remote := parse_sockaddr_user env (env_args env 1) (ucast (env_args env 2))
                                 (ne_remote ev)\<rparr>
     in state\<lparr>nsv_ev := ev\<rparr>)" for state
  have enter: "on_sys_enter_connect env = net_enter env NETWORK_CONNECT fill"
    by (simp add: on_sys_enter_connect_def fill_def [abs_def])
  obtain ev where ev: "network_ok (env_pid_tgid env) ev" "ne_kind ev = NETWORK_CONNECT"
    "ne_flow_id ev = 0"
    and e: "events (snd (on_sys_exit_connect env' (snd (on_sys_enter_connect env s)))) =
      events s @ [NetworkEv (network_exit_event env' NETWORK_CONNECT (env_ret env')
        (fill (zero_network_state\<lparr>nsv_ev := ev\<rparr>)))]"
    using network_call_reported [OF assms, of fill] unfolding enter on_sys_exit_connect_def by blast
  show ?thesis
    using ev unfolding e
    by (auto simp: network_exit_event_def network_exit_fds_def nx_remote_def nx_bytes_def nx_mmsg_def
        nx_flow_def nx_local_def nx_opt_def fill_def infer_network_direction_def network_ok_def
        hdr_ok_def cur_pid_def cur_tgid_def Let_def)
qed


theorem connect_reported_with_its_arguments_witness:
  "\<exists>e. events (snd (on_sys_exit_connect demo_env (snd (on_sys_enter_connect demo_env demo_state)))) =
     [NetworkEv e] \<and> ne_ret e = 3 \<and> ne_direction e = NETWORK_DIRECTION_OUTBOUND"
  using connect_reported_with_its_arguments [OF demo_env_ok refl, of demo_state]
  by (simp add: demo_env_def sample_env_def demo_state_def initial_kstate_def array_map_def
      is_event_allowed_def is_not_suppressed_self_def is_current_pid_allowed_def
      is_current_uid_allowed_def is_network_probe_enabled_def hash_map_ops_def cur_tgid_def
      STATE_MAP_MAX_ENTRIES_def) blast

text \<open>
  C13. A raw system call is reported once, by its exit: with its number, the first three arguments its
  enter was given, the full return value and the time of the exit, and the task of both.
\<close>

theorem syscall_reported_with_its_arguments:
  assumes env: "bpf_env_ok env" and task: "env_pid_tgid env' = env_pid_tgid env"
    and number: "ucast (env_id env') = (ucast (env_id env) :: s32)"
    and gates: "is_event_allowed env s" "is_syscall_probe_enabled s" "is_syscall_allowed (ucast (env_id env))"
    and fresh: "syscall_enter_state s (make_syscall_key env (ucast (env_id env))) = None"
    and room: "env_rb_syscall env \<noteq> None" "env_rb_syscall env' \<noteq> None"
    and saved: "\<And>v. 0 \<le> fst (update_elem (env_syscall_map env) (syscall_enter_state s)
      (make_syscall_key env (ucast (env_id env))) v)"
  shows "\<exists>e. events (snd (on_raw_sys_exit env' (snd (on_raw_sys_enter env s)))) = events s @ [SyscallEv e] \<and>
    se_is_enter e = 0 \<and> se_syscall_nr e = ucast (env_id env) \<and> se_arg0 e = env_args env 0 \<and>
    se_arg1 e = env_args env 1 \<and> se_arg2 e = env_args env 2 \<and> se_ret e = env_ret env' \<and>
    hdr_ts_ns (se_hdr e) = env_ktime_exit env' \<and> hdr_pid (se_hdr e) = cur_pid env \<and>
    hdr_tgid (se_hdr e) = cur_tgid env"
proof -
  define nr :: s32 where "nr = ucast (env_id env)"
  obtain raw where raw: "env_rb_syscall env = Some raw" using room(1) by blast
  obtain ev s1 where r: "reserve_syscall_event env s = (Some ev, s1)"
    using raw by (simp add: reserve_syscall_event_def)
  note ok = reserve_syscall_ok [OF env r]
  define v where "v = ev\<lparr>se_is_enter := 1, se_syscall_nr := nr, se_arg0 := env_args env 0,
    se_arg1 := env_args env 1, se_arg2 := env_args env 2\<rparr>"
  obtain rc s2 where sv: "save_syscall_enter_state env nr v s = (rc, s2)" by fastforce
  have enter: "snd (on_raw_sys_enter env s) = s2"
    using gates r ok sv by (simp add: on_raw_sys_enter_def v_def nr_def Let_def)
  have fresh': "syscall_enter_state s (make_syscall_key env nr) = None" using fresh by (simp add: nr_def)
  have rc: "0 \<le> rc"
    using sv fresh' saved [of v]
    by (auto simp: save_syscall_enter_state_def nr_def Let_def split: prod.splits)
  have key: "make_syscall_key env' nr = make_syscall_key env nr"
    using task by (simp add: make_syscall_key_def)
  have c: "same_config s s2" using save_syscall_config [of s env nr v] sv by simp
  have "is_event_allowed env' s2" by (rule same_task_allowed [OF c task gates(1)])
  moreover have "is_syscall_probe_enabled s2"
    using c gates(2) by (simp add: same_config_def is_syscall_probe_enabled_def)
  ultimately have "events (snd (on_raw_sys_exit env' s2)) =
      events s @ [syscall_exit_record env' nr (env_ret env') v]"
    using syscall_pairs.paired_record [OF env fresh' sv rc key, of "env_ret env'"] room(2) number gates(3)
    by (simp add: on_raw_sys_exit_def nr_def Let_def)
  then show ?thesis
    using ok unfolding enter
    by (auto simp: syscall_exit_record_def v_def nr_def syscall_ok_def hdr_ok_def cur_pid_def cur_tgid_def)
qed

theorem syscall_reported_with_its_arguments_witness:
  "\<exists>e. events (snd (on_raw_sys_exit demo_env (snd (on_raw_sys_enter demo_env demo_state)))) =
     [SyscallEv e] \<and> se_ret e = 3"
  using syscall_reported_with_its_arguments [OF demo_env_ok refl refl, of demo_state]
  by (simp add: demo_env_def sample_env_def demo_state_def initial_kstate_def array_map_def
      is_event_allowed_def is_not_suppressed_self_def is_current_pid_allowed_def
      is_current_uid_allowed_def is_syscall_probe_enabled_def is_syscall_allowed_def hash_map_ops_def
      cur_tgid_def STATE_MAP_MAX_ENTRIES_def) blast

section \<open>Any interleaving of calls\<close>

text \<open>Two threads of one thread group.\<close>

definition demo_thread :: bpf_env where
  "demo_thread = demo_env\<lparr>env_pid_tgid := env_pid_tgid demo_env XOR 1\<rparr>"

lemma demo_thread_facts:
  "bpf_env_ok demo_thread" "cur_tgid demo_env = cur_tgid demo_thread" "cur_pid demo_env \<noteq> cur_pid demo_thread"
  "env_pid_tgid demo_env \<noteq> env_pid_tgid demo_thread"
proof -
  show "bpf_env_ok demo_thread" using demo_env_ok by (simp add: demo_thread_def bpf_env_ok_def)
  show "cur_tgid demo_env = cur_tgid demo_thread" "cur_pid demo_env \<noteq> cur_pid demo_thread"
    "env_pid_tgid demo_env \<noteq> env_pid_tgid demo_thread"
    by (simp_all add: demo_thread_def demo_env_def sample_env_def cur_tgid_def cur_pid_def)
qed

text \<open>An invocation that gets its reservation and whose map update is stored, evicting nothing.\<close>

definition roomy :: "bpf_env \<Rightarrow> bool" where
  "roomy env \<longleftrightarrow> env_rb_network env \<noteq> None \<and>
     (\<forall>m k v. update_elem (env_network_map env) m k v = (0, m(k \<mapsto> v)))"

text \<open>
  C4. Refinement: compare the bounded table with an ideal tracer that remembers the arguments of every
  open call of every task and never runs out of room. However the calls of all tasks interleave, as
  long as no exit is missed (\<open>exits_seen\<close>: no task enters a call it has not left yet), the records are
  a subsequence of the ideal ones: a full table, an evicted entry or a full ring buffer can lose
  records, but never reorder them, report one twice, or give one task the arguments of another. When
  there is room throughout, the records are the ideal ones.
\<close>

theorem network_table_refines_ideal_tracer:
  assumes "\<forall>c \<in> set cs. bpf_env_ok (call_env c)" and "bpf_loaded s" and "exits_seen cs {}"
  defines "reported \<equiv> events (run_calls save_network_enter_state emit_network_exit_event cs s)"
    and "ideal \<equiv> ideal_records (\<lambda>env kind r v. NetworkEv (network_exit_event env kind r v)) cs Map.empty"
  shows "subseq reported ideal \<and> ((\<forall>c \<in> set cs. roomy (call_env c)) \<longrightarrow> reported = ideal)"
proof -
  have start: "network_enter_state s = Map.empty" "events s = []"
    using assms(2) by (simp_all add: bpf_loaded_def)
  have "subseq reported ideal"
    using network_pairs.refines_ideal [OF assms(1), of s Map.empty] assms(3) start
    unfolding reported_def ideal_def by (auto simp: network_pairs.within_def)
  moreover have "reported = ideal" if room: "\<forall>c \<in> set cs. roomy (call_env c)"
  proof -
    have "network_enter_state (snd (save_network_enter_state (call_env c) n v s')) =
        (network_enter_state s')(make_network_key (call_env c) n \<mapsto> v)"
      if "c \<in> set cs" and "network_enter_state s' (make_network_key (call_env c) n) = None" for c n v s'
      using room that by (simp add: roomy_def save_network_enter_state_def)
    then show ?thesis
      using network_pairs.complete_ideal [of cs s Map.empty] room assms(1,3) start
      unfolding reported_def ideal_def by (simp add: roomy_def)
  qed
  ultimately show ?thesis by blast
qed

text \<open>Two threads of one process in the same call at the same time, leaving it in the other order.\<close>

definition demo_calls :: "(u32, network_state_value) call list" where
  "demo_calls =
     [Enter demo_env NETWORK_READ (zero_network_state\<lparr>nsv_ev := zero_network_event\<lparr>ne_fd := 5\<rparr>\<rparr>),
      Enter demo_thread NETWORK_READ (zero_network_state\<lparr>nsv_ev := zero_network_event\<lparr>ne_fd := 6\<rparr>\<rparr>),
      Exit demo_env NETWORK_READ 4, Exit demo_thread NETWORK_READ 3]"

theorem network_table_refines_ideal_tracer_witness:
  "subseq (events (run_calls save_network_enter_state emit_network_exit_event demo_calls demo_state))
     [NetworkEv (network_exit_event demo_env NETWORK_READ 4
        (zero_network_state\<lparr>nsv_ev := zero_network_event\<lparr>ne_fd := 5\<rparr>\<rparr>)),
      NetworkEv (network_exit_event demo_thread NETWORK_READ 3
        (zero_network_state\<lparr>nsv_ev := zero_network_event\<lparr>ne_fd := 6\<rparr>\<rparr>))]"
  using network_table_refines_ideal_tracer [OF _ demo_loaded, of demo_calls] demo_env_ok
    demo_thread_facts(1,4)
  by (simp add: demo_calls_def)

section \<open>Two threads, one descriptor\<close>

text \<open>
  C31. A live socket can be forgotten: one thread's \<open>close\<close> has been entered and has freed the number;
  another thread's \<open>socket\<close> gets it and its exit marks it; then the exit of the \<open>close\<close> removes the
  mark of the new socket. From then on no read or write of that socket by any thread of the process
  is reported, although the descriptor is open.
\<close>

theorem close_race_forgets_socket:
  assumes "bpf_env_ok a" and "bpf_env_ok b" and group: "cur_tgid a = cur_tgid b"
    and closing: "network_enter_state s (make_network_key a NETWORK_CLOSE) = Some st"
    and pending: "network_enter_state s (make_network_key b NETWORK_SOCKET) = Some st'"
    and reused: "0 \<le> sint fd" "ne_fd (nsv_ev st) = ucast (fd :: s64)"
    and room: "env_rb_network a \<noteq> None" "env_rb_network b \<noteq> None"
      "0 \<le> fst (add_socket_fd b (ucast fd) s)"
    and later: "cur_tgid c = cur_tgid b" "ucast (env_args c 0) = (ucast fd :: s32)"
  shows "let s1 = snd (emit_network_exit_event b NETWORK_SOCKET fd s);
             s2 = snd (emit_network_exit_event a NETWORK_CLOSE 0 s1)
    in is_socket_fd b (ucast fd) s1 \<and> \<not> is_socket_fd b (ucast fd) s2 \<and>
      on_sys_enter_read c s2 = (0, s2) \<and> on_sys_enter_write c s2 = (0, s2)"
proof -
  let ?s1 = "snd (emit_network_exit_event b NETWORK_SOCKET fd s)"
  let ?s2 = "snd (emit_network_exit_event a NETWORK_CLOSE 0 ?s1)"
  have same: "is_socket_fd e f s' = is_socket_fd b f s'" if "cur_tgid e = cur_tgid b" for e f s'
    using that by (simp add: is_socket_fd_def make_socket_key_def)
  have marked: "is_socket_fd b (ucast fd) ?s1"
    using pending reused(1) room(2) tracked_after_add [OF assms(2) room(3)]
    by (auto simp: emit_network_exit_event_eq network_exit_sockets_def)
  have "make_network_key a NETWORK_CLOSE \<noteq> make_network_key b NETWORK_SOCKET"
    by (simp add: make_network_key_def)
  then have closing1: "network_enter_state ?s1 (make_network_key a NETWORK_CLOSE) = Some st"
    using closing network_pairs.emit_table [OF assms(2)] by simp
  have "\<not> is_socket_fd a (ne_fd (nsv_ev st)) ?s2"
    using closing1 room(1) untracked_after_delete [OF assms(1)]
    by (auto simp: emit_network_exit_event_eq network_exit_sockets_def)
  then have "\<not> is_socket_fd b (ucast fd) ?s2" and "\<not> is_socket_fd c (ucast fd) ?s2"
    using reused(2) same [OF group] same [OF later(1)] by simp_all
  then show ?thesis
    using marked later(2)
    by (simp add: Let_def on_sys_enter_read_def on_sys_enter_write_def net_enter_socket_fd_def)
qed

text \<open>The first thread is in \<open>close (5)\<close>, the second in \<open>socket\<close>.\<close>

definition demo_race :: kstate where
  "demo_race = demo_state\<lparr>network_enter_state :=
     [make_network_key demo_env NETWORK_CLOSE \<mapsto>
        zero_network_state\<lparr>nsv_ev := zero_network_event\<lparr>ne_fd := 5\<rparr>\<rparr>,
      make_network_key demo_thread NETWORK_SOCKET \<mapsto> zero_network_state]\<rparr>"

theorem close_race_forgets_socket_witness:
  "let s1 = snd (emit_network_exit_event demo_thread NETWORK_SOCKET 5 demo_race);
       s2 = snd (emit_network_exit_event demo_env NETWORK_CLOSE 0 s1)
   in is_socket_fd demo_thread 5 s1 \<and> \<not> is_socket_fd demo_thread 5 s2"
proof -
  have "network_enter_state demo_race (make_network_key demo_env NETWORK_CLOSE) =
      Some (zero_network_state\<lparr>nsv_ev := zero_network_event\<lparr>ne_fd := 5\<rparr>\<rparr>)"
    and "network_enter_state demo_race (make_network_key demo_thread NETWORK_SOCKET) = Some zero_network_state"
    by (simp_all add: demo_race_def make_network_key_def)
  moreover have "env_rb_network demo_env \<noteq> None" and "env_rb_network demo_thread \<noteq> None"
    and "0 \<le> fst (add_socket_fd demo_thread (ucast (5 :: s64)) demo_race)"
    by (simp_all add: demo_thread_def demo_env_def demo_race_def add_socket_fd_def sample_env_def
        hash_map_ops_def STATE_MAP_MAX_ENTRIES_def demo_state_def initial_kstate_def)
  ultimately show ?thesis
    using close_race_forgets_socket [OF demo_env_ok demo_thread_facts(1,2), of demo_race
        "zero_network_state\<lparr>nsv_ev := zero_network_event\<lparr>ne_fd := 5\<rparr>\<rparr>" zero_network_state 5
        "demo_thread\<lparr>env_args := (\<lambda>_. 5)\<rparr>"]
    by (simp add: Let_def cur_tgid_def)
qed

end
