(* ===== verification/Registry_Ids.thy ===== *)
theory Registry_Ids
  imports Registry_Properties
begin

text \<open>
  What an id means over the whole life of the registry: however entities are created, retired,
  evicted and brought up to date, an id that was given out for one thread group is never given to
  another.
\<close>

section \<open>Entities keep their key\<close>

text \<open>Every entity that is still there had the same key before; new ones have new ids.\<close>

definition keeps :: "EntityRegistry \<Rightarrow> EntityRegistry \<Rightarrow> bool" where
  "keeps r r' \<longleftrightarrow>
     next_id r \<le> next_id r' \<and>
     (\<forall>i e'. processes_by_id r' i = Some e' \<longrightarrow> i < next_id r \<longrightarrow>
        (\<exists>e. processes_by_id r i = Some e \<and> entity_key e = entity_key e'))"

lemma keeps_refl [simp]: "keeps r r"
  by (simp add: keeps_def)

lemma keepsD:
  assumes "keeps r r'"
  shows "next_id r \<le> next_id r'"
    and "processes_by_id r' i = Some e' \<Longrightarrow> i < next_id r \<Longrightarrow>
      \<exists>e. processes_by_id r i = Some e \<and> entity_key e = entity_key e'"
  using assms unfolding keeps_def by blast+

lemma keeps_trans:
  assumes "keeps r r1" and "keeps r1 r2"
  shows "keeps r r2"
  unfolding keeps_def
proof (intro conjI allI impI)
  show "next_id r \<le> next_id r2" using keepsD(1) [OF assms(1)] keepsD(1) [OF assms(2)] by simp
  fix i e' assume e': "processes_by_id r2 i = Some e'" and i: "i < next_id r"
  have "i < next_id r1" using i keepsD(1) [OF assms(1)] by simp
  then obtain e where "processes_by_id r1 i = Some e" "entity_key e = entity_key e'"
    using keepsD(2) [OF assms(2) e'] by blast
  then show "\<exists>e. processes_by_id r i = Some e \<and> entity_key e = entity_key e'"
    using keepsD(2) [OF assms(1) _ i] by metis
qed

lemma keeps_update:
  assumes "processes_by_id r i = Some e" and "entity_key e' = entity_key e"
  shows "keeps r (r\<lparr>processes_by_id := (processes_by_id r)(i \<mapsto> e')\<rparr>)"
  using assms by (auto simp: keeps_def)

lemma keeps_MarkExited: "keeps r (MarkExited i now code r)"
  by (auto simp: keeps_def MarkExited_eq entity_key_def split: option.splits)

lemma keeps_evict:
  assumes "reg_inv cap r" and "iter_ok env"
  shows "keeps r (EvictIfNeeded env r)"
  by (cases rule: EvictIfNeeded_cases [OF assms]) (auto simp: keeps_def split: if_splits)

lemma keeps_hint: "keeps r (ingest_hint ev sid r)"
  by (auto simp: ingest_hint_def entity_key_def intro: keeps_update split: option.splits)

section \<open>What an id names\<close>

text \<open>
  \<open>names r r' i k\<close>: between \<open>r\<close> and \<open>r'\<close> the id \<open>i\<close> stood for the thread group \<open>k\<close>. It was fresh, or
  belonged to \<open>k\<close> already; and who holds it afterwards is \<open>k\<close>.
\<close>

definition names :: "EntityRegistry \<Rightarrow> EntityRegistry \<Rightarrow> u64 \<Rightarrow> u32 \<Rightarrow> bool" where
  "names r r' i k \<longleftrightarrow>
     i < next_id r' \<and>
     (i < next_id r \<longrightarrow> (\<exists>e. processes_by_id r i = Some e \<and> entity_key e = k)) \<and>
     (\<forall>e. processes_by_id r' i = Some e \<longrightarrow> entity_key e = k)"

lemma names_later: "names r r1 i k \<Longrightarrow> keeps r1 r2 \<Longrightarrow> names r r2 i k"
  unfolding names_def keeps_def by (metis order_less_le_trans)

lemma names_earlier: "keeps r0 r \<Longrightarrow> names r r1 i k \<Longrightarrow> names r0 r1 i k"
  unfolding names_def keeps_def by (metis order_less_le_trans)

lemma CreateProcess_names:
  assumes r: "reg_ok r" and it: "iter_ok env" and room: "unat (next_id r) + 1 < 2 ^ 64"
    and c: "CreateProcess env (actor_key actor) actor now r = (i, r')"
  shows "keeps r r' \<and> names r r' i (actor_key actor)"
proof -
  let ?m = "inserted env (actor_key actor) actor now r"
  have eq: "i = next_id r" "r' = EvictIfNeeded env ?m" using c by (simp_all add: CreateProcess_eq)
  have lt: "next_id r < next_id r + 1" by (rule word_plus_one(3) [OF room])
  have m: "keeps r ?m" using lt by (auto simp: keeps_def inserted_def)
  have "names r ?m i (actor_key actor)" using lt eq(1) by (simp add: names_def inserted_def)
  moreover have "keeps ?m r'"
    using keeps_evict [OF inserted_inv [OF r room refl] it] eq(2) by simp
  ultimately show ?thesis using m keeps_trans names_later by blast
qed

lemma ResolveProcess_names:
  assumes r: "reg_ok r" and it: "iter_ok env" and room: "unat (next_id r) + 1 < 2 ^ 64"
    and res: "ResolveProcess env actor now rich r = (i, r')"
  shows "keeps r r' \<and> (actor_key actor \<noteq> 0 \<longrightarrow> names r r' i (actor_key actor))"
proof (cases "actor_key actor = 0")
  case True
  then show ?thesis using res by (simp add: ResolveProcess_def)
next
  case key: False
  show ?thesis
  proof (cases "tgid_index r (actor_key actor)")
    case None
    then show ?thesis using CreateProcess_names [OF r it room] res ResolveProcess_new [OF key] by simp
  next
    case (Some j)
    obtain e where e: "processes_by_id r j = Some e" "entity_key e = actor_key actor"
      using reg_invD(5) [OF r Some] by blast
    show ?thesis
    proof (cases "reused env actor now e")
      case True
      let ?r1 = "retired env actor now j r"
      obtain b e1 where u: "IsReused (re_fs env) e (actor_key actor) now = (b, e1)" by fastforce
      have "keeps r (r\<lparr>processes_by_id := (processes_by_id r)(j \<mapsto> e1)\<rparr>)"
        by (rule keeps_update [OF e(1) IsReused_fields(3) [OF u]])
      then have k: "keeps r ?r1"
        using keeps_MarkExited keeps_trans e(1) u by (fastforce simp: retired_def)
      have "unat (next_id ?r1) + 1 < 2 ^ 64" using room retired_ok(2) [OF r e(1)] by simp
      from CreateProcess_names [OF retired_ok(1) [OF r e(1)] it this] show ?thesis
        using res ResolveProcess_reused [OF key Some e(1) True] k keeps_trans names_earlier by metis
    next
      case False
      have "i = j" and r': "r' = r\<lparr>processes_by_id := (processes_by_id r)
          (j \<mapsto> seen_entity env actor now rich e)\<rparr>"
        using res unfolding ResolveProcess_known [OF key Some e(1) False] by auto
      moreover have "keeps r r'" unfolding r' by (rule keeps_update [OF e(1)]) (simp add: e(2))
      moreover have "j < next_id r" using reg_invD(4) [OF r e(1)] by simp
      ultimately show ?thesis using e by (auto simp: names_def)
    qed
  qed
qed

lemma ResolveChild_names:
  assumes r: "reg_ok r" and it: "iter_ok env" and room: "unat (next_id r) + 1 < 2 ^ 64"
    and res: "ResolveChild env c pid parent now r = (i, r')"
  shows "keeps r r' \<and> (c \<noteq> 0 \<longrightarrow> names r r' i c)"
proof (cases "c = 0")
  case True
  then show ?thesis using res by (simp add: ResolveChild_def)
next
  case False
  have key: "actor_key (child_actor c parent) = c" by (simp add: child_actor_def actor_key_def)
  obtain j r1 where p: "ResolveProcess env (child_actor c parent) now True r = (j, r1)" by fastforce
  have n: "keeps r r1" "names r r1 j c" using ResolveProcess_names [OF r it room p] False key by auto
  have "i = j" and "r' = r1 \<or> (\<exists>e. processes_by_id r1 j = Some e \<and>
      r' = r1\<lparr>processes_by_id := (processes_by_id r1)(j \<mapsto> e\<lparr>pr_parent_id := pid\<rparr>)\<rparr>)"
    using res p False by (auto simp: ResolveChild_def split: option.splits if_splits)
  moreover from this have "keeps r1 r'"
    using keeps_update [of r1 j] by (auto simp: entity_key_def)
  ultimately show ?thesis using n keeps_trans names_later by blast
qed

section \<open>The ids an event is given\<close>

definition starts_child :: "CanonicalEvent \<Rightarrow> bool" where
  "starts_child ev \<longleftrightarrow> ce_action ev = CaProcessStarted \<and> ob_child_pid (ce_object ev) \<noteq> 0"

text \<open>Each pair is an id in the output for \<open>ev\<close> with the thread group it is meant to stand for.\<close>

definition id_claims :: "CanonicalEvent \<Rightarrow> ResolvedEvent \<Rightarrow> (u64 \<times> u32) list" where
  "id_claims ev c =
     (if actor_key (ce_actor ev) \<noteq> 0 then [(er_id (ce_subject c), actor_key (ce_actor ev))] else []) @
     (if starts_child ev then [(er_id (ce_object_ref c), ob_child_pid (ce_object ev))] else [])"

lemma Ingest_names:
  assumes r: "reg_ok r" and it: "iter_ok env" and room: "unat (next_id r) + 2 < 2 ^ 64"
    and ing: "Ingest env ev r = (c, r')"
  shows "keeps r r' \<and> (\<forall>(i, k) \<in> set (id_claims ev c). names r r' i k) \<and>
    (\<forall>(i, k) \<in> set (id_claims ev c). \<forall>(i', k') \<in> set (id_claims ev c). i = i' \<longrightarrow> k = k')"
proof -
  let ?k = "actor_key (ce_actor ev)" and ?child = "ob_child_pid (ce_object ev)"
  obtain sid r1 where p: "ResolveProcess env (ce_actor ev) (ce_ts_ns ev)
      (ce_action ev = CaProcessExeced) r = (sid, r1)" by fastforce
  have room1: "unat (next_id r) + 1 < 2 ^ 64" using room by simp
  have r1: "reg_ok r1" and next1: "unat (next_id r1) + 1 < 2 ^ 64"
    using ResolveProcess_ok [OF r it room1 p] room by (auto simp: unat_word_ariths)
  have n1: "keeps r r1" "?k \<noteq> 0 \<longrightarrow> names r r1 sid ?k" using ResolveProcess_names [OF r it room1 p] by auto
  have sub: "er_id (ce_subject c) = sid" and r': "r' = ingest_hint ev sid (snd (ingest_action env ev sid r1))"
    using Ingest_registry(1,2) [OF p] ing by simp_all
  show ?thesis
  proof (cases "starts_child ev")
    case True
    obtain cid r2 where ch: "ResolveChild env ?child sid (ce_actor ev) (ce_ts_ns ev) r1 = (cid, r2)"
      by fastforce
    have n2: "keeps r1 r2" "names r1 r2 cid ?child"
      using ResolveChild_names [OF r1 it next1 ch] True by (auto simp: starts_child_def)
    have obj: "er_id (ce_object_ref c) = cid" and act: "snd (ingest_action env ev sid r1) = r2"
      using True ch ing p
      by (auto simp: Ingest_def ingest_action_def starts_child_def CanonicalEvent.defs Let_def)
    have k: "keeps r2 r'" unfolding r' act by (rule keeps_hint)
    have "names r r' sid ?k" if "?k \<noteq> 0"
      using n1 n2(1) k that names_later by blast
    moreover have "names r r' cid ?child" using n1(1) n2(2) k names_later names_earlier by blast
    moreover have "?k = ?child" if "?k \<noteq> 0" "sid = cid"
      using n1(2) n2(2) that by (auto simp: names_def)
    moreover have "keeps r r'" using n1(1) n2(1) k keeps_trans by blast
    ultimately show ?thesis using True by (auto simp: id_claims_def sub obj)
  next
    case False
    then have "keeps r1 (snd (ingest_action env ev sid r1))"
      using keeps_MarkExited by (auto simp: ingest_action_def starts_child_def)
    then have k: "keeps r1 r'" unfolding r' using keeps_hint keeps_trans by blast
    then show ?thesis using False n1 keeps_trans names_later by (auto simp: id_claims_def sub)
  qed
qed

section \<open>Over a stream of events\<close>

fun all_claims :: "(reg_env \<times> CanonicalEvent) list \<Rightarrow> EntityRegistry \<Rightarrow> (u64 \<times> u32) list" where
  "all_claims [] r = []"
| "all_claims ((env, ev) # evs) r =
     (let (c, r') = Ingest env ev r in id_claims ev c @ all_claims evs r')"

lemma all_claims_consistent:
  assumes "\<forall>(env, ev) \<in> set evs. iter_ok env" and "reg_ok r"
    and "unat (next_id r) + 2 * length evs < 2 ^ 64"
  shows "(\<forall>(i, k) \<in> set (all_claims evs r). i < next_id r \<longrightarrow>
      (\<exists>e. processes_by_id r i = Some e \<and> entity_key e = k)) \<and>
    (\<forall>(i, k) \<in> set (all_claims evs r). \<forall>(i', k') \<in> set (all_claims evs r). i = i' \<longrightarrow> k = k')"
  using assms
proof (induction evs arbitrary: r)
  case (Cons x evs)
  obtain env ev where x: "x = (env, ev)" by fastforce
  obtain c r' where ing: "Ingest env ev r = (c, r')" by fastforce
  have it: "iter_ok env" and room: "unat (next_id r) + 2 < 2 ^ 64" using Cons.prems x by simp_all
  note n = Ingest_names [OF Cons.prems(2) it room ing]
  have r': "reg_ok r'" "unat (next_id r') + 2 * length evs < 2 ^ 64"
    using Ingest_ok [OF Cons.prems(2) it room, of ev] ing Cons.prems(3) by auto
  have tail: "i < next_id r' \<longrightarrow> (\<exists>e. processes_by_id r' i = Some e \<and> entity_key e = k)"
    "(i, k') \<in> set (all_claims evs r') \<longrightarrow> k = k'" if "(i, k) \<in> set (all_claims evs r')" for i k k'
    using Cons.IH [OF _ r'] Cons.prems(1) that by auto
  have head: "names r r' i k" "(i, k') \<in> set (id_claims ev c) \<longrightarrow> k = k'"
    if "(i, k) \<in> set (id_claims ev c)" for i k k'
    using n that by auto
  have cross: "k = k'" if "(i, k) \<in> set (id_claims ev c)" "(i, k') \<in> set (all_claims evs r')" for i k k'
    using head(1) [OF that(1)] tail(1) [OF that(2)] by (auto simp: names_def)
  have old: "\<exists>e. processes_by_id r i = Some e \<and> entity_key e = k"
    if "(i, k) \<in> set (id_claims ev c) \<union> set (all_claims evs r')" "i < next_id r" for i k
  proof (cases "(i, k) \<in> set (id_claims ev c)")
    case True
    then show ?thesis using head(1) that(2) by (auto simp: names_def)
  next
    case False
    have "keeps r r'" using n by blast
    then show ?thesis using tail(1) [of i k] that False unfolding keeps_def by fastforce
  qed
  show ?case
    using old head(2) tail(2) cross by (auto simp: x ing) blast+
qed simp

text \<open>
  C5. An id stands for one process: over any stream of events, whatever exits, reuses and evictions
  it brings about, an id that appears for one thread group, as the actor of an event or as its
  started child, never appears for another.
\<close>

theorem ids_denote_one_process:
  assumes "\<forall>(env, ev) \<in> set evs. iter_ok env" and "1 + 2 * length evs < 2 ^ 64"
    and "(i, k) \<in> set (all_claims evs empty_registry)" and "(i, k') \<in> set (all_claims evs empty_registry)"
  shows "k = k'"
proof -
  have "unat (next_id empty_registry) + 2 * length evs < 2 ^ 64"
    using assms(2) by (simp add: empty_registry_def)
  from all_claims_consistent [OF assms(1) reg_ok_empty this] show ?thesis using assms(3,4) by auto
qed

theorem ids_denote_one_process_witness:
  "let evs = [(demo_reg_env, demo_event CaFileOpened demo_actor 5)]
   in (1, 100) \<in> set (all_claims evs empty_registry) \<and>
     (\<forall>k. (1, k) \<in> set (all_claims evs empty_registry) \<longrightarrow> k = 100)"
proof -
  let ?evs = "[(demo_reg_env, demo_event CaFileOpened demo_actor 5)]"
  have "actor_key (ce_actor (demo_event CaFileOpened demo_actor 5)) = 100"
    by (simp add: demo_event_def demo_actor_def actor_key_def)
  moreover obtain sid r1 where p: "ResolveProcess demo_reg_env (ce_actor (demo_event CaFileOpened demo_actor 5))
      (ce_ts_ns (demo_event CaFileOpened demo_actor 5))
      (ce_action (demo_event CaFileOpened demo_actor 5) = CaProcessExeced) empty_registry = (sid, r1)"
    by fastforce
  moreover have "sid = 1"
    using p ResolveProcess_new [of demo_actor empty_registry]
    by (simp add: demo_event_def demo_actor_def actor_key_def empty_registry_def CreateProcess_eq)
  ultimately have c: "(1, 100) \<in> set (all_claims ?evs empty_registry)"
    using Ingest_registry(2) [OF p] by (auto simp: id_claims_def split_beta)
  have it: "\<forall>(env, ev) \<in> set ?evs. iter_ok env" and len: "1 + 2 * length ?evs < 2 ^ 64"
    using demo_iter_ok by simp_all
  have "\<forall>k. (1, k) \<in> set (all_claims ?evs empty_registry) \<longrightarrow> k = 100"
    using ids_denote_one_process [OF it len _ c] by blast
  with c show ?thesis unfolding Let_def by (rule conjI)
qed

end
