(* ===== verification/Registry_Identity.thy ===== *)
theory Registry_Identity
  imports Registry_Ids
begin

text \<open>
  How long a process keeps its id: through any stream of events, of its own threads and of others,
  until an exit record of its thread group, as long as /proc shows no other process in its place and
  the registry has room.
\<close>

section \<open>A process that is known\<close>








section \<open>It stays known\<close>










section \<open>Over a stream of events\<close>






end
