(* ===== verification/Bpf_Filters.thy ===== *)
theory Bpf_Filters
  imports Bpf_System
begin

text \<open>
  The allowlists of bpf/event_logger_common.bpf.h. User space fills them and sets their flags, but the
  gates that would read them let everything through, so no program depends on them: two states that
  agree outside the allowlists stay so under any invocation, with the same records and counters.
\<close>

section \<open>The state without its allowlists\<close>

definition unfiltered :: "kstate \<Rightarrow> kstate" where
  "unfiltered s =
     s\<lparr>syscall_allowlist := Map.empty, pid_allowlist := Map.empty, uid_allowlist := Map.empty,
       pid_filter_enabled := Map.empty, uid_filter_enabled := Map.empty,
       network_port_allowlist := Map.empty, network_port_filter_enabled := Map.empty\<rparr>"

lemma unfiltered_fields [simp]:
  "events (unfiltered s) = events s" "bpf_stats (unfiltered s) = bpf_stats s"
  "file_probe_enabled (unfiltered s) = file_probe_enabled s"
  "process_probe_enabled (unfiltered s) = process_probe_enabled s"
  "syscall_probe_enabled (unfiltered s) = syscall_probe_enabled s"
  "network_probe_enabled (unfiltered s) = network_probe_enabled s"
  "suppress_tgid (unfiltered s) = suppress_tgid s"
  "file_enter_state (unfiltered s) = file_enter_state s"
  "syscall_enter_state (unfiltered s) = syscall_enter_state s"
  "network_enter_state (unfiltered s) = network_enter_state s"
  "socket_fd_state (unfiltered s) = socket_fd_state s"
  "network_scratch (unfiltered s) = network_scratch s"
  by (simp_all add: unfiltered_def)

lemma unfiltered_updates [simp]:
  "unfiltered s\<lparr>events := es\<rparr> = unfiltered (s\<lparr>events := es\<rparr>)"
  "unfiltered s\<lparr>bpf_stats := st\<rparr> = unfiltered (s\<lparr>bpf_stats := st\<rparr>)"
  "unfiltered s\<lparr>file_enter_state := fs\<rparr> = unfiltered (s\<lparr>file_enter_state := fs\<rparr>)"
  "unfiltered s\<lparr>syscall_enter_state := ss\<rparr> = unfiltered (s\<lparr>syscall_enter_state := ss\<rparr>)"
  "unfiltered s\<lparr>network_enter_state := ns\<rparr> = unfiltered (s\<lparr>network_enter_state := ns\<rparr>)"
  "unfiltered s\<lparr>socket_fd_state := sf\<rparr> = unfiltered (s\<lparr>socket_fd_state := sf\<rparr>)"
  by (simp_all add: unfiltered_def)

section \<open>No program reads the allowlists\<close>

lemma unfiltered_stat_inc [simp]: "stat_inc env key (unfiltered s) = unfiltered (stat_inc env key s)"
  by (simp add: stat_inc_def)

lemma unfiltered_gates [simp]:
  "is_event_allowed env (unfiltered s) = is_event_allowed env s"
  "is_process_probe_enabled (unfiltered s) kind = is_process_probe_enabled s kind"
  "is_file_probe_enabled (unfiltered s) kind = is_file_probe_enabled s kind"
  "is_syscall_probe_enabled (unfiltered s) = is_syscall_probe_enabled s"
  "is_network_probe_enabled (unfiltered s) kind = is_network_probe_enabled s kind"
  "is_socket_fd env fd (unfiltered s) = is_socket_fd env fd s"
  "net_scratch env (unfiltered s) = net_scratch env s"
  by (simp_all add: is_event_allowed_def is_not_suppressed_self_def is_process_probe_enabled_def
      is_file_probe_enabled_def is_syscall_probe_enabled_def is_network_probe_enabled_def
      is_socket_fd_def net_scratch_def)

lemma unfiltered_reserve [simp]:
  "reserve_process_event env kind (unfiltered s) = apsnd unfiltered (reserve_process_event env kind s)"
  "reserve_file_event env kind (unfiltered s) = apsnd unfiltered (reserve_file_event env kind s)"
  "reserve_syscall_event env (unfiltered s) = apsnd unfiltered (reserve_syscall_event env s)"
  "reserve_network_event env kind (unfiltered s) = apsnd unfiltered (reserve_network_event env kind s)"
  by (simp_all add: reserve_process_event_def reserve_file_event_def reserve_syscall_event_def
      reserve_network_event_def split: option.split)

lemma unfiltered_save [simp]:
  "save_file_enter_state env kind fe (unfiltered s) = apsnd unfiltered (save_file_enter_state env kind fe s)"
  "save_syscall_enter_state env nr se (unfiltered s) = apsnd unfiltered (save_syscall_enter_state env nr se s)"
  "save_network_enter_state env kind v (unfiltered s) = apsnd unfiltered (save_network_enter_state env kind v s)"
  by (simp_all add: save_file_enter_state_def save_syscall_enter_state_def
      save_network_enter_state_def Let_def split: option.split prod.split)

lemma unfiltered_tables [simp]:
  "delete_file_entry env fk (unfiltered s) = unfiltered (delete_file_entry env fk s)"
  "delete_syscall_entry env sk (unfiltered s) = unfiltered (delete_syscall_entry env sk s)"
  "delete_network_entry env nk (unfiltered s) = unfiltered (delete_network_entry env nk s)"
  "ringbuf_submit ev (unfiltered s) = unfiltered (ringbuf_submit ev s)"
  "add_socket_fd env fd (unfiltered s) = apsnd unfiltered (add_socket_fd env fd s)"
  "delete_socket_fd env fd (unfiltered s) = apsnd unfiltered (delete_socket_fd env fd s)"
  by (simp_all add: delete_file_entry_def delete_syscall_entry_def delete_network_entry_def
      ringbuf_submit_def add_socket_fd_def delete_socket_fd_def split: prod.split)

lemma unfiltered_nx [simp]:
  "nx_socket env kind r (out, unfiltered s) = apsnd unfiltered (nx_socket env kind r (out, s))"
  "nx_socketpair env kind r v (out, unfiltered s) = apsnd unfiltered (nx_socketpair env kind r v (out, s))"
  "nx_accept env kind r (out, unfiltered s) = apsnd unfiltered (nx_accept env kind r (out, s))"
  "nx_accept4 env kind r (out, unfiltered s) = apsnd unfiltered (nx_accept4 env kind r (out, s))"
  "nx_close env kind r (out, unfiltered s) = apsnd unfiltered (nx_close env kind r (out, s))"
  by (simp_all add: nx_socket_def nx_socketpair_def nx_accept_def nx_accept4_def nx_close_def
      Let_def split_beta)

lemma apsnd_pair: "apsnd f p = (fst p, f (snd p))"
  by (simp add: apsnd_def map_prod_def split_beta)

lemma unfiltered_emit [simp]:
  "emit_file_exit_event env kind r (unfiltered s) = apsnd unfiltered (emit_file_exit_event env kind r s)"
  "emit_syscall_exit_event env nr r (unfiltered s) = apsnd unfiltered (emit_syscall_exit_event env nr r s)"
  "emit_network_exit_event env kind r (unfiltered s) = apsnd unfiltered (emit_network_exit_event env kind r s)"
  by (simp_all add: emit_file_exit_event_def emit_syscall_exit_event_def emit_network_exit_event_def
      is_network_port_allowed_def apsnd_pair Let_def split_beta split: option.split)

lemma unfiltered_net [simp]:
  "net_enter env kind fill (unfiltered s) = apsnd unfiltered (net_enter env kind fill s)"
  "net_enter_socket_fd env kind fill (unfiltered s) = apsnd unfiltered (net_enter_socket_fd env kind fill s)"
  "net_exit env kind (unfiltered s) = apsnd unfiltered (net_exit env kind s)"
  by (simp_all add: net_enter_def net_enter_socket_fd_def net_enter_body_def net_exit_def Let_def
      split_beta split: option.split)

lemma unfiltered_process:
  "p \<in> set process_programs \<Longrightarrow> p env (unfiltered s) = apsnd unfiltered (p env s)"
  by (auto simp: process_programs_def on_sched_exec_def on_sched_fork_def on_sched_exit_def
      on_sys_exit_clone_def on_sys_exit_clone3_def on_sys_exit_vfork_def Let_def
      split: option.split prod.split)

lemma unfiltered_file:
  "p \<in> set file_programs \<Longrightarrow> p env (unfiltered s) = apsnd unfiltered (p env s)"
  by (auto simp: file_programs_def on_sys_enter_openat_def on_sys_enter_unlinkat_def
      on_sys_enter_renameat2_def on_sys_exit_openat_def on_sys_exit_unlinkat_def
      on_sys_exit_renameat2_def Let_def split: option.split prod.split)

lemma unfiltered_syscall:
  "p \<in> set syscall_programs \<Longrightarrow> p env (unfiltered s) = apsnd unfiltered (p env s)"
  by (auto simp: syscall_programs_def on_raw_sys_enter_def on_raw_sys_exit_def is_syscall_allowed_def
      Let_def split: option.split prod.split)

lemma unfiltered_network:
  "p \<in> set network_enter_programs \<Longrightarrow> p env (unfiltered s) = apsnd unfiltered (p env s)"
  "p \<in> set network_exit_programs \<Longrightarrow> p env (unfiltered s) = apsnd unfiltered (p env s)"
  unfolding network_enter_programs_def network_exit_programs_def net_enter_handler_defs net_exit_handler_defs
  by (auto simp only: list.set insert_iff empty_iff unfiltered_net)

lemma unfiltered_program:
  "p \<in> set bpf_programs \<Longrightarrow> p env (unfiltered s) = apsnd unfiltered (p env s)"
  by (auto simp: bpf_programs_def unfiltered_process unfiltered_file unfiltered_syscall unfiltered_network)

section \<open>Runs\<close>

text \<open>The invocations of a run, one program with its environment after the other.\<close>

primrec invoke_all :: "(bpf_program \<times> bpf_env) list \<Rightarrow> kstate \<Rightarrow> kstate" where
  "invoke_all [] s = s"
| "invoke_all (i # is) s = invoke_all is (snd (fst i (snd i) s))"

lemma unfiltered_invoke_all:
  "fst ` set is \<subseteq> set bpf_programs \<Longrightarrow> invoke_all is (unfiltered s) = unfiltered (invoke_all is s)"
  by (induction "is" arbitrary: s) (auto simp: unfiltered_program)

lemma invoke_all_agree:
  assumes "unfiltered s = unfiltered s'" and "fst ` set is \<subseteq> set bpf_programs"
  shows "unfiltered (invoke_all is s) = unfiltered (invoke_all is s')"
  using unfiltered_invoke_all [OF assms(2), of s] unfiltered_invoke_all [OF assms(2), of s'] assms(1) by simp

end
