(* ===== verification/Allowlists.thy ===== *)
theory Allowlists
  imports Bpf_Filters Collector_Properties
begin

text \<open>
  What the configuration of a clean start amounts to on the kernel side: the toggles and the
  collector's own thread group, and nothing of the allowlists, which src/collector writes and
  src/bpf does not read (the capture-first mode of docs/setup.md).
\<close>

section \<open>The kernel side a config asks for\<close>

definition configured_kernel :: "RuntimeConfig \<Rightarrow> u32 \<Rightarrow> kstate" where
  "configured_kernel cfg pid =
     initial_kstate
       \<lparr>process_probe_enabled := toggled (map (\<lambda>k. (k, dc_process (rc_domains cfg)))
          [PROCESS_EXEC, PROCESS_FORK, PROCESS_EXIT, PROCESS_CLONE, PROCESS_CLONE3, PROCESS_VFORK])
          (process_probe_enabled initial_kstate),
        syscall_probe_enabled := (syscall_probe_enabled initial_kstate)
          (0 \<mapsto> toggle_value (dc_syscall (rc_domains cfg))),
        file_probe_enabled := toggled
          [(FILE_OPENAT, fp_openat (effective_file_probes cfg)),
           (FILE_UNLINKAT, fp_unlinkat (effective_file_probes cfg)),
           (FILE_RENAMEAT2, fp_renameat2 (effective_file_probes cfg))]
          (file_probe_enabled initial_kstate),
        network_probe_enabled := toggled
          (map (\<lambda>k. (k, dc_network_socket (rc_domains cfg))) network_toggle_keys)
          (network_probe_enabled initial_kstate),
        suppress_tgid := (suppress_tgid initial_kstate)(0 \<mapsto> pid)\<rparr>"

lemma SetAllowlistEnabled_stored:
  "fst (SetAllowlistEnabled env name b m) \<Longrightarrow>
     snd (SetAllowlistEnabled env name b m) = m(0 \<mapsto> toggle_value b)"
  by (auto simp: SetAllowlistEnabled_def map_update_elem_def split: if_splits)

lemma apply_probes_kernel_clean:
  assumes "\<not> sr_degraded (snd (apply_probes env cfg (initial_kstate, r)))"
  shows "(fst (apply_probes env cfg (initial_kstate, r)))\<lparr>suppress_tgid := m\<rparr> =
    (configured_kernel cfg pid)\<lparr>suppress_tgid := m\<rparr>"
proof -
  note ok = assms [unfolded apply_probes_degraded de_Morgan_disj not_not]
  have "fst (ApplyProcessProbeConfig env (dc_process (rc_domains cfg)) (process_probe_enabled initial_kstate))"
    and "fst (ApplyFileProbeConfig env (effective_file_probes cfg) (file_probe_enabled initial_kstate))"
    and "fst (ApplyNetworkProbeConfig env (dc_network_socket (rc_domains cfg)) (network_probe_enabled initial_kstate))"
    and s: "fst (SetAllowlistEnabled env ''syscall_probe_enabled'' (dc_syscall (rc_domains cfg))
         (syscall_probe_enabled initial_kstate))"
    using ok by blast+
  note stored = this(1-3) [unfolded ApplyProcessProbeConfig_def ApplyFileProbeConfig_def
      ApplyNetworkProbeConfig_def, THEN found_and_stored]
  show ?thesis
    unfolding apply_probes_kernel configured_kernel_def SetAllowlistEnabled_stored [OF s]
    unfolding ApplyProcessProbeConfig_def ApplyFileProbeConfig_def ApplyNetworkProbeConfig_def stored
    by (simp del: map_upds_Cons)
qed

lemma unfiltered_apply_allowlists [simp]:
  "unfiltered (fst (apply_allowlists env cfg (k, r))) = unfiltered k"
  by (simp add: apply_allowlists_def unfiltered_def Let_def split_beta)

lemma unfiltered_apply_filters:
  assumes "\<not> sr_degraded (snd (apply_filters env cfg (k, r)))" and "0 \<le> ce_map_fd env ''suppress_tgid''"
  shows "unfiltered (fst (apply_filters env cfg (k, r))) =
    unfiltered (k\<lparr>suppress_tgid := (suppress_tgid k)(0 \<mapsto> ce_pid env)\<rparr>)"
  using assms
  by (auto simp: apply_filters_def store_own_tgid_def map_update_elem_def unfiltered_def Let_def
      split_beta split: if_splits)

lemma unfiltered_suppress: "unfiltered (k\<lparr>suppress_tgid := m\<rparr>) = unfiltered k\<lparr>suppress_tgid := m\<rparr>"
  by (simp add: unfiltered_def)

lemma clean_start_configured:
  assumes "Start env cb c = (True, c')" and "\<not> sr_degraded (cl_report c')" and "cl_kernel c' = Some k"
  shows "unfiltered k = unfiltered (configured_kernel (started_config env) (ce_pid env))"
proof -
  let ?cfg = "started_config env"
  obtain c1 where c1: "cl_kernel c' = cl_kernel (configure env c1)"
    "\<not> sr_degraded (cl_report (configure env c1))"
    using Start_success [OF assms(1)] assms(2) by blast
  from configure_clean [OF c1(2)] obtain r0 k1 r1 k2 r2 k3 r3 where
    p: "apply_probes env ?cfg (initial_kstate, r0) = (k1, r1)" and
    a: "apply_allowlists env ?cfg (k1, r1) = (k2, r2)" and
    f: "apply_filters env ?cfg (k2, r2) = (k3, r3)" and
    k3: "cl_kernel (configure env c1) = Some k3" and r1: "\<not> sr_degraded r1" and r3: "\<not> sr_degraded r3"
    and fd: "0 \<le> ce_map_fd env ''suppress_tgid''" .
  have "suppress_tgid k1 = suppress_tgid initial_kstate"
    using apply_probes_kernel [of env ?cfg initial_kstate r0] p by simp
  then have k1: "k1\<lparr>suppress_tgid := (suppress_tgid k1)(0 \<mapsto> ce_pid env)\<rparr> = configured_kernel ?cfg (ce_pid env)"
    using apply_probes_kernel_clean [of env ?cfg r0 "(suppress_tgid k1)(0 \<mapsto> ce_pid env)" "ce_pid env"] p r1
    by (simp add: configured_kernel_def)
  have k2: "unfiltered k2 = unfiltered k1" and s2: "suppress_tgid k2 = suppress_tgid k1"
    using unfiltered_apply_allowlists [of env ?cfg k1 r1] apply_allowlists_frame(2) [of k1 env ?cfg r1] a
    by (simp_all add: same_config_def)
  have "unfiltered k3 = unfiltered (k2\<lparr>suppress_tgid := (suppress_tgid k2)(0 \<mapsto> ce_pid env)\<rparr>)"
    using unfiltered_apply_filters [of env ?cfg k2 r2] f r3 fd by simp
  also have "\<dots> = unfiltered (k1\<lparr>suppress_tgid := (suppress_tgid k1)(0 \<mapsto> ce_pid env)\<rparr>)"
    unfolding unfiltered_suppress k2 s2 ..
  finally show ?thesis using k1 k3 c1(1) assms(3) by simp
qed

section \<open>Allowlists change nothing\<close>

text \<open>
  C16. The allowlists are inert: two collectors that start cleanly with the same domains, file probes
  and process id, whatever pid, uid, syscall and port allowlists their configs hold, see the same
  records and count the same losses for the same invocations.
\<close>

theorem allowlists_change_no_record:
  assumes "Start env True c = (True, c1)" and "\<not> sr_degraded (cl_report c1)" and "cl_kernel c1 = Some k"
    and "Start env' True c' = (True, c1')" and "\<not> sr_degraded (cl_report c1')" and "cl_kernel c1' = Some k'"
    and "rc_domains (started_config env') = rc_domains (started_config env)"
    and "rc_file_probes (started_config env') = rc_file_probes (started_config env)"
    and "ce_pid env' = ce_pid env" and "fst ` set is \<subseteq> set bpf_programs"
  shows "events (invoke_all is k') = events (invoke_all is k) \<and>
    bpf_stats (invoke_all is k') = bpf_stats (invoke_all is k)"
proof -
  have "unfiltered k' = unfiltered k"
    unfolding clean_start_configured [OF assms(1-3)] clean_start_configured [OF assms(4-6)]
    by (simp add: configured_kernel_def effective_file_probes_def assms(7-9))
  from invoke_all_agree [OF this assms(10)] show ?thesis
    by (metis unfiltered_fields(1,2))
qed

text \<open>The demonstration config without its pid allowlist, on the same host.\<close>

definition demo_open_env :: collector_env where
  "demo_open_env = demo_collector_env\<lparr>ce_read_file := (\<lambda>_. Some (config_text default_runtime_config))\<rparr>"

lemma demo_open:
  "willing demo_open_env" "ce_pid demo_open_env = ce_pid demo_collector_env"
  "started_config demo_open_env = default_runtime_config"
  by (simp_all add: demo_open_env_def demo_collector_env_def willing_def started_config_def
      LoadRuntimeConfig_text)

lemma demo_open_fits: "config_fits (started_config demo_open_env)"
  unfolding demo_open by (simp add: config_fits_def default_runtime_config_def)

theorem allowlists_change_no_record_witness:
  "rc_pid_allowlist (started_config demo_open_env) \<noteq> rc_pid_allowlist (started_config demo_collector_env) \<and>
   (\<exists>k'. cl_kernel (snd (Start demo_open_env True new_collector)) = Some k' \<and>
      events (invoke_all [(on_sched_exit, demo_env)] k') =
      events (invoke_all [(on_sched_exit, demo_env)] demo_kernel))"
proof -
  obtain c1 k' where s: "Start demo_open_env True new_collector = (True, c1)"
    "\<not> sr_degraded (cl_report c1)" "cl_kernel c1 = Some k'"
    using willing_start [OF demo_open(1) demo_open_fits, of new_collector] by auto
  have "on_sched_exit \<in> set bpf_programs" by (simp add: bpf_programs_def process_programs_def)
  then have "events (invoke_all [(on_sched_exit, demo_env)] k') =
      events (invoke_all [(on_sched_exit, demo_env)] demo_kernel)"
    using allowlists_change_no_record [OF demo_started_ok s, of "[(on_sched_exit, demo_env)]"]
    by (simp add: demo_open(2,3) demo_started_config demo_config_def)
  then show ?thesis
    using s by (simp add: demo_open(3) demo_started_config demo_config_def default_runtime_config_def)
qed

end
