(* ===== verification/Collector_Log.thy ===== *)
theory Collector_Log
  imports Collector_Properties Json_Text
begin

text \<open>
  What src/collector/collector_libbpf.cpp writes to stderr: one list of lines for each function that
  logs, next to its operation in Collector, with the answers of the same environment. \<open>strerror\<close> and
  what libbpf and \<open>uname\<close> answer are arguments.
\<close>

section \<open>Lines\<close>

definition log_line :: "string \<Rightarrow> string" where
  "log_line message = ''[collector] '' @ message @ [CHR 0x0A]"

definition on_off :: "bool \<Rightarrow> string" where
  "on_off enabled = (if enabled then ''on'' else ''off'')"

text \<open>One line for each key the map refused, in the order of the loop.\<close>

definition refused_lines :: "collector_env \<Rightarrow> string \<Rightarrow> (u32 \<Rightarrow> string) \<Rightarrow> u32 list \<Rightarrow> string list" where
  "refused_lines env name message keys =
     map (\<lambda>key. log_line (message key)) (filter (\<lambda>key. \<not> ce_update env name key) keys)"

section \<open>libbpf's messages and the portability note\<close>

definition DetectMachineArchitecture :: "string option \<Rightarrow> string" where
  "DetectMachineArchitecture uts = (case uts of None \<Rightarrow> ''unknown'' | Some machine \<Rightarrow> machine)"

definition LogSyscallAllowlistPortability :: "string option \<Rightarrow> RuntimeConfig \<Rightarrow> string list" where
  "LogSyscallAllowlistPortability uts cfg =
     (if rc_syscall_allowlist cfg = [] then []
      else let arch = DetectMachineArchitecture uts
           in [log_line (''syscall_allowlist is numeric and arch-specific (arch='' @ arch @
                 ''); verify values per architecture'')])"

text \<open>\<open>printed\<close> is what \<open>vfprintf\<close> returns for the formatted message; \<open>debug\<close> is libbpf's lowest level.\<close>

definition LibbpfPrint :: "'level \<Rightarrow> 'level \<Rightarrow> string \<Rightarrow> int \<Rightarrow> int \<times> string list" where
  "LibbpfPrint debug level formatted printed =
     (if level = debug then (0, []) else (printed, [formatted]))"

section \<open>Writing the maps\<close>

definition log_file_probes :: "collector_env \<Rightarrow> FileProbeConfig \<Rightarrow> string list" where
  "log_file_probes env cfg =
     (if ce_map_fd env ''file_probe_enabled'' < 0 then []
      else refused_lines env ''file_probe_enabled'' (\<lambda>key. ''failed to set file probe toggle key='' @ out_uint key)
             [FILE_OPENAT, FILE_UNLINKAT, FILE_RENAMEAT2] @
           [log_line (''file_probes openat='' @ on_off (fp_openat cfg) @
              '' unlinkat='' @ on_off (fp_unlinkat cfg) @ '' renameat2='' @ on_off (fp_renameat2 cfg))])"

definition log_process_probes :: "collector_env \<Rightarrow> bool \<Rightarrow> string list" where
  "log_process_probes env enabled =
     (if ce_map_fd env ''process_probe_enabled'' < 0 then []
      else refused_lines env ''process_probe_enabled''
             (\<lambda>key. ''failed to set process probe toggle key='' @ out_uint key)
             [PROCESS_EXEC, PROCESS_FORK, PROCESS_EXIT, PROCESS_CLONE, PROCESS_CLONE3, PROCESS_VFORK] @
           [log_line (''process_probes all='' @ on_off enabled)])"

definition log_network_probes :: "collector_env \<Rightarrow> bool \<Rightarrow> string list" where
  "log_network_probes env enabled =
     (if ce_map_fd env ''network_probe_enabled'' < 0 then []
      else refused_lines env ''network_probe_enabled''
             (\<lambda>key. ''failed to set network probe toggle key='' @ out_uint key) network_toggle_keys @
           [log_line (''network_probes all='' @ on_off enabled)])"

text \<open>The label of a list is the name of its map.\<close>

definition log_u32_allowlist :: "collector_env \<Rightarrow> string \<Rightarrow> u32 list \<Rightarrow> (u32 \<rightharpoonup> u8) \<Rightarrow> string list" where
  "log_u32_allowlist env label allowlist m =
     (if ce_map_fd env label < 0 then []
      else refused_lines env label (\<lambda>key. ''failed to set '' @ label @ '' entry='' @ out_uint key) allowlist @
           [log_line (label @ ''_count='' @ out_uint (fst (ApplyU32AllowlistConfig env label allowlist m)))])"

definition log_syscall_allowlist :: "collector_env \<Rightarrow> s32 list \<Rightarrow> (u32 \<rightharpoonup> u8) \<Rightarrow> string list" where
  "log_syscall_allowlist env allowlist m =
     (if ce_map_fd env ''syscall_allowlist'' < 0 then []
      else refused_lines env ''syscall_allowlist''
             (\<lambda>nr. ''failed to set syscall allowlist entry nr='' @ out_int nr) allowlist @
           [log_line (''syscall_allowlist_count='' @ out_uint (fst (ApplySyscallAllowlistConfig env allowlist m)))])"

definition log_flag :: "collector_env \<Rightarrow> string \<Rightarrow> string \<Rightarrow> bool \<Rightarrow> string list" where
  "log_flag env name label enabled =
     (if ce_map_fd env name < 0 then []
      else if \<not> ce_update env name 0
           then [log_line (''failed to set '' @ label @ '' enabled='' @ (if enabled then ''1'' else ''0''))]
           else [])"

definition log_own_tgid :: "collector_env \<Rightarrow> string list" where
  "log_own_tgid env =
     (if ce_map_fd env ''suppress_tgid'' < 0 \<or> ce_update env ''suppress_tgid'' 0 then []
      else [log_line (''failed to set suppress_tgid='' @ out_uint (ce_pid env))])"

section \<open>Start\<close>

definition log_configure :: "collector_env \<Rightarrow> string list" where
  "log_configure env =
     (let path = DefaultConfigPath (ce_env_config env);
          (loaded, cfg) = LoadRuntimeConfig (ce_read_file env path) default_runtime_config;
          k = initial_kstate
      in (if loaded then [] else [log_line (''config not found, using defaults: '' @ path)]) @
         log_process_probes env (dc_process (rc_domains cfg)) @
         log_flag env ''syscall_probe_enabled'' ''syscall_probe'' (dc_syscall (rc_domains cfg)) @
         log_file_probes env (effective_file_probes cfg) @
         log_network_probes env (dc_network_socket (rc_domains cfg)) @
         log_u32_allowlist env ''pid_allowlist'' (rc_pid_allowlist cfg) (pid_allowlist k) @
         log_u32_allowlist env ''uid_allowlist'' (rc_uid_allowlist cfg) (uid_allowlist k) @
         log_syscall_allowlist env (effective_syscall_allowlist cfg) (syscall_allowlist k) @
         log_u32_allowlist env ''network_port_allowlist'' (rc_port_allowlist cfg) (network_port_allowlist k) @
         log_flag env ''pid_filter_enabled'' ''pid_filter'' (rc_pid_allowlist cfg \<noteq> []) @
         log_flag env ''uid_filter_enabled'' ''uid_filter'' (rc_uid_allowlist cfg \<noteq> []) @
         log_flag env ''network_port_filter_enabled'' ''network_port_filter'' (rc_port_allowlist cfg \<noteq> []) @
         log_own_tgid env)"

text \<open>The attach loop and how it ends.\<close>

definition log_attach :: "(string option \<times> bool) list \<Rightarrow> string list" where
  "log_attach progs =
     map (\<lambda>name. log_line (''attach failed for program '' @ [CHR 0x27] @ name @ [CHR 0x27] @ '' (continuing)''))
       (snd (attach_programs progs ([], [])))"

definition active_line :: "nat \<Rightarrow> string" where
  "active_line attached = log_line (''libbpf backend active, attached programs='' @ decimal attached)"

definition log_finish :: "collector_env \<Rightarrow> string list" where
  "log_finish env =
     (let attached = fst (attach_programs (ce_programs env) ([], []))
      in log_attach (ce_programs env) @
         [if attached = [] then log_line ''no BPF programs attached''
          else if ce_map_fd env ''events'' < 0
               then log_line ([CHR 0x27] @ ''events'' @ [CHR 0x27] @ '' map not found'')
          else if \<not> ce_ring_buffer_ok env then log_line ''failed to create ring buffer reader''
          else active_line (length attached)])"

definition start_log :: "(int \<Rightarrow> string) \<Rightarrow> collector_env \<Rightarrow> bool \<Rightarrow> string list" where
  "start_log strerror env cb =
     (if \<not> cb then [log_line ''callback is empty'']
      else let path = (case ce_env_bpf_object env of Some p \<Rightarrow> p | None \<Rightarrow> DefaultBpfObjectPath (ce_object_macro env))
           in if \<not> ce_open_ok env then [log_line (''failed to open BPF object: '' @ path)]
              else if ce_load_ret env \<noteq> 0
                   then [log_line (''failed to load BPF object: '' @ strerror (- ce_load_ret env))]
                   else log_configure env @ log_finish env)"

section \<open>Polling\<close>

definition poll_log :: "(int \<Rightarrow> string) \<Rightarrow> LibbpfCollector \<Rightarrow> int \<Rightarrow> string list" where
  "poll_log strerror c poll_ret =
     (if \<not> cl_started c \<or> \<not> cl_rb c then []
      else if poll_ret < 0 \<and> poll_ret \<noteq> -4
           then [log_line (''ring buffer poll failed: '' @ strerror (- poll_ret))]
           else [])"

section \<open>The log and the start agree\<close>

lemma store_entries_count:
  "fst (store_entries env name keys (n, m)) = n + of_nat (length (filter (ce_update env name) keys))"
  by (induction keys arbitrary: n m) (simp_all add: map_update_elem_def Let_def)

text \<open>
  The log of an allowlist accounts for every entry: a line for each one refused, then the number of
  the others.
\<close>

lemma log_u32_allowlist_accounts:
  assumes "0 \<le> ce_map_fd env label" and "length allowlist < 2 ^ 32"
  obtains stored where
    "log_u32_allowlist env label allowlist m =
       refused_lines env label (\<lambda>key. ''failed to set '' @ label @ '' entry='' @ out_uint key) allowlist @
       [log_line (label @ ''_count='' @ decimal stored)]"
    "length (log_u32_allowlist env label allowlist m) + stored = length allowlist + 1"
proof (rule that)
  let ?stored = "length (filter (ce_update env label) allowlist)"
  have "?stored < 2 ^ 32" using assms(2) length_filter_le le_less_trans by blast
  then have n: "unat (of_nat ?stored :: u32) = ?stored" by (simp add: unat_of_nat take_bit_nat_eq_self unsigned_of_nat)
  show log: "log_u32_allowlist env label allowlist m =
      refused_lines env label (\<lambda>key. ''failed to set '' @ label @ '' entry='' @ out_uint key) allowlist @
      [log_line (label @ ''_count='' @ decimal ?stored)]"
    using assms(1) n
    by (simp add: log_u32_allowlist_def ApplyU32AllowlistConfig_def store_entries_count out_uint_def)
  show "length (log_u32_allowlist env label allowlist m) + ?stored = length allowlist + 1"
    unfolding log using sum_length_filter_compl [of "ce_update env label" allowlist]
    by (simp add: refused_lines_def)
qed

lemma active_line_eq [simp]:
  "log_line m = active_line n \<longleftrightarrow> m = ''libbpf backend active, attached programs='' @ decimal n"
  by (auto simp: active_line_def log_line_def)

lemma finish_start_log:
  assumes "finish_start env c = (ok, c')"
    and "sr_map_events_found (cl_report c) \<longleftrightarrow> 0 \<le> ce_map_fd env ''events''"
  shows "ok \<longleftrightarrow> (\<exists>n. last (log_finish env) = active_line n)"
    and "ok \<Longrightarrow> last (log_finish env) = active_line (length (cl_links c') - length (cl_links c))"
proof -
  obtain attached failed where a: "attach_programs (ce_programs env) ([], []) = (attached, failed)"
    by fastforce
  then obtain failed' where b: "attach_programs (ce_programs env) (cl_links c, []) = (cl_links c @ attached, failed')"
    using attach_programs_links [of "ce_programs env" "cl_links c" "[]"]
    by (cases "attach_programs (ce_programs env) (cl_links c, [])") auto
  show "ok \<longleftrightarrow> (\<exists>n. last (log_finish env) = active_line n)"
    and "ok \<Longrightarrow> last (log_finish env) = active_line (length (cl_links c') - length (cl_links c))"
    using assms a b by (auto simp: finish_start_def log_finish_def fail_start_def Let_def split: if_splits)
qed

text \<open>
  The last line tells how a start went: the active line, with the number of programs this start
  attached, exactly when it succeeded.
\<close>

theorem start_log_tells_outcome:
  assumes "Start env cb c = (ok, c')"
  shows "(ok \<longleftrightarrow> (\<exists>n. last (start_log strerror env cb) = active_line n)) \<and>
    (ok \<longrightarrow> last (start_log strerror env cb) = active_line (length (cl_links c') - length (cl_links c)))"
proof (cases "cb \<and> ce_open_ok env \<and> ce_load_ret env = 0")
  case True
  then obtain c1 where s: "finish_start env (configure env c1) = (ok, c')" and c1: "cl_links c1 = cl_links c"
    using assms by (auto simp: Start_def Let_def)
  have "last (start_log strerror env cb) = last (log_finish env)"
    using True by (simp add: start_log_def log_finish_def Let_def)
  then show ?thesis
    using finish_start_log [OF s configure_frame(2)] configure_frame(1) [of env c1] c1 by simp
next
  case False
  then show ?thesis
    using assms by (auto simp: Start_def start_log_def fail_start_def Let_def split: if_splits)
qed

theorem start_log_tells_outcome_witness:
  "last (start_log (\<lambda>_. []) demo_collector_env True) = active_line 2"
proof -
  obtain c' where "Start demo_collector_env True new_collector = (True, c')" "length (cl_links c') = 2"
    using willing_start [OF demo_willing demo_fits, of new_collector]
    by (auto simp: new_collector_def demo_collector_env_def)
  then show ?thesis
    using start_log_tells_outcome [of demo_collector_env True new_collector True c' "\<lambda>_. []"]
    by (simp add: new_collector_def)
qed

end
