(* ===== verification/Spec2Isabelle.thy ===== *)
theory Spec2Isabelle
  imports End_To_End Config_Properties Enricher Bpf_Common_Facts Bpf_Calls Registry_Identity
    Allowlists Collector_Log
begin

text \<open>
  A verification development for eTraceGen, an eBPF telemetry engine.

  \<^bold>\<open>The program.\<close> BPF programs on the kernel side (src/bpf) watch process, file, raw-syscall and
  socket activity. Single-shot hooks reserve, fill and submit one record; paired hooks save the
  arguments at the enter of a system call in a hash map and submit the completed record at its
  exit. Toggles, allowlists and a suppressed thread group gate every hook. The user side
  (src/src) loads the object, writes the configuration into its maps and attaches the programs
  (collector), then for each record of the ring buffer: decode, drop the collector's own events,
  normalise into a canonical event, resolve actors and objects to stable entities (registry),
  apply the policy, and append one line of JSON to a file with rollover (sink). \<open>main\<close> owns the
  polling loop and the shutdown.

  \<^bold>\<open>Theories and the code they model.\<close>
  ETG_Prelude: integer types, little-endian bytes, ranges of byte lists, C strings in arrays.
  Event_Schema, Wire_Format: include/event_schema.h, its structs as records, their C layout, the
  byte image and its inverse (locale \<open>struct_codec\<close>, interpreted for the four payloads).
  Decoder: src/decoder/decoder.cpp.
  Bpf_Runtime: the maps of bpf/event_logger_common.bpf.h as the record \<open>kstate\<close>, the kernel's
  helpers as the environment \<open>kenv\<close> of one invocation. Bpf_Common, Bpf_Emit: the functions of that
  header, one definition each. Bpf_Process, Bpf_File, Bpf_Syscall, Bpf_Network: the handlers.
  Bpf_System: the programs of bpf/event_logger.bpf.c and runs, an inductive step relation in which
  any handler fires with any environment at any time.
  Proc_Util: src/util/proc_util.cpp. Normalizer: src/model. Entity_Registry: src/registry.
  Json_Text, Json_Sink: src/sinks/json_sink.cpp, its text and its file. Utf8: which byte strings are
  well-formed UTF-8. Json_Document: JSON documents as a datatype, a reader of JSON text that, as RFC
  8259 asks, refuses what is not UTF-8, and the document each event should become. Pipeline: the record
  callback of src/main.cpp with src/metrics and src/policy.
  Runtime_Config: the two readers of the config file (collector_libbpf.cpp and main.cpp).
  Collector: src/collector/collector_libbpf.cpp; Collector_Log: the lines it writes to stderr.
  Main_Program: src/main.cpp as a whole.
  Enricher: src/enricher/enricher.cpp, a stage the present build leaves out, with its own readers.

  \<^bold>\<open>What the lemmas show.\<close>
  Bpf_Common_Facts: what the copies, the flow hash and the vector sums compute. Bpf_Pairing: the
  contract of an enter/exit table (locale \<open>enter_exit\<close>, interpreted for the file, syscall and
  network tables), what an exit reports of its enter, and the refinement of a tracer with an
  unbounded table that tells the tasks apart by their identity, with no key of the code in it; its
  premise \<open>exits_seen\<close> is that no task starts a call while the exit of its last call of the same kind
  has not been seen. Bpf_Calls: whole calls of the handlers, any interleaving of calls, and a race
  of two threads on one descriptor. Bpf_Invariant, Bpf_System: one invariant of all records in
  flight, kept by every handler, hence true of every run. Bpf_Properties: from it, that records
  decode to themselves, that strings end, that the collector and disabled probes are silent.
  Registry_Facts, Registry_Properties: bounded and consistent state, exits,
  reuse, lineage. Registry_Ids: an id is given to one process only, also after eviction.
  Registry_Identity: and a process keeps its id until an exit record of its thread group, while
  /proc shows no other start time and the registry has room.
  Json_Document, Sink_Properties: a JSON reader gets the event's document back from its line
  exactly when the event's strings are UTF-8, which the kernel does not promise and the sink does not
  see to; the
  file and the buffer refine an abstract log of lines (locale \<open>event_sink\<close>, interpreted by
  \<open>json_sink\<close>), bounds on the file and on what a crash loses, and the failure branches.
  Config_Properties: a written configuration is read back exactly. Collector_Log: the last line
  tells how a start went. Bpf_Filters, Allowlists: the kernel state a clean start
  leaves, and that the allowlists change no record. Collector_Properties: a refused start releases
  everything and its report names the step that was refused; a start that reports no degradation has
  put every domain and file-probe switch of its config in force.
  Main_Properties: the contract of src/collector/collector.h (locale \<open>event_source\<close>, interpreted
  by \<open>libbpf\<close>) carried through \<open>main\<close>: the program ends when the signal comes, or reports that it
  could not start. End_To_End: the polling rounds drain the log of a running kernel side, and one
  line is written for each of its events, in order; the file holds the newest of these lines, all of
  them while they fit its limit.

  \<^bold>\<open>Bounds.\<close> Machine integers keep their width. The loops that BPF unrolls recurse over the list of
  their indices (8 entries of a vector). The registry is capped at 8192 entities. \<open>main_loop\<close> has
  no fuel: it is a partial function, and that it returns is proved for every run in which the flag
  is cleared at some round. Counting statements ask for fewer than 2^64 records, the sink's for
  lines shorter than 2^63 bytes, so that the unsigned counters do not wrap.

  \<^bold>\<open>Parameters.\<close> The kernel's answers (map updates, user memory, time, task identity) are an argument of
  each handler; libbpf's, the file system's and the clock's are arguments of the collector, the
  sink, the registry and \<open>main\<close>. Where a statement needs one of them to behave it says so. An
  \<open>unordered_map\<close> is walked in an order given as a parameter.

  \<^bold>\<open>Not modelled.\<close> The kernel's own verifier and scheduler: a run interleaves whole
  handlers, so two CPUs inside one handler on one map entry are not distinguished. Running out of
  memory in C++. The text of libbpf's own messages and of \<open>strerror\<close>. Tests, build files, sample
  configuration and documents.
\<close>

end
